(* ===== verification/Obs_Prelude.thy ===== *)
theory Obs_Prelude
  imports Main "HOL-Library.AList" "HOL-Library.Multiset" "HOL-Library.Word"
begin

text \<open>
  Shared vocabulary of the development: machine-integer casts, results with a panic or an
  error value, fallible loops, and the parts of the Rust standard library that the daemon
  uses (hash sets, hash maps, \<^verbatim>\<open>dedup\<close>, \<^verbatim>\<open>min_by_key\<close>, decimal formatting).

  Integers: a \<^verbatim>\<open>u32\<close>, \<^verbatim>\<open>u64\<close> or \<^verbatim>\<open>usize\<close> value is a \<^typ>\<open>nat\<close>, an \<^verbatim>\<open>i32\<close> or \<^verbatim>\<open>i64\<close>
  value an \<^typ>\<open>int\<close>; every \<^verbatim>\<open>as\<close> cast of the source is written out with the wrap-around
  functions below. Arithmetic that Rust checks only in debug builds wraps, as the release
  profile does.

  Hash containers: a \<^verbatim>\<open>HashSet\<close> is a distinct list and a \<^verbatim>\<open>HashMap\<close> an association list
  with distinct keys. Rust leaves the iteration order unspecified; wherever the source
  iterates, the order is the order of the list, and the functions that create the container
  reorder it with an arbitrary permutation that is a parameter of the model.
\<close>

named_theorems cast_simps \<open>range and identity facts of the machine-integer casts\<close>
named_theorems hash_simps \<open>abstraction facts of the hash containers\<close>
named_theorems res_simps \<open>decomposition of successful and failing results\<close>

section \<open>Machine-integer casts\<close>

definition as_i32 :: "int \<Rightarrow> int" where
  "as_i32 x = (x + 2 ^ 31) mod 2 ^ 32 - 2 ^ 31"

definition as_i64 :: "int \<Rightarrow> int" where
  "as_i64 x = (x + 2 ^ 63) mod 2 ^ 64 - 2 ^ 63"

definition as_u32 :: "int \<Rightarrow> nat" where
  "as_u32 x = nat (x mod 2 ^ 32)"

definition as_u64 :: "int \<Rightarrow> nat" where
  "as_u64 x = nat (x mod 2 ^ 64)"

definition sum_u64 :: "nat list \<Rightarrow> nat" where
  "sum_u64 xs = sum_list xs mod 2 ^ 64"

definition sum_i64 :: "int list \<Rightarrow> int" where
  "sum_i64 xs = as_i64 (sum_list xs)"

lemma as_i32_id [cast_simps]: "- (2 ^ 31) \<le> x \<Longrightarrow> x < 2 ^ 31 \<Longrightarrow> as_i32 x = x"
  by (simp add: as_i32_def)

lemma as_i64_id [cast_simps]: "- (2 ^ 63) \<le> x \<Longrightarrow> x < 2 ^ 63 \<Longrightarrow> as_i64 x = x"
  by (simp add: as_i64_def)

lemma as_u32_id [cast_simps]: "n < 2 ^ 32 \<Longrightarrow> as_u32 (int n) = n"
  by (simp add: as_u32_def)

lemma as_u64_id [cast_simps]: "n < 2 ^ 64 \<Longrightarrow> as_u64 (int n) = n"
  by (simp add: as_u64_def)

lemma as_i32_range [cast_simps]: "- (2 ^ 31) \<le> as_i32 x" "as_i32 x < 2 ^ 31"
  using pos_mod_sign [of "2 ^ 32" "x + 2 ^ 31"] pos_mod_bound [of "2 ^ 32" "x + 2 ^ 31"]
  by (simp_all add: as_i32_def)

lemma as_i64_range [cast_simps]: "- (2 ^ 63) \<le> as_i64 x" "as_i64 x < 2 ^ 63"
  using pos_mod_sign [of "2 ^ 64" "x + 2 ^ 63"] pos_mod_bound [of "2 ^ 64" "x + 2 ^ 63"]
  by (simp_all add: as_i64_def)

text \<open>Storing a \<^verbatim>\<open>u32\<close> as \<^verbatim>\<open>i32\<close> and reading it back as \<^verbatim>\<open>u32\<close> loses nothing.\<close>

lemma as_u32_as_i32 [cast_simps]: "as_u32 (as_i32 (int n)) = n mod 2 ^ 32"
proof -
  have "(as_i32 (int n)) mod 2 ^ 32 = int n mod 2 ^ 32"
    unfolding as_i32_def by (metis add_diff_cancel_right' mod_diff_left_eq)
  then show ?thesis
    by (simp add: as_u32_def nat_mod_distrib)
qed

lemma sum_u64_id [cast_simps]: "sum_list xs < 2 ^ 64 \<Longrightarrow> sum_u64 xs = sum_list xs"
  by (simp add: sum_u64_def)

section \<open>Results and fallible loops\<close>

definition bind_res :: "'e + 'a \<Rightarrow> ('a \<Rightarrow> 'e + 'b) \<Rightarrow> 'e + 'b" where
  "bind_res r f = (case r of Inl e \<Rightarrow> Inl e | Inr a \<Rightarrow> f a)"

lemma bind_res_simps [simp]:
  "bind_res (Inl e) f = Inl e"
  "bind_res (Inr a) f = f a"
  by (simp_all add: bind_res_def)

lemma bind_res_Inr_iff [res_simps]:
  "bind_res r f = Inr b \<longleftrightarrow> (\<exists>a. r = Inr a \<and> f a = Inr b)"
  by (auto simp: bind_res_def split: sum.splits)

lemma bind_res_Inl_iff [res_simps]:
  "bind_res r f = Inl e \<longleftrightarrow> r = Inl e \<or> (\<exists>a. r = Inr a \<and> f a = Inl e)"
  by (auto simp: bind_res_def split: sum.splits)

fun fold_res :: "('a \<Rightarrow> 's \<Rightarrow> 'e + 's) \<Rightarrow> 'a list \<Rightarrow> 's \<Rightarrow> 'e + 's" where
  "fold_res f [] s = Inr s"
| "fold_res f (x # xs) s = bind_res (f x s) (fold_res f xs)"

text \<open>
  Hoare-style rules for a loop whose body may fail: an invariant indexed by the processed
  prefix holds at the end (partial), and a body that always succeeds under the invariant makes
  the loop succeed (total).
\<close>

lemma fold_res_append:
  "fold_res f (xs @ ys) s = bind_res (fold_res f xs s) (fold_res f ys)"
  by (induction xs arbitrary: s) (auto simp: bind_res_def split: sum.splits)

lemma fold_res_total:
  assumes "P [] s"
    and "\<And>ys x zs s. xs = ys @ x # zs \<Longrightarrow> P ys s \<Longrightarrow> \<exists>s'. f x s = Inr s' \<and> P (ys @ [x]) s'"
  shows "\<exists>s'. fold_res f xs s = Inr s' \<and> P xs s'"
  using assms
proof (induction xs rule: rev_induct)
  case Nil
  then show ?case by simp
next
  case (snoc x xs)
  then obtain t where t: "fold_res f xs s = Inr t" "P xs t"
    by (metis append_Cons append_assoc)
  with snoc.prems(2) [of xs x "[]" t] obtain u where "f x t = Inr u" "P (xs @ [x]) u"
    by auto
  with t show ?case by (auto simp: fold_res_append)
qed

lemma fold_res_inv:
  assumes "fold_res f xs s = Inr s'"
    and "P [] s"
    and "\<And>ys x zs s t. xs = ys @ x # zs \<Longrightarrow> P ys s \<Longrightarrow> f x s = Inr t \<Longrightarrow> P (ys @ [x]) t"
  shows "P xs s'"
  using assms
proof (induction xs arbitrary: s' rule: rev_induct)
  case Nil
  then show ?case by simp
next
  case (snoc x xs)
  from snoc.prems(1) obtain t where t: "fold_res f xs s = Inr t" "f x t = Inr s'"
    by (auto simp: fold_res_append res_simps)
  have "P xs t"
    using snoc.IH [OF t(1) snoc.prems(2)] snoc.prems(3) by (metis append_Cons append_assoc)
  with snoc.prems(3) [of xs x "[]" t s'] t(2) show ?case by simp
qed

text \<open>A loop whose body succeeds in every state succeeds.\<close>

lemma fold_res_ok:
  "(\<And>x s. x \<in> set xs \<Longrightarrow> \<exists>s'. f x s = Inr s') \<Longrightarrow> \<exists>s'. fold_res f xs s = Inr s'"
  using fold_res_total [where P = "\<lambda>ys s. True" and f = f and xs = xs and s = s] by auto

section \<open>Slices and iterators\<close>

text \<open>\<^verbatim>\<open>Vec::dedup_by_key\<close> removes all but the first of consecutive elements with equal keys.\<close>

fun dedup_by_key :: "('a \<Rightarrow> 'k) \<Rightarrow> 'a list \<Rightarrow> 'a list" where
  "dedup_by_key k [] = []"
| "dedup_by_key k [x] = [x]"
| "dedup_by_key k (x # y # xs) =
     (if k x = k y then dedup_by_key k (x # xs) else x # dedup_by_key k (y # xs))"

lemma dedup_by_key_subset: "set (dedup_by_key k xs) \<subseteq> set xs"
  by (induction k xs rule: dedup_by_key.induct) auto

lemma dedup_by_key_set:
  "inj_on k (set xs) \<Longrightarrow> set (dedup_by_key k xs) = set xs"
proof (induction k xs rule: dedup_by_key.induct)
  case (3 k x y xs)
  show ?case
  proof (cases "k x = k y")
    case True
    with "3.prems" have "x = y" by (auto dest: inj_onD)
    with "3.IH"(1) True "3.prems" show ?thesis by (simp add: insert_absorb2)
  next
    case False
    with "3.IH"(2) "3.prems" show ?thesis by (auto simp: inj_on_def)
  qed
qed auto

lemma dedup_by_key_id: "dedup_by_key (\<lambda>x. x) xs = remdups_adj xs"
  by (induction "\<lambda>x::'a. x" xs rule: dedup_by_key.induct) auto

text \<open>\<^verbatim>\<open>Iterator::min_by_key\<close> returns the first element with the least key.\<close>

fun min_by_key :: "('a \<Rightarrow> nat) \<Rightarrow> 'a list \<Rightarrow> 'a option" where
  "min_by_key k [] = None"
| "min_by_key k (x # xs) =
     (case min_by_key k xs of
        None \<Rightarrow> Some x
      | Some m \<Rightarrow> if k m < k x then Some m else Some x)"

lemma min_by_key_None [simp]: "min_by_key k xs = None \<longleftrightarrow> xs = []"
  by (cases xs) (auto split: option.splits)

lemma min_by_key_split:
  "min_by_key k xs = Some m \<Longrightarrow>
     \<exists>ys zs. xs = ys @ m # zs \<and> (\<forall>y\<in>set ys. k m < k y) \<and> (\<forall>z\<in>set zs. k m \<le> k z)"
proof (induction xs arbitrary: m)
  case Nil
  then show ?case by simp
next
  case (Cons x xs)
  show ?case
  proof (cases "min_by_key k xs")
    case None
    with Cons.prems show ?thesis by (intro exI [of _ "[]"]) auto
  next
    case (Some m')
    from Cons.IH [OF Some] obtain ys zs where xs: "xs = ys @ m' # zs"
      and less: "\<forall>y\<in>set ys. k m' < k y" and le: "\<forall>z\<in>set zs. k m' \<le> k z" by blast
    show ?thesis
    proof (cases "k m' < k x")
      case True
      with Some Cons.prems have "m = m'" by simp
      with True xs less le have "x # xs = (x # ys) @ m # zs \<and> (\<forall>y\<in>set (x # ys). k m < k y)"
        by simp
      with le \<open>m = m'\<close> show ?thesis by blast
    next
      case False
      with Some Cons.prems have m: "m = x" by simp
      have "\<forall>z\<in>set xs. k m \<le> k z"
        using False xs less le m by (auto intro: order_trans less_imp_le)
      with m show ?thesis by (intro exI [of _ "[]"] exI [of _ xs]) simp
    qed
  qed
qed

section \<open>Hash sets\<close>

text \<open>
  The contract of \<^verbatim>\<open>std::collections::HashSet\<close> that the clients use, with the abstraction to
  mathematical sets.
\<close>

locale hash_set_ops =
  fixes empty :: "'s"
    and insert_op :: "'a \<Rightarrow> 's \<Rightarrow> 's"
    and contains :: "'s \<Rightarrow> 'a \<Rightarrow> bool"
    and len :: "'s \<Rightarrow> nat"
    and elems :: "'s \<Rightarrow> 'a set"
    and invar :: "'s \<Rightarrow> bool"
  assumes invar_empty: "invar empty"
    and invar_insert: "invar s \<Longrightarrow> invar (insert_op x s)"
    and elems_empty: "elems empty = {}"
    and elems_insert: "invar s \<Longrightarrow> elems (insert_op x s) = insert x (elems s)"
    and contains_iff: "invar s \<Longrightarrow> contains s x \<longleftrightarrow> x \<in> elems s"
    and len_card: "invar s \<Longrightarrow> len s = card (elems s)"
begin

lemma invar_extend: "invar s \<Longrightarrow> invar (fold insert_op xs s)"
  by (induction xs arbitrary: s) (auto simp: invar_insert)

lemma elems_extend: "invar s \<Longrightarrow> elems (fold insert_op xs s) = elems s \<union> set xs"
  by (induction xs arbitrary: s) (auto simp: invar_insert elems_insert)

lemma invar_collect: "invar (fold insert_op xs empty)"
  by (simp add: invar_extend invar_empty)

lemma elems_collect: "elems (fold insert_op xs empty) = set xs"
  by (simp add: elems_extend elems_empty invar_empty)

lemma len_collect: "len (fold insert_op xs empty) = card (set xs)"
  by (simp add: len_card invar_collect elems_collect)

end

definition hs_insert :: "'a \<Rightarrow> 'a list \<Rightarrow> 'a list" where
  "hs_insert x s = (if x \<in> set s then s else s @ [x])"

definition hs_collect :: "'a list \<Rightarrow> 'a list" where
  "hs_collect xs = fold hs_insert xs []"

definition hs_difference :: "'a list \<Rightarrow> 'a list \<Rightarrow> 'a list" where
  "hs_difference a b = filter (\<lambda>x. x \<notin> set b) a"

definition hs_intersection :: "'a list \<Rightarrow> 'a list \<Rightarrow> 'a list" where
  "hs_intersection a b = filter (\<lambda>x. x \<in> set b) a"

interpretation hs: hash_set_ops "[]" hs_insert "\<lambda>s x. x \<in> set s" length set distinct
  by unfold_locales (auto simp: hs_insert_def distinct_card)

lemma hs_collect_set [simp, hash_simps]: "set (hs_collect xs) = set xs"
  unfolding hs_collect_def by (rule hs.elems_collect)

lemma hs_collect_distinct [simp, hash_simps]: "distinct (hs_collect xs)"
  unfolding hs_collect_def by (rule hs.invar_collect)

lemma hs_collect_length [hash_simps]: "length (hs_collect xs) = card (set xs)"
  unfolding hs_collect_def by (rule hs.len_collect)

lemma hs_insert_set [simp, hash_simps]: "set (hs_insert x s) = insert x (set s)"
  by (auto simp: hs_insert_def)

lemma hs_insert_distinct [simp, hash_simps]: "distinct (hs_insert x s) = distinct s"
  by (simp add: hs_insert_def)

lemma hs_difference_set [simp, hash_simps]: "set (hs_difference a b) = set a - set b"
  by (auto simp: hs_difference_def)

lemma hs_intersection_set [simp, hash_simps]: "set (hs_intersection a b) = set a \<inter> set b"
  by (auto simp: hs_intersection_def)

lemma hs_difference_distinct [simp]: "distinct a \<Longrightarrow> distinct (hs_difference a b)"
  by (simp add: hs_difference_def)

lemma hs_intersection_distinct [simp]: "distinct a \<Longrightarrow> distinct (hs_intersection a b)"
  by (simp add: hs_intersection_def)

lemma hs_difference_length [hash_simps]:
  "distinct a \<Longrightarrow> length (hs_difference a b) = card (set a - set b)"
  using distinct_card [of "hs_difference a b"] by simp

lemma hs_intersection_length [hash_simps]:
  "distinct a \<Longrightarrow> length (hs_intersection a b) = card (set a \<inter> set b)"
  using distinct_card [of "hs_intersection a b"] by simp

section \<open>Hash maps\<close>

type_synonym ('k, 'v) hash_map = "('k \<times> 'v) list"

locale hash_map_ops =
  fixes empty :: "'m"
    and insert_op :: "'k \<Rightarrow> 'v \<Rightarrow> 'm \<Rightarrow> 'm"
    and get :: "'m \<Rightarrow> 'k \<Rightarrow> 'v option"
    and invar :: "'m \<Rightarrow> bool"
  assumes invar_empty: "invar empty"
    and invar_insert: "invar m \<Longrightarrow> invar (insert_op k v m)"
    and get_empty: "get empty = Map.empty"
    and get_insert: "invar m \<Longrightarrow> get (insert_op k v m) = (get m)(k \<mapsto> v)"
begin

lemma invar_extend: "invar m \<Longrightarrow> invar (fold (\<lambda>(k, v). insert_op k v) kvs m)"
  by (induction kvs arbitrary: m) (auto simp: invar_insert)

lemma get_extend:
  "invar m \<Longrightarrow> get (fold (\<lambda>(k, v). insert_op k v) kvs m) = get m ++ map_of (rev kvs)"
proof (induction kvs arbitrary: m)
  case Nil
  then show ?case by simp
next
  case (Cons kv kvs)
  then show ?case
    by (cases kv) (simp add: invar_insert get_insert map_add_def fun_eq_iff split: option.splits)
qed

lemma invar_collect: "invar (fold (\<lambda>(k, v). insert_op k v) kvs empty)"
  by (simp add: invar_extend invar_empty)

lemma get_collect: "get (fold (\<lambda>(k, v). insert_op k v) kvs empty) = map_of (rev kvs)"
  by (simp add: get_extend get_empty invar_empty)

end

abbreviation hm_insert :: "'k \<Rightarrow> 'v \<Rightarrow> ('k, 'v) hash_map \<Rightarrow> ('k, 'v) hash_map" where
  "hm_insert \<equiv> AList.update"

abbreviation hm_get :: "('k, 'v) hash_map \<Rightarrow> 'k \<Rightarrow> 'v option" where
  "hm_get \<equiv> map_of"

abbreviation hm_keys :: "('k, 'v) hash_map \<Rightarrow> 'k list" where
  "hm_keys m \<equiv> map fst m"

abbreviation hm_values :: "('k, 'v) hash_map \<Rightarrow> 'v list" where
  "hm_values m \<equiv> map snd m"

definition hm_collect :: "('k \<times> 'v) list \<Rightarrow> ('k, 'v) hash_map" where
  "hm_collect kvs = fold (\<lambda>(k, v). hm_insert k v) kvs []"

interpretation hm: hash_map_ops "[]" hm_insert hm_get "\<lambda>m. distinct (hm_keys m)"
  by unfold_locales (auto simp: update_conv' distinct_update)

lemma hm_collect_get [simp, hash_simps]: "hm_get (hm_collect kvs) = map_of (rev kvs)"
  unfolding hm_collect_def by (rule hm.get_collect)

lemma hm_collect_distinct [simp, hash_simps]: "distinct (hm_keys (hm_collect kvs))"
  unfolding hm_collect_def by (rule hm.invar_collect)

lemma hm_insert_get [simp, hash_simps]: "hm_get (hm_insert k v m) = (hm_get m)(k \<mapsto> v)"
  by (rule update_conv')

lemma hm_insert_distinct [simp, hash_simps]:
  "distinct (hm_keys m) \<Longrightarrow> distinct (hm_keys (hm_insert k v m))"
  by (rule distinct_update)

lemma hm_get_Some_values: "hm_get m k = Some v \<Longrightarrow> v \<in> set (hm_values m)"
  by (force dest: map_of_SomeD)

lemma hm_values_get:
  "distinct (hm_keys m) \<Longrightarrow> v \<in> set (hm_values m) \<Longrightarrow> \<exists>k. hm_get m k = Some v"
  by (auto intro: map_of_is_SomeI)

section \<open>Formatting\<close>

text \<open>Decimal \<^verbatim>\<open>Display\<close> of an unsigned integer.\<close>

fun show_nat :: "nat \<Rightarrow> string" where
  "show_nat n =
     (if n < 10 then [char_of (48 + n)] else show_nat (n div 10) @ [char_of (48 + n mod 10)])"

declare show_nat.simps [simp del]

end
