(* ===== verification/Fp_Model.thy ===== *)
theory Fp_Model
  imports Complex_Main "HOL-Library.Log_Nat" Obs_Prelude
begin

text \<open>
  The non-negative binary floating-point numbers that the feerate code computes with: an
  \<^verbatim>\<open>f32\<close> or \<^verbatim>\<open>f64\<close> value is a rational number, infinity or NaN, and every operation rounds its
  exact result to the nearest representable number, ties to even, with 24 or 53 bits of
  precision. All operands are quotients and sums of unsigned 64-bit integers, so the exponents
  stay inside the normal range of both formats and neither overflow nor subnormal numbers occur.
\<close>

datatype fp = Fin rat | Inf | NaN

section \<open>Rounding\<close>

text \<open>The binary exponent of a positive rational of at least \<open>2 ^ -64\<close>.\<close>

definition ilog2 :: "rat \<Rightarrow> int" where
  "ilog2 x = int (floorlog 2 (nat \<lfloor>x * 2 ^ 64\<rfloor>)) - 65"

definition round_even :: "rat \<Rightarrow> int" where
  "round_even m =
     (let f = \<lfloor>m\<rfloor>; d = m - of_int f
      in if d < 1 / 2 then f else if d > 1 / 2 then f + 1 else if even f then f else f + 1)"

definition ulp :: "nat \<Rightarrow> rat \<Rightarrow> rat" where
  "ulp p x = 2 powi (ilog2 x - (int p - 1))"

definition round_prec :: "nat \<Rightarrow> rat \<Rightarrow> rat" where
  "round_prec p x = (if x \<le> 0 then 0 else of_int (round_even (x / ulp p x)) * ulp p x)"

abbreviation f32_prec :: nat where "f32_prec \<equiv> 24"
abbreviation f64_prec :: nat where "f64_prec \<equiv> 53"

section \<open>Operations of the source\<close>

text \<open>\<^verbatim>\<open>as f32\<close> and \<^verbatim>\<open>as f64\<close> on unsigned integers, \<^verbatim>\<open>f64 as f32\<close>, addition, division and \<open>>=\<close>.\<close>

definition u64_as_fp :: "nat \<Rightarrow> nat \<Rightarrow> fp" where
  "u64_as_fp p n = Fin (round_prec p (of_nat n))"

fun fp_convert :: "nat \<Rightarrow> fp \<Rightarrow> fp" where
  "fp_convert p (Fin x) = Fin (round_prec p x)"
| "fp_convert p Inf = Inf"
| "fp_convert p NaN = NaN"

fun fp_add :: "nat \<Rightarrow> fp \<Rightarrow> fp \<Rightarrow> fp" where
  "fp_add p (Fin x) (Fin y) = Fin (round_prec p (x + y))"
| "fp_add p NaN _ = NaN"
| "fp_add p _ NaN = NaN"
| "fp_add p _ _ = Inf"

fun fp_div :: "nat \<Rightarrow> fp \<Rightarrow> fp \<Rightarrow> fp" where
  "fp_div p (Fin x) (Fin y) =
     (if y = 0 then (if x = 0 then NaN else Inf) else Fin (round_prec p (x / y)))"
| "fp_div p Inf (Fin y) = Inf"
| "fp_div p (Fin x) Inf = Fin 0"
| "fp_div p _ _ = NaN"

fun fp_ge :: "fp \<Rightarrow> fp \<Rightarrow> bool" where
  "fp_ge NaN _ = False"
| "fp_ge _ NaN = False"
| "fp_ge Inf _ = True"
| "fp_ge (Fin x) Inf = False"
| "fp_ge (Fin x) (Fin y) = (y \<le> x)"

definition fp_sum :: "nat \<Rightarrow> fp list \<Rightarrow> fp" where
  "fp_sum p xs = fold (\<lambda>x acc. fp_add p acc x) xs (Fin 0)"

section \<open>Facts about rounding\<close>

lemma ilog2_bounds:
  assumes "1 / 2 ^ 64 \<le> x"
  shows "2 powi ilog2 x \<le> x" "x < 2 powi (ilog2 x + 1)"
proof -
  define n where "n = nat \<lfloor>x * 2 ^ 64\<rfloor>"
  have "1 \<le> x * 2 ^ 64"
    using assms by (simp add: field_simps)
  then have fl: "1 \<le> \<lfloor>x * 2 ^ 64\<rfloor>" by linarith
  then have n: "of_nat n = (of_int \<lfloor>x * 2 ^ 64\<rfloor> :: rat)" "0 < n"
    by (simp_all add: n_def)
  have fpos: "0 < floorlog 2 n"
    using n(2) by (simp add: floorlog_def)
  have b: "2 ^ (floorlog 2 n - 1) \<le> n" "n < 2 ^ floorlog 2 n"
    using floorlog_bounds [of n 2] n(2) by auto
  have eq: "ilog2 x + 64 = int (floorlog 2 n - 1)"
    using fpos by (simp add: ilog2_def n_def)
  have "2 powi (ilog2 x + 64) \<le> (of_nat n :: rat)"
    using b(1) unfolding eq by (metis numeral_power_le_of_nat_cancel_iff power_int_of_nat)
  also have "\<dots> \<le> x * 2 ^ 64" using n(1) by simp
  finally have "2 powi (ilog2 x) * 2 ^ 64 \<le> x * 2 ^ 64"
    by (simp add: power_int_add)
  then show "2 powi ilog2 x \<le> x" by simp
  have "Suc n \<le> 2 ^ floorlog 2 n" using b(2) by simp
  then have "(of_nat (Suc n) :: rat) \<le> 2 ^ floorlog 2 n"
    by (metis of_nat_le_iff of_nat_numeral of_nat_power)
  moreover have "x * 2 ^ 64 < of_nat (Suc n)"
    using n(1) by (simp add: floor_less_iff) linarith
  moreover have "(2 :: rat) ^ floorlog 2 n = 2 powi (ilog2 x + 1 + 64)"
    using eq fpos by (metis add.assoc add.commute Suc_pred' One_nat_def of_nat_Suc power_int_of_nat)
  ultimately have "x * 2 ^ 64 < 2 powi (ilog2 x + 1) * 2 ^ 64"
    by (simp add: power_int_add)
  then show "x < 2 powi (ilog2 x + 1)" by simp
qed

lemma power_int_2_strict: "(2 :: rat) powi a < 2 powi b \<longleftrightarrow> a < b"
proof
  show "a < b" if "(2 :: rat) powi a < 2 powi b"
    using that power_int_increasing [of b a "2 :: rat"] by (meson linorder_not_less one_le_numeral)
  show "(2 :: rat) powi a < 2 powi b" if "a < b"
    using that by (intro power_int_strict_increasing) auto
qed

lemma ilog2_unique:
  assumes "1 / 2 ^ 64 \<le> x" "2 powi e \<le> x" "x < 2 powi (e + 1)"
  shows "ilog2 x = e"
proof -
  have "(2 :: rat) powi e < 2 powi (ilog2 x + 1)" "(2 :: rat) powi ilog2 x < 2 powi (e + 1)"
    using ilog2_bounds [OF assms(1)] assms(2,3) by linarith+
  then show ?thesis by (simp add: power_int_2_strict)
qed

lemma ulp_pos: "0 < ulp p x"
  by (simp add: ulp_def)

lemma round_even_of_int [simp]: "round_even (of_int k) = k"
  by (simp add: round_even_def)

lemma round_even_floor: "\<lfloor>m\<rfloor> \<le> round_even m" "round_even m \<le> \<lfloor>m\<rfloor> + 1"
  by (simp_all add: round_even_def Let_def)

lemma round_even_mono: "x \<le> y \<Longrightarrow> round_even x \<le> round_even y"
proof (cases "\<lfloor>x\<rfloor> = \<lfloor>y\<rfloor>")
  case True
  assume "x \<le> y"
  with True show ?thesis by (auto simp: round_even_def Let_def)
next
  case False
  assume "x \<le> y"
  with False have "\<lfloor>x\<rfloor> + 1 \<le> \<lfloor>y\<rfloor>"
    using floor_mono [of x y] by linarith
  with round_even_floor [of x] round_even_floor [of y] show ?thesis by linarith
qed

lemma round_even_below: "x < of_int k - 1 / 2 \<Longrightarrow> round_even x \<le> k - 1"
proof -
  assume x: "x < of_int k - 1 / 2"
  show ?thesis
  proof (cases "\<lfloor>x\<rfloor> \<le> k - 2")
    case True
    with round_even_floor(2) [of x] show ?thesis by linarith
  next
    case False
    with x have f: "\<lfloor>x\<rfloor> = k - 1" by linarith
    with x have "x - of_int \<lfloor>x\<rfloor> < 1 / 2" by simp
    with f show ?thesis by (simp add: round_even_def)
  qed
qed

lemma round_prec_exact:
  assumes "0 < x" "x = of_int k * ulp p x"
  shows "round_prec p x = x"
proof -
  have "x / ulp p x = of_int k"
    using assms(2) ulp_pos [of p x] by (simp add: field_simps)
  then show ?thesis
    using assms by (simp add: round_prec_def)
qed

text \<open>Rounding keeps a number inside its binade, and is monotone.\<close>

lemma round_prec_binade:
  assumes "1 / 2 ^ 64 \<le> x" "1 \<le> p"
  shows "2 powi ilog2 x \<le> round_prec p x" "round_prec p x \<le> 2 powi (ilog2 x + 1)"
proof -
  have pos: "0 < x" using assms(1) by (rule less_le_trans [rotated]) simp
  define u where "u = ulp p x"
  have u: "0 < u" by (simp add: u_def ulp_pos)
  have lo: "2 powi ilog2 x = of_int (2 ^ (p - 1)) * u"
    and hi: "2 powi (ilog2 x + 1) = of_int (2 ^ p) * u"
  proof -
    have "(2 :: rat) ^ (p - 1) = 2 powi (int p - 1)"
      using assms(2) by (simp flip: power_int_of_nat)
    then show "2 powi ilog2 x = of_int (2 ^ (p - 1)) * u"
      by (simp add: u_def ulp_def flip: power_int_add)
    have "(2 :: rat) ^ p * u = 2 powi (int p + (ilog2 x - (int p - 1)))"
      by (subst power_int_add) (simp_all add: u_def ulp_def power_int_of_nat)
    then show "2 powi (ilog2 x + 1) = of_int (2 ^ p) * u" by simp
  qed
  have "of_int (2 ^ (p - 1)) \<le> x / u" "x / u \<le> of_int (2 ^ p)"
    using ilog2_bounds [OF assms(1)] u unfolding lo hi by (simp_all add: field_simps)
  then have "round_even (of_int (2 ^ (p - 1))) \<le> round_even (x / u)"
    "round_even (x / u) \<le> round_even (of_int (2 ^ p))"
    by (blast intro: round_even_mono)+
  then have "(of_int (2 ^ (p - 1)) :: rat) \<le> of_int (round_even (x / u))"
    "(of_int (round_even (x / u)) :: rat) \<le> of_int (2 ^ p)"
    by (simp_all only: round_even_of_int of_int_le_iff)
  then have "of_int (2 ^ (p - 1)) * u \<le> of_int (round_even (x / u)) * u"
    "of_int (round_even (x / u)) * u \<le> of_int (2 ^ p) * u"
    using u by (simp_all add: mult_right_mono)
  then show "2 powi ilog2 x \<le> round_prec p x" "round_prec p x \<le> 2 powi (ilog2 x + 1)"
    using pos by (simp_all add: lo hi round_prec_def flip: u_def)
qed

lemma round_prec_mono:
  assumes "1 / 2 ^ 64 \<le> x" "x \<le> y" "1 \<le> p"
  shows "round_prec p x \<le> round_prec p y"
proof (cases "ilog2 x = ilog2 y")
  case True
  have "0 < x" using assms(1) by (rule less_le_trans [rotated]) simp
  moreover have "ulp p x = ulp p y" using True by (simp add: ulp_def)
  moreover have "round_even (x / ulp p y) \<le> round_even (y / ulp p y)"
    using assms(2) ulp_pos [of p y] by (intro round_even_mono divide_right_mono) auto
  ultimately show ?thesis
    using assms(2) ulp_pos [of p y] by (simp add: round_prec_def mult_right_mono)
next
  case False
  have y: "1 / 2 ^ 64 \<le> y" using assms by linarith
  have "(2 :: rat) powi ilog2 x < 2 powi (ilog2 y + 1)"
    using ilog2_bounds [OF assms(1)] ilog2_bounds [OF y] assms(2) by linarith
  with False have "ilog2 x + 1 \<le> ilog2 y" by (simp add: power_int_2_strict)
  then have "(2 :: rat) powi (ilog2 x + 1) \<le> 2 powi ilog2 y"
    by (intro power_int_increasing) auto
  with round_prec_binade [OF assms(1,3)] round_prec_binade [OF y assms(3)] show ?thesis
    by linarith
qed

lemma round_prec_nat:
  assumes "n < 2 ^ p"
  shows "round_prec p (of_nat n) = of_nat n"
proof (cases "n = 0")
  case True
  then show ?thesis by (simp add: round_prec_def)
next
  case False
  let ?x = "of_nat n :: rat"
  have one: "1 \<le> ?x" using False by simp
  then have x: "1 / 2 ^ 64 \<le> ?x" by (rule order_trans [rotated]) simp
  have "(2 :: rat) powi ilog2 ?x < 2 powi int p"
    using ilog2_bounds(1) [OF x] assms
    by (simp add: power_int_of_nat) (metis le_less_trans of_nat_less_iff of_nat_numeral of_nat_power)
  then have e: "ilog2 ?x \<le> int p - 1" by (simp only: power_int_2_strict)
  then obtain k where k: "int p - 1 - ilog2 ?x = int k"
    by (metis diff_ge_0_iff_ge nonneg_int_cases)
  have "ulp p ?x = 2 powi (- int k)" using k by (simp add: ulp_def algebra_simps)
  then have eq: "?x = of_int (int n * 2 ^ k) * ulp p ?x"
    by (simp add: power_int_minus power_int_of_nat)
  have "0 < ?x" using one by simp
  then show ?thesis using eq by (rule round_prec_exact)
qed

text \<open>
  Comparing a rounded quotient with 1000: for operands that \<^verbatim>\<open>f32\<close> represents exactly the
  rounding never moves a quotient across the threshold.
\<close>

lemma round_prec_tiny:
  assumes x: "0 < x" "x < 1 / 2 ^ 64"
  shows "round_prec 24 x < 1000"
proof -
  have "\<lfloor>x * 2 ^ 64\<rfloor> = 0" using x by (simp add: floor_eq_iff field_simps)
  then have il: "ilog2 x = - 65" by (simp add: ilog2_def floorlog_def)
  have u: "ulp 24 x = 1 / 2 ^ 88" by (simp add: ulp_def il power_int_minus)
  have "x * 2 ^ 88 \<le> (1 / 2 ^ 64) * 2 ^ 88" using x(2) by (intro mult_right_mono) auto
  then have "x / ulp 24 x \<le> of_int (2 ^ 24)" unfolding u by simp
  then have "round_even (x / ulp 24 x) \<le> 2 ^ 24"
    using round_even_mono [of "x / ulp 24 x" "of_int (2 ^ 24)"] by (simp only: round_even_of_int)
  then have "of_int (round_even (x / ulp 24 x)) * ulp 24 x \<le> of_int (2 ^ 24) * ulp 24 x"
    using ulp_pos [of 24 x] by (intro mult_right_mono) (simp_all only: of_int_le_iff less_imp_le)
  also have "\<dots> < 1000" by (simp add: ulp_def il power_int_minus)
  finally show ?thesis using x(1) by (simp add: round_prec_def)
qed

lemma round_prec_near_1000:
  assumes x: "999 \<le> x" "x < 1000 - 1 / 2 ^ 15"
  shows "round_prec 24 x < 1000"
proof -
  have il: "ilog2 x = 9"
  proof (rule ilog2_unique)
    show "1 / 2 ^ 64 \<le> x" by (rule order_trans [OF _ x(1)]) simp
    show "2 powi 9 \<le> x" by (rule order_trans [OF _ x(1)]) simp
    show "x < 2 powi (9 + 1)" by (rule order.strict_trans [OF x(2)]) simp
  qed
  have u: "ulp 24 x = 1 / 2 ^ 14" by (simp add: ulp_def il power_int_minus)
  have "x * 2 ^ 14 < (1000 - 1 / 2 ^ 15) * 2 ^ 14" by (rule mult_strict_right_mono [OF x(2)]) simp
  then have "x / ulp 24 x < of_int 16384000 - 1 / 2" unfolding u by simp
  then have "round_even (x / ulp 24 x) \<le> 16384000 - 1" by (rule round_even_below)
  then have "(of_int (round_even (x / ulp 24 x)) :: rat) \<le> of_int (16384000 - 1)"
    by (simp only: of_int_le_iff)
  then have "of_int (round_even (x / ulp 24 x)) * ulp 24 x \<le> of_int (16384000 - 1) * ulp 24 x"
    using ulp_pos [of 24 x] by (intro mult_right_mono) simp_all
  also have "\<dots> < 1000" by (simp add: ulp_def il power_int_minus)
  finally show ?thesis by (simp add: round_prec_def)
qed

lemma quotient_near_1000:
  assumes "n < 2 ^ 24" "0 < d" "n < 1000 * d" "999 * d \<le> n"
  shows "(of_nat n / of_nat d :: rat) < 1000 - 1 / 2 ^ 15"
proof (rule ccontr)
  let ?x = "of_nat n / of_nat d :: rat"
  have dpos: "(0 :: rat) < of_nat d" using assms(2) by simp
  have "d < 2 ^ 15" using assms(1,4) by simp
  then have "(of_nat d :: rat) < of_nat (2 ^ 15)" by (simp only: of_nat_less_iff)
  have "(of_nat (n + 1) :: rat) \<le> of_nat (1000 * d)" using assms(3) by (simp only: of_nat_le_iff)
  then have "?x * of_nat d \<le> 1000 * of_nat d - 1" using dpos by (simp add: field_simps)
  moreover assume "\<not> ?x < 1000 - 1 / 2 ^ 15"
  then have "(1000 - 1 / 2 ^ 15) * of_nat d \<le> ?x * of_nat d" using dpos by (intro mult_right_mono) auto
  ultimately have "1 \<le> (of_nat d :: rat) / 2 ^ 15" by (simp add: algebra_simps)
  with \<open>of_nat d < of_nat (2 ^ 15)\<close> show False by simp
qed

lemma round_prec_quotient_below:
  assumes n: "n < 2 ^ 24" and d: "0 < d" and lt: "n < 1000 * d"
  shows "round_prec 24 (of_nat n / of_nat d) < 1000"
proof -
  let ?x = "of_nat n / of_nat d :: rat"
  have dpos: "(0 :: rat) < of_nat d" using d by simp
  consider (zero) "n = 0" | (tiny) "0 < n" "?x < 1 / 2 ^ 64" | (low) "1 / 2 ^ 64 \<le> ?x" "n < 999 * d" | (near) "999 * d \<le> n"
    by fastforce
  then show ?thesis
  proof cases
    case zero
    then show ?thesis by (simp add: round_prec_def)
  next
    case tiny
    with dpos show ?thesis by (intro round_prec_tiny) simp_all
  next
    case low
    have "(of_nat n :: rat) \<le> of_nat (999 * d)" using low(2) by (simp only: of_nat_le_iff)
    then have "?x \<le> of_nat 999" using dpos by (simp add: field_simps)
    from round_prec_mono [OF low(1) this, of 24] round_prec_nat [of 999 24] show ?thesis by simp
  next
    case near
    have "(of_nat (999 * d) :: rat) \<le> of_nat n" using near by (simp only: of_nat_le_iff)
    then have "999 \<le> ?x" using dpos by (simp add: field_simps)
    with quotient_near_1000 [OF n d lt near] show ?thesis by (intro round_prec_near_1000)
  qed
qed

lemma round_prec_quotient_1000:
  assumes "n < 2 ^ 24" "0 < d"
  shows "1000 \<le> round_prec 24 (of_nat n / of_nat d) \<longleftrightarrow> 1000 * d \<le> n"
proof
  show "1000 * d \<le> n" if "1000 \<le> round_prec 24 (of_nat n / of_nat d)"
    using round_prec_quotient_below [OF assms] that by (meson linorder_not_less)
next
  assume "1000 * d \<le> n"
  then have "(of_nat (1000 * d) :: rat) \<le> of_nat n" by (simp only: of_nat_le_iff)
  then have "of_nat 1000 \<le> (of_nat n / of_nat d :: rat)" using assms(2) by (simp add: field_simps)
  from round_prec_mono [OF _ this, of 24] round_prec_nat [of 1000 24]
  show "1000 \<le> round_prec 24 (of_nat n / of_nat d)" by simp
qed

end
