(* ===== verification/Chain_Model.thy ===== *)
theory Chain_Model
  imports Fp_Model
begin

text \<open>
  Bitcoin data and the third-party code the daemon calls.

  Transactions, blocks and block templates are records with the fields the daemon reads. The
  functions of the crates \<^verbatim>\<open>bitcoin\<close>, \<^verbatim>\<open>rawtx_rs\<close>, \<^verbatim>\<open>bitcoin_pool_identification\<close> and
  \<^verbatim>\<open>chrono\<close> are not part of the repository: they are the fields of the record \<open>lib\<close>, an
  argument of every definition that calls them. What a theorem needs to know about one of
  them is a named hypothesis of that theorem.
\<close>

type_synonym byte = "8 word"
type_synonym bytes = "byte list"
type_synonym txid = bytes
type_synonym block_hash = bytes
type_synonym datetime = int

section \<open>Transactions, blocks, templates\<close>

record outpoint =
  op_txid :: txid
  op_vout :: nat

record tx_in =
  previous_output :: outpoint
  script_sig :: bytes
  sequence :: nat
  witness :: "bytes list"

record tx_out =
  out_value :: nat
  script_pubkey :: bytes

record transaction =
  tx_version :: int
  lock_time :: nat
  tx_input :: "tx_in list"
  tx_output :: "tx_out list"

record block_header =
  header_version :: int
  prev_blockhash :: block_hash
  header_time :: nat

record block =
  header :: block_header
  txdata :: "transaction list"

text \<open>An entry of a block template carries the serialized transaction.\<close>

record template_tx =
  tmpl_txid :: txid
  raw_tx :: bytes
  tmpl_fee :: nat
  tmpl_weight :: nat
  tmpl_sigops :: nat

record block_template =
  previous_block_hash :: block_hash
  tmpl_height :: nat
  current_time :: nat
  coinbase_value :: nat
  transactions :: "template_tx list"

record tx_fee =
  fee_txid :: txid
  fee_amount :: nat

record block_tx_fees =
  fees_tx :: "tx_fee list"

section \<open>Results of the third-party libraries\<close>

text \<open>\<^verbatim>\<open>bitcoin::absolute::LockTime\<close>: a height or a timestamp.\<close>

datatype locktime = Blocks nat | Seconds nat

record raw_tx_info =
  raw_vsize :: nat
  raw_locktime :: locktime
  in_types :: "nat list"
  out_types :: "nat list"

datatype raw_tx_error = RawTxInfoError string

record pool =
  pool_name_of :: string
  pool_link_of :: string

datatype identification_method = IdTag | IdAddress

record identification_result =
  id_pool :: pool
  id_method :: identification_method

datatype network = Bitcoin | Testnet | Signet | Regtest

section \<open>The libraries as a parameter\<close>

record lib =
  compute_txid :: "transaction \<Rightarrow> txid"
  tx_vsize :: "transaction \<Rightarrow> nat"
  tx_weight :: "transaction \<Rightarrow> nat"
  is_coinbase :: "transaction \<Rightarrow> bool"
  is_lock_time_enabled :: "transaction \<Rightarrow> bool"
  address_from_script :: "bytes \<Rightarrow> string option"
  is_op_return :: "bytes \<Rightarrow> bool"
  txid_rank :: "txid \<Rightarrow> nat"
  is_block_height :: "locktime \<Rightarrow> bool"
  is_block_time :: "locktime \<Rightarrow> bool"
  locktime_from_consensus :: "nat \<Rightarrow> locktime"
  locktime_gt :: "locktime \<Rightarrow> locktime \<Rightarrow> bool"
  block_hash_of :: "block \<Rightarrow> block_hash"
  block_weight_of :: "block \<Rightarrow> nat"
  bip34_block_height :: "block \<Rightarrow> nat option"
  is_signalling_soft_fork :: "int \<Rightarrow> nat \<Rightarrow> bool"
  deserialize_tx :: "bytes \<Rightarrow> transaction option"
  raw_tx_info_new :: "transaction \<Rightarrow> raw_tx_error + raw_tx_info"
  tx_sigops :: "transaction \<Rightarrow> nat option"
  reveals_inscription :: "tx_in \<Rightarrow> bool option"
  is_p2ms_counterparty :: "transaction \<Rightarrow> bool"
  is_opreturn_counterparty :: "transaction \<Rightarrow> bool"
  is_p2sh_counterparty :: "transaction \<Rightarrow> bool"
  has_non_opreturn_output_smaller_than :: "raw_tx_info \<Rightarrow> nat \<Rightarrow> bool"
  output_value_sum :: "raw_tx_info \<Rightarrow> nat"
  is_spending_segwit :: "raw_tx_info \<Rightarrow> bool"
  is_spending_taproot :: "raw_tx_info \<Rightarrow> bool"
  is_spending_multisig :: "raw_tx_info \<Rightarrow> bool"
  is_signaling_explicit_rbf :: "raw_tx_info \<Rightarrow> bool"
  potentially_coinjoin :: "raw_tx_info \<Rightarrow> bool"
  potentially_consolidation :: "raw_tx_info \<Rightarrow> bool"
  input_type_p2pk :: nat
  input_type_p2ms :: nat
  output_type_p2pk :: nat
  output_type_p2ms :: nat
  show_input_type :: "nat \<Rightarrow> string"
  show_output_type :: "nat \<Rightarrow> string"
  identify_pool :: "network \<Rightarrow> pool list \<Rightarrow> block \<Rightarrow> identification_result option"
  from_timestamp :: "int \<Rightarrow> datetime option"

text \<open>
  Documented behaviour of the libraries that theorems rely on. \<^verbatim>\<open>Txid\<close> has a total order
  (\<open>txid_rank\<close> is its position); lock times of different units are not comparable, and a
  consensus lock time of zero is a height; the id of a transaction is 32 bytes long.
\<close>

definition txid_order_law :: "lib \<Rightarrow> bool" where
  "txid_order_law L \<longleftrightarrow> inj (txid_rank L)"

definition locktime_law :: "lib \<Rightarrow> bool" where
  "locktime_law L \<longleftrightarrow>
     (\<forall>h. is_block_height L (Blocks h) \<and> \<not> is_block_time L (Blocks h)) \<and>
     (\<forall>t. is_block_time L (Seconds t) \<and> \<not> is_block_height L (Seconds t)) \<and>
     (\<forall>a b. locktime_gt L (Blocks a) (Blocks b) \<longleftrightarrow> b < a) \<and>
     (\<forall>a b. locktime_gt L (Seconds a) (Seconds b) \<longleftrightarrow> b < a) \<and>
     (\<forall>a b. \<not> locktime_gt L (Blocks a) (Seconds b)) \<and>
     (\<forall>a b. \<not> locktime_gt L (Seconds a) (Blocks b)) \<and>
     locktime_from_consensus L 0 = Blocks 0"

text \<open>The byte-reversed form of an id, as the database and block explorers show it.\<close>

abbreviation reversed :: "bytes \<Rightarrow> bytes" where
  "reversed \<equiv> rev"

end
