(* ===== verification/Shared_Model.thy ===== *)
theory Shared_Model
  imports Chain_Model
begin

text \<open>
  The database rows of \<^verbatim>\<open>shared/src/model.rs\<close>. Field names carry a prefix per row type.
  A queried \<^verbatim>\<open>Block\<close> has the columns of the inserted \<^verbatim>\<open>NewBlock\<close> and the generated id, so it
  is an extension of that record.
\<close>

record new_block =
  nb_hash :: bytes
  nb_prev_hash :: bytes
  nb_height :: int
  nb_tags :: "int list"
  nb_missing_tx :: int
  nb_extra_tx :: int
  nb_shared_tx :: int
  nb_sanctioned_missing_tx :: int
  nb_equality :: fp
  nb_block_time :: datetime
  nb_block_seen_time :: datetime
  nb_block_tx :: int
  nb_block_sanctioned :: int
  nb_block_cb_value :: int
  nb_block_cb_fees :: int
  nb_block_weight :: int
  nb_block_pkg_weights :: "int list"
  nb_block_pkg_feerates :: "fp list"
  nb_pool_name :: string
  nb_pool_link :: string
  nb_pool_id_method :: string
  nb_template_tx :: int
  nb_template_time :: datetime
  nb_template_sanctioned :: int
  nb_template_cb_value :: int
  nb_template_cb_fees :: int
  nb_template_weight :: int
  nb_template_pkg_weights :: "int list"
  nb_template_pkg_feerates :: "fp list"
  nb_template_sigops :: int
  nb_block_sigops :: int

record db_block = new_block +
  b_id :: int

record db_transaction =
  t_txid :: bytes
  t_sanctioned :: bool
  t_vsize :: int
  t_fee :: int
  t_output_sum :: int
  t_tags :: "int list"
  t_input_count :: int
  t_inputs :: "string list"
  t_output_count :: int
  t_outputs :: "string list"
  t_sigops :: int

record transaction_only_in_block =
  oib_block_id :: int
  oib_position :: int
  oib_txid :: bytes

record transaction_only_in_template =
  oit_block_id :: int
  oit_position :: int
  oit_mempool_age_seconds :: int
  oit_txid :: bytes

record sanctioned_transaction_info =
  sti_block_id :: int
  sti_txid :: bytes
  sti_in_block :: bool
  sti_in_template :: bool
  sti_addresses :: "string list"

record conflicting_transaction =
  ct_block_id :: int
  ct_template_txids :: "bytes list"
  ct_block_txids :: "bytes list"
  ct_outpoints_txids :: "bytes list"
  ct_outpoints_vouts :: "int list"

record sanctioned_utxo =
  su_txid :: bytes
  su_vout :: int
  su_script_pubkey :: bytes
  su_amount :: int
  su_height :: int

record sanctioned_utxo_scan_info =
  scan_end_time :: datetime
  scan_end_height :: int
  scan_duration_seconds :: int
  scan_utxo_amount :: int
  scan_utxo_count :: int

record debug_template_selection_info =
  dts_block_id :: int
  dts_template_time :: datetime
  dts_count_missing :: int
  dts_count_shared :: int
  dts_count_extra :: int
  dts_selected :: bool

record sanctioned_address =
  sa_address :: string

end
