(* ===== verification/Daemon_Model.thy ===== *)
theory Daemon_Model
  imports Shared_Model
begin

text \<open>
  The in-memory types of \<^verbatim>\<open>daemon/src/model.rs\<close> (transaction infos, packages, the transaction
  data of a block and of a template) and the counters of \<^verbatim>\<open>daemon/src/metrics.rs\<close>.
\<close>

section \<open>Transaction infos and packages\<close>

record tx_info =
  ti_txid :: txid
  ti_tx :: transaction
  ti_pos :: int
  ti_fee :: nat

definition tx_feerate :: "lib \<Rightarrow> tx_info \<Rightarrow> fp" where
  "tx_feerate L i =
     fp_div f32_prec (u64_as_fp f32_prec (ti_fee i)) (u64_as_fp f32_prec (tx_vsize L (ti_tx i)))"

definition prev_output_txids :: "tx_info \<Rightarrow> txid list" where
  "prev_output_txids i = hs_collect (map (\<lambda>inp. op_txid (previous_output inp)) (tx_input (ti_tx i)))"

record tx_package =
  pkg_txns :: "tx_info list"

definition pkg_feerate :: "lib \<Rightarrow> tx_package \<Rightarrow> fp" where
  "pkg_feerate L p =
     (let vsize_sum = fp_sum f64_prec (map (\<lambda>i. u64_as_fp f64_prec (tx_vsize L (ti_tx i))) (pkg_txns p));
          fee_sum = fp_sum f64_prec (map (\<lambda>i. u64_as_fp f64_prec (ti_fee i)) (pkg_txns p))
      in fp_convert f32_prec (fp_div f64_prec fee_sum vsize_sum))"

definition pkg_weight :: "lib \<Rightarrow> tx_package \<Rightarrow> nat" where
  "pkg_weight L p = sum_u64 (map (\<lambda>i. tx_weight L (ti_tx i)) (pkg_txns p))"

text \<open>\<^verbatim>\<open>BlockTxData\<close> and \<^verbatim>\<open>TemplateTxData\<close> have the same fields.\<close>

record tx_data =
  td_txids :: "txid list"
  td_txid_to_txinfo_map :: "(txid, tx_info) hash_map"
  td_txinfos :: "tx_info list"

type_synonym block_tx_data = tx_data
type_synonym template_tx_data = tx_data

section \<open>Panics and iteration orders\<close>

text \<open>The places where the daemon panics: explicit panics, failed unwraps and assertions.\<close>

datatype panic =
    NotInMap string txid
  | OutpointNotInMap string outpoint
  | IndexMissing string txid
  | UnwrapNone string
  | ExpectFailed string
  | AssertFailed string

text \<open>
  The order in which a hash set or a hash map is iterated is unspecified. It is a parameter:
  one reordering function per element type that the daemon iterates over.
\<close>

record hash_iter =
  iter_strings :: "string list \<Rightarrow> string list"
  iter_txids :: "txid list \<Rightarrow> txid list"
  iter_outpoints :: "outpoint list \<Rightarrow> outpoint list"
  iter_type_counts :: "(nat \<times> nat) list \<Rightarrow> (nat \<times> nat) list"
  iter_transactions :: "(bytes \<times> db_transaction) list \<Rightarrow> (bytes \<times> db_transaction) list"

definition iteration_law :: "hash_iter \<Rightarrow> bool" where
  "iteration_law H \<longleftrightarrow>
     (\<forall>xs. mset (iter_strings H xs) = mset xs) \<and>
     (\<forall>xs. mset (iter_txids H xs) = mset xs) \<and>
     (\<forall>xs. mset (iter_outpoints H xs) = mset xs) \<and>
     (\<forall>xs. mset (iter_type_counts H xs) = mset xs) \<and>
     (\<forall>xs. mset (iter_transactions H xs) = mset xs)"

lemma iteration_law_sets:
  assumes "iteration_law H"
  shows "set (iter_strings H xs) = set xs" "set (iter_txids H ys) = set ys"
    "set (iter_outpoints H zs) = set zs" "set (iter_type_counts H cs) = set cs"
    "set (iter_transactions H ts) = set ts"
  using assms unfolding iteration_law_def by (metis set_mset_mset)+

lemma iteration_law_distinct:
  assumes "iteration_law H"
  shows "distinct (iter_txids H ys) = distinct ys" "distinct (iter_outpoints H zs) = distinct zs"
  using assms unfolding iteration_law_def by (metis mset_eq_imp_distinct_iff)+

section \<open>Metrics\<close>

text \<open>The counters and gauges the daemon updates while it runs.\<close>

record metrics =
  runtime_requested_templates :: nat
  runtime_requested_blocks :: nat
  runtime_requested_mempool_transactions :: nat
  runtime_skipped_block_events :: nat
  runtime_templates_in_memory :: int
  stat_current_template_transactions :: int
  stat_current_template_coinbase_value :: int
  stat_current_template_sigops :: int
  stat_conflicting_transaction_sets :: nat
  stat_sanctioned_transactions :: nat
  error_rpc :: nat
  error_processing :: nat
  error_dbpool :: nat

definition log_processing_error :: "metrics \<Rightarrow> metrics" where
  "log_processing_error m = m\<lparr>error_processing := error_processing m + 1\<rparr>"

end
