(* ===== verification/Sample_Lib.thy ===== *)
theory Sample_Lib
  imports Daemon_Model
begin

text \<open>
  A concrete instance of the library parameters, with the documented laws proved for it. It
  shows that the hypotheses of the theorems can hold together and gives the witnesses
  something to compute with: ids are one byte (the lock time of the transaction), the script
  \<open>[1]\<close> pays the address \<open>''a''\<close> and the script \<open>[2]\<close> the address \<open>''b''\<close>, a serialized
  transaction is its id, the id and index of the output it spends, and its output script.
\<close>

fun bytes_rank :: "bytes \<Rightarrow> nat" where
  "bytes_rank [] = 0"
| "bytes_rank (b # bs) = unat b + 1 + 257 * bytes_rank bs"

definition sample_tx :: "byte \<Rightarrow> (byte \<times> nat) list \<Rightarrow> byte \<Rightarrow> transaction" where
  "sample_tx i spends addr =
     \<lparr>tx_version = 2, lock_time = unat i,
      tx_input = map (\<lambda>(p, v). \<lparr>previous_output = \<lparr>op_txid = [p], op_vout = v\<rparr>,
                                script_sig = [], sequence = 0, witness = []\<rparr>) spends,
      tx_output = [\<lparr>out_value = 5000, script_pubkey = [addr]\<rparr>]\<rparr>"

fun sample_deserialize :: "bytes \<Rightarrow> transaction option" where
  "sample_deserialize [i, p, v, a] = Some (sample_tx i [(p, unat v)] a)"
| "sample_deserialize _ = None"

fun sample_locktime_gt :: "locktime \<Rightarrow> locktime \<Rightarrow> bool" where
  "sample_locktime_gt (Blocks a) (Blocks b) = (b < a)"
| "sample_locktime_gt (Seconds a) (Seconds b) = (b < a)"
| "sample_locktime_gt _ _ = False"

definition sample_lib :: lib where
  "sample_lib =
     \<lparr>compute_txid = (\<lambda>tx. [word_of_nat (lock_time tx)]),
      tx_vsize = (\<lambda>tx. 250),
      tx_weight = (\<lambda>tx. 1000),
      is_coinbase = (\<lambda>tx. tx_input tx = []),
      is_lock_time_enabled = (\<lambda>tx. True),
      address_from_script = (\<lambda>s. if s = [1] then Some ''a'' else if s = [2] then Some ''b'' else None),
      is_op_return = (\<lambda>s. s = [106]),
      txid_rank = bytes_rank,
      is_block_height = (\<lambda>l. case l of Blocks h \<Rightarrow> True | Seconds t \<Rightarrow> False),
      is_block_time = (\<lambda>l. case l of Blocks h \<Rightarrow> False | Seconds t \<Rightarrow> True),
      locktime_from_consensus = (\<lambda>n. if n < 500000000 then Blocks n else Seconds n),
      locktime_gt = sample_locktime_gt,
      block_hash_of = (\<lambda>b. [word_of_nat (header_time (header b))]),
      block_weight_of = (\<lambda>b. 1000 * length (txdata b)),
      bip34_block_height = (\<lambda>b. Some 800000),
      is_signalling_soft_fork = (\<lambda>v bit. False),
      deserialize_tx = sample_deserialize,
      raw_tx_info_new = (\<lambda>tx. if tx_version tx = 0 then Inl (RawTxInfoError ''unknown script'')
         else Inr \<lparr>raw_vsize = 250, raw_locktime = Seconds 1700000000,
                   in_types = map (\<lambda>i. 1) (tx_input tx), out_types = map (\<lambda>i. 1) (tx_output tx)\<rparr>),
      tx_sigops = (\<lambda>tx. Some 4),
      reveals_inscription = (\<lambda>i. Some False),
      is_p2ms_counterparty = (\<lambda>tx. False),
      is_opreturn_counterparty = (\<lambda>tx. False),
      is_p2sh_counterparty = (\<lambda>tx. False),
      has_non_opreturn_output_smaller_than = (\<lambda>r n. False),
      output_value_sum = (\<lambda>r. 5000),
      is_spending_segwit = (\<lambda>r. True),
      is_spending_taproot = (\<lambda>r. False),
      is_spending_multisig = (\<lambda>r. False),
      is_signaling_explicit_rbf = (\<lambda>r. False),
      potentially_coinjoin = (\<lambda>r. False),
      potentially_consolidation = (\<lambda>r. False),
      input_type_p2pk = 2,
      input_type_p2ms = 3,
      output_type_p2pk = 2,
      output_type_p2ms = 3,
      show_input_type = (\<lambda>t. ''P2WPKH''),
      show_output_type = (\<lambda>t. ''P2WPKH''),
      identify_pool = (\<lambda>n ps b. None),
      from_timestamp = (\<lambda>t. if \<bar>t\<bar> < 8210266876800 then Some t else None)\<rparr>"

definition sample_iter :: hash_iter where
  "sample_iter =
     \<lparr>iter_strings = rev, iter_txids = rev, iter_outpoints = rev,
      iter_type_counts = rev, iter_transactions = rev\<rparr>"

definition sample_info :: "byte \<Rightarrow> (byte \<times> nat) list \<Rightarrow> byte \<Rightarrow> tx_info" where
  "sample_info i spends addr = \<lparr>ti_txid = [i], ti_tx = sample_tx i spends addr, ti_pos = 0, ti_fee = 300000\<rparr>"

definition sample_row :: "byte \<Rightarrow> int list \<Rightarrow> db_transaction" where
  "sample_row i tgs = \<lparr>t_txid = [i], t_sanctioned = False, t_vsize = 250, t_fee = 1, t_output_sum = 1,
     t_tags = tgs, t_input_count = 1, t_inputs = [], t_output_count = 1, t_outputs = [], t_sigops = 0\<rparr>"

definition sample_block :: "transaction list \<Rightarrow> block" where
  "sample_block txs = \<lparr>header = \<lparr>header_version = 4, prev_blockhash = [9], header_time = 1700000000\<rparr>, txdata = txs\<rparr>"

definition sample_metrics :: metrics where
  "sample_metrics =
     \<lparr>runtime_requested_templates = 0, runtime_requested_blocks = 0,
      runtime_requested_mempool_transactions = 0, runtime_skipped_block_events = 0,
      runtime_templates_in_memory = 0, stat_current_template_transactions = 0,
      stat_current_template_coinbase_value = 0, stat_current_template_sigops = 0,
      stat_conflicting_transaction_sets = 0, stat_sanctioned_transactions = 0,
      error_rpc = 0, error_processing = 0, error_dbpool = 0\<rparr>"

lemma sample_iteration_law: "iteration_law sample_iter"
  by (simp add: iteration_law_def sample_iter_def)

lemma sample_locktime_law: "locktime_law sample_lib"
  by (simp add: locktime_law_def sample_lib_def)

lemma bytes_rank_inj: "bytes_rank a = bytes_rank b \<Longrightarrow> a = b"
proof (induction a arbitrary: b)
  case Nil
  then show ?case by (cases b) auto
next
  case (Cons x xs)
  then obtain y ys where b: "b = y # ys" by (cases b) auto
  have x: "unat x < 256" "unat y < 256"
    using unsigned_less [of x, where ?'a = nat] unsigned_less [of y, where ?'a = nat] by simp_all
  from Cons.prems b have eq: "unat x + 1 + 257 * bytes_rank xs = unat y + 1 + 257 * bytes_rank ys"
    by simp
  then have "(unat x + 1) mod 257 = (unat y + 1) mod 257"
    by (metis mod_mult_self2)
  with x have u: "unat x = unat y" by simp
  then have "x = y" by (simp add: word_unat_eq_iff)
  with eq Cons.IH b u show ?case by simp
qed

lemma sample_txid_order_law: "txid_order_law sample_lib"
  by (auto simp: txid_order_law_def sample_lib_def inj_def dest: bytes_rank_inj)

lemmas sample_laws = sample_iteration_law sample_locktime_law sample_txid_order_law

end
