(* ===== verification/Packages.thy ===== *)
theory Packages
  imports Sample_Lib
begin

text \<open>
  Transaction packages (\<^verbatim>\<open>build_packages\<close> of \<^verbatim>\<open>daemon/src/processing.rs\<close>). The loop walks the
  transactions from the last to the first and either adds a transaction to the current package
  or starts a new one. The lemmas show that the result splits the list into consecutive,
  non-empty, linked and maximal runs, so the final assertion of the source never fails.
\<close>

section \<open>Definitions\<close>

text \<open>The ids of all transactions spent by the transactions of the current package.\<close>

definition package_parent_txids :: "tx_info list \<Rightarrow> txid list" where
  "package_parent_txids package_txns =
     fold (\<lambda>i txids. fold hs_insert (prev_output_txids i) txids) package_txns []"

definition joins_package :: "lib \<Rightarrow> txid list \<Rightarrow> tx_info list \<Rightarrow> tx_info \<Rightarrow> bool" where
  "joins_package L txids_in_txns package_txns i \<longleftrightarrow>
     (let parent_txids = package_parent_txids package_txns
      in compute_txid L (ti_tx i) \<in> set parent_txids \<or>
         list_ex (\<lambda>txid. txid \<in> set parent_txids)
           (filter (\<lambda>txid. txid \<in> set txids_in_txns) (prev_output_txids i)))"

definition package_step ::
  "lib \<Rightarrow> txid list \<Rightarrow> tx_info \<Rightarrow> tx_package list \<times> tx_info list \<Rightarrow> tx_package list \<times> tx_info list"
where
  "package_step L txids_in_txns i st =
     (let (packages, package_txns) = st
      in if package_txns = [] then (packages, package_txns @ [i])
         else if joins_package L txids_in_txns package_txns i then (packages, package_txns @ [i])
         else (packages @ [\<lparr>pkg_txns = package_txns\<rparr>], [i]))"

definition build_packages :: "lib \<Rightarrow> tx_info list \<Rightarrow> panic + tx_package list" where
  "build_packages L txns =
     (let txids_in_txns = hs_collect (map (\<lambda>i. compute_txid L (ti_tx i)) txns);
          (packages, package_txns) = fold (package_step L txids_in_txns) (rev txns) ([], []);
          packages = (if package_txns \<noteq> [] then packages @ [\<lparr>pkg_txns = package_txns\<rparr>] else packages);
          packages = rev packages;
          total_tx = sum_list (map (\<lambda>p. length (pkg_txns p)) packages)
      in if length txns = total_tx then Inr packages
         else Inl (AssertFailed ''build_packages''))"

section \<open>Specification\<close>

text \<open>Inside a package every transaction but the first visited joins the ones before it.\<close>

definition linked_package :: "lib \<Rightarrow> txid list \<Rightarrow> tx_info list \<Rightarrow> bool" where
  "linked_package L txids p \<longleftrightarrow>
     p \<noteq> [] \<and> (\<forall>ys x zs. p = ys @ x # zs \<and> ys \<noteq> [] \<longrightarrow> joins_package L txids ys x)"

text \<open>Between two packages that follow each other in visiting order there is no link.\<close>

fun split_where_unlinked :: "lib \<Rightarrow> txid list \<Rightarrow> tx_info list list \<Rightarrow> bool" where
  "split_where_unlinked L txids (p # q # ps) \<longleftrightarrow>
     \<not> joins_package L txids p (hd q) \<and> split_where_unlinked L txids (q # ps)"
| "split_where_unlinked L txids _ \<longleftrightarrow> True"

lemma package_parent_txids_set:
  "set (package_parent_txids ps) =
     (\<Union>i\<in>set ps. (\<lambda>inp. op_txid (previous_output inp)) ` set (tx_input (ti_tx i)))"
proof -
  have "set (fold (\<lambda>i txids. fold hs_insert (prev_output_txids i) txids) qs s) =
      set s \<union> (\<Union>i\<in>set qs. set (prev_output_txids i))" for qs :: "tx_info list" and s
  proof (induction qs arbitrary: s)
    case (Cons q qs)
    have "set (fold hs_insert xs s) = set s \<union> set xs" for xs and s :: "txid list"
      by (induction xs arbitrary: s) auto
    with Cons show ?case by (auto simp: Un_assoc)
  qed simp
  then show ?thesis by (simp add: package_parent_txids_def prev_output_txids_def)
qed

lemma joins_package_iff:
  "joins_package L txids p i \<longleftrightarrow>
     compute_txid L (ti_tx i) \<in> set (package_parent_txids p) \<or>
     (\<exists>inp\<in>set (tx_input (ti_tx i)). op_txid (previous_output inp) \<in> set txids \<and>
        op_txid (previous_output inp) \<in> set (package_parent_txids p))"
  by (auto simp: joins_package_def Let_def list_ex_iff prev_output_txids_def)

lemma linked_package_snoc:
  "linked_package L txids p \<Longrightarrow> joins_package L txids p i \<Longrightarrow> linked_package L txids (p @ [i])"
  unfolding linked_package_def
  by (auto simp: append_eq_append_conv2 append_eq_Cons_conv Cons_eq_append_conv)

lemma linked_package_single: "linked_package L txids [i]"
  by (simp add: linked_package_def append_eq_Cons_conv Cons_eq_append_conv)

lemma split_where_unlinked_snoc:
  "split_where_unlinked L txids (ps @ [p]) \<Longrightarrow> \<not> joins_package L txids p (hd q) \<Longrightarrow>
     split_where_unlinked L txids (ps @ [p, q])"
  by (induction L txids "ps @ [p]" arbitrary: ps rule: split_where_unlinked.induct)
    (auto simp: append_eq_Cons_conv Cons_eq_append_conv neq_Nil_conv split: list.splits)

lemma split_where_unlinked_extend:
  "split_where_unlinked L txids (ps @ [c]) \<Longrightarrow> c \<noteq> [] \<Longrightarrow>
     split_where_unlinked L txids (ps @ [c @ [i]])"
  by (induction L txids "ps @ [c]" arbitrary: ps rule: split_where_unlinked.induct)
    (auto simp: append_eq_Cons_conv Cons_eq_append_conv neq_Nil_conv split: list.splits)

section \<open>Loop invariant\<close>

definition package_inv ::
  "lib \<Rightarrow> txid list \<Rightarrow> tx_info list \<Rightarrow> tx_package list \<times> tx_info list \<Rightarrow> bool" where
  "package_inv L txids visited st \<longleftrightarrow>
     (let (packages, cur) = st; runs = map pkg_txns packages @ (if cur = [] then [] else [cur])
      in concat runs = visited \<and> (cur = [] \<longrightarrow> packages = []) \<and>
         (\<forall>p\<in>set runs. linked_package L txids p) \<and> split_where_unlinked L txids runs)"

lemma package_step_inv:
  assumes "package_inv L txids visited st"
  shows "package_inv L txids (visited @ [i]) (package_step L txids i st)"
proof -
  obtain packages cur where st: "st = (packages, cur)" by (cases st)
  consider (empty) "cur = []" | (join) "cur \<noteq> []" "joins_package L txids cur i"
    | (split) "cur \<noteq> []" "\<not> joins_package L txids cur i" by blast
  then show ?thesis
  proof cases
    case empty
    with assms st show ?thesis
      by (auto simp: package_inv_def package_step_def linked_package_single)
  next
    case join
    with assms st show ?thesis
      by (auto simp: package_inv_def package_step_def linked_package_snoc
          split_where_unlinked_extend)
  next
    case split
    with assms st show ?thesis
      by (auto simp: package_inv_def package_step_def linked_package_single split_where_unlinked_snoc)
  qed
qed

lemma package_fold_inv:
  "package_inv L txids visited st \<Longrightarrow>
     package_inv L txids (visited @ xs) (fold (package_step L txids) xs st)"
proof (induction xs arbitrary: visited st)
  case (Cons x xs)
  from Cons.IH [OF package_step_inv [OF Cons.prems, of x]] show ?case by simp
qed simp

text \<open>The runs the loop produces, in visiting order.\<close>

lemma build_packages_runs:
  fixes L :: lib and txns :: "tx_info list"
  defines "txids \<equiv> map (\<lambda>i. compute_txid L (ti_tx i)) txns"
  shows "\<exists>pkgs. build_packages L txns = Inr pkgs \<and>
     concat (map (\<lambda>p. rev (pkg_txns p)) pkgs) = txns \<and>
     (\<forall>p\<in>set pkgs. linked_package L (hs_collect txids) (pkg_txns p)) \<and>
     split_where_unlinked L (hs_collect txids) (map pkg_txns (rev pkgs))"
proof -
  let ?ids = "hs_collect txids"
  obtain packages cur where st: "fold (package_step L ?ids) (rev txns) ([], []) = (packages, cur)"
    by fastforce
  have "package_inv L ?ids ([] @ rev txns) (packages, cur)"
    unfolding st [symmetric] by (rule package_fold_inv) (simp add: package_inv_def)
  then have inv: "package_inv L ?ids (rev txns) (packages, cur)" by simp
  define runs where "runs = packages @ (if cur \<noteq> [] then [\<lparr>pkg_txns = cur\<rparr>] else [])"
  have runs: "map pkg_txns runs = map pkg_txns packages @ (if cur = [] then [] else [cur])"
    by (simp add: runs_def)
  from inv have con: "concat (map pkg_txns runs) = rev txns"
    and lin: "\<forall>p\<in>set runs. linked_package L ?ids (pkg_txns p)"
    and spl: "split_where_unlinked L ?ids (map pkg_txns runs)"
    unfolding package_inv_def Let_def prod.case runs [symmetric] by auto
  have cat: "concat (map (\<lambda>p. rev (pkg_txns p)) (rev runs)) = txns"
    using con by (metis (no_types, lifting) rev_concat rev_map rev_rev_ident map_map comp_apply map_eq_conv)
  then have "length txns = sum_list (map (\<lambda>p. length (pkg_txns p)) (rev runs))"
    by (metis (no_types, lifting) length_concat length_rev map_map comp_apply map_eq_conv)
  then have "build_packages L txns = Inr (rev runs)"
    by (simp add: build_packages_def Let_def st runs_def flip: txids_def)
  with cat lin spl show ?thesis by (intro exI [of _ "rev runs"]) simp
qed

text \<open>Two neighbours of a concatenation lie in one part, or end one and begin the next.\<close>

lemma concat_neighbours:
  assumes "concat rs = as @ c # p # bs" "[] \<notin> set rs"
  shows "(\<exists>r\<in>set rs. c \<in> set r \<and> p \<in> set r) \<or>
    (\<exists>us r q vs. rs = us @ r # q # vs \<and> c \<in> set r \<and> hd q = p)"
  using assms
proof (induction rs arbitrary: "as")
  case Nil
  then show ?case by simp
next
  case (Cons r rs)
  then have eq: "r @ concat rs = as @ c # p # bs" by simp
  consider (later) us where "as = r @ us" "concat rs = us @ c # p # bs"
    | (boundary) "r = as @ [c]" "concat rs = p # bs"
    | (inside) vs where "r = as @ c # p # vs"
    using eq by (auto simp: append_eq_append_conv2 append_eq_Cons_conv Cons_eq_append_conv)
  then show ?case
  proof cases
    case later
    with Cons.IH [OF later(2)] Cons.prems(2) show ?thesis by (metis append_Cons list.set_intros(2))
  next
    case boundary
    then obtain q vs where rs: "rs = q # vs" by (cases rs) auto
    moreover have "hd q = p" using boundary(2) rs Cons.prems(2) by (cases q) auto
    ultimately show ?thesis using boundary(1) by (metis append_Nil in_set_conv_decomp)
  next
    case inside
    then show ?thesis by auto
  qed
qed

lemma split_where_unlinked_neighbours:
  "split_where_unlinked L txids (us @ r # q # vs) \<Longrightarrow> \<not> joins_package L txids r (hd q)"
  by (induction us) (auto simp: neq_Nil_conv, metis append_Nil list.exhaust split_where_unlinked.simps(1) append_Cons)

section \<open>Properties\<close>

text \<open>C8: Building packages never fails its final assertion. The packages, each read in reverse,
  make up the list of transactions again in order, none is empty, and the package weights add up
  to the weights of the transactions.\<close>

theorem packages_partition:
  "\<exists>pkgs. build_packages L txns = Inr pkgs \<and>
     concat (map (\<lambda>p. rev (pkg_txns p)) pkgs) = txns \<and> [] \<notin> pkg_txns ` set pkgs \<and>
     sum_list (map (pkg_weight L) pkgs) mod 2 ^ 64 = sum_list (map (\<lambda>i. tx_weight L (ti_tx i)) txns) mod 2 ^ 64"
proof -
  obtain pkgs where pk: "build_packages L txns = Inr pkgs" "concat (map (\<lambda>p. rev (pkg_txns p)) pkgs) = txns"
    "\<forall>p\<in>set pkgs. linked_package L (hs_collect (map (\<lambda>i. compute_txid L (ti_tx i)) txns)) (pkg_txns p)"
    using build_packages_runs [of L txns] by blast
  have "sum_list (map (pkg_weight L) ps) mod 2 ^ 64 =
      sum_list (map (\<lambda>i. tx_weight L (ti_tx i)) (concat (map (\<lambda>p. rev (pkg_txns p)) ps))) mod 2 ^ 64"
    for ps :: "tx_package list"
  proof (induction ps)
    case (Cons p ps)
    have "pkg_weight L p = sum_list (map (\<lambda>i. tx_weight L (ti_tx i)) (rev (pkg_txns p))) mod 2 ^ 64"
      by (simp add: pkg_weight_def sum_u64_def flip: rev_map)
    with Cons show ?case
      by (simp only: list.map sum_list.Cons concat.simps map_append sum_list_append) (metis mod_add_eq mod_mod_trivial)
  qed simp
  with pk show ?thesis by (auto simp: linked_package_def)
qed

text \<open>A transaction that directly follows one of its parents is in the same package as the
  parent.\<close>

theorem parent_before_child_same_package:
  assumes "txns = us @ parent # child # vs"
    and "compute_txid L (ti_tx parent) \<in> set (prev_output_txids child)"
  shows "\<exists>pkgs. build_packages L txns = Inr pkgs \<and>
    (\<exists>p\<in>set pkgs. parent \<in> set (pkg_txns p) \<and> child \<in> set (pkg_txns p))"
proof -
  let ?ids = "hs_collect (map (\<lambda>i. compute_txid L (ti_tx i)) txns)"
  obtain pkgs where pk: "build_packages L txns = Inr pkgs" "concat (map (\<lambda>p. rev (pkg_txns p)) pkgs) = txns"
    "\<forall>p\<in>set pkgs. linked_package L ?ids (pkg_txns p)"
    and split: "split_where_unlinked L ?ids (map pkg_txns (rev pkgs))"
    using build_packages_runs [of L txns] by blast
  have "concat (map pkg_txns (rev pkgs)) = rev txns"
    unfolding pk(2) [symmetric] by (simp add: rev_concat rev_map comp_def)
  then have cat: "concat (map pkg_txns (rev pkgs)) = rev vs @ child # parent # rev us"
    using assms(1) by simp
  have "[] \<notin> set (map pkg_txns (rev pkgs))" using pk(3) by (auto simp: linked_package_def)
  from concat_neighbours [OF cat this] show ?thesis
  proof
    assume "\<exists>r\<in>set (map pkg_txns (rev pkgs)). child \<in> set r \<and> parent \<in> set r"
    with pk(1) show ?thesis by auto
  next
    assume "\<exists>us r q vs. map pkg_txns (rev pkgs) = us @ r # q # vs \<and> child \<in> set r \<and> hd q = parent"
    then obtain us r q vs where eq: "map pkg_txns (rev pkgs) = us @ r # q # vs"
      and r: "child \<in> set r" "hd q = parent" by blast
    from split_where_unlinked_neighbours [OF split [unfolded eq]]
    have "compute_txid L (ti_tx parent) \<notin> set (package_parent_txids r)"
      using r(2) by (simp add: joins_package_iff)
    with assms(2) r(1) have False by (auto simp: package_parent_txids_set prev_output_txids_def)
    then show ?thesis ..
  qed
qed

theorem parent_before_child_same_package_witness:
  "\<exists>pkgs. build_packages sample_lib [sample_info 7 [(3, 0)] 1, sample_info 8 [(7, 0)] 2] = Inr pkgs \<and>
    (\<exists>p\<in>set pkgs. sample_info 7 [(3, 0)] 1 \<in> set (pkg_txns p) \<and> sample_info 8 [(7, 0)] 2 \<in> set (pkg_txns p))"
  by (rule parent_before_child_same_package [where us = "[]" and vs = "[]"])
    (simp_all add: sample_lib_def sample_info_def sample_tx_def prev_output_txids_def)


end
