(* ===== verification/Sanctions.thy ===== *)
theory Sanctions
  imports Sample_Lib "HOL-Library.Char_ord" "HOL-Library.List_Lexorder"
begin

text \<open>
  Detection of transactions to and from sanctioned addresses: the address and UTXO lookups at
  the head of \<^verbatim>\<open>daemon/src/processing.rs\<close>, the creation of sanctioned UTXO rows, and the count
  of sanctioned transactions that a block misses. The lemmas characterise the detected
  addresses and show that a spend of a recorded UTXO is detected.
\<close>

type_synonym utxo_map = "(bytes \<times> nat, sanctioned_utxo) hash_map"

section \<open>Definitions\<close>

definition build_outpoint_to_sanctioned_utxo_map :: "sanctioned_utxo list \<Rightarrow> utxo_map" where
  "build_outpoint_to_sanctioned_utxo_map sanctioned_utxos =
     hm_collect (map (\<lambda>utxo. ((rev (su_txid utxo), as_u32 (su_vout utxo)), utxo)) sanctioned_utxos)"

definition is_tx_to_sanctioned :: "lib \<Rightarrow> transaction \<Rightarrow> string list \<Rightarrow> bool" where
  "is_tx_to_sanctioned L tx sanctioned_addresses =
     list_ex (\<lambda>out. case address_from_script L (script_pubkey out) of
                      Some address \<Rightarrow> address \<in> set sanctioned_addresses
                    | None \<Rightarrow> False) (tx_output tx)"

definition outpoint_key :: "outpoint \<Rightarrow> bytes \<times> nat" where
  "outpoint_key op = (op_txid op, op_vout op)"

definition is_tx_from_sanctioned :: "transaction \<Rightarrow> utxo_map \<Rightarrow> bool" where
  "is_tx_from_sanctioned tx utxos =
     list_ex (\<lambda>op. hm_get utxos (outpoint_key op) \<noteq> None) (map previous_output (tx_input tx))"

definition is_tx_sanctioned :: "lib \<Rightarrow> transaction \<Rightarrow> utxo_map \<Rightarrow> string list \<Rightarrow> bool" where
  "is_tx_sanctioned L tx utxos sanctioned_addresses \<longleftrightarrow>
     is_tx_to_sanctioned L tx sanctioned_addresses \<or> is_tx_from_sanctioned tx utxos"

definition tx_sanctioned_addresses_to ::
  "lib \<Rightarrow> hash_iter \<Rightarrow> transaction \<Rightarrow> string list \<Rightarrow> string list" where
  "tx_sanctioned_addresses_to L H tx sanctioned_addresses =
     iter_strings H
       (fold (\<lambda>out addresses.
                case address_from_script L (script_pubkey out) of
                  Some address \<Rightarrow> if address \<in> set sanctioned_addresses
                                  then hs_insert address addresses else addresses
                | None \<Rightarrow> addresses) (tx_output tx) [])"

definition tx_sanctioned_addresses_from ::
  "lib \<Rightarrow> hash_iter \<Rightarrow> transaction \<Rightarrow> utxo_map \<Rightarrow> string list" where
  "tx_sanctioned_addresses_from L H tx utxos =
     iter_strings H
       (fold (\<lambda>inp addresses.
                case hm_get utxos (outpoint_key (previous_output inp)) of
                  Some utxo \<Rightarrow>
                    (case address_from_script L (su_script_pubkey utxo) of
                       Some address \<Rightarrow> hs_insert address addresses
                     | None \<Rightarrow> addresses)
                | None \<Rightarrow> addresses) (tx_input tx) [])"

definition tx_sanctioned_addresses ::
  "lib \<Rightarrow> hash_iter \<Rightarrow> transaction \<Rightarrow> utxo_map \<Rightarrow> string list \<Rightarrow> string list" where
  "tx_sanctioned_addresses L H tx utxos sanctioned_addresses =
     remdups_adj (sort (tx_sanctioned_addresses_to L H tx sanctioned_addresses @
                        tx_sanctioned_addresses_from L H tx utxos))"

definition new_sanctioned_utxo ::
  "lib \<Rightarrow> block \<Rightarrow> transaction \<Rightarrow> nat \<Rightarrow> tx_out \<Rightarrow> sanctioned_utxo" where
  "new_sanctioned_utxo L blk tx vout out =
     \<lparr>su_txid = rev (compute_txid L tx),
      su_vout = as_i32 (int vout),
      su_script_pubkey = script_pubkey out,
      su_amount = as_i64 (int (out_value out)),
      su_height = as_i32 (int (case bip34_block_height L blk of Some h \<Rightarrow> h | None \<Rightarrow> 0))\<rparr>"

definition build_newly_created_sanctioned_utxos ::
  "lib \<Rightarrow> block \<Rightarrow> string list \<Rightarrow> sanctioned_utxo list" where
  "build_newly_created_sanctioned_utxos L blk sanctioned_addresses =
     concat (map (\<lambda>tx.
       List.map_filter (\<lambda>(vout, out).
         case address_from_script L (script_pubkey out) of
           Some address \<Rightarrow>
             if address \<in> set sanctioned_addresses
             then Some (new_sanctioned_utxo L blk tx vout out) else None
         | None \<Rightarrow> None)
       (List.enumerate 0 (tx_output tx)))
     (filter (\<lambda>tx. is_tx_to_sanctioned L tx sanctioned_addresses) (txdata blk)))"

text \<open>The count panics where the id is not a key of the template's map.\<close>

definition get_sanctioned_missing_tx_count ::
  "lib \<Rightarrow> txid list \<Rightarrow> template_tx_data \<Rightarrow> utxo_map \<Rightarrow> string list \<Rightarrow> panic + nat" where
  "get_sanctioned_missing_tx_count L txids_only_in_template data utxos sanctioned_addresses =
     fold_res (\<lambda>txid n.
       case hm_get (td_txid_to_txinfo_map data) txid of
         None \<Rightarrow> Inl (UnwrapNone ''get_sanctioned_missing_tx_count'')
       | Some i \<Rightarrow> Inr (if is_tx_sanctioned L (ti_tx i) utxos sanctioned_addresses then n + 1 else n))
     txids_only_in_template 0"

section \<open>What is detected\<close>

text \<open>The addresses a transaction touches, as mathematical sets.\<close>

definition paid_addresses :: "lib \<Rightarrow> transaction \<Rightarrow> string set" where
  "paid_addresses L tx =
     {a. \<exists>out\<in>set (tx_output tx). address_from_script L (script_pubkey out) = Some a}"

definition spent_sanctioned_addresses :: "lib \<Rightarrow> transaction \<Rightarrow> utxo_map \<Rightarrow> string set" where
  "spent_sanctioned_addresses L tx utxos =
     {a. \<exists>inp\<in>set (tx_input tx). \<exists>u. hm_get utxos (outpoint_key (previous_output inp)) = Some u \<and>
           address_from_script L (su_script_pubkey u) = Some a}"

lemma is_tx_to_sanctioned_iff:
  "is_tx_to_sanctioned L tx addrs \<longleftrightarrow> paid_addresses L tx \<inter> set addrs \<noteq> {}"
  by (fastforce simp: is_tx_to_sanctioned_def paid_addresses_def list_ex_iff split: option.splits)

lemma is_tx_from_sanctioned_iff:
  "is_tx_from_sanctioned tx utxos \<longleftrightarrow>
     (\<exists>inp\<in>set (tx_input tx). outpoint_key (previous_output inp) \<in> dom (hm_get utxos))"
  by (auto simp: is_tx_from_sanctioned_def list_ex_iff dom_def)

lemma tx_sanctioned_addresses_to_set:
  assumes "iteration_law H"
  shows "set (tx_sanctioned_addresses_to L H tx addrs) = paid_addresses L tx \<inter> set addrs"
proof -
  have "set (fold (\<lambda>out addresses.
      case address_from_script L (script_pubkey out) of
        Some address \<Rightarrow> if address \<in> set addrs then hs_insert address addresses else addresses
      | None \<Rightarrow> addresses) outs acc) =
    set acc \<union> ({a. \<exists>out\<in>set outs. address_from_script L (script_pubkey out) = Some a} \<inter> set addrs)"
    for outs :: "tx_out list" and acc
    by (induction outs arbitrary: acc) (auto split: option.splits)
  then show ?thesis
    by (simp add: tx_sanctioned_addresses_to_def iteration_law_sets [OF assms] paid_addresses_def)
qed

lemma tx_sanctioned_addresses_from_set:
  assumes "iteration_law H"
  shows "set (tx_sanctioned_addresses_from L H tx utxos) = spent_sanctioned_addresses L tx utxos"
proof -
  have "set (fold (\<lambda>inp addresses.
      case hm_get utxos (outpoint_key (previous_output inp)) of
        Some utxo \<Rightarrow> (case address_from_script L (su_script_pubkey utxo) of
             Some address \<Rightarrow> hs_insert address addresses
           | None \<Rightarrow> addresses)
      | None \<Rightarrow> addresses) ins acc) =
    set acc \<union> {a. \<exists>inp\<in>set ins. \<exists>u. hm_get utxos (outpoint_key (previous_output inp)) = Some u \<and>
           address_from_script L (su_script_pubkey u) = Some a}"
    for ins :: "tx_in list" and acc
    by (induction ins arbitrary: acc) (auto split: option.splits)
  then show ?thesis
    by (simp add: tx_sanctioned_addresses_from_def iteration_law_sets [OF assms]
        spent_sanctioned_addresses_def)
qed

lemma build_map_dom:
  "dom (hm_get (build_outpoint_to_sanctioned_utxo_map us)) =
     (\<lambda>u. (rev (su_txid u), as_u32 (su_vout u))) ` set us"
  by (simp add: build_outpoint_to_sanctioned_utxo_map_def dom_map_of_conv_image_fst image_image
      flip: rev_map)

lemma build_newly_created_iff:
  "u \<in> set (build_newly_created_sanctioned_utxos L blk addrs) \<longleftrightarrow>
     (\<exists>tx\<in>set (txdata blk). \<exists>vout < length (tx_output tx). \<exists>a\<in>set addrs.
        address_from_script L (script_pubkey (tx_output tx ! vout)) = Some a \<and>
        u = new_sanctioned_utxo L blk tx vout (tx_output tx ! vout))"
    (is "?L \<longleftrightarrow> ?R")
proof
  assume ?L
  then show ?R
    by (force simp: build_newly_created_sanctioned_utxos_def map_filter_def in_set_enumerate_eq
        split: option.splits if_splits)
next
  assume ?R
  then obtain tx vout a where *: "tx \<in> set (txdata blk)" "vout < length (tx_output tx)" "a \<in> set addrs"
    "address_from_script L (script_pubkey (tx_output tx ! vout)) = Some a"
    and u: "u = new_sanctioned_utxo L blk tx vout (tx_output tx ! vout)" by blast
  have to: "is_tx_to_sanctioned L tx addrs"
    unfolding is_tx_to_sanctioned_def list_ex_iff
    using * by (intro bexI [of _ "tx_output tx ! vout"]) auto
  have mem: "(vout, tx_output tx ! vout) \<in> set (List.enumerate 0 (tx_output tx))"
    using *(2) by (simp add: in_set_enumerate_eq)
  show ?L
    unfolding build_newly_created_sanctioned_utxos_def map_filter_def
    using * to mem u by (force intro!: image_eqI [of _ _ "(vout, tx_output tx ! vout)"])
qed

lemma sorted_remdups_adj_distinct: "sorted xs \<Longrightarrow> distinct (remdups_adj xs)"
  by (induction xs rule: remdups_adj.induct) (auto simp: order_le_less)

lemma tx_sanctioned_addresses_set:
  assumes "iteration_law H"
  shows "set (tx_sanctioned_addresses L H tx utxos addrs) =
    (paid_addresses L tx \<inter> set addrs) \<union> spent_sanctioned_addresses L tx utxos"
  by (simp add: tx_sanctioned_addresses_def tx_sanctioned_addresses_to_set [OF assms]
      tx_sanctioned_addresses_from_set [OF assms])

text \<open>With unique keys, as the primary key of the table guarantees, a stored row is found again.\<close>

lemma build_map_get:
  assumes "u \<in> set us" "distinct (map (\<lambda>u. (rev (su_txid u), as_u32 (su_vout u))) us)"
  shows "hm_get (build_outpoint_to_sanctioned_utxo_map us) (rev (su_txid u), as_u32 (su_vout u)) = Some u"
proof -
  have "distinct (map fst (rev (map (\<lambda>u. ((rev (su_txid u), as_u32 (su_vout u)), u)) us)))"
    using assms(2) by (simp add: rev_map comp_def flip: rev_map)
  from map_of_is_SomeI [OF this] assms(1) show ?thesis
    by (simp add: build_outpoint_to_sanctioned_utxo_map_def)
qed

lemma missing_count_fold:
  "fold_res (\<lambda>txid n. case hm_get m txid of
       None \<Rightarrow> Inl e | Some i \<Rightarrow> Inr (if P i then n + 1 else n)) txids n =
     (if set txids \<subseteq> dom (hm_get m)
      then Inr (n + length (filter (\<lambda>txid. P (the (hm_get m txid))) txids)) else Inl e)"
  for n :: nat
  by (induction txids arbitrary: n) (auto simp: domIff split: option.splits)

section \<open>Properties\<close>

text \<open>C22: The reported addresses of a transaction are exactly the sanctioned addresses it pays to
  together with the addresses of the sanctioned outputs it spends, sorted and without duplicates,
  so they do not depend on the iteration order of the hash sets.\<close>

theorem sanctioned_addresses_exact:
  assumes "iteration_law H"
  shows "tx_sanctioned_addresses L H tx utxos addrs =
    sorted_list_of_set ((paid_addresses L tx \<inter> set addrs) \<union> spent_sanctioned_addresses L tx utxos)"
proof -
  let ?r = "tx_sanctioned_addresses L H tx utxos addrs"
  have "sorted ?r" "distinct ?r"
    by (simp_all add: tx_sanctioned_addresses_def sorted_remdups_adj sorted_remdups_adj_distinct)
  then have "sorted_list_of_set (set ?r) = ?r"
    by (metis sorted_list_of_set_sort_remdups distinct_remdups_id sorted_sort_id)
  with tx_sanctioned_addresses_set [OF assms, of L tx utxos addrs] show ?thesis by simp
qed

theorem sanctioned_addresses_exact_witness:
  "tx_sanctioned_addresses sample_lib sample_iter (sample_tx 7 [(3, 0)] 1) [] [''a''] = [''a''] \<and>
   tx_sanctioned_addresses sample_lib sample_iter (sample_tx 7 [(3, 0)] 1) [] [''a''] =
   sorted_list_of_set ((paid_addresses sample_lib (sample_tx 7 [(3, 0)] 1) \<inter> set [''a'']) \<union>
      spent_sanctioned_addresses sample_lib (sample_tx 7 [(3, 0)] 1) [])"
proof
  show "tx_sanctioned_addresses sample_lib sample_iter (sample_tx 7 [(3, 0)] 1) [] [''a''] = [''a'']"
    by (simp add: tx_sanctioned_addresses_def tx_sanctioned_addresses_to_def
        tx_sanctioned_addresses_from_def sample_lib_def sample_iter_def sample_tx_def hs_insert_def)
qed (rule sanctioned_addresses_exact [OF sample_iteration_law])

text \<open>C15: An output that a block pays to a sanctioned address is recorded such that any later
  transaction spending it is detected: if the rows built for the block are among the stored rows,
  whose keys are unique, then the spending transaction counts as coming from a sanctioned address
  and that address is among its reported addresses. The output index survives its storage as a
  signed 32-bit integer.\<close>

theorem recorded_utxo_spend_is_detected:
  assumes "iteration_law H" "tx \<in> set (txdata blk)" "vout < length (tx_output tx)" "vout < 2 ^ 32"
    and "address_from_script L (script_pubkey (tx_output tx ! vout)) = Some a" "a \<in> set addrs"
    and "set (build_newly_created_sanctioned_utxos L blk addrs) \<subseteq> set us"
    and "distinct (map (\<lambda>u. (rev (su_txid u), as_u32 (su_vout u))) us)"
    and "\<lparr>op_txid = compute_txid L tx, op_vout = vout\<rparr> \<in> previous_output ` set (tx_input spender)"
  shows "is_tx_from_sanctioned spender (build_outpoint_to_sanctioned_utxo_map us) \<and>
    a \<in> set (tx_sanctioned_addresses L H spender (build_outpoint_to_sanctioned_utxo_map us) addrs)"
proof -
  let ?u = "new_sanctioned_utxo L blk tx vout (tx_output tx ! vout)"
  let ?op = "\<lparr>op_txid = compute_txid L tx, op_vout = vout\<rparr>"
  have "?u \<in> set (build_newly_created_sanctioned_utxos L blk addrs)"
    unfolding build_newly_created_iff using assms(2,3,5,6) by blast
  then have u: "?u \<in> set us" using assms(7) by blast
  have "(rev (su_txid ?u), as_u32 (su_vout ?u)) = outpoint_key ?op"
    using assms(4) by (simp add: new_sanctioned_utxo_def outpoint_key_def as_u32_as_i32)
  with build_map_get [OF u assms(8)]
  have get: "hm_get (build_outpoint_to_sanctioned_utxo_map us) (outpoint_key ?op) = Some ?u" by simp
  moreover have "address_from_script L (su_script_pubkey ?u) = Some a"
    using assms(5) by (simp add: new_sanctioned_utxo_def)
  ultimately show ?thesis
    using assms(9) unfolding tx_sanctioned_addresses_set [OF assms(1)]
    by (auto simp: is_tx_from_sanctioned_iff spent_sanctioned_addresses_def intro!: bexI)
qed

theorem recorded_utxo_spend_is_detected_witness:
  "is_tx_from_sanctioned (sample_tx 8 [(7, 0)] 2)
     (build_outpoint_to_sanctioned_utxo_map
        (build_newly_created_sanctioned_utxos sample_lib (sample_block [sample_tx 7 [] 1]) [''a'']))"
proof -
  let ?us = "build_newly_created_sanctioned_utxos sample_lib (sample_block [sample_tx 7 [] 1]) [''a'']"
  have us: "?us = [new_sanctioned_utxo sample_lib (sample_block [sample_tx 7 [] 1]) (sample_tx 7 [] 1) 0
      \<lparr>out_value = 5000, script_pubkey = [1]\<rparr>]"
    by (simp add: build_newly_created_sanctioned_utxos_def sample_lib_def sample_block_def sample_tx_def
        is_tx_to_sanctioned_def map_filter_def)
  have "distinct (map (\<lambda>u. (rev (su_txid u), as_u32 (su_vout u))) ?us)" by (simp add: us)
  then have "is_tx_from_sanctioned (sample_tx 8 [(7, 0)] 2) (build_outpoint_to_sanctioned_utxo_map ?us) \<and>
      ''a'' \<in> set (tx_sanctioned_addresses sample_lib sample_iter (sample_tx 8 [(7, 0)] 2)
        (build_outpoint_to_sanctioned_utxo_map ?us) [''a''])"
    by (intro recorded_utxo_spend_is_detected [OF sample_iteration_law,
          where tx = "sample_tx 7 [] 1" and vout = 0 and blk = "sample_block [sample_tx 7 [] 1]"])
      (simp_all add: sample_block_def sample_tx_def sample_lib_def)
  then show ?thesis by blast
qed


end
