(* ===== verification/Shared_Tags.thy ===== *)
theory Shared_Tags
  imports Obs_Prelude
begin

text \<open>
  The transaction and block tags of \<^verbatim>\<open>shared/src/tags.rs\<close>: the thresholds, the tag enums with
  their database values, the partial conversions back from the database, and the display
  data of each tag. The lemmas show that the conversions are inverse to each other, that the
  published tag lists are complete, and how the colours follow the numbering scheme.
\<close>

section \<open>Thresholds\<close>

definition COIN :: nat where "COIN = 100000000"
definition SIGOP_LIMIT :: nat where "SIGOP_LIMIT = 80000"
definition THRESHOLD_TRANSACTION_CONSIDERED_LARGE :: nat where
  "THRESHOLD_TRANSACTION_CONSIDERED_LARGE = 2500"
definition THRESHOLD_FEERATE_CONSIDERED_HIGH :: nat where
  "THRESHOLD_FEERATE_CONSIDERED_HIGH = 1000"
definition THRESHOLD_OUTPUT_CONSIDERED_DUST :: nat where
  "THRESHOLD_OUTPUT_CONSIDERED_DUST = 1000"
definition THRESHOLD_VALUE_CONSIDERED_HIGH :: nat where
  "THRESHOLD_VALUE_CONSIDERED_HIGH = 100 * COIN"
definition THRESHOLD_TRANSACTION_CONSIDERED_YOUNG :: nat where
  "THRESHOLD_TRANSACTION_CONSIDERED_YOUNG = 90"
definition THRESHOLD_SIGOPS_CONSIDERED_MANY :: nat where
  "THRESHOLD_SIGOPS_CONSIDERED_MANY = 1000"
definition THRESHOLD_SIGOP_LIMIT_CLOSE :: nat where
  "THRESHOLD_SIGOP_LIMIT_CLOSE = 70000"

section \<open>Tag data\<close>

type_synonym bootstrap_color = string

definition GRAY :: bootstrap_color where "GRAY = ''secondary''"
definition YELLOW :: bootstrap_color where "YELLOW = ''warning''"
definition RED :: bootstrap_color where "RED = ''danger''"
definition GREEN :: bootstrap_color where "GREEN = ''success''"
definition CYAN :: bootstrap_color where "CYAN = ''info''"
definition BLACK :: bootstrap_color where "BLACK = ''dark''"
definition WHITE :: bootstrap_color where "WHITE = ''white''"

record tag =
  tag_name :: string
  tag_description :: "string list"
  tag_color :: bootstrap_color
  tag_text_color :: bootstrap_color

section \<open>Transaction tags\<close>

datatype TxTag =
    FromSanctioned
  | ToSanctioned
  | Conflicting
  | Large
  | ZeroFee
  | HighFeerate
  | HighValue
  | ManySigops
  | Young
  | Coinbase
  | Coinjoin
  | SegWit
  | Taproot
  | Multisig
  | RbfSignaling
  | OpReturn
  | CounterParty
  | RareScriptType
  | LockByHeight
  | LockByTimestamp
  | Consolidation
  | DustOutput
  | Inscription

text \<open>The discriminants: \<^verbatim>\<open>TxTag::X as i32\<close>.\<close>

primrec TxTag_as_i32 :: "TxTag \<Rightarrow> int" where
  "TxTag_as_i32 FromSanctioned = 1099"
| "TxTag_as_i32 ToSanctioned = 1100"
| "TxTag_as_i32 Conflicting = 1110"
| "TxTag_as_i32 Large = 2100"
| "TxTag_as_i32 ZeroFee = 2110"
| "TxTag_as_i32 HighFeerate = 2120"
| "TxTag_as_i32 HighValue = 2130"
| "TxTag_as_i32 ManySigops = 2140"
| "TxTag_as_i32 Young = 3110"
| "TxTag_as_i32 Coinbase = 4099"
| "TxTag_as_i32 Coinjoin = 4100"
| "TxTag_as_i32 SegWit = 4110"
| "TxTag_as_i32 Taproot = 4111"
| "TxTag_as_i32 Multisig = 4120"
| "TxTag_as_i32 RbfSignaling = 4130"
| "TxTag_as_i32 OpReturn = 4140"
| "TxTag_as_i32 CounterParty = 4141"
| "TxTag_as_i32 RareScriptType = 4142"
| "TxTag_as_i32 LockByHeight = 4150"
| "TxTag_as_i32 LockByTimestamp = 4160"
| "TxTag_as_i32 Consolidation = 4170"
| "TxTag_as_i32 DustOutput = 4180"
| "TxTag_as_i32 Inscription = 4190"

definition TxTag_try_from :: "int \<Rightarrow> TxTag option" where
  "TxTag_try_from v =
     (if v = TxTag_as_i32 FromSanctioned then Some FromSanctioned else
      if v = TxTag_as_i32 ToSanctioned then Some ToSanctioned else
      if v = TxTag_as_i32 Coinbase then Some Coinbase else
      if v = TxTag_as_i32 Large then Some Large else
      if v = TxTag_as_i32 ZeroFee then Some ZeroFee else
      if v = TxTag_as_i32 HighFeerate then Some HighFeerate else
      if v = TxTag_as_i32 SegWit then Some SegWit else
      if v = TxTag_as_i32 Taproot then Some Taproot else
      if v = TxTag_as_i32 Multisig then Some Multisig else
      if v = TxTag_as_i32 RbfSignaling then Some RbfSignaling else
      if v = TxTag_as_i32 OpReturn then Some OpReturn else
      if v = TxTag_as_i32 CounterParty then Some CounterParty else
      if v = TxTag_as_i32 RareScriptType then Some RareScriptType else
      if v = TxTag_as_i32 Coinjoin then Some Coinjoin else
      if v = TxTag_as_i32 LockByHeight then Some LockByHeight else
      if v = TxTag_as_i32 LockByTimestamp then Some LockByTimestamp else
      if v = TxTag_as_i32 Consolidation then Some Consolidation else
      if v = TxTag_as_i32 DustOutput then Some DustOutput else
      if v = TxTag_as_i32 HighValue then Some HighValue else
      if v = TxTag_as_i32 Conflicting then Some Conflicting else
      if v = TxTag_as_i32 Young then Some Young else
      if v = TxTag_as_i32 ManySigops then Some ManySigops else
      if v = TxTag_as_i32 Inscription then Some Inscription else None)"

definition TX_TAGS :: "TxTag list" where
  "TX_TAGS =
     [FromSanctioned,
      ToSanctioned,
      Conflicting,
      Large,
      ZeroFee,
      HighFeerate,
      HighValue,
      ManySigops,
      Young,
      Coinbase,
      SegWit,
      Taproot,
      Multisig,
      RbfSignaling,
      OpReturn,
      CounterParty,
      RareScriptType,
      LockByHeight,
      LockByTimestamp,
      Coinjoin,
      Consolidation,
      DustOutput,
      Inscription]"

primrec TxTag_value :: "TxTag \<Rightarrow> tag" where
  \<open>TxTag_value SegWit = \<lparr>
     tag_name = ''SegWit spending'',
     tag_description = [
       ''The transaction has at least one SegWit input.''],
     tag_color = GRAY,
     tag_text_color = WHITE\<rparr>\<close>
| \<open>TxTag_value Taproot = \<lparr>
     tag_name = ''Taproot spending'',
     tag_description = [
       ''The transaction has at least one Taproot input.''],
     tag_color = GRAY,
     tag_text_color = WHITE\<rparr>\<close>
| \<open>TxTag_value Multisig = \<lparr>
     tag_name = ''Mulitisig spending'',
     tag_description = [
       ''The transaction has at least one input spending a MultiSig script.''],
     tag_color = GRAY,
     tag_text_color = WHITE\<rparr>\<close>
| \<open>TxTag_value RbfSignaling = \<lparr>
     tag_name = ''RBF signaling'',
     tag_description = [
       ''The transaction signal explicit Replace-By-Fee replaceability.'',
       ''This means the sender can replace the transaction as long as it is unconfirmed.'',
       ''\<newline>                        <ul>\<newline>                            <li><a target="_blank" rel="noopener" href='https://bitcoinops.org/en/topics/replace-by-fee/'>Bitcoin Optech: Replace-by-fee (RBF)</a></li>\<newline>                        </ul>\<newline>                        ''],
     tag_color = GRAY,
     tag_text_color = WHITE\<rparr>\<close>
| \<open>TxTag_value OpReturn = \<lparr>
     tag_name = ''OP_RETURN'',
     tag_description = [
       ''The transaction has an OP_RETURN output.'',
       ''OP_RETURN outputs embed data into the blockchain.''],
     tag_color = GRAY,
     tag_text_color = WHITE\<rparr>\<close>
| \<open>TxTag_value CounterParty = \<lparr>
     tag_name = ''CounterParty'',
     tag_description = [
       ''The transaction has at least one CounterParty output.'',
       ''CounterParty is a protocol building on-top of Bitcoin.''],
     tag_color = GRAY,
     tag_text_color = WHITE\<rparr>\<close>
| \<open>TxTag_value RareScriptType = \<lparr>
     tag_name = ''Rare Script Type'',
     tag_description = [
       ''The transaction has one or more Pay-to-Public-Key (P2PK) or Pay-to-Multisig (P2MS) input or output.'',
       ''These are rarely used nowadays.''],
     tag_color = GRAY,
     tag_text_color = WHITE\<rparr>\<close>
| \<open>TxTag_value LockByHeight = \<lparr>
     tag_name = ''Height-Locked'',
     tag_description = [
       ''The transaction is time-locked to only be valid after a certain absolute block height.''],
     tag_color = GRAY,
     tag_text_color = WHITE\<rparr>\<close>
| \<open>TxTag_value LockByTimestamp = \<lparr>
     tag_name = ''Timestamp-Locked'',
     tag_description = [
       ''The transaction is time-locked to only be valid after a certain absolute timestamp.''],
     tag_color = GRAY,
     tag_text_color = WHITE\<rparr>\<close>
| \<open>TxTag_value Coinbase = \<lparr>
     tag_name = ''Coinbase'',
     tag_description = [
       ''The transaction is a coinbase transaction paying the mining pool.''],
     tag_color = GRAY,
     tag_text_color = WHITE\<rparr>\<close>
| \<open>TxTag_value FromSanctioned = \<lparr>
     tag_name = ''From Sanctioned'',
     tag_description = [
       ''The transaction spends an UTXO from a sanctioned address.'',
       ''Some mining pools adhere to the sanctions and won't include transactions from sanctioned addresses in their blocks.''],
     tag_color = RED,
     tag_text_color = WHITE\<rparr>\<close>
| \<open>TxTag_value ToSanctioned = \<lparr>
     tag_name = ''To Sanctioned'',
     tag_description = [
       ''The transaction pays to a sanctioned address.'',
       ''Some mining pools adhere to the sanctions and won't include transactions to sanctioned addresses in their blocks.''],
     tag_color = RED,
     tag_text_color = WHITE\<rparr>\<close>
| \<open>TxTag_value Coinjoin = \<lparr>
     tag_name = ''Potential Coinjoin'',
     tag_description = [
       ''The transaction meets the characteristics of a coinjoin with multiple equal-value outputs.'',
       ''\<newline>                            <ul>\<newline>                            <li><a target="_blank" rel="noopener" href='https://en.bitcoin.it/Privacy#CoinJoin'>Bitcoin Wiki: Privacy - Coinjoin</a></li>\<newline>                            <li><a target="_blank" rel="noopener" href='https://bitcoinops.org/en/topics/coinjoin/'>Bitcoin Optech: Coinjoin</a></li>\<newline>                            </ul>\<newline>                        ''],
     tag_color = GRAY,
     tag_text_color = WHITE\<rparr>\<close>
| \<open>TxTag_value Large = \<lparr>
     tag_name = ''Large'',
     tag_description = [
       ''The transaction is equal to or larger than '' @ show_nat THRESHOLD_TRANSACTION_CONSIDERED_LARGE @ '' vByte in vsize.''],
     tag_color = YELLOW,
     tag_text_color = BLACK\<rparr>\<close>
| \<open>TxTag_value HighFeerate = \<lparr>
     tag_name = ''High-Feerate'',
     tag_description = [
       ''The transaction has a feerate higher than '' @ ''1000'' @ '' sat/vByte.''],
     tag_color = YELLOW,
     tag_text_color = BLACK\<rparr>\<close>
| \<open>TxTag_value ZeroFee = \<lparr>
     tag_name = ''Zero-Fee'',
     tag_description = [
       ''The transaction does not pay any fees and is not a coinbase transaction.'',
       ''Zero-fee transactions aren't relayed through the Bitcoin P2P network.'',
       ''The pool likely <a target="_blank" rel="noopener" href='https://btcinformation.org/en/developer-reference#prioritisetransaction'>prioritized</a> it to add it to the block.''],
     tag_color = YELLOW,
     tag_text_color = BLACK\<rparr>\<close>
| \<open>TxTag_value Consolidation = \<lparr>
     tag_name = ''Consolidation'',
     tag_description = [
       ''The transaction meets the characteristics of a consolidation transaction.'',
       ''\<newline>                        <ul>\<newline>                            <li><a target="_blank" rel="noopener" href='https://en.bitcoin.it/wiki/Techniques_to_reduce_transaction_fees#Consolidation'>Bitcoin Wiki: Techniques to reduce transaction fees - Consolidation</a></li>\<newline>                        </ul>\<newline>                        ''],
     tag_color = GRAY,
     tag_text_color = WHITE\<rparr>\<close>
| \<open>TxTag_value DustOutput = \<lparr>
     tag_name = ''Has Dust Output'',
     tag_description = [
       ''The transaction has at least one output smaller than '' @ show_nat THRESHOLD_OUTPUT_CONSIDERED_DUST @ '' satoshi.'',
       ''It's often not economical to spend 'dust outputs' as the fees a spender needs to pay are a large part of the value of the output.'',
       ''Some miners might choose to filter transactions with (only) dust outputs.'',
       ''<b>Note:</b> The dust threshold is client-specific and not a network rule.'',
       ''\<newline>                        <ul>\<newline>                            <li><a target="_blank" rel="noopener" href='https://bitcoin.stackexchange.com/questions/10986/what-is-meant-by-bitcoin-dust'>Bitcoin StackExchange: What is meant by Bitcoin dust?</a></li>\<newline>                        </ul>\<newline>                        ''],
     tag_color = GRAY,
     tag_text_color = WHITE\<rparr>\<close>
| \<open>TxTag_value HighValue = \<lparr>
     tag_name = ''High-Value'',
     tag_description = [
       ''The transaction has a value higher than '' @ show_nat (THRESHOLD_VALUE_CONSIDERED_HIGH div COIN) @ '' BTC.''],
     tag_color = YELLOW,
     tag_text_color = BLACK\<rparr>\<close>
| \<open>TxTag_value ManySigops = \<lparr>
     tag_name = ''Many-Sigops'',
     tag_description = [
       ''The transaction has more than '' @ show_nat THRESHOLD_SIGOPS_CONSIDERED_MANY @ '' sigops (signature operations).''],
     tag_color = YELLOW,
     tag_text_color = BLACK\<rparr>\<close>
| \<open>TxTag_value Conflicting = \<lparr>
     tag_name = ''Conflicting'',
     tag_description = [
       ''The transaction conflicts with a transaction from the other set.'',
       ''If this transaction is in a template, then it conflicts with a transaction in the block.'',
       ''If this transaction is in a block, then it conflicts with a transaction in the template.'',
       ''A conflicting tranasction <i>could</i> indicate an attempted zero-confirmation double-spend attack.'',
       ''For example, a mallicius party could have sent two conflicting transactions to a merchant and a mining pool.'',
       ''<b>Note:</b> This should not be confused with a protocol-level double-spend where conflicting transactions are accepted into the chain''],
     tag_color = RED,
     tag_text_color = WHITE\<rparr>\<close>
| \<open>TxTag_value Young = \<lparr>
     tag_name = ''Young'',
     tag_description = [
       ''The transaction hasn't been in the mempool for longer than '' @ show_nat THRESHOLD_TRANSACTION_CONSIDERED_YOUNG @ '' seconds.'',
       ''If this transaction wasn't included in a block, it could be that the transaction hadn't propagated to the pool when the block was constructed.''],
     tag_color = CYAN,
     tag_text_color = WHITE\<rparr>\<close>
| \<open>TxTag_value Inscription = \<lparr>
     tag_name = ''Inscription'',
     tag_description = [
       ''The transaction has at least one input revealing an Ordinals inscription.''],
     tag_color = GRAY,
     tag_text_color = WHITE\<rparr>\<close>

section \<open>Block tags\<close>

datatype BlockTag = SigopsLimitClose | TaprootSignaling

primrec BlockTag_as_i32 :: "BlockTag \<Rightarrow> int" where
  "BlockTag_as_i32 SigopsLimitClose = 2100"
| "BlockTag_as_i32 TaprootSignaling = 3100"

definition BlockTag_try_from :: "int \<Rightarrow> BlockTag option" where
  "BlockTag_try_from v =
     (if v = BlockTag_as_i32 TaprootSignaling then Some TaprootSignaling else
      if v = BlockTag_as_i32 SigopsLimitClose then Some SigopsLimitClose else None)"

definition BLOCK_TAGS :: "BlockTag list" where
  "BLOCK_TAGS = [SigopsLimitClose, TaprootSignaling]"

primrec BlockTag_value :: "BlockTag \<Rightarrow> tag" where
  \<open>BlockTag_value SigopsLimitClose = \<lparr>
     tag_name = ''Close to Sigop Limit'',
     tag_description = [
       ''The block is close (> '' @ show_nat THRESHOLD_SIGOP_LIMIT_CLOSE @ '' sigops) to the sigop limit of '' @ show_nat SIGOP_LIMIT @ ''.''],
     tag_color = CYAN,
     tag_text_color = WHITE\<rparr>\<close>
| \<open>BlockTag_value TaprootSignaling = \<lparr>
     tag_name = ''Taproot Signaling'',
     tag_description = [
       ''The block signals for Taproot.''],
     tag_color = CYAN,
     tag_text_color = WHITE\<rparr>\<close>

section \<open>Conversions are inverse to each other\<close>

lemma TxTag_try_from_as_i32 [simp]: "TxTag_try_from (TxTag_as_i32 t) = Some t"
  by (cases t) (simp_all add: TxTag_try_from_def)

lemma TxTag_try_from_Some: "TxTag_try_from v = Some t \<Longrightarrow> v = TxTag_as_i32 t"
  unfolding TxTag_try_from_def by (auto split: if_splits)

lemma TxTag_as_i32_inj [simp]: "TxTag_as_i32 s = TxTag_as_i32 t \<longleftrightarrow> s = t"
  by (metis TxTag_try_from_as_i32 option.inject)

lemma BlockTag_try_from_as_i32 [simp]: "BlockTag_try_from (BlockTag_as_i32 t) = Some t"
  by (cases t) (simp_all add: BlockTag_try_from_def)

lemma BlockTag_try_from_Some: "BlockTag_try_from v = Some t \<Longrightarrow> v = BlockTag_as_i32 t"
  unfolding BlockTag_try_from_def by (auto split: if_splits)

section \<open>Properties\<close>

text \<open>The stored integer of a tag determines the tag and the other way around, for
  transaction tags and for block tags, and the lists of all tags contain every tag exactly once.\<close>

theorem tag_values_roundtrip:
  "(TxTag_try_from v = Some t \<longleftrightarrow> v = TxTag_as_i32 t) \<and>
   (BlockTag_try_from v = Some b \<longleftrightarrow> v = BlockTag_as_i32 b) \<and>
   distinct TX_TAGS \<and> set TX_TAGS = UNIV \<and> distinct BLOCK_TAGS \<and> set BLOCK_TAGS = UNIV"
proof (intro conjI)
  show "TxTag_try_from v = Some t \<longleftrightarrow> v = TxTag_as_i32 t"
    using TxTag_try_from_Some TxTag_try_from_as_i32 by blast
  show "BlockTag_try_from v = Some b \<longleftrightarrow> v = BlockTag_as_i32 b"
    using BlockTag_try_from_Some BlockTag_try_from_as_i32 by blast
  show "distinct TX_TAGS" "distinct BLOCK_TAGS" by (simp_all add: TX_TAGS_def BLOCK_TAGS_def)
  have "t \<in> set TX_TAGS" for t by (cases t) (simp_all add: TX_TAGS_def)
  then show "set TX_TAGS = UNIV" by blast
  have "b \<in> set BLOCK_TAGS" for b by (cases b) (simp_all add: BLOCK_TAGS_def)
  then show "set BLOCK_TAGS = UNIV" by blast
qed

text \<open>The colour of a transaction tag is given by the thousands of its value: red for 1xxx,
  yellow for 2xxx, cyan for 3xxx and gray for 4xxx, and no other thousands occur; no two
  transaction tags have the same name.\<close>

theorem tag_colour_by_severity:
  "tag_color (TxTag_value t) =
     (if TxTag_as_i32 t div 1000 = 1 then RED else if TxTag_as_i32 t div 1000 = 2 then YELLOW
      else if TxTag_as_i32 t div 1000 = 3 then CYAN else GRAY) \<and>
   TxTag_as_i32 t div 1000 \<in> {1, 2, 3, 4} \<and>
   distinct (map (\<lambda>t. tag_name (TxTag_value t)) TX_TAGS)"
proof (intro conjI)
  show "tag_color (TxTag_value t) =
     (if TxTag_as_i32 t div 1000 = 1 then RED else if TxTag_as_i32 t div 1000 = 2 then YELLOW
      else if TxTag_as_i32 t div 1000 = 3 then CYAN else GRAY)"
    by (cases t) simp_all
  show "TxTag_as_i32 t div 1000 \<in> {1, 2, 3, 4}" by (cases t) simp_all
  show "distinct (map (\<lambda>t. tag_name (TxTag_value t)) TX_TAGS)" by (simp add: TX_TAGS_def)
qed

end
