(* ===== verification/Tagging.thy ===== *)
theory Tagging
  imports Sanctions Shared_Tags
begin

text \<open>
  Tagging of transactions and construction of transaction rows: the middle part of
  \<^verbatim>\<open>daemon/src/processing.rs\<close>. Each conditional push of the source's tagging function is one
  entry of a rule list, in the order of the pushes. Tag lists are merged in three places of the
  daemon; the locale \<open>tag_merge\<close> is their common contract.
\<close>

section \<open>Descriptions of inputs and outputs\<close>

definition count_types :: "nat list \<Rightarrow> (nat, nat) hash_map" where
  "count_types ts =
     fold (\<lambda>t counts. case hm_get counts t of
                        Some cnt \<Rightarrow> hm_insert t ((cnt + 1) mod 2 ^ 32) counts
                      | None \<Rightarrow> hm_insert t 1 counts) ts []"

definition in_and_outputs_to_strings ::
  "lib \<Rightarrow> hash_iter \<Rightarrow> raw_tx_info \<Rightarrow> string list \<times> string list" where
  "in_and_outputs_to_strings L H raw =
     (let output_type_counts = count_types (out_types raw);
          input_type_counts = count_types (in_types raw);
          inputs_strs = map (\<lambda>(k, v). show_nat v @ ''x '' @ show_input_type L k)
                          (iter_type_counts H input_type_counts);
          outputs_strs = map (\<lambda>(k, v). show_nat v @ ''x '' @ show_output_type L k)
                           (iter_type_counts H output_type_counts)
      in (inputs_strs, outputs_strs))"

section \<open>Tags of a transaction\<close>

definition is_tx_opreturn :: "lib \<Rightarrow> transaction \<Rightarrow> bool" where
  "is_tx_opreturn L tx = list_ex (\<lambda>out. is_op_return L (script_pubkey out)) (tx_output tx)"

definition or_default :: "'a::zero option \<Rightarrow> 'a" where
  "or_default x = (case x of Some v \<Rightarrow> v | None \<Rightarrow> 0)"

text \<open>The conditional pushes, in source order.\<close>

definition tag_rules ::
  "lib \<Rightarrow> tx_info \<Rightarrow> raw_tx_info \<Rightarrow> bool \<Rightarrow> utxo_map \<Rightarrow> string list \<Rightarrow> (bool \<times> TxTag) list" where
  "tag_rules L i raw is_conflicting_tx utxos sanctioned_addresses =
     [(is_conflicting_tx, Conflicting),
      (is_tx_to_sanctioned L (ti_tx i) sanctioned_addresses, ToSanctioned),
      (is_tx_from_sanctioned (ti_tx i) utxos, FromSanctioned),
      (is_coinbase L (ti_tx i), Coinbase),
      (ti_fee i = 0 \<and> \<not> is_coinbase L (ti_tx i), ZeroFee),
      (fp_ge (tx_feerate L i) (Fin (of_nat THRESHOLD_FEERATE_CONSIDERED_HIGH)), HighFeerate),
      (THRESHOLD_TRANSACTION_CONSIDERED_LARGE \<le> raw_vsize raw, Large),
      (has_non_opreturn_output_smaller_than L raw THRESHOLD_OUTPUT_CONSIDERED_DUST, DustOutput),
      (THRESHOLD_VALUE_CONSIDERED_HIGH < output_value_sum L raw, HighValue),
      (THRESHOLD_SIGOPS_CONSIDERED_MANY < or_default (tx_sigops L (ti_tx i)), ManySigops),
      (is_spending_segwit L raw, SegWit),
      (is_spending_taproot L raw, Taproot),
      (is_spending_multisig L raw, Multisig),
      (is_tx_opreturn L (ti_tx i), OpReturn),
      (is_p2ms_counterparty L (ti_tx i) \<or> is_opreturn_counterparty L (ti_tx i) \<or>
         is_p2sh_counterparty L (ti_tx i), CounterParty),
      (list_ex (\<lambda>inp. case reveals_inscription L inp of Some b \<Rightarrow> b | None \<Rightarrow> False)
         (tx_input (ti_tx i)), Inscription),
      (list_ex (\<lambda>t. t = input_type_p2pk L \<or> t = input_type_p2ms L) (in_types raw) \<or>
         list_ex (\<lambda>t. t = output_type_p2pk L \<or> t = output_type_p2ms L) (out_types raw),
         RareScriptType),
      (is_signaling_explicit_rbf L raw, RbfSignaling),
      (potentially_coinjoin L raw, Coinjoin),
      (potentially_consolidation L raw, Consolidation),
      (is_block_height L (raw_locktime raw) \<and> is_lock_time_enabled L (ti_tx i) \<and>
         locktime_gt L (raw_locktime raw) (locktime_from_consensus L 0), LockByHeight),
      (is_block_time L (raw_locktime raw) \<and> is_lock_time_enabled L (ti_tx i) \<and>
         locktime_gt L (raw_locktime raw) (locktime_from_consensus L 0), LockByTimestamp)]"

definition get_transaction_tags ::
  "lib \<Rightarrow> tx_info \<Rightarrow> raw_tx_info \<Rightarrow> bool \<Rightarrow> utxo_map \<Rightarrow> string list \<Rightarrow> int list" where
  "get_transaction_tags L i raw is_conflicting_tx utxos sanctioned_addresses =
     map (\<lambda>(c, t). TxTag_as_i32 t)
       (filter fst (tag_rules L i raw is_conflicting_tx utxos sanctioned_addresses))"

definition retag_transaction :: "lib \<Rightarrow> transaction \<Rightarrow> tx_info \<Rightarrow> string list \<Rightarrow> int list" where
  "retag_transaction L tx i sanctioned_addresses =
     (case raw_tx_info_new L tx of
        Inr raw \<Rightarrow> get_transaction_tags L i raw False [] sanctioned_addresses
      | Inl e \<Rightarrow> [])"

section \<open>Rows\<close>

definition build_transaction ::
  "lib \<Rightarrow> hash_iter \<Rightarrow> bytes \<Rightarrow> tx_info \<Rightarrow> bool \<Rightarrow> utxo_map \<Rightarrow> string list \<Rightarrow>
     raw_tx_error + db_transaction" where
  "build_transaction L H reversed_txid i is_conflicting_tx utxos sanctioned_addresses =
     bind_res (raw_tx_info_new L (ti_tx i)) (\<lambda>raw.
       let (inputs_strs, outputs_strs) = in_and_outputs_to_strings L H raw;
           tags = get_transaction_tags L i raw is_conflicting_tx utxos sanctioned_addresses
       in Inr \<lparr>t_txid = reversed_txid,
               t_sanctioned = is_tx_sanctioned L (ti_tx i) utxos sanctioned_addresses,
               t_vsize = as_i32 (int (tx_vsize L (ti_tx i))),
               t_fee = as_i64 (int (ti_fee i)),
               t_output_sum = as_i64 (int (sum_u64 (map out_value (tx_output (ti_tx i))))),
               t_tags = tags,
               t_input_count = as_i32 (int (length (tx_input (ti_tx i)))),
               t_inputs = inputs_strs,
               t_output_count = as_i32 (int (length (tx_output (ti_tx i)))),
               t_outputs = outputs_strs,
               t_sigops = as_i64 (int (or_default (tx_sigops L (ti_tx i))))\<rparr>)"

type_synonym tx_map = "(bytes, db_transaction) hash_map"

definition merge_tags :: "int list \<Rightarrow> int list \<Rightarrow> int list" where
  "merge_tags existing new =
     (if existing \<noteq> new then remdups_adj (sort (existing @ new)) else existing)"

definition add_to_transactions :: "db_transaction \<Rightarrow> tx_map \<Rightarrow> tx_map" where
  "add_to_transactions new_tx txs =
     (case hm_get txs (t_txid new_tx) of
        Some existing_tx \<Rightarrow>
          hm_insert (t_txid new_tx)
            (existing_tx\<lparr>t_tags := merge_tags (t_tags existing_tx) (t_tags new_tx)\<rparr>) txs
      | None \<Rightarrow> hm_insert (t_txid new_tx) new_tx txs)"

text \<open>
  The match on the result of \<^verbatim>\<open>build_transaction\<close> that the callers share: the row is added to the
  map, or the error is logged.
\<close>

definition build_and_add ::
  "lib \<Rightarrow> hash_iter \<Rightarrow> bool \<Rightarrow> utxo_map \<Rightarrow> string list \<Rightarrow> tx_info \<Rightarrow>
     tx_map \<times> metrics \<Rightarrow> tx_map \<times> metrics" where
  "build_and_add L H is_conflicting_tx utxos sanctioned_addresses i st =
     (case build_transaction L H (rev (ti_txid i)) i is_conflicting_tx utxos sanctioned_addresses of
        Inr t \<Rightarrow> (add_to_transactions t (fst st), snd st)
      | Inl e \<Rightarrow> (fst st, log_processing_error (snd st)))"

text \<open>One pass of the body of the retagging thread (\<^verbatim>\<open>main.rs\<close>): old tags are kept.\<close>

definition retag_merge :: "int list \<Rightarrow> int list \<Rightarrow> int list" where
  "retag_merge old_tags new_tags =
     sort (fold (\<lambda>tag new. if tag \<in> set new then new else new @ [tag]) (sort old_tags) new_tags)"

section \<open>Merging tag lists\<close>

locale tag_merge =
  fixes merge :: "int list \<Rightarrow> int list \<Rightarrow> int list"
  assumes set_merge: "set (merge old new) = set old \<union> set new"
begin

lemma keeps_old: "set old \<subseteq> set (merge old new)"
  by (simp add: set_merge)

lemma set_fold_merge:
  "set (fold (\<lambda>new old. merge old new) news old) = set old \<union> \<Union> (set ` set news)"
  by (induction news arbitrary: old) (auto simp: set_merge)

lemma merge_order_irrelevant:
  "mset news = mset news' \<Longrightarrow>
     set (fold (\<lambda>new old. merge old new) news old) = set (fold (\<lambda>new old. merge old new) news' old)"
  by (metis set_fold_merge set_mset_mset)

end

interpretation mt: tag_merge merge_tags
  by unfold_locales (auto simp: merge_tags_def)

interpretation rm: tag_merge retag_merge
proof
  fix old new :: "int list"
  have "set (fold (\<lambda>tag new. if tag \<in> set new then new else new @ [tag]) ts ns) = set ts \<union> set ns"
    for ts ns :: "int list"
    by (induction ts arbitrary: ns) auto
  then show "set (retag_merge old new) = set old \<union> set new"
    by (simp add: retag_merge_def)
qed

section \<open>Facts about tags\<close>

lemma get_transaction_tags_mem:
  "v \<in> set (get_transaction_tags L i raw c utxos addrs) \<longleftrightarrow>
     (\<exists>t. (True, t) \<in> set (tag_rules L i raw c utxos addrs) \<and> v = TxTag_as_i32 t)"
  by (force simp: get_transaction_tags_def)

lemma tag_rules_tags:
  "map snd (tag_rules L i raw c utxos addrs) =
     [Conflicting, ToSanctioned, FromSanctioned, Coinbase, ZeroFee, HighFeerate, Large, DustOutput,
      HighValue, ManySigops, SegWit, Taproot, Multisig, OpReturn, CounterParty, Inscription,
      RareScriptType, RbfSignaling, Coinjoin, Consolidation, LockByHeight, LockByTimestamp]"
  by (simp add: tag_rules_def)

lemma tag_rules_distinct: "distinct (map snd (tag_rules L i raw c utxos addrs))"
  unfolding tag_rules_tags by simp

lemma tag_rule_unique:
  assumes "(c1, t) \<in> set (tag_rules L i raw c utxos addrs)"
    and "(c2, t) \<in> set (tag_rules L i raw c utxos addrs)"
  shows "c1 = c2"
proof -
  have "inj_on snd (set (tag_rules L i raw c utxos addrs))"
    using tag_rules_distinct [of L i raw c utxos addrs] unfolding distinct_map by (rule conjunct2)
  from inj_onD [OF this _ assms] show ?thesis by simp
qed

text \<open>A tag is present exactly when the condition of its rule holds.\<close>

lemma tag_present_iff:
  assumes "(cond, t) \<in> set (tag_rules L i raw c utxos addrs)"
  shows "TxTag_as_i32 t \<in> set (get_transaction_tags L i raw c utxos addrs) \<longleftrightarrow> cond"
proof
  assume "TxTag_as_i32 t \<in> set (get_transaction_tags L i raw c utxos addrs)"
  then have "(True, t) \<in> set (tag_rules L i raw c utxos addrs)"
    unfolding get_transaction_tags_mem TxTag_as_i32_inj by blast
  with assms have "cond = True" by (rule tag_rule_unique)
  then show cond by simp
next
  assume cond
  with assms show "TxTag_as_i32 t \<in> set (get_transaction_tags L i raw c utxos addrs)"
    unfolding get_transaction_tags_mem by auto
qed

lemma get_transaction_tags_distinct: "distinct (get_transaction_tags L i raw c utxos addrs)"
proof -
  let ?rs = "tag_rules L i raw c utxos addrs"
  have "distinct (map snd (filter fst ?rs))"
    by (rule distinct_map_filter [OF tag_rules_distinct])
  then have "distinct (map TxTag_as_i32 (map snd (filter fst ?rs)))"
    by (subst distinct_map) (simp add: inj_on_def)
  then show ?thesis
    by (simp only: get_transaction_tags_def map_map comp_def case_prod_unfold)
qed

section \<open>The map of transaction rows\<close>

definition tags_in :: "tx_map \<Rightarrow> bytes \<Rightarrow> int set" where
  "tags_in txs k = (case hm_get txs k of Some t \<Rightarrow> set (t_tags t) | None \<Rightarrow> {})"

text \<open>The tags one call of \<^verbatim>\<open>build_transaction\<close> contributes to the row with the key \<open>k\<close>.\<close>

definition built_tags ::
  "lib \<Rightarrow> bool \<Rightarrow> utxo_map \<Rightarrow> string list \<Rightarrow> bytes \<Rightarrow> tx_info \<Rightarrow> int set" where
  "built_tags L c utxos addrs k i =
     (if k = rev (ti_txid i)
      then (case raw_tx_info_new L (ti_tx i) of
              Inr raw \<Rightarrow> set (get_transaction_tags L i raw c utxos addrs) | Inl e \<Rightarrow> {})
      else {})"

definition buildable :: "lib \<Rightarrow> tx_info \<Rightarrow> bool" where
  "buildable L i \<longleftrightarrow> (case raw_tx_info_new L (ti_tx i) of Inr raw \<Rightarrow> True | Inl e \<Rightarrow> False)"

lemma add_to_transactions_get:
  "hm_get (add_to_transactions t txs) =
     (hm_get txs)(t_txid t \<mapsto> (case hm_get txs (t_txid t) of
        Some e \<Rightarrow> e\<lparr>t_tags := merge_tags (t_tags e) (t_tags t)\<rparr> | None \<Rightarrow> t))"
  by (auto simp: add_to_transactions_def split: option.splits)

lemma tags_in_add:
  "tags_in (add_to_transactions t txs) k = tags_in txs k \<union> (if k = t_txid t then set (t_tags t) else {})"
  by (simp add: tags_in_def add_to_transactions_get mt.set_merge split: option.splits)

lemma dom_add: "dom (hm_get (add_to_transactions t txs)) = insert (t_txid t) (dom (hm_get txs))"
  unfolding add_to_transactions_get by simp

lemma tags_in_fold_add:
  "tags_in (fold add_to_transactions ts txs) k =
     tags_in txs k \<union> (\<Union>t\<in>{t \<in> set ts. t_txid t = k}. set (t_tags t))"
  by (induction ts arbitrary: txs) (auto simp: tags_in_add)

lemma dom_fold_add:
  "dom (hm_get (fold add_to_transactions ts txs)) = dom (hm_get txs) \<union> t_txid ` set ts"
  by (induction ts arbitrary: txs) (auto simp: dom_add)

lemma build_transaction_cases:
  obtains t raw where "build_transaction L H k i c utxos addrs = Inr t" "buildable L i"
      "raw_tx_info_new L (ti_tx i) = Inr raw" "t_txid t = k"
      "t_tags t = get_transaction_tags L i raw c utxos addrs"
      "t_sanctioned t = is_tx_sanctioned L (ti_tx i) utxos addrs"
  | e where "build_transaction L H k i c utxos addrs = Inl e" "\<not> buildable L i"
      "raw_tx_info_new L (ti_tx i) = Inl e"
proof (cases "raw_tx_info_new L (ti_tx i)")
  case (Inl e)
  then show thesis by (intro that(2)) (simp_all add: build_transaction_def buildable_def)
next
  case (Inr raw)
  obtain inputs outputs where "in_and_outputs_to_strings L H raw = (inputs, outputs)" by fastforce
  then have built: "\<exists>t. build_transaction L H k i c utxos addrs = Inr t \<and> t_txid t = k \<and>
      t_tags t = get_transaction_tags L i raw c utxos addrs \<and>
      t_sanctioned t = is_tx_sanctioned L (ti_tx i) utxos addrs"
    using Inr by (simp add: build_transaction_def)
  with Inr that(1) show thesis by (auto simp: buildable_def)
qed

lemma tags_in_build_and_add:
  "tags_in (fst (build_and_add L H c utxos addrs i st)) k =
     tags_in (fst st) k \<union> built_tags L c utxos addrs k i"
  by (rule build_transaction_cases [of L H "rev (ti_txid i)" i c utxos addrs])
    (auto simp: build_and_add_def built_tags_def tags_in_add)

lemma dom_build_and_add:
  "dom (hm_get (fst (build_and_add L H c utxos addrs i st))) =
     (if buildable L i then insert (rev (ti_txid i)) (dom (hm_get (fst st))) else dom (hm_get (fst st)))"
  by (rule build_transaction_cases [of L H "rev (ti_txid i)" i c utxos addrs])
    (auto simp: build_and_add_def dom_add)

lemma errors_build_and_add:
  "error_processing (snd (build_and_add L H c utxos addrs i st)) =
     error_processing (snd st) + (if buildable L i then 0 else 1)"
  by (rule build_transaction_cases [of L H "rev (ti_txid i)" i c utxos addrs])
    (auto simp: build_and_add_def log_processing_error_def)

lemma tags_in_fold:
  "tags_in (fst (fold (build_and_add L H c utxos addrs) is st)) k =
     tags_in (fst st) k \<union> (\<Union>i\<in>set is. built_tags L c utxos addrs k i)"
  by (induction "is" arbitrary: st) (auto simp: tags_in_build_and_add)

lemma dom_fold:
  "dom (hm_get (fst (fold (build_and_add L H c utxos addrs) is st))) =
     dom (hm_get (fst st)) \<union> (\<lambda>i. rev (ti_txid i)) ` {i \<in> set is. buildable L i}"
  by (induction "is" arbitrary: st) (auto simp: dom_build_and_add)

lemma built_tags_self:
  assumes "(cond, t) \<in> set (tag_rules L i raw c utxos addrs)" "raw_tx_info_new L (ti_tx i) = Inr raw"
  shows "TxTag_as_i32 t \<in> built_tags L c utxos addrs (rev (ti_txid i)) i \<longleftrightarrow> cond"
  using tag_present_iff [OF assms(1)] assms(2) by (simp only: built_tags_def if_True refl sum.case)

lemma conflicting_tag_iff:
  assumes "buildable L i"
  shows "TxTag_as_i32 Conflicting \<in> built_tags L c utxos addrs (rev (ti_txid i)) i \<longleftrightarrow> c"
proof -
  from assms obtain raw where raw: "raw_tx_info_new L (ti_tx i) = Inr raw"
    by (auto simp: buildable_def split: sum.splits)
  have "(c, Conflicting) \<in> set (tag_rules L i raw c utxos addrs)" by (simp add: tag_rules_def)
  from built_tags_self [OF this raw] show ?thesis .
qed

section \<open>Properties\<close>

lemma tag_iffs:
  "TxTag_as_i32 ToSanctioned \<in> set (get_transaction_tags L i raw c utxos addrs) \<longleftrightarrow>
     is_tx_to_sanctioned L (ti_tx i) addrs"
  "TxTag_as_i32 FromSanctioned \<in> set (get_transaction_tags L i raw c utxos addrs) \<longleftrightarrow>
     is_tx_from_sanctioned (ti_tx i) utxos"
  "TxTag_as_i32 HighFeerate \<in> set (get_transaction_tags L i raw c utxos addrs) \<longleftrightarrow>
     fp_ge (tx_feerate L i) (Fin (of_nat THRESHOLD_FEERATE_CONSIDERED_HIGH))"
  "TxTag_as_i32 LockByTimestamp \<in> set (get_transaction_tags L i raw c utxos addrs) \<longleftrightarrow>
     is_block_time L (raw_locktime raw) \<and> is_lock_time_enabled L (ti_tx i) \<and>
     locktime_gt L (raw_locktime raw) (locktime_from_consensus L 0)"
  by (rule tag_present_iff, simp add: tag_rules_def)+

lemma Conflicting_iff:
  "TxTag_as_i32 Conflicting \<in> set (get_transaction_tags L i raw c utxos addrs) \<longleftrightarrow> c"
  by (rule tag_present_iff, simp add: tag_rules_def)

text \<open>C35: The sanctioned flag of a transaction row is set exactly when the row carries the tag
  for paying to a sanctioned address or the tag for spending a sanctioned output.\<close>

theorem sanctioned_flag_matches_tags:
  assumes "build_transaction L H k i c utxos addrs = Inr t"
  shows "t_sanctioned t \<longleftrightarrow>
    TxTag_as_i32 ToSanctioned \<in> set (t_tags t) \<or> TxTag_as_i32 FromSanctioned \<in> set (t_tags t)"
proof -
  obtain raw where "t_tags t = get_transaction_tags L i raw c utxos addrs"
    "t_sanctioned t = is_tx_sanctioned L (ti_tx i) utxos addrs"
    using assms by (cases rule: build_transaction_cases [of L H k i c utxos addrs]) auto
  then show ?thesis by (simp only: tag_iffs is_tx_sanctioned_def)
qed

theorem sanctioned_flag_matches_tags_witness:
  "\<exists>t. build_transaction sample_lib sample_iter [7] (sample_info 7 [(3, 0)] 1) False [] [''a''] = Inr t \<and>
     t_sanctioned t \<and>
     (TxTag_as_i32 ToSanctioned \<in> set (t_tags t) \<or> TxTag_as_i32 FromSanctioned \<in> set (t_tags t))"
proof -
  obtain t where t: "build_transaction sample_lib sample_iter [7] (sample_info 7 [(3, 0)] 1) False [] [''a''] = Inr t"
    "t_sanctioned t"
    by (simp add: build_transaction_def sample_lib_def sample_info_def sample_tx_def is_tx_sanctioned_def
        is_tx_to_sanctioned_def in_and_outputs_to_strings_def)
  with sanctioned_flag_matches_tags [OF t(1)] show ?thesis by blast
qed

text \<open>C40: The tag values of a transaction are pairwise distinct, every one of them is the
  discriminant of a tag in the list of all tags, and the tag for young transactions (which the
  web frontend derives from the mempool age) is never stored.\<close>

theorem emitted_tags_are_known:
  "distinct (get_transaction_tags L i raw c utxos addrs) \<and>
   TxTag_try_from ` set (get_transaction_tags L i raw c utxos addrs) \<subseteq> Some ` set TX_TAGS \<and>
   TxTag_as_i32 Young \<notin> set (get_transaction_tags L i raw c utxos addrs)"
proof (intro conjI)
  show "distinct (get_transaction_tags L i raw c utxos addrs)" by (rule get_transaction_tags_distinct)
  have "t \<in> set TX_TAGS" for t by (cases t) (simp_all add: TX_TAGS_def)
  then show "TxTag_try_from ` set (get_transaction_tags L i raw c utxos addrs) \<subseteq> Some ` set TX_TAGS"
    by (auto simp: get_transaction_tags_def)
  have "Young \<notin> set (map snd (tag_rules L i raw c utxos addrs))" unfolding tag_rules_tags by simp
  then show "TxTag_as_i32 Young \<notin> set (get_transaction_tags L i raw c utxos addrs)"
    unfolding get_transaction_tags_mem TxTag_as_i32_inj by force
qed

text \<open>C39: No transaction ever gets the tag for a lock by timestamp: the source compares the
  lock time with the height zero, and a timestamp is not comparable with a height.\<close>

theorem lock_by_timestamp_never_emitted:
  assumes "locktime_law L"
  shows "TxTag_as_i32 LockByTimestamp \<notin> set (get_transaction_tags L i raw c utxos addrs)"
  using assms by (cases "raw_locktime raw") (simp_all only: tag_iffs locktime_law_def, simp_all)

theorem lock_by_timestamp_never_emitted_witness:
  "TxTag_as_i32 LockByTimestamp \<notin> set (get_transaction_tags sample_lib (sample_info 7 [(3, 0)] 1)
     \<lparr>raw_vsize = 250, raw_locktime = Seconds 1700000000, in_types = [], out_types = []\<rparr> False [] [])"
  by (rule lock_by_timestamp_never_emitted [OF sample_locktime_law])

text \<open>C23: For a fee below 2^24 satoshi and a non-zero size below 2^24 vbyte, the single-precision
  feerate comparison is exact: the tag for a high feerate is set exactly when the fee is at least
  1000 satoshi per vbyte.\<close>

theorem high_feerate_exact:
  assumes "ti_fee i < 2 ^ 24" "0 < tx_vsize L (ti_tx i)" "tx_vsize L (ti_tx i) < 2 ^ 24"
  shows "TxTag_as_i32 HighFeerate \<in> set (get_transaction_tags L i raw c utxos addrs) \<longleftrightarrow>
    1000 * tx_vsize L (ti_tx i) \<le> ti_fee i"
proof -
  have "u64_as_fp 24 (ti_fee i) = Fin (of_nat (ti_fee i))"
    "u64_as_fp 24 (tx_vsize L (ti_tx i)) = Fin (of_nat (tx_vsize L (ti_tx i)))"
    using assms(1,3) by (simp_all add: u64_as_fp_def round_prec_nat)
  then show ?thesis
    using assms(2) round_prec_quotient_1000 [OF assms(1,2)]
    by (simp only: tag_iffs tx_feerate_def)
      (simp add: THRESHOLD_FEERATE_CONSIDERED_HIGH_def)
qed

theorem high_feerate_exact_witness:
  "TxTag_as_i32 HighFeerate \<in> set (get_transaction_tags sample_lib (sample_info 7 [(3, 0)] 1)
     \<lparr>raw_vsize = 250, raw_locktime = Blocks 0, in_types = [], out_types = []\<rparr> False [] [])"
proof -
  have "ti_fee (sample_info 7 [(3, 0)] 1) < 2 ^ 24"
    "0 < tx_vsize sample_lib (ti_tx (sample_info 7 [(3, 0)] 1))"
    "tx_vsize sample_lib (ti_tx (sample_info 7 [(3, 0)] 1)) < 2 ^ 24"
    by (simp_all add: sample_info_def sample_lib_def)
  from high_feerate_exact [OF this] show ?thesis
    by (simp only:) (simp add: sample_info_def sample_lib_def)
qed

text \<open>C29: Adding rows to the map of transactions is insensitive to their order: any reordering
  of the added rows gives the same keys and, for every key, the same set of tags, which is the
  union of the tags of all rows added under it and the tags it had before.\<close>

theorem add_to_transactions_order_irrelevant:
  assumes "mset ts = mset ts'"
  shows "dom (hm_get (fold add_to_transactions ts txs)) = dom (hm_get (fold add_to_transactions ts' txs)) \<and>
    tags_in (fold add_to_transactions ts txs) k = tags_in (fold add_to_transactions ts' txs) k \<and>
    tags_in (fold add_to_transactions ts txs) k =
      tags_in txs k \<union> (\<Union>t\<in>{t \<in> set ts. t_txid t = k}. set (t_tags t))"
proof -
  have "set ts = set ts'" using assms by (rule mset_eq_setD)
  then show ?thesis by (simp add: tags_in_fold_add dom_fold_add)
qed

theorem add_to_transactions_order_irrelevant_witness:
  "mset [sample_row 1 [1110], sample_row 1 [4110, 4120]] = mset [sample_row 1 [4110, 4120], sample_row 1 [1110]] \<and>
   tags_in (fold add_to_transactions [sample_row 1 [1110], sample_row 1 [4110, 4120]] []) [1] =
   tags_in (fold add_to_transactions [sample_row 1 [4110, 4120], sample_row 1 [1110]] []) [1]"
proof (rule conjI)
  show m: "mset [sample_row 1 [1110], sample_row 1 [4110, 4120]] =
      mset [sample_row 1 [4110, 4120], sample_row 1 [1110]]" by simp
  from add_to_transactions_order_irrelevant [OF m]
  show "tags_in (fold add_to_transactions [sample_row 1 [1110], sample_row 1 [4110, 4120]] []) [1] =
   tags_in (fold add_to_transactions [sample_row 1 [4110, 4120], sample_row 1 [1110]] []) [1]" by blast
qed

text \<open>C30: Retagging a stored transaction keeps every stored tag, adds only tags that the current
  rules give it, leaves the tags sorted, and by itself never introduces the tags for conflicts
  and for spending a sanctioned output, whose inputs are not available then.\<close>

theorem retagging_only_adds:
  "set (retag_merge old (retag_transaction L tx i addrs)) = set old \<union> set (retag_transaction L tx i addrs) \<and>
   sorted (retag_merge old (retag_transaction L tx i addrs)) \<and>
   TxTag_as_i32 Conflicting \<notin> set (retag_transaction L tx i addrs) \<and>
   TxTag_as_i32 FromSanctioned \<notin> set (retag_transaction L tx i addrs)"
proof (intro conjI)
  show "set (retag_merge old (retag_transaction L tx i addrs)) = set old \<union> set (retag_transaction L tx i addrs)"
    by (rule rm.set_merge)
  show "sorted (retag_merge old (retag_transaction L tx i addrs))"
    unfolding retag_merge_def by (rule sorted_sort)
  have "\<not> is_tx_from_sanctioned (ti_tx i) []" by (simp add: is_tx_from_sanctioned_iff)
  then show "TxTag_as_i32 Conflicting \<notin> set (retag_transaction L tx i addrs)"
    "TxTag_as_i32 FromSanctioned \<notin> set (retag_transaction L tx i addrs)"
    unfolding retag_transaction_def
    by (cases "raw_tx_info_new L tx"; simp only: sum.case tag_iffs Conflicting_iff; simp)+
qed

end
