(* ===== verification/Conflicts.thy ===== *)
theory Conflicts
  imports Tagging "HOL-Library.Product_Lexorder"
begin

text \<open>
  Conflicts between a template and a block (\<^verbatim>\<open>build_conflicting_transactions\<close> of
  \<^verbatim>\<open>daemon/src/processing.rs\<close>). The source keeps a list of conflicts behind \<^verbatim>\<open>RefCell\<close>s and, for
  every outpoint spent on both sides, extends one conflict or merges several in place; here the
  list is the state, and the references to existing conflicts are indices into it. The main
  result is that the computed conflicts are the connected components of the outpoints under
  sharing a template transaction or a block transaction.
\<close>

section \<open>Definitions\<close>

record conflict =
  template_transactions :: "tx_info list"
  block_transactions :: "tx_info list"
  conflicting_outpoints :: "outpoint list"

text \<open>The spent outpoints of one side and the transaction that spends each of them.\<close>

definition collect_side ::
  "string \<Rightarrow> (txid, tx_info) hash_map \<Rightarrow> txid list \<Rightarrow>
     panic + (outpoint list \<times> (outpoint, tx_info) hash_map)" where
  "collect_side name txid_to_txinfo_map txids =
     fold_res (\<lambda>txid (outpoints, outpoints_to_txinfo).
       case hm_get txid_to_txinfo_map txid of
         None \<Rightarrow> Inl (NotInMap name txid)
       | Some i \<Rightarrow>
           Inr (fold (\<lambda>inp (ops, m). (hs_insert (previous_output inp) ops,
                                      hm_insert (previous_output inp) i m))
                  (tx_input (ti_tx i)) (outpoints, outpoints_to_txinfo)))
     txids ([], [])"

text \<open>
  The indices of the conflicts that contain one of the two transactions; the membership tests
  on the vector of references compare the conflicts structurally.
\<close>

definition existing_conflicts :: "tx_info \<Rightarrow> tx_info \<Rightarrow> conflict list \<Rightarrow> nat list" where
  "existing_conflicts template_tx block_tx conflicts =
     fold (\<lambda>k existing.
       let c = conflicts ! k;
           existing = (if template_tx \<in> set (template_transactions c) \<and>
                          c \<notin> set (map ((!) conflicts) existing)
                       then existing @ [k] else existing);
           existing = (if block_tx \<in> set (block_transactions c) \<and>
                          c \<notin> set (map ((!) conflicts) existing)
                       then existing @ [k] else existing)
       in existing) [0..<length conflicts] []"

definition extend_conflict :: "tx_info \<Rightarrow> tx_info \<Rightarrow> outpoint \<Rightarrow> conflict \<Rightarrow> conflict" where
  "extend_conflict template_tx block_tx co c =
     \<lparr>template_transactions =
        (if template_tx \<in> set (template_transactions c) then template_transactions c
         else template_transactions c @ [template_tx]),
      block_transactions =
        (if block_tx \<in> set (block_transactions c) then block_transactions c
         else block_transactions c @ [block_tx]),
      conflicting_outpoints =
        (if co \<in> set (conflicting_outpoints c) then conflicting_outpoints c
         else conflicting_outpoints c @ [co])\<rparr>"

definition sort_dedup_txs :: "lib \<Rightarrow> tx_info list \<Rightarrow> tx_info list" where
  "sort_dedup_txs L is = dedup_by_key ti_txid (sort_key (\<lambda>i. txid_rank L (ti_txid i)) is)"

definition sort_dedup_outpoints :: "lib \<Rightarrow> outpoint list \<Rightarrow> outpoint list" where
  "sort_dedup_outpoints L ops =
     remdups_adj (sort_key (\<lambda>op. (txid_rank L (op_txid op), op_vout op)) ops)"

definition merged_conflict ::
  "lib \<Rightarrow> tx_info \<Rightarrow> tx_info \<Rightarrow> outpoint \<Rightarrow> conflict list \<Rightarrow> conflict" where
  "merged_conflict L template_tx block_tx co existing =
     \<lparr>template_transactions =
        sort_dedup_txs L (template_tx # concat (map template_transactions existing)),
      block_transactions =
        sort_dedup_txs L (block_tx # concat (map block_transactions existing)),
      conflicting_outpoints =
        sort_dedup_outpoints L (co # concat (map conflicting_outpoints existing))\<rparr>"

definition empty_conflict :: conflict where
  "empty_conflict =
     \<lparr>template_transactions = [], block_transactions = [], conflicting_outpoints = []\<rparr>"

definition retain_nonempty :: "conflict list \<Rightarrow> conflict list" where
  "retain_nonempty conflicts = filter (\<lambda>c. template_transactions c \<noteq> []) conflicts"

text \<open>
  The loop body for two known transactions. In the merging case \<^verbatim>\<open>append\<close> empties the vectors of
  every existing conflict, and the first of them receives the merged vectors.
\<close>

definition absorb_outpoint ::
  "lib \<Rightarrow> tx_info \<Rightarrow> tx_info \<Rightarrow> outpoint \<Rightarrow> conflict list \<Rightarrow> conflict list" where
  "absorb_outpoint L template_tx block_tx co conflicts =
     retain_nonempty (retain_nonempty (retain_nonempty
       (case existing_conflicts template_tx block_tx conflicts of
          [] \<Rightarrow> conflicts @ [\<lparr>template_transactions = [template_tx],
                              block_transactions = [block_tx],
                              conflicting_outpoints = [co]\<rparr>]
        | [k] \<Rightarrow> conflicts[k := extend_conflict template_tx block_tx co (conflicts ! k)]
        | k # l # ks \<Rightarrow>
            (let existing = k # l # ks
             in (fold (\<lambda>j cs. cs[j := empty_conflict]) existing conflicts)
                [k := merged_conflict L template_tx block_tx co (map ((!) conflicts) existing)]))))"

definition conflict_step ::
  "lib \<Rightarrow> (outpoint, tx_info) hash_map \<Rightarrow> (outpoint, tx_info) hash_map \<Rightarrow> outpoint \<Rightarrow>
     conflict list \<Rightarrow> panic + conflict list" where
  "conflict_step L template_outpoints_to_txinfo block_outpoints_to_txinfo co conflicts =
     (case hm_get template_outpoints_to_txinfo co of
        None \<Rightarrow> Inl (OutpointNotInMap ''template_outpoints_to_txinfo'' co)
      | Some template_tx \<Rightarrow>
          (case hm_get block_outpoints_to_txinfo co of
             None \<Rightarrow> Inl (OutpointNotInMap ''block_outpoints_to_txinfo'' co)
           | Some block_tx \<Rightarrow> Inr (absorb_outpoint L template_tx block_tx co conflicts)))"

definition conflict_row :: "int \<Rightarrow> conflict \<Rightarrow> conflicting_transaction" where
  "conflict_row block_id c =
     \<lparr>ct_block_id = block_id,
      ct_template_txids = map (\<lambda>i. rev (ti_txid i)) (template_transactions c),
      ct_block_txids = map (\<lambda>i. rev (ti_txid i)) (block_transactions c),
      ct_outpoints_txids = map (\<lambda>op. rev (op_txid op)) (conflicting_outpoints c),
      ct_outpoints_vouts = map (\<lambda>op. as_i32 (int (op_vout op))) (conflicting_outpoints c)\<rparr>"

text \<open>The set computation: all conflicts of the two sides.\<close>

definition find_conflicts ::
  "lib \<Rightarrow> hash_iter \<Rightarrow> (txid, tx_info) hash_map \<Rightarrow> txid list \<Rightarrow> (txid, tx_info) hash_map \<Rightarrow>
     txid list \<Rightarrow> panic + conflict list" where
  "find_conflicts L H template_map txids_only_in_template block_map txids_only_in_block =
     bind_res (collect_side ''template_txid_to_txinfo_map'' template_map txids_only_in_template)
       (\<lambda>(template_outpoints, template_outpoints_to_txinfo).
     bind_res (collect_side ''block_txid_to_txinfo_map'' block_map txids_only_in_block)
       (\<lambda>(block_outpoints, block_outpoints_to_txinfo).
     let conflicting = iter_outpoints H (hs_intersection template_outpoints block_outpoints)
     in if conflicting = [] then Inr []
        else fold_res (conflict_step L template_outpoints_to_txinfo block_outpoints_to_txinfo)
               conflicting []))"

text \<open>The transactions of one conflict are built with the conflict flag and added.\<close>

definition add_conflict_txs ::
  "lib \<Rightarrow> hash_iter \<Rightarrow> utxo_map \<Rightarrow> string list \<Rightarrow> conflict \<Rightarrow> tx_map \<times> metrics \<Rightarrow> tx_map \<times> metrics" where
  "add_conflict_txs L H utxos sanctioned_addresses c st =
     (let st = fold (build_and_add L H True utxos sanctioned_addresses) (template_transactions c) st
      in fold (build_and_add L H True utxos sanctioned_addresses) (block_transactions c) st)"

definition build_conflicting_transactions ::
  "lib \<Rightarrow> hash_iter \<Rightarrow> int \<Rightarrow> txid list \<Rightarrow> (txid, tx_info) hash_map \<Rightarrow> txid list \<Rightarrow>
     (txid, tx_info) hash_map \<Rightarrow> utxo_map \<Rightarrow> string list \<Rightarrow> tx_map \<times> metrics \<Rightarrow>
     panic + (conflicting_transaction list \<times> (tx_map \<times> metrics))" where
  "build_conflicting_transactions L H block_id txids_only_in_template template_map
       txids_only_in_block block_map utxos sanctioned_addresses st =
     bind_res (find_conflicts L H template_map txids_only_in_template block_map txids_only_in_block)
       (\<lambda>conflicts.
          Inr (map (conflict_row block_id) conflicts,
               fold (add_conflict_txs L H utxos sanctioned_addresses) conflicts st))"

section \<open>One step on the list of conflicts\<close>

definition touches :: "tx_info \<Rightarrow> tx_info \<Rightarrow> conflict \<Rightarrow> bool" where
  "touches t b c \<longleftrightarrow> t \<in> set (template_transactions c) \<or> b \<in> set (block_transactions c)"

lemma existing_conflicts_filter:
  assumes "distinct conflicts"
  shows "existing_conflicts t b conflicts =
    filter (\<lambda>k. touches t b (conflicts ! k)) [0..<length conflicts]"
proof -
  define f where "f k existing =
       (let c = conflicts ! k;
           existing = (if t \<in> set (template_transactions c) \<and> c \<notin> set (map ((!) conflicts) existing)
                       then existing @ [k] else existing);
           existing = (if b \<in> set (block_transactions c) \<and> c \<notin> set (map ((!) conflicts) existing)
                       then existing @ [k] else existing)
       in existing)" for k and existing :: "nat list"
  have "n \<le> length conflicts \<Longrightarrow>
      fold f [0..<n] [] = filter (\<lambda>k. touches t b (conflicts ! k)) [0..<n]" for n
  proof (induction n)
    case (Suc n)
    have "conflicts ! n \<notin> (!) conflicts ` {k \<in> {0..<n}. touches t b (conflicts ! k)}"
      using assms Suc.prems by (auto simp: nth_eq_iff_index_eq)
    with Suc show ?case by (auto simp: f_def touches_def Let_def)
  qed simp
  moreover have "existing_conflicts t b conflicts = fold f [0..<length conflicts] []"
    unfolding existing_conflicts_def f_def ..
  ultimately show ?thesis by simp
qed

lemma fold_update_blank:
  "fold (\<lambda>j cs. cs[j := e]) js cs =
     map (\<lambda>k. if k \<in> set js then e else cs ! k) [0..<length cs]"
proof (induction js arbitrary: cs)
  case Nil
  then show ?case by (simp add: map_nth)
next
  case (Cons j js)
  then show ?case by (auto intro!: nth_equalityI simp: nth_list_update)
qed

text \<open>
  Blanking the selected entries, storing a new one at a selected position and dropping blank
  entries leaves the unselected entries and the new one.
\<close>

lemma mset_blank_store:
  fixes cs :: "'a list"
  assumes sel: "ks = filter (\<lambda>k. P (cs ! k)) [0..<length cs]"
    and k: "k \<in> set ks" and N: "\<not> N e" "N v" "\<And>c. c \<in> set cs \<Longrightarrow> \<not> P c \<Longrightarrow> N c"
  shows "mset (filter N ((fold (\<lambda>j cs. cs[j := e]) ks cs)[k := v])) =
    add_mset v (mset (filter (\<lambda>c. \<not> P c) cs))"
proof -
  define bl where "bl = fold (\<lambda>j cs. cs[j := e]) ks cs"
  have bl: "bl = map (\<lambda>k. if P (cs ! k) then e else cs ! k) [0..<length cs]"
    unfolding bl_def fold_update_blank sel by simp
  have "filter N bl = map ((!) cs) (filter (\<lambda>k. \<not> P (cs ! k)) [0..<length cs])"
  proof -
    have "filter N (map (\<lambda>k. if P (cs ! k) then e else cs ! k) is) =
        map ((!) cs) (filter (\<lambda>k. \<not> P (cs ! k)) is)" if "set is \<subseteq> {0..<length cs}" for "is"
      using that N by (induction "is") auto
    then show ?thesis unfolding bl by simp
  qed
  also have "\<dots> = filter (\<lambda>c. \<not> P c) cs"
    using filter_map [of "\<lambda>c. \<not> P c" "(!) cs" "[0..<length cs]"] by (simp add: map_nth comp_def)
  finally have M: "filter N bl = filter (\<lambda>c. \<not> P c) cs" .
  have kl: "k < length bl" "bl ! k = e"
    using k by (auto simp: bl sel)
  have "mset (filter N (bl[k := v])) = filter_mset N (add_mset v (mset bl - {#e#}))"
    using kl by (simp add: mset_update)
  also have "\<dots> = add_mset v (filter_mset N (mset bl))"
    using N(1,2) kl by (simp add: multiset_eq_iff)
  also have "\<dots> = add_mset v (mset (filter (\<lambda>c. \<not> P c) cs))"
    by (simp flip: M)
  finally show ?thesis by (simp add: bl_def)
qed

section \<open>The list as a partition into components\<close>

text \<open>Two outpoints are related when one transaction of a side spends both.\<close>

definition share :: "(outpoint \<Rightarrow> 'a) \<Rightarrow> (outpoint \<Rightarrow> 'b) \<Rightarrow> outpoint set \<Rightarrow> outpoint rel" where
  "share \<tau> \<beta> S = {(p, q). p \<in> S \<and> q \<in> S \<and> (\<tau> p = \<tau> q \<or> \<beta> p = \<beta> q)}"

definition interlinked :: "(outpoint \<Rightarrow> 'a) \<Rightarrow> (outpoint \<Rightarrow> 'b) \<Rightarrow> outpoint set \<Rightarrow> bool" where
  "interlinked \<tau> \<beta> S \<longleftrightarrow> (\<forall>p\<in>S. \<forall>q\<in>S. (p, q) \<in> (share \<tau> \<beta> S)\<^sup>*)"

lemma share_mono: "S \<subseteq> S' \<Longrightarrow> share \<tau> \<beta> S \<subseteq> share \<tau> \<beta> S'"
  by (auto simp: share_def)

lemma share_star_sym: "(p, q) \<in> (share \<tau> \<beta> S)\<^sup>* \<Longrightarrow> (q, p) \<in> (share \<tau> \<beta> S)\<^sup>*"
proof -
  have "sym (share \<tau> \<beta> S)" by (auto simp: sym_def share_def)
  then show "(p, q) \<in> (share \<tau> \<beta> S)\<^sup>* \<Longrightarrow> (q, p) \<in> (share \<tau> \<beta> S)\<^sup>*"
    by (meson sym_rtrancl symE)
qed

lemma interlinked_star:
  "interlinked \<tau> \<beta> S \<Longrightarrow> S \<subseteq> S' \<Longrightarrow> p \<in> S \<Longrightarrow> q \<in> S \<Longrightarrow> (p, q) \<in> (share \<tau> \<beta> S')\<^sup>*"
  unfolding interlinked_def using rtrancl_mono [OF share_mono] by blast

text \<open>An outpoint related to each of several connected sets joins them.\<close>

lemma interlinked_join:
  assumes conn: "\<And>S. S \<in> F \<Longrightarrow> interlinked \<tau> \<beta> S"
    and link: "\<And>S. S \<in> F \<Longrightarrow> \<exists>x\<in>S. \<tau> x = \<tau> co \<or> \<beta> x = \<beta> co"
  shows "interlinked \<tau> \<beta> (insert co (\<Union>F))"
proof -
  let ?U = "insert co (\<Union>F)"
  have to_co: "(p, co) \<in> (share \<tau> \<beta> ?U)\<^sup>*" if "p \<in> ?U" for p
  proof (cases "p = co")
    case False
    with that obtain S where S: "S \<in> F" "p \<in> S" by auto
    from link [OF S(1)] obtain x where x: "x \<in> S" "\<tau> x = \<tau> co \<or> \<beta> x = \<beta> co" by auto
    have "(p, x) \<in> (share \<tau> \<beta> ?U)\<^sup>*"
      by (rule interlinked_star [OF conn [OF S(1)] _ S(2) x(1)]) (use S(1) in blast)
    moreover have "(x, co) \<in> share \<tau> \<beta> ?U"
      using S x by (auto simp: share_def)
    ultimately show ?thesis by (rule rtrancl.rtrancl_into_rtrancl)
  qed simp
  show ?thesis
    unfolding interlinked_def by (meson to_co share_star_sym rtrancl_trans)
qed

lemma components_quotient:
  assumes cover: "\<Union>F = A" and nonempty: "{} \<notin> F"
    and conn: "\<And>S. S \<in> F \<Longrightarrow> interlinked \<tau> \<beta> S"
    and apart: "\<And>S S' p q. S \<in> F \<Longrightarrow> S' \<in> F \<Longrightarrow> p \<in> S \<Longrightarrow> q \<in> S' \<Longrightarrow>
      \<tau> p = \<tau> q \<or> \<beta> p = \<beta> q \<Longrightarrow> S = S'"
  shows "F = A // (share \<tau> \<beta> A)\<^sup>*"
proof -
  have component: "S = (share \<tau> \<beta> A)\<^sup>* `` {p}" if S: "S \<in> F" "p \<in> S" for S p
  proof
    show "S \<subseteq> (share \<tau> \<beta> A)\<^sup>* `` {p}"
      using interlinked_star [OF conn [OF S(1)]] S cover by blast
    have "q \<in> S" if "(p, q) \<in> (share \<tau> \<beta> A)\<^sup>*" for q
      using that
    proof (induction rule: rtrancl_induct)
      case base
      show ?case by (fact S(2))
    next
      case (step y z)
      then obtain S' where "S' \<in> F" "z \<in> S'" using cover by (auto simp: share_def)
      with step apart [OF S(1) \<open>S' \<in> F\<close> step.IH] show ?case by (auto simp: share_def)
    qed
    then show "(share \<tau> \<beta> A)\<^sup>* `` {p} \<subseteq> S" by auto
  qed
  show ?thesis
  proof (intro set_eqI iffI)
    fix S assume S: "S \<in> F"
    with nonempty obtain p where "p \<in> S" by (metis ex_in_conv)
    with component [OF S] S cover show "S \<in> A // (share \<tau> \<beta> A)\<^sup>*" by (auto simp: quotient_def)
  next
    fix S assume "S \<in> A // (share \<tau> \<beta> A)\<^sup>*"
    then obtain p where p: "p \<in> A" "S = (share \<tau> \<beta> A)\<^sup>* `` {p}" by (auto simp: quotient_def)
    with cover obtain S' where "S' \<in> F" "p \<in> S'" by auto
    with component p show "S \<in> F" by metis
  qed
qed

definition conflict_ok ::
  "(outpoint \<Rightarrow> tx_info) \<Rightarrow> (outpoint \<Rightarrow> tx_info) \<Rightarrow> conflict \<Rightarrow> bool" where
  "conflict_ok \<tau> \<beta> c \<longleftrightarrow>
     conflicting_outpoints c \<noteq> [] \<and>
     distinct (conflicting_outpoints c) \<and>
     distinct (template_transactions c) \<and> distinct (block_transactions c) \<and>
     set (template_transactions c) = \<tau> ` set (conflicting_outpoints c) \<and>
     set (block_transactions c) = \<beta> ` set (conflicting_outpoints c) \<and>
     interlinked \<tau> \<beta> (set (conflicting_outpoints c))"

text \<open>The invariant of the loop after the outpoints \<open>ps\<close>.\<close>

definition conflicts_inv ::
  "(outpoint \<Rightarrow> tx_info) \<Rightarrow> (outpoint \<Rightarrow> tx_info) \<Rightarrow> outpoint list \<Rightarrow> conflict list \<Rightarrow> bool" where
  "conflicts_inv \<tau> \<beta> ps cs \<longleftrightarrow>
     distinct cs \<and> (\<forall>c\<in>set cs. conflict_ok \<tau> \<beta> c) \<and>
     (\<Union>c\<in>set cs. set (conflicting_outpoints c)) = set ps \<and>
     (\<forall>c\<in>set cs. \<forall>d\<in>set cs. c \<noteq> d \<longrightarrow>
        set (template_transactions c) \<inter> set (template_transactions d) = {} \<and>
        set (block_transactions c) \<inter> set (block_transactions d) = {})"

lemma sorted_dedup_distinct:
  assumes "sorted (map (\<lambda>x. r (k x)) xs)" "inj r"
  shows "distinct (map k (dedup_by_key k xs)) \<and>
    (xs \<noteq> [] \<longrightarrow> dedup_by_key k xs \<noteq> [] \<and> k (hd (dedup_by_key k xs)) = k (hd xs))"
  using assms
proof (induction k xs rule: dedup_by_key.induct)
  case (3 k x y xs)
  show ?case
  proof (cases "k x = k y")
    case True
    with "3.IH"(1) "3.prems" show ?thesis by simp
  next
    case False
    have "r (k x) < r (k y)"
      using False "3.prems" by (auto simp: inj_eq order.strict_iff_order)
    then have "k x \<notin> k ` set (y # xs)"
      using "3.prems"(1) by (auto simp: inj_eq)
    then have "k x \<notin> k ` set (dedup_by_key k (y # xs))"
      using dedup_by_key_subset by fastforce
    with False "3.IH"(2) "3.prems" show ?thesis by simp
  qed
qed auto

lemma sort_dedup_txs_facts:
  assumes "txid_order_law L"
  shows "distinct (sort_dedup_txs L is)"
    and "inj_on ti_txid (set is) \<Longrightarrow> set (sort_dedup_txs L is) = set is"
proof -
  have "distinct (map ti_txid (sort_dedup_txs L is))"
    unfolding sort_dedup_txs_def
    using assms sorted_dedup_distinct [of "txid_rank L" "ti_txid :: tx_info \<Rightarrow> txid", OF sorted_sort_key]
    by (simp add: txid_order_law_def)
  then show "distinct (sort_dedup_txs L is)" by (simp add: distinct_map)
  show "inj_on ti_txid (set is) \<Longrightarrow> set (sort_dedup_txs L is) = set is"
    unfolding sort_dedup_txs_def by (subst dedup_by_key_set) auto
qed

lemma sort_dedup_outpoints_facts:
  assumes "txid_order_law L"
  shows "distinct (sort_dedup_outpoints L ops)" "set (sort_dedup_outpoints L ops) = set ops"
proof -
  have "inj (\<lambda>op :: outpoint. (txid_rank L (op_txid op), op_vout op))"
    using assms by (auto simp: inj_def txid_order_law_def)
  moreover have "sorted (map (\<lambda>op. (txid_rank L (op_txid op), op_vout op))
      (sort_key (\<lambda>op. (txid_rank L (op_txid op), op_vout op)) ops))"
    by (rule sorted_sort_key)
  ultimately have "distinct (map (\<lambda>x. x) (dedup_by_key (\<lambda>x. x)
      (sort_key (\<lambda>op. (txid_rank L (op_txid op), op_vout op)) ops)))"
    using sorted_dedup_distinct [of "\<lambda>op :: outpoint. (txid_rank L (op_txid op), op_vout op)" "\<lambda>x. x"]
    by blast
  then show "distinct (sort_dedup_outpoints L ops)"
    by (simp add: sort_dedup_outpoints_def dedup_by_key_id)
qed (simp add: sort_dedup_outpoints_def)

text \<open>
  Every branch of the step replaces the conflicts that contain one of the two transactions by
  one new conflict, which is their union extended by the outpoint.
\<close>

definition joined_conflict :: "tx_info \<Rightarrow> tx_info \<Rightarrow> outpoint \<Rightarrow> conflict list \<Rightarrow> conflict \<Rightarrow> bool" where
  "joined_conflict t b co cs n \<longleftrightarrow>
     set (conflicting_outpoints n) =
       insert co (\<Union>c\<in>{c \<in> set cs. touches t b c}. set (conflicting_outpoints c)) \<and>
     set (template_transactions n) =
       insert t (\<Union>c\<in>{c \<in> set cs. touches t b c}. set (template_transactions c)) \<and>
     set (block_transactions n) =
       insert b (\<Union>c\<in>{c \<in> set cs. touches t b c}. set (block_transactions c)) \<and>
     distinct (conflicting_outpoints n) \<and> distinct (template_transactions n) \<and>
     distinct (block_transactions n)"

lemma joined_conflict_ok:
  assumes ok: "\<And>c. c \<in> set cs \<Longrightarrow> conflict_ok \<tau> \<beta> c"
    and n: "joined_conflict (\<tau> co) (\<beta> co) co cs n"
  shows "conflict_ok \<tau> \<beta> n"
proof -
  let ?T = "{c \<in> set cs. touches (\<tau> co) (\<beta> co) c}"
  let ?F = "(\<lambda>c. set (conflicting_outpoints c)) ` ?T"
  have "interlinked \<tau> \<beta> (insert co (\<Union>?F))"
  proof (rule interlinked_join)
    fix S assume "S \<in> ?F"
    then obtain c where c: "c \<in> set cs" "touches (\<tau> co) (\<beta> co) c" "S = set (conflicting_outpoints c)"
      by auto
    with ok [of c] show "interlinked \<tau> \<beta> S" by (simp add: conflict_ok_def)
    from c ok [of c] show "\<exists>x\<in>S. \<tau> x = \<tau> co \<or> \<beta> x = \<beta> co"
      by (fastforce simp: conflict_ok_def touches_def)
  qed
  moreover have "conflicting_outpoints n \<noteq> []"
    using n unfolding joined_conflict_def by (cases "conflicting_outpoints n") auto
  moreover have "set (template_transactions n) = \<tau> ` set (conflicting_outpoints n)"
      "set (block_transactions n) = \<beta> ` set (conflicting_outpoints n)"
    using n ok by (simp_all add: joined_conflict_def conflict_ok_def image_UN)
  ultimately show ?thesis
    using n unfolding conflict_ok_def joined_conflict_def by simp
qed

lemma joined_conflict_inv:
  assumes inv: "conflicts_inv \<tau> \<beta> ps cs" and n: "joined_conflict (\<tau> co) (\<beta> co) co cs n"
    and co: "co \<notin> set ps"
    and cs': "mset cs' = add_mset n (mset (filter (\<lambda>c. \<not> touches (\<tau> co) (\<beta> co) c) cs))"
  shows "conflicts_inv \<tau> \<beta> (ps @ [co]) cs'"
proof -
  let ?t = "touches (\<tau> co) (\<beta> co)"
  have ok: "\<And>c. c \<in> set cs \<Longrightarrow> conflict_ok \<tau> \<beta> c" using inv by (simp add: conflicts_inv_def)
  have set': "set cs' = insert n {c \<in> set cs. \<not> ?t c}"
    using arg_cong [OF cs', of set_mset] by simp
  have cover: "(\<Union>c\<in>set cs. set (conflicting_outpoints c)) = set ps"
    using inv by (simp add: conflicts_inv_def)
  have new: "co \<in> set (conflicting_outpoints n)" using n by (simp add: joined_conflict_def)
  then have "n \<notin> set cs" using cover co by auto
  then have "distinct cs'"
    using inv mset_eq_imp_distinct_iff [of cs' "n # filter (\<lambda>c. \<not> ?t c) cs"] cs'
    by (simp add: conflicts_inv_def)
  moreover have "\<forall>c\<in>set cs'. conflict_ok \<tau> \<beta> c"
    using set' ok joined_conflict_ok [OF ok n] by auto
  moreover have "(\<Union>c\<in>set cs'. set (conflicting_outpoints c)) = set (ps @ [co])"
    using n by (auto simp: joined_conflict_def set' simp flip: cover)
  moreover have "set (template_transactions n) \<inter> set (template_transactions d) = {} \<and>
      set (block_transactions n) \<inter> set (block_transactions d) = {}"
    if d: "d \<in> set cs" "\<not> ?t d" for d
  proof -
    have apart: "set (template_transactions c) \<inter> set (template_transactions d) = {} \<and>
        set (block_transactions c) \<inter> set (block_transactions d) = {}"
      if "c \<in> {c \<in> set cs. ?t c}" for c
    proof -
      have "c \<in> set cs" "c \<noteq> d" using that d by auto
      with inv d(1) show ?thesis unfolding conflicts_inv_def by blast
    qed
    have tx: "set (template_transactions n) =
        insert (\<tau> co) (\<Union>c\<in>{c \<in> set cs. ?t c}. set (template_transactions c))"
      "set (block_transactions n) =
        insert (\<beta> co) (\<Union>c\<in>{c \<in> set cs. ?t c}. set (block_transactions c))"
      using n by (simp_all add: joined_conflict_def)
    show ?thesis
      unfolding tx using apart d(2) unfolding touches_def by blast
  qed
  ultimately show ?thesis
    using inv unfolding conflicts_inv_def set' by (auto simp: Int_commute)
qed

lemma joined_extend:
  assumes "{c \<in> set cs. touches t b c} = {c}" "conflict_ok \<tau> \<beta> c"
  shows "joined_conflict t b co cs (extend_conflict t b co c)"
  using assms unfolding joined_conflict_def extend_conflict_def by (auto simp: conflict_ok_def)

lemma joined_merge:
  assumes law: "txid_order_law L"
    and inj: "inj_on ti_txid (insert t (\<Union>c\<in>set cs. set (template_transactions c)))"
      "inj_on ti_txid (insert b (\<Union>c\<in>set cs. set (block_transactions c)))"
    and ex: "set ex = {c \<in> set cs. touches t b c}"
  shows "joined_conflict t b co cs (merged_conflict L t b co ex)"
proof -
  have "inj_on ti_txid (set (t # concat (map template_transactions ex)))"
    by (rule inj_on_subset [OF inj(1)]) (auto simp: ex)
  moreover have "inj_on ti_txid (set (b # concat (map block_transactions ex)))"
    by (rule inj_on_subset [OF inj(2)]) (auto simp: ex)
  ultimately show ?thesis
    using sort_dedup_txs_facts [OF law] sort_dedup_outpoints_facts [OF law]
    by (simp add: joined_conflict_def merged_conflict_def ex)
qed

lemma nonempty_if_ok: "conflict_ok \<tau> \<beta> c \<Longrightarrow> template_transactions c \<noteq> []"
  by (metis conflict_ok_def empty_set image_is_empty set_empty)

lemma retain_nonempty_thrice:
  "retain_nonempty (retain_nonempty (retain_nonempty xs)) = filter (\<lambda>c. template_transactions c \<noteq> []) xs"
  by (simp add: retain_nonempty_def)

lemma joined_conflict_nonempty: "joined_conflict t b co cs n \<Longrightarrow> template_transactions n \<noteq> []"
  unfolding joined_conflict_def by (cases "template_transactions n") auto

lemma conflicts_inv_transactions:
  assumes "conflicts_inv \<tau> \<beta> ps cs"
  shows "(\<Union>c\<in>set cs. set (template_transactions c)) = \<tau> ` set ps"
    "(\<Union>c\<in>set cs. set (block_transactions c)) = \<beta> ` set ps"
proof -
  have "set ps = (\<Union>c\<in>set cs. set (conflicting_outpoints c))" "\<And>c. c \<in> set cs \<Longrightarrow> conflict_ok \<tau> \<beta> c"
    using assms by (simp_all add: conflicts_inv_def)
  then show "(\<Union>c\<in>set cs. set (template_transactions c)) = \<tau> ` set ps"
    "(\<Union>c\<in>set cs. set (block_transactions c)) = \<beta> ` set ps"
    by (simp_all add: conflict_ok_def image_UN)
qed

lemma absorb_outpoint_joins:
  assumes inv: "conflicts_inv \<tau> \<beta> ps cs" and law: "txid_order_law L"
    and inj: "inj_on ti_txid (insert (\<tau> co) (\<tau> ` set ps))" "inj_on ti_txid (insert (\<beta> co) (\<beta> ` set ps))"
  shows "\<exists>n. joined_conflict (\<tau> co) (\<beta> co) co cs n \<and>
    mset (absorb_outpoint L (\<tau> co) (\<beta> co) co cs) =
      add_mset n (mset (filter (\<lambda>c. \<not> touches (\<tau> co) (\<beta> co) c) cs))"
proof -
  let ?t = "touches (\<tau> co) (\<beta> co)" and ?ne = "\<lambda>c :: conflict. template_transactions c \<noteq> []"
  define ks where "ks = existing_conflicts (\<tau> co) (\<beta> co) cs"
  have ks: "ks = filter (\<lambda>k. ?t (cs ! k)) [0..<length cs]"
    using inv existing_conflicts_filter by (simp add: ks_def conflicts_inv_def)
  have ok: "conflict_ok \<tau> \<beta> c" if "c \<in> set cs" for c using inv that by (simp add: conflicts_inv_def)
  have ne: "?ne c" if "c \<in> set cs" for c using ok [OF that] by (rule nonempty_if_ok)
  have touched: "set (map ((!) cs) ks) = {c \<in> set cs. ?t c}"
    by (auto simp: ks in_set_conv_nth)
  have store: "mset (filter ?ne ((fold (\<lambda>j cs. cs[j := empty_conflict]) ks cs)[k := n])) =
      add_mset n (mset (filter (\<lambda>c. \<not> ?t c) cs))" if "k \<in> set ks" "joined_conflict (\<tau> co) (\<beta> co) co cs n" for k n
    by (rule mset_blank_store [OF ks]) (use that ne joined_conflict_nonempty in \<open>auto simp: empty_conflict_def\<close>)
  consider (none) "ks = []" | (one) k where "ks = [k]" | (many) k l ls where "ks = k # l # ls"
    by (metis list.exhaust)
  then show ?thesis
  proof cases
    case none
    let ?n = "\<lparr>template_transactions = [\<tau> co], block_transactions = [\<beta> co], conflicting_outpoints = [co]\<rparr>"
    have no: "{c \<in> set cs. ?t c} = {}" using touched none by simp
    then have "filter (\<lambda>c. \<not> ?t c) cs = cs" "filter ?ne cs = cs"
      using ne by (auto simp: filter_id_conv)
    then have "mset (absorb_outpoint L (\<tau> co) (\<beta> co) co cs) = add_mset ?n (mset (filter (\<lambda>c. \<not> ?t c) cs))"
      using none by (simp add: absorb_outpoint_def retain_nonempty_thrice flip: ks_def)
    moreover have "joined_conflict (\<tau> co) (\<beta> co) co cs ?n" by (simp add: joined_conflict_def no)
    ultimately show ?thesis by blast
  next
    case one
    have n: "joined_conflict (\<tau> co) (\<beta> co) co cs (extend_conflict (\<tau> co) (\<beta> co) co (cs ! k))"
    proof (rule joined_extend)
      show "{c \<in> set cs. ?t c} = {cs ! k}" using touched one by simp
      then show "conflict_ok \<tau> \<beta> (cs ! k)" using ok by blast
    qed
    with one store [OF _ n, of k] show ?thesis
      by (auto simp: absorb_outpoint_def retain_nonempty_thrice simp flip: ks_def)
  next
    case many
    have n: "joined_conflict (\<tau> co) (\<beta> co) co cs (merged_conflict L (\<tau> co) (\<beta> co) co (map ((!) cs) ks))"
      by (rule joined_merge [OF law]) (use inj conflicts_inv_transactions [OF inv] touched in simp_all)
    with many store [OF _ n, of k] show ?thesis
      by (auto simp: absorb_outpoint_def retain_nonempty_thrice Let_def simp flip: ks_def)
  qed
qed

section \<open>The two sides\<close>

definition spent_by :: "tx_info \<Rightarrow> outpoint set" where
  "spent_by i = previous_output ` set (tx_input (ti_tx i))"

text \<open>The transactions with the given ids in a side's map.\<close>

definition side_txs :: "(txid, tx_info) hash_map \<Rightarrow> txid list \<Rightarrow> tx_info set" where
  "side_txs m txids = {i. \<exists>txid\<in>set txids. hm_get m txid = Some i}"

text \<open>Every key of the map is the id of its entry.\<close>

definition keyed_by_txid :: "(txid, tx_info) hash_map \<Rightarrow> bool" where
  "keyed_by_txid m \<longleftrightarrow> (\<forall>(txid, i)\<in>set m. ti_txid i = txid)"

lemma keyed_by_txid_get: "keyed_by_txid m \<Longrightarrow> hm_get m txid = Some i \<Longrightarrow> ti_txid i = txid"
  by (auto simp: keyed_by_txid_def dest!: map_of_SomeD)

lemma keyed_by_txid_inj: "keyed_by_txid m \<Longrightarrow> inj_on ti_txid (side_txs m txids)"
  unfolding side_txs_def by (rule inj_onI) (auto, metis keyed_by_txid_get option.inject)

lemma collect_inputs:
  "fold (\<lambda>inp (ops, m). (hs_insert (previous_output inp) ops, hm_insert (previous_output inp) i m))
      inps (ops0, m0) = (ops, m) \<Longrightarrow> distinct ops0 \<Longrightarrow> dom (hm_get m0) = set ops0 \<Longrightarrow>
    distinct ops \<and> set ops = set ops0 \<union> previous_output ` set inps \<and> dom (hm_get m) = set ops \<and>
    (\<forall>op. hm_get m op = (if op \<in> previous_output ` set inps then Some i else hm_get m0 op))"
proof (induction inps arbitrary: ops0 m0)
  case Nil
  then show ?case by simp
next
  case (Cons inp inps)
  let ?ops = "hs_insert (previous_output inp) ops0" and ?m = "hm_insert (previous_output inp) i m0"
  have IH: "distinct ops \<and> set ops = set ?ops \<union> previous_output ` set inps \<and> dom (hm_get m) = set ops \<and>
      (\<forall>op. hm_get m op = (if op \<in> previous_output ` set inps then Some i else hm_get ?m op))"
  proof (rule Cons.IH)
    show "dom (hm_get ?m) = set ?ops"
      unfolding hm_insert_get using Cons.prems(3) by (simp only: dom_fun_upd option.simps if_False hs_insert_set)
  qed (use Cons.prems in simp_all)
  then have "set ops = set ops0 \<union> previous_output ` set (inp # inps)" by simp
  moreover have "hm_get m op = (if op \<in> previous_output ` set (inp # inps) then Some i else hm_get m0 op)"
    for op using IH by simp
  ultimately show ?case using IH by blast
qed

lemma collect_side_result:
  assumes "\<And>txid. txid \<in> set txids \<Longrightarrow> txid \<in> dom (hm_get m)"
  shows "\<exists>ops om. collect_side name m txids = Inr (ops, om) \<and> distinct ops \<and>
    set ops = (\<Union>i\<in>side_txs m txids. spent_by i) \<and> dom (hm_get om) = set ops \<and>
    (\<forall>op i. hm_get om op = Some i \<longrightarrow> i \<in> side_txs m txids \<and> op \<in> spent_by i)"
proof -
  let ?P = "\<lambda>txids (ops, om). distinct ops \<and> set ops = (\<Union>i\<in>side_txs m txids. spent_by i) \<and>
    dom (hm_get om) = set ops \<and>
    (\<forall>op i. hm_get om op = Some i \<longrightarrow> i \<in> side_txs m txids \<and> op \<in> spent_by i)"
  have "\<exists>st. collect_side name m txids = Inr st \<and> ?P txids st"
    unfolding collect_side_def
  proof (rule fold_res_total [where P = ?P])
    show "?P [] ([], [])" by (simp add: side_txs_def)
  next
    fix ys txid zs st
    assume split: "txids = ys @ txid # zs" and P: "?P ys st"
    obtain ops om where st: "st = (ops, om)" by (cases st)
    from assms split obtain i where i: "hm_get m txid = Some i" by fastforce
    obtain ops' om' where r: "fold (\<lambda>inp (ops, m). (hs_insert (previous_output inp) ops,
        hm_insert (previous_output inp) i m)) (tx_input (ti_tx i)) (ops, om) = (ops', om')"
      by fastforce
    have side: "side_txs m (ys @ [txid]) = insert i (side_txs m ys)"
      using i by (auto simp: side_txs_def)
    have "?P (ys @ [txid]) (ops', om')"
      using collect_inputs [OF r] P st unfolding side
      by (auto simp: spent_by_def split: if_splits)
    with i r st show "\<exists>s'. (case st of (outpoints, outpoints_to_txinfo) \<Rightarrow>
        case hm_get m txid of None \<Rightarrow> Inl (NotInMap name txid)
        | Some i \<Rightarrow> Inr (fold (\<lambda>inp (ops, m). (hs_insert (previous_output inp) ops,
             hm_insert (previous_output inp) i m)) (tx_input (ti_tx i)) (outpoints, outpoints_to_txinfo)))
        = Inr s' \<and> ?P (ys @ [txid]) s'"
      by simp
  qed
  then show ?thesis by fastforce
qed

section \<open>All conflicts\<close>

text \<open>Under the laws the loop ends without a panic in a state that satisfies the invariant.\<close>

lemma conflict_loop:
  assumes law: "txid_order_law L" and dist: "distinct ops"
    and maps: "\<And>co. co \<in> set ops \<Longrightarrow> hm_get tm co = Some (\<tau> co) \<and> hm_get bm co = Some (\<beta> co)"
    and inj: "inj_on ti_txid (\<tau> ` set ops)" "inj_on ti_txid (\<beta> ` set ops)"
  shows "\<exists>cs. fold_res (conflict_step L tm bm) ops [] = Inr cs \<and> conflicts_inv \<tau> \<beta> ops cs"
proof (rule fold_res_total [where P = "conflicts_inv \<tau> \<beta>"])
  show "conflicts_inv \<tau> \<beta> [] []" by (simp add: conflicts_inv_def)
next
  fix ys co zs cs
  assume split: "ops = ys @ co # zs" and inv: "conflicts_inv \<tau> \<beta> ys cs"
  have "inj_on ti_txid (insert (\<tau> co) (\<tau> ` set ys))"
    by (rule inj_on_subset [OF inj(1)]) (use split in auto)
  moreover have "inj_on ti_txid (insert (\<beta> co) (\<beta> ` set ys))"
    by (rule inj_on_subset [OF inj(2)]) (use split in auto)
  ultimately have inj': "inj_on ti_txid (insert (\<tau> co) (\<tau> ` set ys))"
    "inj_on ti_txid (insert (\<beta> co) (\<beta> ` set ys))" .
  from absorb_outpoint_joins [OF inv law inj'] obtain n
    where n: "joined_conflict (\<tau> co) (\<beta> co) co cs n"
    and m: "mset (absorb_outpoint L (\<tau> co) (\<beta> co) co cs) =
      add_mset n (mset (filter (\<lambda>c. \<not> touches (\<tau> co) (\<beta> co) c) cs))" by blast
  have "co \<notin> set ys" using dist split by simp
  from joined_conflict_inv [OF inv n this m] maps [of co] split
  show "\<exists>cs'. conflict_step L tm bm co cs = Inr cs' \<and> conflicts_inv \<tau> \<beta> (ys @ [co]) cs'"
    by (simp add: conflict_step_def)
qed

text \<open>No two transactions of a side spend the same outpoint (consensus validity of a side).\<close>

definition no_double_spend :: "tx_info set \<Rightarrow> bool" where
  "no_double_spend I \<longleftrightarrow> (\<forall>i\<in>I. \<forall>j\<in>I. spent_by i \<inter> spent_by j \<noteq> {} \<longrightarrow> i = j)"

text \<open>Two outpoints of a set are spent together by a transaction of either side.\<close>

definition spent_together :: "tx_info set \<Rightarrow> tx_info set \<Rightarrow> outpoint set \<Rightarrow> outpoint rel" where
  "spent_together T B S =
     {(p, q). p \<in> S \<and> q \<in> S \<and> (\<exists>i\<in>T \<union> B. p \<in> spent_by i \<and> q \<in> spent_by i)}"

lemma spender_image:
  assumes "no_double_spend I" "\<And>op. op \<in> A \<Longrightarrow> \<sigma> op \<in> I \<and> op \<in> spent_by (\<sigma> op)" "S \<subseteq> A"
  shows "\<sigma> ` S = {i \<in> I. spent_by i \<inter> S \<noteq> {}}"
  using assms unfolding no_double_spend_def by (auto; blast)

lemma share_spent_together:
  assumes "no_double_spend T" "\<And>op. op \<in> A \<Longrightarrow> \<tau> op \<in> T \<and> op \<in> spent_by (\<tau> op)"
    and "no_double_spend B" "\<And>op. op \<in> A \<Longrightarrow> \<beta> op \<in> B \<and> op \<in> spent_by (\<beta> op)"
  shows "share \<tau> \<beta> A = spent_together T B A"
proof -
  have "\<tau> p = \<tau> q \<longleftrightarrow> (\<exists>i\<in>T. p \<in> spent_by i \<and> q \<in> spent_by i)"
    "\<beta> p = \<beta> q \<longleftrightarrow> (\<exists>i\<in>B. p \<in> spent_by i \<and> q \<in> spent_by i)" if "p \<in> A" "q \<in> A" for p q
    using assms that unfolding no_double_spend_def by (metis disjoint_iff)+
  then show ?thesis by (auto simp: share_def spent_together_def)
qed

lemma find_conflicts_result:
  fixes L :: lib and H :: hash_iter and tmap bmap :: "(txid, tx_info) hash_map"
    and txids_t txids_b :: "txid list"
  defines "T \<equiv> side_txs tmap txids_t" and "B \<equiv> side_txs bmap txids_b"
  defines "A \<equiv> (\<Union>i\<in>T. spent_by i) \<inter> (\<Union>i\<in>B. spent_by i)"
  assumes laws: "txid_order_law L" "iteration_law H"
    and known: "set txids_t \<subseteq> dom (hm_get tmap)" "set txids_b \<subseteq> dom (hm_get bmap)"
    and keyed: "keyed_by_txid tmap" "keyed_by_txid bmap"
  shows "\<exists>cs ps \<tau> \<beta>. find_conflicts L H tmap txids_t bmap txids_b = Inr cs \<and>
    conflicts_inv \<tau> \<beta> ps cs \<and> set ps = A \<and>
    (\<forall>op\<in>A. \<tau> op \<in> T \<and> op \<in> spent_by (\<tau> op) \<and> \<beta> op \<in> B \<and> op \<in> spent_by (\<beta> op))"
proof -
  obtain tops tom where t: "collect_side ''template_txid_to_txinfo_map'' tmap txids_t = Inr (tops, tom)"
    "distinct tops" "set tops = (\<Union>i\<in>T. spent_by i)" "dom (hm_get tom) = set tops"
    "\<And>op i. hm_get tom op = Some i \<Longrightarrow> i \<in> T \<and> op \<in> spent_by i"
    using collect_side_result [of txids_t tmap "''template_txid_to_txinfo_map''"] known(1)
    unfolding T_def by blast
  obtain bops bom where b: "collect_side ''block_txid_to_txinfo_map'' bmap txids_b = Inr (bops, bom)"
    "set bops = (\<Union>i\<in>B. spent_by i)" "dom (hm_get bom) = set bops"
    "\<And>op i. hm_get bom op = Some i \<Longrightarrow> i \<in> B \<and> op \<in> spent_by i"
    using collect_side_result [of txids_b bmap "''block_txid_to_txinfo_map''"] known(2)
    unfolding B_def by blast
  define ps where "ps = iter_outpoints H (hs_intersection tops bops)"
  define \<tau> \<beta> where "\<tau> = (\<lambda>op. the (hm_get tom op))" and "\<beta> = (\<lambda>op. the (hm_get bom op))"
  have ps: "set ps = A" "distinct ps"
    using t(2,3) b(2) by (simp_all add: ps_def A_def iteration_law_sets [OF laws(2)]
        iteration_law_distinct [OF laws(2)])
  have maps: "hm_get tom op = Some (\<tau> op) \<and> hm_get bom op = Some (\<beta> op)" if "op \<in> set ps" for op
    using that t(3,4) b(2,3) unfolding ps \<tau>_def \<beta>_def A_def by (metis IntD1 IntD2 domD option.sel)
  then have spend: "\<tau> op \<in> T \<and> op \<in> spent_by (\<tau> op) \<and> \<beta> op \<in> B \<and> op \<in> spent_by (\<beta> op)"
    if "op \<in> A" for op using that t(5) b(4) ps(1) by blast
  have "\<tau> ` set ps \<subseteq> T" "\<beta> ` set ps \<subseteq> B" using spend ps(1) by auto
  note sides = this [unfolded T_def B_def]
  have inj: "inj_on ti_txid (\<tau> ` set ps)" "inj_on ti_txid (\<beta> ` set ps)"
    by (rule inj_on_subset [OF keyed_by_txid_inj [OF keyed(1)] sides(1)])
      (rule inj_on_subset [OF keyed_by_txid_inj [OF keyed(2)] sides(2)])
  from conflict_loop [OF laws(1) ps(2) maps inj] obtain cs
    where cs: "fold_res (conflict_step L tom bom) ps [] = Inr cs" "conflicts_inv \<tau> \<beta> ps cs" by blast
  have "find_conflicts L H tmap txids_t bmap txids_b = Inr cs"
    using t(1) b(1) cs(1) by (auto simp: find_conflicts_def Let_def simp flip: ps_def)
  with cs(2) ps(1) spend show ?thesis by blast
qed

text \<open>The whole result, in terms of the transactions of the two sides.\<close>

lemma conflicts_inv_components:
  assumes inv: "conflicts_inv \<tau> \<beta> ps cs"
  shows "(\<lambda>c. set (conflicting_outpoints c)) ` set cs = set ps // (share \<tau> \<beta> (set ps))\<^sup>*"
proof (rule components_quotient)
  let ?F = "(\<lambda>c. set (conflicting_outpoints c)) ` set cs"
  have ok: "conflict_ok \<tau> \<beta> c" if "c \<in> set cs" for c using inv that by (simp add: conflicts_inv_def)
  show "\<Union>?F = set ps" using inv by (simp add: conflicts_inv_def)
  show "{} \<notin> ?F" using ok by (auto simp: conflict_ok_def)
  show "\<And>S. S \<in> ?F \<Longrightarrow> interlinked \<tau> \<beta> S" using ok by (auto simp: conflict_ok_def)
  fix S S' p q assume "S \<in> ?F" "S' \<in> ?F" and pq: "p \<in> S" "q \<in> S'" "\<tau> p = \<tau> q \<or> \<beta> p = \<beta> q"
  then obtain c d where c: "c \<in> set cs" "S = set (conflicting_outpoints c)"
    and d: "d \<in> set cs" "S' = set (conflicting_outpoints d)" by auto
  have "\<tau> p \<in> set (template_transactions c)" "\<beta> p \<in> set (block_transactions c)"
    "\<tau> q \<in> set (template_transactions d)" "\<beta> q \<in> set (block_transactions d)"
    using ok [OF c(1)] ok [OF d(1)] pq c(2) d(2) by (auto simp: conflict_ok_def)
  with inv c d pq(3) show "S = S'" unfolding conflicts_inv_def by (metis IntI empty_iff)
qed

lemma find_conflicts_spec:
  fixes L :: lib and H :: hash_iter and tmap bmap :: "(txid, tx_info) hash_map"
    and txids_t txids_b :: "txid list"
  defines "T \<equiv> side_txs tmap txids_t" and "B \<equiv> side_txs bmap txids_b"
  defines "A \<equiv> (\<Union>i\<in>T. spent_by i) \<inter> (\<Union>i\<in>B. spent_by i)"
  assumes laws: "txid_order_law L" "iteration_law H"
    and known: "set txids_t \<subseteq> dom (hm_get tmap)" "set txids_b \<subseteq> dom (hm_get bmap)"
    and keyed: "keyed_by_txid tmap" "keyed_by_txid bmap"
    and valid: "no_double_spend T" "no_double_spend B"
  shows "\<exists>cs. find_conflicts L H tmap txids_t bmap txids_b = Inr cs \<and> distinct cs \<and>
    (\<lambda>c. set (conflicting_outpoints c)) ` set cs = A // (spent_together T B A)\<^sup>* \<and>
    (\<forall>c\<in>set cs.
       set (template_transactions c) = {i \<in> T. spent_by i \<inter> set (conflicting_outpoints c) \<noteq> {}} \<and>
       set (block_transactions c) = {i \<in> B. spent_by i \<inter> set (conflicting_outpoints c) \<noteq> {}} \<and>
       distinct (template_transactions c) \<and> distinct (block_transactions c) \<and>
       distinct (conflicting_outpoints c))"
proof -
  obtain cs ps \<tau> \<beta> where cs: "find_conflicts L H tmap txids_t bmap txids_b = Inr cs"
    and inv: "conflicts_inv \<tau> \<beta> ps cs" and ps: "set ps = A"
    and sp: "\<And>op. op \<in> A \<Longrightarrow> \<tau> op \<in> T \<and> op \<in> spent_by (\<tau> op) \<and> \<beta> op \<in> B \<and> op \<in> spent_by (\<beta> op)"
    using find_conflicts_result [OF laws known keyed] unfolding T_def [symmetric] B_def [symmetric]
      A_def [symmetric] by metis
  have ok: "conflict_ok \<tau> \<beta> c" if "c \<in> set cs" for c using inv that by (simp add: conflicts_inv_def)
  have "share \<tau> \<beta> A = spent_together T B A"
    by (rule share_spent_together [OF valid(1) _ valid(2)]) (use sp in blast)+
  with conflicts_inv_components [OF inv] have comp:
    "(\<lambda>c. set (conflicting_outpoints c)) ` set cs = A // (spent_together T B A)\<^sup>*" by (simp add: ps)
  have "set (template_transactions c) = {i \<in> T. spent_by i \<inter> set (conflicting_outpoints c) \<noteq> {}}"
    "set (block_transactions c) = {i \<in> B. spent_by i \<inter> set (conflicting_outpoints c) \<noteq> {}}"
    if c: "c \<in> set cs" for c
  proof -
    have sub: "set (conflicting_outpoints c) \<subseteq> A" using c inv ps by (auto simp: conflicts_inv_def)
    show "set (template_transactions c) = {i \<in> T. spent_by i \<inter> set (conflicting_outpoints c) \<noteq> {}}"
      using spender_image [OF valid(1) _ sub, of \<tau>] sp ok [OF c] by (simp add: conflict_ok_def)
    show "set (block_transactions c) = {i \<in> B. spent_by i \<inter> set (conflicting_outpoints c) \<noteq> {}}"
      using spender_image [OF valid(2) _ sub, of \<beta>] sp ok [OF c] by (simp add: conflict_ok_def)
  qed
  with cs comp inv ok show ?thesis by (auto simp: conflicts_inv_def conflict_ok_def)
qed

text \<open>The transaction rows after the conflicts were processed.\<close>

definition conflict_txs :: "conflict list \<Rightarrow> tx_info set" where
  "conflict_txs cs = (\<Union>c\<in>set cs. set (template_transactions c) \<union> set (block_transactions c))"

lemma conflict_fold_state:
  "tags_in (fst (fold (add_conflict_txs L H utxos addrs) cs st)) k =
     tags_in (fst st) k \<union> (\<Union>i\<in>conflict_txs cs. built_tags L True utxos addrs k i)"
  "dom (hm_get (fst (fold (add_conflict_txs L H utxos addrs) cs st))) =
     dom (hm_get (fst st)) \<union> (\<lambda>i. rev (ti_txid i)) ` {i \<in> conflict_txs cs. buildable L i}"
  by (induction cs arbitrary: st)
    (auto simp: tags_in_fold dom_fold conflict_txs_def add_conflict_txs_def)

section \<open>Properties\<close>

text \<open>C1: For two sides without double spends whose ids are all in their maps, the conflict
  detection does not panic and the stored conflicts are exactly the connected components: the
  outpoints spent on both sides are partitioned into the classes generated by "one transaction
  of either side spends both", there is one row per class without duplicates, and each conflict
  lists exactly the template transactions and the block transactions that spend an outpoint of
  its class.\<close>

theorem conflicts_are_components:
  assumes laws: "txid_order_law L" "iteration_law H"
    and known: "set txids_t \<subseteq> dom (hm_get tmap)" "set txids_b \<subseteq> dom (hm_get bmap)"
    and keyed: "keyed_by_txid tmap" "keyed_by_txid bmap"
    and valid: "no_double_spend (side_txs tmap txids_t)" "no_double_spend (side_txs bmap txids_b)"
    and A: "A = (\<Union>i\<in>side_txs tmap txids_t. spent_by i) \<inter> (\<Union>i\<in>side_txs bmap txids_b. spent_by i)"
  shows "\<exists>cs st'. build_conflicting_transactions L H block_id txids_t tmap txids_b bmap utxos addrs st =
      Inr (map (conflict_row block_id) cs, st') \<and> distinct cs \<and>
    (\<lambda>c. set (conflicting_outpoints c)) ` set cs =
      A // (spent_together (side_txs tmap txids_t) (side_txs bmap txids_b) A)\<^sup>* \<and>
    (\<forall>c\<in>set cs.
       set (template_transactions c) =
         {i \<in> side_txs tmap txids_t. spent_by i \<inter> set (conflicting_outpoints c) \<noteq> {}} \<and>
       set (block_transactions c) =
         {i \<in> side_txs bmap txids_b. spent_by i \<inter> set (conflicting_outpoints c) \<noteq> {}} \<and>
       distinct (template_transactions c) \<and> distinct (block_transactions c) \<and>
       distinct (conflicting_outpoints c))"
  using find_conflicts_spec [OF laws known keyed valid] unfolding A build_conflicting_transactions_def
  by fastforce

theorem conflicts_are_components_witness:
  "\<exists>cs st'. build_conflicting_transactions sample_lib sample_iter 1
      [[7], [8]] [([7], sample_info 7 [(1, 0), (2, 0)] 1), ([8], sample_info 8 [(3, 0)] 1)]
      [[9]] [([9], sample_info 9 [(2, 0), (3, 0)] 1)] [] [] ([], sample_metrics) =
      Inr (map (conflict_row 1) cs, st') \<and> distinct cs"
proof -
  let ?t = "[([7], sample_info 7 [(1, 0), (2, 0)] 1), ([8], sample_info 8 [(3, 0)] 1)]"
  let ?b = "[([9], sample_info 9 [(2, 0), (3, 0)] 1)]"
  have sides: "side_txs ?t [[7], [8]] = {sample_info 7 [(1, 0), (2, 0)] 1, sample_info 8 [(3, 0)] 1}"
    "side_txs ?b [[9]] = {sample_info 9 [(2, 0), (3, 0)] 1}"
    by (auto simp: side_txs_def)
  have k: "keyed_by_txid ?t" "keyed_by_txid ?b" by (simp_all add: keyed_by_txid_def sample_info_def)
  have d: "no_double_spend (side_txs ?t [[7], [8]])" "no_double_spend (side_txs ?b [[9]])"
    unfolding sides by (auto simp: no_double_spend_def spent_by_def sample_info_def sample_tx_def)
  have m: "set [[7], [8]] \<subseteq> dom (hm_get ?t)" "set [[9]] \<subseteq> dom (hm_get ?b)" by auto
  show ?thesis
    using conflicts_are_components [OF sample_txid_order_law sample_iteration_law m k d refl,
        of 1 "[]" "[]" "([], sample_metrics)"] by (elim exE conjE) (intro exI conjI)
qed

text \<open>C24: Every transaction of a found conflict whose raw transaction can be analysed ends up in
  the map of transactions with the tag for conflicts; rows that were there before keep all their
  tags.\<close>

theorem conflict_transactions_are_tagged:
  assumes "find_conflicts L H tmap txids_t bmap txids_b = Inr cs"
    and "build_conflicting_transactions L H block_id txids_t tmap txids_b bmap utxos addrs st = Inr (rows, st')"
    and "i \<in> conflict_txs cs" "buildable L i"
  shows "rev (ti_txid i) \<in> dom (hm_get (fst st')) \<and>
    TxTag_as_i32 Conflicting \<in> tags_in (fst st') (rev (ti_txid i)) \<and>
    tags_in (fst st) k \<subseteq> tags_in (fst st') k"
proof -
  have st': "st' = fold (add_conflict_txs L H utxos addrs) cs st"
    using assms(1,2) by (simp add: build_conflicting_transactions_def)
  have "TxTag_as_i32 Conflicting \<in> built_tags L True utxos addrs (rev (ti_txid i)) i"
    using conflicting_tag_iff [OF assms(4)] by blast
  with assms(3,4) show ?thesis
    unfolding st' conflict_fold_state by blast
qed

theorem conflict_transactions_are_tagged_witness:
  "\<exists>rows st'. build_conflicting_transactions sample_lib sample_iter 1
      [[7]] [([7], sample_info 7 [(1, 0)] 1)] [[9]] [([9], sample_info 9 [(1, 0)] 1)] [] [] ([], sample_metrics) = Inr (rows, st') \<and>
    TxTag_as_i32 Conflicting \<in> tags_in (fst st') [7]"
proof -
  let ?c = "\<lparr>template_transactions = [sample_info 7 [(1, 0)] 1], block_transactions = [sample_info 9 [(1, 0)] 1],
     conflicting_outpoints = [\<lparr>op_txid = [1], op_vout = 0\<rparr>]\<rparr>"
  have f: "find_conflicts sample_lib sample_iter [([7], sample_info 7 [(1, 0)] 1)] [[7]]
      [([9], sample_info 9 [(1, 0)] 1)] [[9]] = Inr [?c]"
    by (simp add: find_conflicts_def collect_side_def sample_iter_def sample_info_def sample_tx_def
        hs_insert_def hs_intersection_def conflict_step_def absorb_outpoint_def existing_conflicts_def
        retain_nonempty_def)
  obtain rows st' where b: "build_conflicting_transactions sample_lib sample_iter 1
      [[7]] [([7], sample_info 7 [(1, 0)] 1)] [[9]] [([9], sample_info 9 [(1, 0)] 1)] [] [] ([], sample_metrics) = Inr (rows, st')"
    unfolding build_conflicting_transactions_def f by simp
  have "buildable sample_lib (sample_info 7 [(1, 0)] 1)"
    by (simp add: buildable_def sample_lib_def sample_info_def sample_tx_def)
  moreover have "sample_info 7 [(1, 0)] 1 \<in> conflict_txs [?c]" by (simp add: conflict_txs_def)
  ultimately have "TxTag_as_i32 Conflicting \<in> tags_in (fst st') (rev (ti_txid (sample_info 7 [(1, 0)] 1)))"
    using conflict_transactions_are_tagged [OF f b] by blast
  then show ?thesis using b by (auto simp: sample_info_def)
qed

end
