(* ===== verification/Processing.thy ===== *)
theory Processing
  imports Packages Conflicts
begin

text \<open>
  The remaining builders of \<^verbatim>\<open>daemon/src/processing.rs\<close>: the transaction data of a block and of a
  template, the block row, the rows of transactions that are in only one of the two, the rows of
  sanctioned transactions and the debug rows of the template selection. Hash sets are created in
  the iteration order that the parameter \<open>hash_iter\<close> gives them.
\<close>

section \<open>Transaction data\<close>

definition block_tx_step ::
  "lib \<Rightarrow> (txid, nat) hash_map \<Rightarrow> nat \<times> transaction \<Rightarrow> tx_data \<Rightarrow> panic + tx_data" where
  "block_tx_step L txid_to_fee_map itx data =
     (let (i, tx) = itx; txid = compute_txid L tx
      in case hm_get txid_to_fee_map txid of
           None \<Rightarrow> Inl (IndexMissing ''txid_to_fee_map'' txid)
         | Some fee \<Rightarrow>
             let tx_info = \<lparr>ti_txid = txid, ti_tx = tx, ti_pos = as_i32 (int i), ti_fee = fee\<rparr>
             in Inr \<lparr>td_txids = hs_insert txid (td_txids data),
                     td_txid_to_txinfo_map = hm_insert txid tx_info (td_txid_to_txinfo_map data),
                     td_txinfos = td_txinfos data @ [tx_info]\<rparr>)"

definition empty_tx_data :: tx_data where
  "empty_tx_data = \<lparr>td_txids = [], td_txid_to_txinfo_map = [], td_txinfos = []\<rparr>"

definition build_block_tx_data ::
  "lib \<Rightarrow> hash_iter \<Rightarrow> block \<Rightarrow> block_tx_fees \<Rightarrow> panic + block_tx_data" where
  "build_block_tx_data L H blk block_tx_fees =
     (let txid_to_fee_map = hm_collect (map (\<lambda>tx. (fee_txid tx, fee_amount tx)) (fees_tx block_tx_fees))
      in bind_res (fold_res (block_tx_step L txid_to_fee_map) (List.enumerate 0 (txdata blk)) empty_tx_data)
           (\<lambda>data. Inr (data\<lparr>td_txids := iter_txids H (td_txids data)\<rparr>)))"

text \<open>
  A template transaction that does not deserialize is skipped. The map is keyed by the id the
  node reported, the set holds the computed id.
\<close>

definition template_tx_step :: "lib \<Rightarrow> nat \<times> template_tx \<Rightarrow> tx_data \<Rightarrow> tx_data" where
  "template_tx_step L itx data =
     (let (i, tx) = itx
      in case deserialize_tx L (raw_tx tx) of
           None \<Rightarrow> data
         | Some deser_tx \<Rightarrow>
             let tx_info = \<lparr>ti_txid = compute_txid L deser_tx, ti_tx = deser_tx,
                            ti_pos = as_i32 (int i), ti_fee = tmpl_fee tx\<rparr>
             in \<lparr>td_txids = hs_insert (compute_txid L deser_tx) (td_txids data),
                 td_txid_to_txinfo_map = hm_insert (tmpl_txid tx) tx_info (td_txid_to_txinfo_map data),
                 td_txinfos = td_txinfos data @ [tx_info]\<rparr>)"

definition build_template_tx_data :: "lib \<Rightarrow> hash_iter \<Rightarrow> block_template \<Rightarrow> template_tx_data" where
  "build_template_tx_data L H template =
     (let data = fold (template_tx_step L) (List.enumerate 0 (transactions template)) empty_tx_data
      in data\<lparr>td_txids := iter_txids H (td_txids data)\<rparr>)"

section \<open>The block row\<close>

definition get_pool_info_or_default :: "identification_result option \<Rightarrow> string \<times> string \<times> string" where
  "get_pool_info_or_default result_option =
     (case result_option of
        Some result \<Rightarrow>
          (pool_name_of (id_pool result), pool_link_of (id_pool result),
           if id_method result = IdTag then ''coinbase tag'' else ''coinbase output address'')
      | None \<Rightarrow> (''Unknown'', '''', ''''))"

definition VERSION_BIT_TAPROOT :: nat where "VERSION_BIT_TAPROOT = 2"

definition block_sigops_of :: "lib \<Rightarrow> block \<Rightarrow> int" where
  "block_sigops_of L blk =
     sum_i64 (map (\<lambda>tx. as_i64 (int (or_default (tx_sigops L tx)))) (txdata blk))"

definition block_tags_of :: "lib \<Rightarrow> block \<Rightarrow> int list" where
  "block_tags_of L blk =
     (let block_tags = (if THRESHOLD_SIGOP_LIMIT_CLOSE < as_u64 (block_sigops_of L blk)
                        then [BlockTag_as_i32 SigopsLimitClose] else [])
      in if is_signalling_soft_fork L (header_version (header blk)) VERSION_BIT_TAPROOT
         then block_tags @ [BlockTag_as_i32 TaprootSignaling] else block_tags)"

definition expect_time :: "lib \<Rightarrow> string \<Rightarrow> nat \<Rightarrow> panic + datetime" where
  "expect_time L msg t =
     (case from_timestamp L (as_i64 (int t)) of
        None \<Rightarrow> Inl (ExpectFailed msg) | Some dt \<Rightarrow> Inr dt)"

definition build_block ::
  "lib \<Rightarrow> datetime \<Rightarrow> block \<Rightarrow> block_template \<Rightarrow> (txid, tx_info) hash_map \<Rightarrow> int list \<Rightarrow> fp list \<Rightarrow>
     int list \<Rightarrow> fp list \<Rightarrow> int \<Rightarrow> int \<Rightarrow> int \<Rightarrow> int \<Rightarrow> nat \<Rightarrow> nat \<Rightarrow> utxo_map \<Rightarrow> string list \<Rightarrow>
     pool list \<Rightarrow> network \<Rightarrow> panic + new_block" where
  "build_block L now blk template template_txid_to_txinfo_map template_pkg_weights template_pkg_feerates
       block_pkg_weights block_pkg_feerates missing_tx sanctioned_missing_tx extra_tx shared_tx
       block_fees template_fees utxos sanctioned_addresses pools network =
     (let (pool_name, pool_link, pool_id_method) =
            get_pool_info_or_default (identify_pool L network pools blk);
          block_hash = rev (block_hash_of L blk);
          prev_block_hash = rev (prev_blockhash (header blk));
          block_tags = block_tags_of L blk
      in bind_res (expect_time L ''block timestamp out of range'' (header_time (header blk))) (\<lambda>block_time.
         bind_res (case txdata blk of [] \<Rightarrow> Inl (UnwrapNone ''block.txdata.first()'') | cb # txs \<Rightarrow> Inr cb) (\<lambda>cb.
         bind_res (expect_time L ''template timestamp out of range'' (current_time template)) (\<lambda>template_time.
           Inr \<lparr>nb_hash = block_hash, nb_prev_hash = prev_block_hash,
                nb_height = as_i32 (int (tmpl_height template)), nb_tags = block_tags,
                nb_missing_tx = missing_tx, nb_extra_tx = extra_tx, nb_shared_tx = shared_tx,
                nb_sanctioned_missing_tx = sanctioned_missing_tx, nb_equality = Fin 0,
                nb_block_time = block_time, nb_block_seen_time = now,
                nb_block_tx = as_i32 (int (length (txdata blk))),
                nb_block_sanctioned =
                  as_i32 (int (length (filter (\<lambda>tx. is_tx_sanctioned L tx utxos sanctioned_addresses) (txdata blk)))),
                nb_block_cb_value = as_i64 (int (sum_u64 (map out_value (tx_output cb)))),
                nb_block_cb_fees = as_i64 (int block_fees),
                nb_block_weight = as_i32 (int (block_weight_of L blk)),
                nb_block_pkg_weights = block_pkg_weights, nb_block_pkg_feerates = block_pkg_feerates,
                nb_pool_name = pool_name, nb_pool_link = pool_link, nb_pool_id_method = pool_id_method,
                nb_template_tx = as_i32 (int (length (transactions template))),
                nb_template_time = template_time,
                nb_template_sanctioned =
                  as_i32 (int (length (filter (\<lambda>i. is_tx_sanctioned L (ti_tx i) utxos sanctioned_addresses)
                                         (hm_values template_txid_to_txinfo_map)))),
                nb_template_cb_value = as_i64 (int (coinbase_value template)),
                nb_template_cb_fees = as_i64 (int template_fees),
                nb_template_weight = as_i32 (int (sum_u64 (map tmpl_weight (transactions template)))),
                nb_template_pkg_weights = template_pkg_weights,
                nb_template_pkg_feerates = template_pkg_feerates,
                nb_template_sigops =
                  as_i64 (int (sum_u64 (map tmpl_sigops (transactions template)))),
                nb_block_sigops = block_sigops_of L blk\<rparr>))))"

section \<open>Rows of one-sided and of sanctioned transactions\<close>

definition build_transactions_only_in_block ::
  "lib \<Rightarrow> hash_iter \<Rightarrow> int \<Rightarrow> txid list \<Rightarrow> (txid, tx_info) hash_map \<Rightarrow> utxo_map \<Rightarrow> string list \<Rightarrow>
     tx_map \<times> metrics \<Rightarrow> panic + (transaction_only_in_block list \<times> (tx_map \<times> metrics))" where
  "build_transactions_only_in_block L H block_id txids_only_in_block block_map utxos sanctioned_addresses st =
     fold_res (\<lambda>txid (rows, st).
       case hm_get block_map txid of
         None \<Rightarrow> Inl (NotInMap ''txids_only_in_block'' txid)
       | Some i \<Rightarrow>
           Inr (rows @ [\<lparr>oib_block_id = block_id, oib_position = ti_pos i, oib_txid = rev (ti_txid i)\<rparr>],
                build_and_add L H False utxos sanctioned_addresses i st))
     txids_only_in_block ([], st)"

definition build_transactions_only_in_template ::
  "lib \<Rightarrow> hash_iter \<Rightarrow> int \<Rightarrow> txid list \<Rightarrow> (txid, tx_info) hash_map \<Rightarrow> (txid, int) hash_map \<Rightarrow> utxo_map \<Rightarrow>
     string list \<Rightarrow> tx_map \<times> metrics \<Rightarrow>
     panic + (transaction_only_in_template list \<times> (tx_map \<times> metrics))" where
  "build_transactions_only_in_template L H block_id txids_only_in_template template_map mempool_age utxos
       sanctioned_addresses st =
     fold_res (\<lambda>txid (rows, st).
       case hm_get template_map txid of
         None \<Rightarrow> Inl (NotInMap ''template_txid_to_txinfo_map'' txid)
       | Some i \<Rightarrow>
           Inr (rows @ [\<lparr>oit_block_id = block_id, oit_position = ti_pos i,
                         oit_mempool_age_seconds =
                           (case hm_get mempool_age txid of Some s \<Rightarrow> s | None \<Rightarrow> - 1),
                         oit_txid = rev (ti_txid i)\<rparr>],
                build_and_add L H False utxos sanctioned_addresses i st))
     txids_only_in_template ([], st)"

text \<open>
  Both loops of \<^verbatim>\<open>build_sanctioned_transaction_infos\<close> have this body; they differ in the map and in
  the two flags. A row is only pushed when the transaction could be built.
\<close>

definition sanctioned_info_step ::
  "lib \<Rightarrow> hash_iter \<Rightarrow> int \<Rightarrow> string \<Rightarrow> (txid, tx_info) hash_map \<Rightarrow> (tx_info \<Rightarrow> bool) \<Rightarrow> bool \<Rightarrow> utxo_map \<Rightarrow>
     string list \<Rightarrow> txid \<Rightarrow> sanctioned_transaction_info list \<times> (tx_map \<times> metrics) \<Rightarrow>
     panic + (sanctioned_transaction_info list \<times> (tx_map \<times> metrics))" where
  "sanctioned_info_step L H block_id name m in_block in_template utxos sanctioned_addresses txid rst =
     (case hm_get m txid of
        None \<Rightarrow> Inl (NotInMap name txid)
      | Some i \<Rightarrow>
          let (rows, (txs, mtr)) = rst
          in if is_tx_sanctioned L (ti_tx i) utxos sanctioned_addresses
             then (case build_transaction L H (rev (ti_txid i)) i False utxos sanctioned_addresses of
                     Inr t \<Rightarrow>
                       Inr (rows @ [\<lparr>sti_block_id = block_id, sti_txid = rev (ti_txid i),
                                     sti_in_block = in_block i, sti_in_template = in_template,
                                     sti_addresses =
                                       tx_sanctioned_addresses L H (ti_tx i) utxos sanctioned_addresses\<rparr>],
                            (add_to_transactions t txs, mtr))
                   | Inl e \<Rightarrow> Inr (rows, (txs, log_processing_error mtr)))
             else Inr rst)"

definition build_sanctioned_transaction_infos ::
  "lib \<Rightarrow> hash_iter \<Rightarrow> int \<Rightarrow> block_tx_data \<Rightarrow> txid list \<Rightarrow> (txid, tx_info) hash_map \<Rightarrow> txid list \<Rightarrow>
     utxo_map \<Rightarrow> string list \<Rightarrow> tx_map \<times> metrics \<Rightarrow>
     panic + (sanctioned_transaction_info list \<times> (tx_map \<times> metrics))" where
  "build_sanctioned_transaction_infos L H block_id block_tx_data template_txids template_map
       txids_only_in_block utxos sanctioned_addresses st =
     bind_res
       (fold_res (sanctioned_info_step L H block_id ''template_txid_to_txinfo_map'' template_map
          (\<lambda>i. ti_txid i \<in> set (td_txids block_tx_data)) True utxos sanctioned_addresses)
          template_txids ([], st))
       (fold_res (sanctioned_info_step L H block_id ''block_txid_to_txinfo_map''
          (td_txid_to_txinfo_map block_tx_data) (\<lambda>i. True) False utxos sanctioned_addresses)
          txids_only_in_block)"

section \<open>Debug rows\<close>

definition template_txids_of :: "block_template \<Rightarrow> txid list" where
  "template_txids_of t = hs_collect (map tmpl_txid (transactions t))"

definition build_debug_template_selection_infos ::
  "lib \<Rightarrow> int \<Rightarrow> block_template list \<Rightarrow> txid list \<Rightarrow> nat \<Rightarrow> panic + debug_template_selection_info list" where
  "build_debug_template_selection_infos L block_id templates block_txids selected_template_time =
     fold_res (\<lambda>t rows.
       let template_txids = template_txids_of t
       in bind_res (expect_time L ''template timestamp out of range'' (current_time t)) (\<lambda>template_time.
            Inr (rows @ [\<lparr>dts_block_id = block_id, dts_template_time = template_time,
              dts_count_missing = as_i32 (int (length (hs_difference template_txids block_txids))),
              dts_count_shared = as_i32 (int (length (hs_intersection block_txids template_txids))),
              dts_count_extra = as_i32 (int (length (hs_difference block_txids template_txids))),
              dts_selected = (current_time t = selected_template_time)\<rparr>])))
     templates []"

section \<open>Well-formed transaction data\<close>

definition wf_tx_data :: "lib \<Rightarrow> tx_data \<Rightarrow> bool" where
  "wf_tx_data L d \<longleftrightarrow>
     distinct (td_txids d) \<and> set (td_txids d) = ti_txid ` set (td_txinfos d) \<and>
     dom (hm_get (td_txid_to_txinfo_map d)) = set (td_txids d) \<and>
     distinct (hm_keys (td_txid_to_txinfo_map d)) \<and>
     keyed_by_txid (td_txid_to_txinfo_map d) \<and>
     set (hm_values (td_txid_to_txinfo_map d)) \<subseteq> set (td_txinfos d) \<and>
     (\<forall>i\<in>set (td_txinfos d). ti_txid i = compute_txid L (ti_tx i))"

definition add_tx_info :: "tx_info \<Rightarrow> tx_data \<Rightarrow> tx_data" where
  "add_tx_info i data =
     \<lparr>td_txids = hs_insert (ti_txid i) (td_txids data),
      td_txid_to_txinfo_map = hm_insert (ti_txid i) i (td_txid_to_txinfo_map data),
      td_txinfos = td_txinfos data @ [i]\<rparr>"

lemma set_hm_insert_subset: "set (hm_insert k v m) \<subseteq> insert (k, v) (set m)"
  by (induction m) auto

lemma wf_tx_data_add:
  assumes "wf_tx_data L d" "ti_txid i = compute_txid L (ti_tx i)"
  shows "wf_tx_data L (add_tx_info i d)"
proof -
  let ?m = "hm_insert (ti_txid i) i (td_txid_to_txinfo_map d)"
  have "dom (hm_get ?m) = insert (ti_txid i) (dom (hm_get (td_txid_to_txinfo_map d)))"
    unfolding hm_insert_get by (rule dom_fun_upd [THEN trans]) simp
  moreover have "keyed_by_txid ?m"
    using assms(1) set_hm_insert_subset [of "ti_txid i" i "td_txid_to_txinfo_map d"]
    unfolding wf_tx_data_def keyed_by_txid_def by blast
  moreover have "set (hm_values ?m) \<subseteq> insert i (set (hm_values (td_txid_to_txinfo_map d)))"
    using image_mono [OF set_hm_insert_subset, of snd "ti_txid i" i "td_txid_to_txinfo_map d"] by simp
  then have "set (hm_values ?m) \<subseteq> insert i (set (td_txinfos d))"
    using assms(1) unfolding wf_tx_data_def by blast
  ultimately show ?thesis
    using assms by (simp add: wf_tx_data_def add_tx_info_def)
qed

lemma wf_empty_tx_data: "wf_tx_data L empty_tx_data"
  by (simp add: wf_tx_data_def empty_tx_data_def keyed_by_txid_def)

lemma wf_tx_data_reorder:
  "iteration_law H \<Longrightarrow> wf_tx_data L d \<Longrightarrow> wf_tx_data L (d\<lparr>td_txids := iter_txids H (td_txids d)\<rparr>)"
  by (simp add: wf_tx_data_def iteration_law_sets iteration_law_distinct)

text \<open>The hypotheses on the node: it reports a fee for every transaction of a block, and the
  reported id of a template transaction is its computed id.\<close>

definition fees_known :: "lib \<Rightarrow> block \<Rightarrow> block_tx_fees \<Rightarrow> bool" where
  "fees_known L blk fees \<longleftrightarrow> (\<forall>tx\<in>set (txdata blk). compute_txid L tx \<in> set (map fee_txid (fees_tx fees)))"

definition template_ids_agree :: "lib \<Rightarrow> block_template \<Rightarrow> bool" where
  "template_ids_agree L t \<longleftrightarrow>
     (\<forall>tx\<in>set (transactions t). case deserialize_tx L (raw_tx tx) of
        None \<Rightarrow> True | Some d \<Rightarrow> compute_txid L d = tmpl_txid tx)"

definition template_txs :: "lib \<Rightarrow> block_template \<Rightarrow> transaction list" where
  "template_txs L t = List.map_filter (\<lambda>tx. deserialize_tx L (raw_tx tx)) (transactions t)"

text \<open>The contract of the two builders of transaction data, for the code that compares them.\<close>

locale tx_data_builder =
  fixes build :: "lib \<Rightarrow> hash_iter \<Rightarrow> 's \<Rightarrow> panic + tx_data"
    and pre :: "lib \<Rightarrow> 's \<Rightarrow> bool"
    and source_txs :: "lib \<Rightarrow> 's \<Rightarrow> transaction list"
  assumes build_total: "iteration_law H \<Longrightarrow> pre L s \<Longrightarrow>
    \<exists>d. build L H s = Inr d \<and> wf_tx_data L d \<and> map ti_tx (td_txinfos d) = source_txs L s"
begin

lemma build_txids:
  assumes "iteration_law H" "pre L s" "build L H s = Inr d"
  shows "set (td_txids d) = compute_txid L ` set (source_txs L s)"
proof -
  from build_total [OF assms(1,2)] assms(3) have wf: "wf_tx_data L d"
    and txs: "map ti_tx (td_txinfos d) = source_txs L s" by auto
  from wf have "set (td_txids d) = compute_txid L ` ti_tx ` set (td_txinfos d)"
    by (simp add: wf_tx_data_def image_image)
  with txs show ?thesis by (metis set_map)
qed

lemma build_no_panic: "iteration_law H \<Longrightarrow> pre L s \<Longrightarrow> build L H s \<noteq> Inl e"
  using build_total by fastforce

lemma build_wf: "iteration_law H \<Longrightarrow> pre L s \<Longrightarrow> build L H s = Inr d \<Longrightarrow> wf_tx_data L d"
  using build_total by fastforce

lemma build_lookup:
  assumes "iteration_law H" "pre L s" "build L H s = Inr d" "txid \<in> set (td_txids d)"
  shows "\<exists>i. hm_get (td_txid_to_txinfo_map d) txid = Some i \<and> ti_txid i = txid \<and>
    i \<in> set (td_txinfos d) \<and> compute_txid L (ti_tx i) = txid"
proof -
  from build_wf [OF assms(1-3)] have wf: "wf_tx_data L d" .
  then have "dom (hm_get (td_txid_to_txinfo_map d)) = set (td_txids d)" by (simp add: wf_tx_data_def)
  with assms(4) obtain i where i: "hm_get (td_txid_to_txinfo_map d) txid = Some i" by blast
  moreover have "ti_txid i = txid" using wf i keyed_by_txid_get by (auto simp: wf_tx_data_def)
  moreover have "i \<in> set (td_txinfos d)"
    using wf hm_get_Some_values [OF i] by (auto simp: wf_tx_data_def)
  ultimately show ?thesis using wf by (auto simp: wf_tx_data_def)
qed

end

lemma build_block_tx_data_total:
  assumes "iteration_law H" "fees_known L blk fees"
  shows "\<exists>d. build_block_tx_data L H blk fees = Inr d \<and> wf_tx_data L d \<and>
    map ti_tx (td_txinfos d) = txdata blk"
proof -
  let ?m = "hm_collect (map (\<lambda>tx. (fee_txid tx, fee_amount tx)) (fees_tx fees))"
  let ?P = "\<lambda>ys d. wf_tx_data L d \<and> map ti_tx (td_txinfos d) = map snd ys"
  have "\<exists>d. fold_res (block_tx_step L ?m) (List.enumerate 0 (txdata blk)) empty_tx_data = Inr d \<and>
      ?P (List.enumerate 0 (txdata blk)) d"
  proof (rule fold_res_total)
    show "?P [] empty_tx_data" using wf_empty_tx_data by (simp add: empty_tx_data_def)
  next
    fix ys itx zs d
    assume split: "List.enumerate 0 (txdata blk) = ys @ itx # zs" and P: "?P ys d"
    obtain i tx where itx: "itx = (i, tx)" by (cases itx)
    have "tx \<in> set (txdata blk)"
      using split itx by (metis in_set_conv_decomp map_snd_enumerate set_map snd_conv imageI)
    with assms(2) have "compute_txid L tx \<in> dom (hm_get ?m)"
      by (simp add: fees_known_def dom_map_of_conv_image_fst image_image flip: rev_map)
    then obtain fee where fee: "hm_get ?m (compute_txid L tx) = Some fee" by blast
    define ti where "ti = \<lparr>ti_txid = compute_txid L tx, ti_tx = tx, ti_pos = as_i32 (int i), ti_fee = fee\<rparr>"
    have "block_tx_step L ?m itx d = Inr (add_tx_info ti d)"
      using itx fee by (simp add: block_tx_step_def add_tx_info_def ti_def Let_def)
    moreover have "wf_tx_data L (add_tx_info ti d)"
      using P by (intro wf_tx_data_add) (simp_all add: ti_def)
    moreover have "map ti_tx (td_txinfos (add_tx_info ti d)) = map snd (ys @ [itx])"
      using P itx by (simp add: add_tx_info_def ti_def)
    ultimately show "\<exists>d'. block_tx_step L ?m itx d = Inr d' \<and> ?P (ys @ [itx]) d'" by blast
  qed
  then show ?thesis
    using wf_tx_data_reorder [OF assms(1)] by (auto simp: build_block_tx_data_def Let_def)
qed

lemma template_fold_ok:
  assumes "wf_tx_data L d"
    and "\<forall>itx\<in>set itxs. \<forall>tx. deserialize_tx L (raw_tx (snd itx)) = Some tx \<longrightarrow>
      compute_txid L tx = tmpl_txid (snd itx)"
  shows "wf_tx_data L (fold (template_tx_step L) itxs d) \<and>
    map ti_tx (td_txinfos (fold (template_tx_step L) itxs d)) =
      map ti_tx (td_txinfos d) @ List.map_filter (\<lambda>itx. deserialize_tx L (raw_tx (snd itx))) itxs"
  using assms
proof (induction itxs arbitrary: d)
  case Nil
  then show ?case by (simp add: map_filter_def)
next
  case (Cons itx itxs)
  obtain k tx where itx: "itx = (k, tx)" by (cases itx)
  show ?case
  proof (cases "deserialize_tx L (raw_tx tx)")
    case None
    with Cons itx show ?thesis by (simp add: template_tx_step_def map_filter_def)
  next
    case (Some t)
    define ti where "ti = \<lparr>ti_txid = compute_txid L t, ti_tx = t, ti_pos = as_i32 (int k), ti_fee = tmpl_fee tx\<rparr>"
    have step: "template_tx_step L itx d = add_tx_info ti d"
      using Some itx Cons.prems(2) by (simp add: template_tx_step_def add_tx_info_def ti_def Let_def)
    have wf: "wf_tx_data L (add_tx_info ti d)"
      using Cons.prems(1) by (intro wf_tx_data_add) (simp_all add: ti_def)
    have infos: "td_txinfos (add_tx_info ti d) = td_txinfos d @ [ti]" by (simp add: add_tx_info_def)
    have tx: "List.map_filter (\<lambda>itx. deserialize_tx L (raw_tx (snd itx))) (itx # itxs) =
        t # List.map_filter (\<lambda>itx. deserialize_tx L (raw_tx (snd itx))) itxs" "ti_tx ti = t"
      using Some itx by (simp_all add: map_filter_def ti_def)
    show ?thesis
      using Cons.IH [OF wf] Cons.prems(2) by (simp add: step infos tx del: map_filter_simps)
  qed
qed

lemma map_filter_enumerate:
  "List.map_filter (\<lambda>itx. f (snd itx)) (List.enumerate n xs) = List.map_filter f xs"
  by (induction xs arbitrary: n) (auto simp: map_filter_def)

lemma build_template_tx_data_ok:
  assumes "iteration_law H" "template_ids_agree L t"
  shows "wf_tx_data L (build_template_tx_data L H t) \<and>
    map ti_tx (td_txinfos (build_template_tx_data L H t)) = template_txs L t"
proof -
  let ?itxs = "List.enumerate 0 (transactions t)"
  have "\<forall>itx\<in>set ?itxs. \<forall>tx. deserialize_tx L (raw_tx (snd itx)) = Some tx \<longrightarrow> compute_txid L tx = tmpl_txid (snd itx)"
  proof (intro ballI allI impI)
    fix itx tx assume "itx \<in> set ?itxs" and tx: "deserialize_tx L (raw_tx (snd itx)) = Some tx"
    then have "snd itx \<in> set (transactions t)" by (metis imageI map_snd_enumerate set_map)
    with assms(2) tx show "compute_txid L tx = tmpl_txid (snd itx)"
      unfolding template_ids_agree_def by fastforce
  qed
  moreover have "List.map_filter (\<lambda>itx. deserialize_tx L (raw_tx (snd itx))) ?itxs = template_txs L t"
    using map_filter_enumerate [of "\<lambda>tx. deserialize_tx L (raw_tx tx)"] by (simp add: template_txs_def)
  ultimately show ?thesis
    using template_fold_ok [OF wf_empty_tx_data, of ?itxs] wf_tx_data_reorder [OF assms(1)]
    by (simp add: build_template_tx_data_def Let_def empty_tx_data_def)
qed

interpretation bd: tx_data_builder "\<lambda>L H (blk, fees). build_block_tx_data L H blk fees"
  "\<lambda>L (blk, fees). fees_known L blk fees" "\<lambda>L (blk, fees). txdata blk"
  by unfold_locales (use build_block_tx_data_total in \<open>auto split: prod.splits\<close>)

interpretation td: tx_data_builder "\<lambda>L H t. Inr (build_template_tx_data L H t)"
  template_ids_agree template_txs
  by unfold_locales (use build_template_tx_data_ok in auto)

section \<open>Closed forms of the row builders\<close>

abbreviation infos_of :: "(txid, tx_info) hash_map \<Rightarrow> txid list \<Rightarrow> tx_info list" where
  "infos_of m txids \<equiv> map (\<lambda>txid. the (hm_get m txid)) txids"

definition only_in_block_row :: "int \<Rightarrow> tx_info \<Rightarrow> transaction_only_in_block" where
  "only_in_block_row block_id i = \<lparr>oib_block_id = block_id, oib_position = ti_pos i, oib_txid = rev (ti_txid i)\<rparr>"

definition only_in_template_row :: "int \<Rightarrow> int \<Rightarrow> tx_info \<Rightarrow> transaction_only_in_template" where
  "only_in_template_row block_id age i =
     \<lparr>oit_block_id = block_id, oit_position = ti_pos i, oit_mempool_age_seconds = age, oit_txid = rev (ti_txid i)\<rparr>"

definition sanctioned_row ::
  "lib \<Rightarrow> hash_iter \<Rightarrow> int \<Rightarrow> (tx_info \<Rightarrow> bool) \<Rightarrow> bool \<Rightarrow> utxo_map \<Rightarrow> string list \<Rightarrow> tx_info \<Rightarrow>
     sanctioned_transaction_info" where
  "sanctioned_row L H block_id in_block in_template utxos addrs i =
     \<lparr>sti_block_id = block_id, sti_txid = rev (ti_txid i), sti_in_block = in_block i,
      sti_in_template = in_template, sti_addresses = tx_sanctioned_addresses L H (ti_tx i) utxos addrs\<rparr>"

lemma fold_res_lookup:
  assumes "\<And>txid i rows st. hm_get m txid = Some i \<Longrightarrow> f txid (rows, st) = Inr (rows @ g txid i, h i st)"
    and "set txids \<subseteq> dom (hm_get m)"
  shows "fold_res f txids (rows, st) =
    Inr (rows @ concat (map (\<lambda>txid. g txid (the (hm_get m txid))) txids), fold h (infos_of m txids) st)"
  using assms(2)
proof (induction txids arbitrary: rows st)
  case (Cons txid txids)
  then obtain i where "hm_get m txid = Some i" by auto
  with Cons assms(1) show ?case by simp
qed simp

lemma concat_if: "concat (map (\<lambda>x. if P (f x) then [r (f x)] else []) xs) = map r (filter P (map f xs))"
  by (induction xs) auto

lemma fold_if: "fold (\<lambda>x s. if P x then g x s else s) xs s = fold g (filter P xs) s"
  by (induction xs arbitrary: s) auto

lemma only_in_block_closed_form:
  assumes "set txids \<subseteq> dom (hm_get m)"
  shows "build_transactions_only_in_block L H block_id txids m utxos addrs st =
    Inr (map (only_in_block_row block_id) (infos_of m txids),
         fold (build_and_add L H False utxos addrs) (infos_of m txids) st)"
  unfolding build_transactions_only_in_block_def
  by (subst fold_res_lookup [where g = "\<lambda>txid i. [only_in_block_row block_id i]"
        and h = "build_and_add L H False utxos addrs", OF _ assms])
    (simp_all add: only_in_block_row_def comp_def)

lemma only_in_template_closed_form:
  assumes "set txids \<subseteq> dom (hm_get m)"
  shows "build_transactions_only_in_template L H block_id txids m ages utxos addrs st =
    Inr (map (\<lambda>txid. only_in_template_row block_id (case hm_get ages txid of Some s \<Rightarrow> s | None \<Rightarrow> - 1)
               (the (hm_get m txid))) txids,
         fold (build_and_add L H False utxos addrs) (infos_of m txids) st)"
  unfolding build_transactions_only_in_template_def
  by (subst fold_res_lookup [where h = "build_and_add L H False utxos addrs" and
        g = "\<lambda>txid i. [only_in_template_row block_id (case hm_get ages txid of Some s \<Rightarrow> s | None \<Rightarrow> - 1) i]",
        OF _ assms])
    (simp_all add: only_in_template_row_def)

text \<open>The state change of one sanctioned transaction is that of adding it when it is sanctioned.\<close>

lemma sanctioned_step_closed_form:
  assumes "hm_get m txid = Some i"
  shows "sanctioned_info_step L H block_id name m in_block in_template utxos addrs txid (rows, st) =
    Inr (rows @ (if is_tx_sanctioned L (ti_tx i) utxos addrs \<and> buildable L i
                 then [sanctioned_row L H block_id in_block in_template utxos addrs i] else []),
         (if is_tx_sanctioned L (ti_tx i) utxos addrs
          then build_and_add L H False utxos addrs i st else st))"
  by (rule build_transaction_cases [of L H "rev (ti_txid i)" i False utxos addrs])
    (cases st; simp add: assms sanctioned_info_step_def build_and_add_def sanctioned_row_def)+

definition sanctioned_rows ::
  "lib \<Rightarrow> hash_iter \<Rightarrow> int \<Rightarrow> (tx_info \<Rightarrow> bool) \<Rightarrow> bool \<Rightarrow> utxo_map \<Rightarrow> string list \<Rightarrow> tx_info list \<Rightarrow>
     sanctioned_transaction_info list" where
  "sanctioned_rows L H block_id in_block in_template utxos addrs is =
     map (sanctioned_row L H block_id in_block in_template utxos addrs)
       (filter (\<lambda>i. is_tx_sanctioned L (ti_tx i) utxos addrs \<and> buildable L i) is)"

definition add_sanctioned ::
  "lib \<Rightarrow> hash_iter \<Rightarrow> utxo_map \<Rightarrow> string list \<Rightarrow> tx_info list \<Rightarrow> tx_map \<times> metrics \<Rightarrow> tx_map \<times> metrics" where
  "add_sanctioned L H utxos addrs is =
     fold (build_and_add L H False utxos addrs) (filter (\<lambda>i. is_tx_sanctioned L (ti_tx i) utxos addrs) is)"

lemma sanctioned_fold_closed_form:
  assumes "set txids \<subseteq> dom (hm_get m)"
  shows "fold_res (sanctioned_info_step L H block_id name m in_block in_template utxos addrs) txids (rows, st) =
    Inr (rows @ sanctioned_rows L H block_id in_block in_template utxos addrs (infos_of m txids),
         add_sanctioned L H utxos addrs (infos_of m txids) st)"
proof -
  have "fold_res (sanctioned_info_step L H block_id name m in_block in_template utxos addrs) txids (rows, st) =
    Inr (rows @ concat (map (\<lambda>txid. if is_tx_sanctioned L (ti_tx (the (hm_get m txid))) utxos addrs \<and>
             buildable L (the (hm_get m txid))
           then [sanctioned_row L H block_id in_block in_template utxos addrs (the (hm_get m txid))] else []) txids),
         fold (\<lambda>i st. if is_tx_sanctioned L (ti_tx i) utxos addrs
           then build_and_add L H False utxos addrs i st else st) (infos_of m txids) st)"
    by (rule fold_res_lookup [where g = "\<lambda>txid i. if is_tx_sanctioned L (ti_tx i) utxos addrs \<and> buildable L i
          then [sanctioned_row L H block_id in_block in_template utxos addrs i] else []", OF _ assms])
      (rule sanctioned_step_closed_form)
  then show ?thesis
    by (simp only: fold_if sanctioned_rows_def add_sanctioned_def
        concat_if [of "\<lambda>i. is_tx_sanctioned L (ti_tx i) utxos addrs \<and> buildable L i" "\<lambda>txid. the (hm_get m txid)"
          "sanctioned_row L H block_id in_block in_template utxos addrs"])
qed

lemma sanctioned_infos_closed_form:
  assumes "set template_txids \<subseteq> dom (hm_get tmap)"
    and "set txids_b \<subseteq> dom (hm_get (td_txid_to_txinfo_map bd))"
  shows "build_sanctioned_transaction_infos L H block_id bd template_txids tmap txids_b utxos addrs st =
    Inr (sanctioned_rows L H block_id (\<lambda>i. ti_txid i \<in> set (td_txids bd)) True utxos addrs
           (infos_of tmap template_txids) @
         sanctioned_rows L H block_id (\<lambda>i. True) False utxos addrs
           (infos_of (td_txid_to_txinfo_map bd) txids_b),
         add_sanctioned L H utxos addrs (infos_of (td_txid_to_txinfo_map bd) txids_b)
           (add_sanctioned L H utxos addrs (infos_of tmap template_txids) st))"
  unfolding build_sanctioned_transaction_infos_def
  by (simp add: sanctioned_fold_closed_form [OF assms(1)] sanctioned_fold_closed_form [OF assms(2)])

section \<open>Properties\<close>

text \<open>The info under which an id is observed: the template's, or else the block's.\<close>

definition observed_info :: "tx_data \<Rightarrow> tx_data \<Rightarrow> txid \<Rightarrow> tx_info option" where
  "observed_info tmpl blk txid =
     (case hm_get (td_txid_to_txinfo_map tmpl) txid of
        Some i \<Rightarrow> Some i | None \<Rightarrow> hm_get (td_txid_to_txinfo_map blk) txid)"

lemma wf_dom: "wf_tx_data L d \<Longrightarrow> dom (hm_get (td_txid_to_txinfo_map d)) = set (td_txids d)"
  by (simp add: wf_tx_data_def)

lemma wf_the_txid:
  "wf_tx_data L d \<Longrightarrow> txid \<in> set (td_txids d) \<Longrightarrow> ti_txid (the (hm_get (td_txid_to_txinfo_map d) txid)) = txid"
  using wf_dom keyed_by_txid_get by (metis domD option.sel wf_tx_data_def)

lemma sanctioned_rows_keys:
  assumes "\<And>txid. txid \<in> set txids \<Longrightarrow> ti_txid (the (hm_get m txid)) = txid"
  shows "(\<lambda>r. (sti_txid r, sti_in_block r, sti_in_template r)) `
      set (sanctioned_rows L H block_id in_block in_template utxos addrs (infos_of m txids)) =
    (\<lambda>txid. (rev txid, in_block (the (hm_get m txid)), in_template)) `
      {txid \<in> set txids. is_tx_sanctioned L (ti_tx (the (hm_get m txid))) utxos addrs \<and>
         buildable L (the (hm_get m txid))}"
proof -
  let ?P = "\<lambda>i. is_tx_sanctioned L (ti_tx i) utxos addrs \<and> buildable L i"
  have "set (filter ?P (infos_of m txids)) =
      (\<lambda>txid. the (hm_get m txid)) ` {txid \<in> set txids. ?P (the (hm_get m txid))}" by auto
  then show ?thesis
    unfolding sanctioned_rows_def set_map image_image
    by (simp only: image_image) (intro image_cong, simp_all add: sanctioned_row_def assms)
qed

lemma dom_add_sanctioned:
  "dom (hm_get (fst (add_sanctioned L H utxos addrs is st))) = dom (hm_get (fst st)) \<union>
     (\<lambda>i. rev (ti_txid i)) ` {i \<in> set is. is_tx_sanctioned L (ti_tx i) utxos addrs \<and> buildable L i}"
  by (auto simp: add_sanctioned_def dom_fold)

lemma sanctioned_infos_closed:
  assumes "wf_tx_data L bd" "wf_tx_data L td"
    and "set txids_b = set (td_txids bd) - set (td_txids td)"
  shows "\<exists>rows st'. build_sanctioned_transaction_infos L H block_id bd (td_txids td) (td_txid_to_txinfo_map td)
      txids_b utxos addrs st = Inr (rows, st') \<and> sti_txid ` set rows \<subseteq> dom (hm_get (fst st'))"
proof -
  have "set (td_txids td) \<subseteq> dom (hm_get (td_txid_to_txinfo_map td))"
    "set txids_b \<subseteq> dom (hm_get (td_txid_to_txinfo_map bd))"
    using wf_dom [OF assms(1)] wf_dom [OF assms(2)] assms(3) by auto
  from sanctioned_infos_closed_form [OF this] show ?thesis
    by (intro exI conjI) (assumption, auto simp: dom_add_sanctioned sanctioned_rows_def sanctioned_row_def)
qed

lemma wf_single_tx_data:
  "wf_tx_data L \<lparr>td_txids = [ti_txid i], td_txid_to_txinfo_map = [(ti_txid i, i)], td_txinfos = [i]\<rparr> \<longleftrightarrow>
     ti_txid i = compute_txid L (ti_tx i)"
  by (auto simp: wf_tx_data_def keyed_by_txid_def)

lemma observed_txids:
  assumes "wf_tx_data L bd" "wf_tx_data L td" "set txids_b = set (td_txids bd) - set (td_txids td)"
  shows "{txid. \<exists>i. observed_info td bd txid = Some i \<and> P i} =
    {txid \<in> set (td_txids td). P (the (hm_get (td_txid_to_txinfo_map td) txid))} \<union>
    {txid \<in> set txids_b. P (the (hm_get (td_txid_to_txinfo_map bd) txid))}"
  unfolding assms(3) wf_dom [OF assms(1), symmetric] wf_dom [OF assms(2), symmetric]
  by (auto simp: observed_info_def split: option.splits)



text \<open>C27: The rows of the transactions only in the block list exactly the given ids, in order,
  without a panic. They refer only to transactions in the map of transactions exactly when each of
  them can be analysed or was in the map before: the row is pushed even when the transaction could
  not be built.\<close>

theorem only_in_block_rows_reference:
  assumes "set txids \<subseteq> dom (hm_get m)" "keyed_by_txid m"
  shows "\<exists>rows st'. build_transactions_only_in_block L H block_id txids m utxos addrs st = Inr (rows, st') \<and>
    map oib_txid rows = map rev txids \<and>
    (oib_txid ` set rows \<subseteq> dom (hm_get (fst st')) \<longleftrightarrow>
       (\<forall>txid\<in>set txids. buildable L (the (hm_get m txid)) \<or> rev txid \<in> dom (hm_get (fst st))))"
proof -
  let ?st = "fold (build_and_add L H False utxos addrs) (infos_of m txids) st"
  have id: "ti_txid (the (hm_get m txid)) = txid" if "txid \<in> set txids" for txid
    using that assms keyed_by_txid_get [of m txid] by fastforce
  have ids: "map oib_txid (map (only_in_block_row block_id) (infos_of m txids)) = map rev txids"
    using id by (simp add: only_in_block_row_def)
  have dom: "dom (hm_get (fst ?st)) =
      dom (hm_get (fst st)) \<union> rev ` {txid \<in> set txids. buildable L (the (hm_get m txid))}"
  proof -
    have "{i \<in> set (infos_of m txids). buildable L i} =
        (\<lambda>txid. the (hm_get m txid)) ` {txid \<in> set txids. buildable L (the (hm_get m txid))}" by auto
    moreover have "(\<lambda>txid. rev (ti_txid (the (hm_get m txid)))) ` {txid \<in> set txids. buildable L (the (hm_get m txid))} =
        rev ` {txid \<in> set txids. buildable L (the (hm_get m txid))}"
      using id by (intro image_cong) simp_all
    ultimately show ?thesis unfolding dom_fold by (simp only: image_image)
  qed
  have inj: "rev txid \<in> rev ` A \<longleftrightarrow> txid \<in> A" for txid :: txid and A by force
  have "oib_txid ` set (map (only_in_block_row block_id) (infos_of m txids)) = rev ` set txids"
    using ids by (metis set_map)
  then have iff: "oib_txid ` set (map (only_in_block_row block_id) (infos_of m txids)) \<subseteq> dom (hm_get (fst ?st)) \<longleftrightarrow>
      (\<forall>txid\<in>set txids. buildable L (the (hm_get m txid)) \<or> rev txid \<in> dom (hm_get (fst st)))"
    unfolding dom using inj by auto
  show ?thesis
    by (intro exI conjI) (rule only_in_block_closed_form [OF assms(1)], fact ids, fact iff)
qed

theorem only_in_block_rows_reference_witness:
  "\<exists>rows st'. build_transactions_only_in_block sample_lib sample_iter 1 [[7]]
      [([7], (sample_info 7 [(3, 0)] 1)\<lparr>ti_tx := (sample_tx 7 [(3, 0)] 1)\<lparr>tx_version := 0\<rparr>\<rparr>)] [] []
      ([], sample_metrics) = Inr (rows, st') \<and>
    map oib_txid rows = [[7]] \<and> \<not> oib_txid ` set rows \<subseteq> dom (hm_get (fst st'))"
proof -
  let ?i = "(sample_info 7 [(3, 0)] 1)\<lparr>ti_tx := (sample_tx 7 [(3, 0)] 1)\<lparr>tx_version := 0\<rparr>\<rparr>"
  have "set [[7]] \<subseteq> dom (hm_get [([7], ?i)])" "keyed_by_txid [([7], ?i)]"
    by (simp_all add: keyed_by_txid_def sample_info_def)
  from only_in_block_rows_reference [OF this, of sample_lib sample_iter 1 "[]" "[]" "([], sample_metrics)"]
  show ?thesis by (simp add: buildable_def sample_lib_def)
qed

end
