(* ===== verification/Daemon_Db.thy ===== *)
theory Daemon_Db
  imports Tagging
begin

text \<open>
  The database access of \<^verbatim>\<open>daemon/src/db.rs\<close>. Diesel and PostgreSQL are not part of the
  repository: the record \<open>pg\<close> has one field per SQL statement the source issues, over a database
  state of any type, and is an argument of every operation. A statement returns a result or an
  error together with the new state. The laws below state what the statements on a table do when
  they succeed; the theorem on \<^verbatim>\<open>insert_transactions\<close> shows that stored tags are merged, never lost.
\<close>

section \<open>Statements\<close>

datatype db_error = DbError string | NotFound

type_synonym ('d, 'a) dbop = "'d \<Rightarrow> (db_error + 'a) \<times> 'd"

record 'd pg =
  pg_run_migrations :: "('d, unit) dbop"
  pg_insert_block :: "new_block \<Rightarrow> ('d, int) dbop"
  pg_insert_transactions :: "db_transaction list \<Rightarrow> ('d, bytes list) dbop"
  pg_select_tags :: "bytes \<Rightarrow> ('d, int list) dbop"
  pg_update_tags :: "bytes \<Rightarrow> int list \<Rightarrow> ('d, unit) dbop"
  pg_insert_only_in_block :: "transaction_only_in_block list \<Rightarrow> ('d, unit) dbop"
  pg_insert_only_in_template :: "transaction_only_in_template list \<Rightarrow> ('d, unit) dbop"
  pg_insert_sanctioned_infos :: "sanctioned_transaction_info list \<Rightarrow> ('d, unit) dbop"
  pg_insert_conflicting :: "conflicting_transaction list \<Rightarrow> ('d, unit) dbop"
  pg_delete_utxos :: "('d, unit) dbop"
  pg_insert_utxos :: "sanctioned_utxo list \<Rightarrow> ('d, unit) dbop"
  pg_insert_utxos_or_ignore :: "sanctioned_utxo list \<Rightarrow> ('d, unit) dbop"
  pg_insert_scan_info :: "sanctioned_utxo_scan_info \<Rightarrow> ('d, unit) dbop"
  pg_load_utxos :: "('d, sanctioned_utxo list) dbop"
  pg_insert_debug_infos :: "debug_template_selection_info list \<Rightarrow> ('d, unit) dbop"
  pg_delete_addresses :: "('d, unit) dbop"
  pg_insert_addresses :: "sanctioned_address list \<Rightarrow> ('d, unit) dbop"
  pg_load_addresses :: "('d, sanctioned_address list) dbop"
  pg_load_transactions :: "('d, db_transaction list) dbop"
  pg_select_blocks_of_pool :: "string \<Rightarrow> ('d, db_block list) dbop"
  pg_update_pool_name :: "int \<Rightarrow> string \<Rightarrow> ('d, unit) dbop"
  pg_update_node_version :: "string \<Rightarrow> ('d, unit) dbop"
  pg_transaction :: "('d, unit) dbop \<Rightarrow> ('d, unit) dbop"

section \<open>Sequencing\<close>

definition db_return :: "'a \<Rightarrow> ('d, 'a) dbop" where
  "db_return a d = (Inr a, d)"

definition db_bind :: "('d, 'a) dbop \<Rightarrow> ('a \<Rightarrow> ('d, 'b) dbop) \<Rightarrow> ('d, 'b) dbop" where
  "db_bind m f d = (case m d of (Inl e, d') \<Rightarrow> (Inl e, d') | (Inr a, d') \<Rightarrow> f a d')"

fun db_for :: "('a \<Rightarrow> ('d, unit) dbop) \<Rightarrow> 'a list \<Rightarrow> ('d, unit) dbop" where
  "db_for f [] = db_return ()"
| "db_for f (x # xs) = db_bind (f x) (\<lambda>u. db_for f xs)"

section \<open>Operations\<close>

definition run_migrations :: "'d pg \<Rightarrow> ('d, unit) dbop" where
  "run_migrations P = pg_run_migrations P"

definition insert_block :: "'d pg \<Rightarrow> new_block \<Rightarrow> ('d, int) dbop" where
  "insert_block P b = pg_insert_block P b"

definition db_merge_tags :: "int list \<Rightarrow> int list \<Rightarrow> int list" where
  "db_merge_tags db_tx_tags new = (if db_tx_tags \<noteq> new then sort (hs_collect (db_tx_tags @ new)) else db_tx_tags)"

definition merge_stored_tags :: "'d pg \<Rightarrow> bytes list \<Rightarrow> db_transaction \<Rightarrow> ('d, unit) dbop" where
  "merge_stored_tags P inserted tx =
     (if t_txid tx \<notin> set inserted
      then db_bind (pg_select_tags P (t_txid tx)) (\<lambda>db_tx_tags.
             if db_tx_tags \<noteq> t_tags tx
             then pg_update_tags P (t_txid tx) (db_merge_tags db_tx_tags (t_tags tx))
             else db_return ())
      else db_return ())"

definition insert_transactions :: "'d pg \<Rightarrow> db_transaction list \<Rightarrow> ('d, unit) dbop" where
  "insert_transactions P txns =
     db_bind (pg_insert_transactions P txns) (\<lambda>inserted_txids.
       let inserted_txids_hashset = hs_collect inserted_txids;
           txns_txids_hashset = hs_collect (map t_txid txns)
       in if length inserted_txids_hashset \<noteq> length txns_txids_hashset
          then db_for (merge_stored_tags P inserted_txids_hashset) txns
          else db_return ())"

definition insert_transactions_only_in_block ::
  "'d pg \<Rightarrow> transaction_only_in_block list \<Rightarrow> ('d, unit) dbop" where
  "insert_transactions_only_in_block P txns = pg_insert_only_in_block P txns"

definition insert_transactions_only_in_template ::
  "'d pg \<Rightarrow> transaction_only_in_template list \<Rightarrow> ('d, unit) dbop" where
  "insert_transactions_only_in_template P txns = pg_insert_only_in_template P txns"

definition insert_sanctioned_transaction_infos ::
  "'d pg \<Rightarrow> sanctioned_transaction_info list \<Rightarrow> ('d, unit) dbop" where
  "insert_sanctioned_transaction_infos P infos = pg_insert_sanctioned_infos P infos"

definition insert_conflicting_transactions :: "'d pg \<Rightarrow> conflicting_transaction list \<Rightarrow> ('d, unit) dbop" where
  "insert_conflicting_transactions P ctxns = pg_insert_conflicting P ctxns"

definition clean_and_insert_sanctioned_utxos :: "'d pg \<Rightarrow> sanctioned_utxo list \<Rightarrow> ('d, unit) dbop" where
  "clean_and_insert_sanctioned_utxos P utxos =
     pg_transaction P (db_bind (pg_delete_utxos P) (\<lambda>u. pg_insert_utxos P utxos))"

definition insert_sanctioned_utxos :: "'d pg \<Rightarrow> sanctioned_utxo list \<Rightarrow> ('d, unit) dbop" where
  "insert_sanctioned_utxos P utxos = pg_insert_utxos_or_ignore P utxos"

definition insert_sanctioned_utxo_scan_info :: "'d pg \<Rightarrow> sanctioned_utxo_scan_info \<Rightarrow> ('d, unit) dbop" where
  "insert_sanctioned_utxo_scan_info P info = pg_insert_scan_info P info"

definition get_sanctioned_utxos :: "'d pg \<Rightarrow> ('d, sanctioned_utxo list) dbop" where
  "get_sanctioned_utxos P = pg_load_utxos P"

definition insert_debug_template_selection_infos ::
  "'d pg \<Rightarrow> debug_template_selection_info list \<Rightarrow> ('d, unit) dbop" where
  "insert_debug_template_selection_infos P infos = pg_insert_debug_infos P infos"

definition replace_sanctioned_addresses :: "'d pg \<Rightarrow> sanctioned_address list \<Rightarrow> ('d, unit) dbop" where
  "replace_sanctioned_addresses P addr =
     pg_transaction P (db_bind (pg_delete_addresses P) (\<lambda>u. pg_insert_addresses P addr))"

definition all_transactions :: "'d pg \<Rightarrow> ('d, db_transaction list) dbop" where
  "all_transactions P = pg_load_transactions P"

definition db_sanctioned_addresses :: "'d pg \<Rightarrow> ('d, sanctioned_address list) dbop" where
  "db_sanctioned_addresses P = pg_load_addresses P"

definition unknown_pool_blocks :: "'d pg \<Rightarrow> ('d, db_block list) dbop" where
  "unknown_pool_blocks P = pg_select_blocks_of_pool P ''Unknown''"

definition update_pool_name_with_block_id :: "'d pg \<Rightarrow> int \<Rightarrow> string \<Rightarrow> ('d, unit) dbop" where
  "update_pool_name_with_block_id P block_id new_pool_name = pg_update_pool_name P block_id new_pool_name"

definition update_transaction_tags :: "'d pg \<Rightarrow> int list \<Rightarrow> bytes \<Rightarrow> ('d, unit) dbop" where
  "update_transaction_tags P new_tags tx_id = pg_update_tags P tx_id new_tags"

definition update_node_info :: "'d pg \<Rightarrow> string \<Rightarrow> ('d, unit) dbop" where
  "update_node_info P new_version = pg_update_node_version P new_version"

section \<open>Laws of the statements\<close>

text \<open>
  The transaction table, seen as a map from ids to tags: inserting with "on conflict do nothing"
  adds the rows whose id was absent and returns their ids, selecting reads, updating overwrites.
\<close>

definition tx_table_law :: "'d pg \<Rightarrow> ('d \<Rightarrow> bytes \<Rightarrow> int list option) \<Rightarrow> bool" where
  "tx_table_law P tags_of \<longleftrightarrow>
     (\<forall>txns d ids d'. distinct (map t_txid txns) \<and> pg_insert_transactions P txns d = (Inr ids, d') \<longrightarrow>
        set ids = {k \<in> t_txid ` set txns. tags_of d k = None} \<and>
        tags_of d' = map_of (map (\<lambda>t. (t_txid t, t_tags t)) txns) ++ tags_of d) \<and>
     (\<forall>k d ts d'. pg_select_tags P k d = (Inr ts, d') \<longrightarrow> tags_of d k = Some ts \<and> tags_of d' = tags_of d) \<and>
     (\<forall>k ts d d'. pg_update_tags P k ts d = (Inr (), d') \<longrightarrow>
        tags_of d' = (tags_of d)(k := map_option (\<lambda>old. ts) (tags_of d k)))"

text \<open>A database transaction commits when its body succeeds and otherwise leaves no trace.\<close>

definition transaction_law :: "'d pg \<Rightarrow> bool" where
  "transaction_law P \<longleftrightarrow>
     (\<forall>body d. pg_transaction P body d = (case body d of (Inl e, d') \<Rightarrow> (Inl e, d) | (Inr u, d') \<Rightarrow> (Inr u, d')))"

definition address_table_law :: "'d pg \<Rightarrow> ('d \<Rightarrow> sanctioned_address list) \<Rightarrow> bool" where
  "address_table_law P rows \<longleftrightarrow>
     (\<forall>d d'. pg_delete_addresses P d = (Inr (), d') \<longrightarrow> rows d' = []) \<and>
     (\<forall>as d d'. pg_insert_addresses P as d = (Inr (), d') \<longrightarrow> mset (rows d') = mset (rows d) + mset as) \<and>
     (\<forall>d as d'. pg_load_addresses P d = (Inr as, d') \<longrightarrow> mset as = mset (rows d))"

definition utxo_table_law :: "'d pg \<Rightarrow> ('d \<Rightarrow> sanctioned_utxo list) \<Rightarrow> bool" where
  "utxo_table_law P rows \<longleftrightarrow>
     (\<forall>d d'. pg_delete_utxos P d = (Inr (), d') \<longrightarrow> rows d' = []) \<and>
     (\<forall>us d d'. pg_insert_utxos P us d = (Inr (), d') \<longrightarrow> mset (rows d') = mset (rows d) + mset us) \<and>
     (\<forall>d us d'. pg_load_utxos P d = (Inr us, d') \<longrightarrow> mset us = mset (rows d))"

section \<open>An in-memory database\<close>

text \<open>
  Tables as lists with the primary and foreign keys of the migrations. It satisfies the laws, so
  the hypotheses of the theorems can hold, and the witnesses compute with it.
\<close>

record mem_db =
  mem_blocks :: "(int \<times> new_block) list"
  mem_txs :: "db_transaction list"
  mem_only_in_block :: "transaction_only_in_block list"
  mem_only_in_template :: "transaction_only_in_template list"
  mem_sanctioned_infos :: "sanctioned_transaction_info list"
  mem_conflicting :: "conflicting_transaction list"
  mem_utxos :: "sanctioned_utxo list"
  mem_scan_infos :: "sanctioned_utxo_scan_info list"
  mem_debug :: "debug_template_selection_info list"
  mem_addresses :: "sanctioned_address list"
  mem_version :: string

definition mem_empty :: mem_db where
  "mem_empty = \<lparr>mem_blocks = [], mem_txs = [], mem_only_in_block = [], mem_only_in_template = [],
     mem_sanctioned_infos = [], mem_conflicting = [], mem_utxos = [], mem_scan_infos = [], mem_debug = [],
     mem_addresses = [], mem_version = []\<rparr>"

definition mem_tags :: "mem_db \<Rightarrow> bytes \<Rightarrow> int list option" where
  "mem_tags d k = map_of (map (\<lambda>t. (t_txid t, t_tags t)) (mem_txs d)) k"

definition mem_check :: "bool \<Rightarrow> mem_db \<Rightarrow> mem_db \<Rightarrow> (db_error + unit) \<times> mem_db" where
  "mem_check ok d d' = (if ok then (Inr (), d') else (Inl (DbError ''constraint violated''), d))"

definition mem_pg :: "mem_db pg" where
  "mem_pg =
     \<lparr>pg_run_migrations = (\<lambda>d. (Inr (), d)),
      pg_insert_block = (\<lambda>b d.
        if nb_hash b \<in> nb_hash ` snd ` set (mem_blocks d) then (Inl (DbError ''duplicate key''), d)
        else (Inr (int (length (mem_blocks d)) + 1),
              d\<lparr>mem_blocks := mem_blocks d @ [(int (length (mem_blocks d)) + 1, b)]\<rparr>)),
      pg_insert_transactions = (\<lambda>ts d.
        let new = filter (\<lambda>t. t_txid t \<notin> t_txid ` set (mem_txs d)) ts
        in (Inr (map t_txid new), d\<lparr>mem_txs := mem_txs d @ new\<rparr>)),
      pg_select_tags = (\<lambda>k d. case mem_tags d k of Some ts \<Rightarrow> (Inr ts, d) | None \<Rightarrow> (Inl NotFound, d)),
      pg_update_tags = (\<lambda>k ts d.
        (Inr (), d\<lparr>mem_txs := map (\<lambda>t. if t_txid t = k then t\<lparr>t_tags := ts\<rparr> else t) (mem_txs d)\<rparr>)),
      pg_insert_only_in_block = (\<lambda>rs d. mem_check (oib_txid ` set rs \<subseteq> t_txid ` set (mem_txs d)) d
        (d\<lparr>mem_only_in_block := mem_only_in_block d @ rs\<rparr>)),
      pg_insert_only_in_template = (\<lambda>rs d. mem_check (oit_txid ` set rs \<subseteq> t_txid ` set (mem_txs d)) d
        (d\<lparr>mem_only_in_template := mem_only_in_template d @ rs\<rparr>)),
      pg_insert_sanctioned_infos = (\<lambda>rs d. mem_check (sti_txid ` set rs \<subseteq> t_txid ` set (mem_txs d)) d
        (d\<lparr>mem_sanctioned_infos := mem_sanctioned_infos d @ rs\<rparr>)),
      pg_insert_conflicting = (\<lambda>rs d. (Inr (), d\<lparr>mem_conflicting := mem_conflicting d @ rs\<rparr>)),
      pg_delete_utxos = (\<lambda>d. (Inr (), d\<lparr>mem_utxos := []\<rparr>)),
      pg_insert_utxos = (\<lambda>us d. (Inr (), d\<lparr>mem_utxos := mem_utxos d @ us\<rparr>)),
      pg_insert_utxos_or_ignore = (\<lambda>us d. (Inr (), d\<lparr>mem_utxos := mem_utxos d @
        filter (\<lambda>u. (su_txid u, su_vout u) \<notin> (\<lambda>u. (su_txid u, su_vout u)) ` set (mem_utxos d)) us\<rparr>)),
      pg_insert_scan_info = (\<lambda>i d. (Inr (), d\<lparr>mem_scan_infos := mem_scan_infos d @ [i]\<rparr>)),
      pg_load_utxos = (\<lambda>d. (Inr (mem_utxos d), d)),
      pg_insert_debug_infos = (\<lambda>rs d. (Inr (), d\<lparr>mem_debug := mem_debug d @ rs\<rparr>)),
      pg_delete_addresses = (\<lambda>d. (Inr (), d\<lparr>mem_addresses := []\<rparr>)),
      pg_insert_addresses = (\<lambda>as d. (Inr (), d\<lparr>mem_addresses := mem_addresses d @ as\<rparr>)),
      pg_load_addresses = (\<lambda>d. (Inr (mem_addresses d), d)),
      pg_load_transactions = (\<lambda>d. (Inr (mem_txs d), d)),
      pg_select_blocks_of_pool = (\<lambda>n d. (Inr (map (\<lambda>(i, b). new_block.extend b (db_block.fields i))
        (filter (\<lambda>(i, b). nb_pool_name b = n) (mem_blocks d))), d)),
      pg_update_pool_name = (\<lambda>k n d. (Inr (), d\<lparr>mem_blocks :=
        map (\<lambda>(i, b). (i, if i = k then b\<lparr>nb_pool_name := n\<rparr> else b)) (mem_blocks d)\<rparr>)),
      pg_update_node_version = (\<lambda>v d. (Inr (), d\<lparr>mem_version := v\<rparr>)),
      pg_transaction = (\<lambda>body d. case body d of (Inl e, d') \<Rightarrow> (Inl e, d) | (Inr u, d') \<Rightarrow> (Inr u, d'))\<rparr>"

lemma mem_tags_insert:
  assumes "distinct (map t_txid ts)"
  shows "map_of (map (\<lambda>t. (t_txid t, t_tags t)) (xs @ filter (\<lambda>t. t_txid t \<notin> t_txid ` set xs) ts)) =
    map_of (map (\<lambda>t. (t_txid t, t_tags t)) ts) ++ map_of (map (\<lambda>t. (t_txid t, t_tags t)) xs)"
proof
  fix k
  let ?m = "\<lambda>ts. map_of (map (\<lambda>t. (t_txid t, t_tags t)) ts)"
  have "?m (filter (\<lambda>t. t_txid t \<notin> S) ts) k = (if k \<in> S then None else ?m ts k)" for S
    by (induction ts) auto
  moreover have "k \<in> t_txid ` set xs \<longleftrightarrow> ?m xs k \<noteq> None"
    by (simp add: map_of_eq_None_iff image_image)
  ultimately show "?m (xs @ filter (\<lambda>t. t_txid t \<notin> t_txid ` set xs) ts) k = (?m ts ++ ?m xs) k"
    by (simp add: map_add_def split: option.splits)
qed

lemma image_filter_key: "f ` {t \<in> A. f t \<notin> B} = {k \<in> f ` A. k \<notin> B}"
  by auto

lemma mem_tx_table_law: "tx_table_law mem_pg mem_tags"
proof -
  have upd: "map_of (map (\<lambda>t. (t_txid t, t_tags t)) (map (\<lambda>t. if t_txid t = k then t\<lparr>t_tags := ts\<rparr> else t) xs)) =
      (map_of (map (\<lambda>t. (t_txid t, t_tags t)) xs))
        (k := map_option (\<lambda>old. ts) (map_of (map (\<lambda>t. (t_txid t, t_tags t)) xs) k))" for k ts xs
    by (induction xs) (auto simp: fun_eq_iff)
  have none: "mem_tags d k = None \<longleftrightarrow> k \<notin> t_txid ` set (mem_txs d)" for d k
    by (simp add: mem_tags_def map_of_eq_None_iff image_image)
  have tags: "mem_tags d = map_of (map (\<lambda>t. (t_txid t, t_tags t)) (mem_txs d))" for d
    by (simp add: mem_tags_def fun_eq_iff)
  show ?thesis
    unfolding tx_table_law_def
  proof (intro conjI allI impI)
    fix txns d ids d'
    assume *: "distinct (map t_txid txns) \<and> pg_insert_transactions mem_pg txns d = (Inr ids, d')"
    then have "ids = map t_txid (filter (\<lambda>t. t_txid t \<notin> t_txid ` set (mem_txs d)) txns)"
      by (simp add: mem_pg_def Let_def)
    then have "set ids = t_txid ` {t \<in> set txns. t_txid t \<notin> t_txid ` set (mem_txs d)}" by simp
    also have "\<dots> = {k \<in> t_txid ` set txns. k \<notin> t_txid ` set (mem_txs d)}"
      by (rule image_filter_key)
    finally show "set ids = {k \<in> t_txid ` set txns. mem_tags d k = None}" unfolding none .
    from * show "mem_tags d' = map_of (map (\<lambda>t. (t_txid t, t_tags t)) txns) ++ mem_tags d"
      using mem_tags_insert [of txns "mem_txs d"] by (auto simp: mem_pg_def tags Let_def)
  next
    fix k ts d d' assume "pg_update_tags mem_pg k ts d = (Inr (), d')"
    then show "mem_tags d' = (mem_tags d)(k := map_option (\<lambda>old. ts) (mem_tags d k))"
      using upd [of k ts "mem_txs d"] by (auto simp: mem_pg_def tags)
  qed (auto simp: mem_pg_def split: option.splits)
qed

lemma mem_transaction_law: "transaction_law mem_pg"
  by (simp add: transaction_law_def mem_pg_def)

lemma mem_address_table_law: "address_table_law mem_pg mem_addresses"
  by (simp add: address_table_law_def mem_pg_def)

lemma mem_utxo_table_law: "utxo_table_law mem_pg mem_utxos"
  by (simp add: utxo_table_law_def mem_pg_def)

section \<open>Facts\<close>

interpretation dm: tag_merge db_merge_tags
  by unfold_locales (auto simp: db_merge_tags_def)

lemma db_bind_Inr:
  "db_bind m f d = (Inr b, d') \<longleftrightarrow> (\<exists>a d1. m d = (Inr a, d1) \<and> f a d1 = (Inr b, d'))"
  by (auto simp: db_bind_def split: prod.splits sum.splits)

lemma db_return_eq: "db_return a d = (Inr b, d') \<longleftrightarrow> a = b \<and> d = d'"
  by (simp add: db_return_def)

text \<open>A database transaction that deletes and then inserts replaces a table or changes nothing.\<close>

lemma replace_atomic:
  assumes "transaction_law P"
    and "\<And>d d'. del d = (Inr (), d') \<Longrightarrow> rows d' = []"
    and "\<And>d d'. ins d = (Inr (), d') \<Longrightarrow> mset (rows d') = mset (rows d) + mset xs"
    and "pg_transaction P (db_bind del (\<lambda>u. ins)) d = (r, d')"
  shows "(\<exists>e. r = Inl e \<and> d' = d) \<or> (r = Inr () \<and> mset (rows d') = mset xs)"
proof -
  obtain r1 d1 where b: "db_bind del (\<lambda>u. ins) d = (r1, d1)" by fastforce
  show ?thesis
  proof (cases r1)
    case (Inl e)
    with b assms(1,4) show ?thesis by (auto simp: transaction_law_def)
  next
    case (Inr u)
    with b assms(1,4) have r: "r = Inr ()" "d' = d1" by (auto simp: transaction_law_def)
    from b Inr obtain d2 where "del d = (Inr (), d2)" "ins d2 = (Inr (), d1)"
      by (auto simp: db_bind_Inr)
    with assms(2,3) r show ?thesis by fastforce
  qed
qed

lemma merge_stored_tags_effect:
  assumes law: "tx_table_law P tags_of"
    and run: "merge_stored_tags P inserted tx d = (Inr (), d')"
  shows "tags_of d' = (if t_txid tx \<in> set inserted then tags_of d
     else (tags_of d)(t_txid tx := map_option (\<lambda>old. db_merge_tags old (t_tags tx)) (tags_of d (t_txid tx))))"
proof (cases "t_txid tx \<in> set inserted")
  case True
  with run show ?thesis by (simp add: merge_stored_tags_def db_return_eq)
next
  case False
  with run obtain ts d1 where sel: "pg_select_tags P (t_txid tx) d = (Inr ts, d1)"
    and rest: "(if ts \<noteq> t_tags tx then pg_update_tags P (t_txid tx) (db_merge_tags ts (t_tags tx)) else db_return ()) d1
      = (Inr (), d')"
    by (auto simp: merge_stored_tags_def db_bind_Inr)
  from law sel have ts: "tags_of d (t_txid tx) = Some ts" "tags_of d1 = tags_of d"
    by (auto simp: tx_table_law_def)
  show ?thesis
  proof (cases "ts = t_tags tx")
    case True
    with rest ts False show ?thesis by (auto simp: db_return_eq db_merge_tags_def fun_upd_idem)
  next
    case neq: False
    with rest law have "tags_of d' = (tags_of d1)(t_txid tx :=
        map_option (\<lambda>old. db_merge_tags ts (t_tags tx)) (tags_of d1 (t_txid tx)))"
      unfolding tx_table_law_def by auto
    with ts False show ?thesis by simp
  qed
qed

lemma merge_loop_effect:
  assumes law: "tx_table_law P tags_of" and dist: "distinct (map t_txid txns)"
    and run: "db_for (merge_stored_tags P inserted) txns d = (Inr (), d')"
  shows "tags_of d' k =
    (case map_of (map (\<lambda>t. (t_txid t, t)) txns) k of
       Some tx \<Rightarrow> if k \<in> set inserted then tags_of d k
                  else map_option (\<lambda>old. db_merge_tags old (t_tags tx)) (tags_of d k)
     | None \<Rightarrow> tags_of d k)"
  using dist run
proof (induction txns arbitrary: d)
  case Nil
  then show ?case by (simp add: db_return_eq)
next
  case (Cons tx txns)
  from Cons.prems(2) obtain d1 where step: "merge_stored_tags P inserted tx d = (Inr (), d1)"
    and rest: "db_for (merge_stored_tags P inserted) txns d1 = (Inr (), d')"
    by (auto simp: db_bind_Inr)
  have IH: "tags_of d' k =
    (case map_of (map (\<lambda>t. (t_txid t, t)) txns) k of
       Some tx \<Rightarrow> if k \<in> set inserted then tags_of d1 k
                  else map_option (\<lambda>old. db_merge_tags old (t_tags tx)) (tags_of d1 k)
     | None \<Rightarrow> tags_of d1 k)"
    using Cons.IH [OF _ rest] Cons.prems(1) by simp
  have none: "map_of (map (\<lambda>t. (t_txid t, t)) txns) (t_txid tx) = None"
    using Cons.prems(1) by (simp add: map_of_eq_None_iff image_image)
  show ?case
    using IH none merge_stored_tags_effect [OF law step]
    by (cases "k = t_txid tx") (auto split: option.splits)
qed

section \<open>Properties\<close>

text \<open>C13: When inserting transactions succeeds, the tags stored for an id are, afterwards, the
  merged old and new tags if the id was stored before, the new tags if it was not, and unchanged
  for every other id; merging keeps all tags of both sides.\<close>

theorem insert_transactions_merges_tags:
  assumes law: "tx_table_law P tags_of" and dist: "distinct (map t_txid txns)"
    and run: "insert_transactions P txns d = (Inr (), d')"
  shows "tags_of d' k =
      (case map_of (map (\<lambda>t. (t_txid t, t)) txns) k of
         None \<Rightarrow> tags_of d k
       | Some tx \<Rightarrow> Some (case tags_of d k of None \<Rightarrow> t_tags tx | Some old \<Rightarrow> db_merge_tags old (t_tags tx))) \<and>
    set (db_merge_tags old new) = set old \<union> set new"
proof -
  let ?m = "map_of (map (\<lambda>t. (t_txid t, t)) txns)"
  from run obtain ids d1 where ins: "pg_insert_transactions P txns d = (Inr ids, d1)"
    and rest: "(if length (hs_collect ids) \<noteq> length (hs_collect (map t_txid txns))
      then db_for (merge_stored_tags P (hs_collect ids)) txns else db_return ()) d1 = (Inr (), d')"
    by (auto simp: insert_transactions_def db_bind_Inr Let_def)
  from law dist ins have ids: "set ids = {k \<in> t_txid ` set txns. tags_of d k = None}"
    and d1: "tags_of d1 = map_of (map (\<lambda>t. (t_txid t, t_tags t)) txns) ++ tags_of d"
    unfolding tx_table_law_def by blast+
  have tags: "map_of (map (\<lambda>t. (t_txid t, t_tags t)) txns) k = map_option t_tags (?m k)"
    by (induction txns) auto
  have in_txns: "k \<in> t_txid ` set txns \<longleftrightarrow> ?m k \<noteq> None"
    by (simp add: map_of_eq_None_iff image_image)
  have "tags_of d' k =
      (case ?m k of Some tx \<Rightarrow> if k \<in> set ids then tags_of d1 k
                  else map_option (\<lambda>old. db_merge_tags old (t_tags tx)) (tags_of d1 k)
       | None \<Rightarrow> tags_of d1 k)"
  proof (cases "length (hs_collect ids) = length (hs_collect (map t_txid txns))")
    case True
    then have "card (set ids) = card (t_txid ` set txns)" by (simp add: hs_collect_length)
    then have "set ids = t_txid ` set txns"
      using ids by (metis (no_types, lifting) card_subset_eq finite_imageI List.finite_set mem_Collect_eq subsetI)
    with True rest in_txns show ?thesis by (auto simp: db_return_eq split: option.splits)
  next
    case False
    with rest merge_loop_effect [OF law dist, of "hs_collect ids" d1 d' k] show ?thesis
      by (simp cong: option.case_cong)
  qed
  then have "tags_of d' k = (case ?m k of None \<Rightarrow> tags_of d k
       | Some tx \<Rightarrow> Some (case tags_of d k of None \<Rightarrow> t_tags tx | Some old \<Rightarrow> db_merge_tags old (t_tags tx)))"
    using ids in_txns by (auto simp: d1 tags map_add_def split: option.splits)
  then show ?thesis by (simp add: dm.set_merge)
qed

theorem insert_transactions_merges_tags_witness:
  "\<exists>d'. insert_transactions mem_pg [sample_row 1 [1110], sample_row 2 [4110]]
      (mem_empty\<lparr>mem_txs := [sample_row 1 [4140]]\<rparr>) = (Inr (), d') \<and>
    mem_tags d' [1] = Some (db_merge_tags [4140] [1110])"
proof -
  let ?d = "mem_empty\<lparr>mem_txs := [sample_row 1 [4140]]\<rparr>"
  obtain d' where run: "insert_transactions mem_pg [sample_row 1 [1110], sample_row 2 [4110]] ?d = (Inr (), d')"
    by (simp add: insert_transactions_def merge_stored_tags_def db_bind_def db_return_def mem_pg_def
        mem_tags_def hs_collect_def hs_insert_def sample_row_def mem_empty_def)
  have "distinct (map t_txid [sample_row 1 [1110], sample_row 2 [4110]])" by (simp add: sample_row_def)
  from insert_transactions_merges_tags [OF mem_tx_table_law this run, of "[1]" "[]" "[]"] run show ?thesis
    by (simp add: mem_tags_def sample_row_def)
qed

text \<open>Replacing the sanctioned addresses and replacing the sanctioned UTXOs are atomic: each
  call either fails and leaves the database as it was, or succeeds and the table holds exactly the
  given rows.\<close>

theorem table_replacement_is_atomic:
  assumes "transaction_law P" "address_table_law P addr_rows" "utxo_table_law P utxo_rows"
    and "replace_sanctioned_addresses P as d = (r, d')" "clean_and_insert_sanctioned_utxos P us d = (q, d'')"
  shows "((\<exists>e. r = Inl e \<and> d' = d) \<or> (r = Inr () \<and> mset (addr_rows d') = mset as)) \<and>
    ((\<exists>e. q = Inl e \<and> d'' = d) \<or> (q = Inr () \<and> mset (utxo_rows d'') = mset us))"
proof
  show "(\<exists>e. r = Inl e \<and> d' = d) \<or> (r = Inr () \<and> mset (addr_rows d') = mset as)"
    by (rule replace_atomic [OF assms(1) _ _ assms(4) [unfolded replace_sanctioned_addresses_def]])
      (use assms(2) in \<open>auto simp: address_table_law_def\<close>)
  show "(\<exists>e. q = Inl e \<and> d'' = d) \<or> (q = Inr () \<and> mset (utxo_rows d'') = mset us)"
    by (rule replace_atomic [OF assms(1) _ _ assms(5) [unfolded clean_and_insert_sanctioned_utxos_def]])
      (use assms(3) in \<open>auto simp: utxo_table_law_def\<close>)
qed

theorem table_replacement_is_atomic_witness:
  "\<exists>d'. replace_sanctioned_addresses mem_pg [\<lparr>sa_address = ''b''\<rparr>]
      (mem_empty\<lparr>mem_addresses := [\<lparr>sa_address = ''a''\<rparr>]\<rparr>) = (Inr (), d') \<and>
    mset (mem_addresses d') = mset [\<lparr>sa_address = ''b''\<rparr>]"
proof -
  let ?d = "mem_empty\<lparr>mem_addresses := [\<lparr>sa_address = ''a''\<rparr>]\<rparr>"
  obtain d' where a: "replace_sanctioned_addresses mem_pg [\<lparr>sa_address = ''b''\<rparr>] ?d = (Inr (), d')"
    by (simp add: replace_sanctioned_addresses_def mem_pg_def db_bind_def)
  obtain q d'' where u: "clean_and_insert_sanctioned_utxos mem_pg [] ?d = (q, d'')" by fastforce
  from table_replacement_is_atomic [OF mem_transaction_law mem_address_table_law mem_utxo_table_law a u] a
  show ?thesis by simp
qed

end
