(* ===== verification/Block_Processing.thy ===== *)
theory Block_Processing
  imports Processing Daemon_Db
begin

text \<open>
  The processing of one block (\<^verbatim>\<open>process\<close> of \<^verbatim>\<open>daemon/src/main.rs\<close>): the selection of the best
  template, the comparison of template and block, and the sequence of database inserts with its
  early returns. The answers of the node, of the connection pool and of the clock during one
  iteration of the main loop are the record \<open>env\<close>.
\<close>

section \<open>Environment and state\<close>

datatype rpc_error = RpcError string

record env =
  env_template :: "rpc_error + block_template"
  env_block :: "block_hash \<Rightarrow> rpc_error + block"
  env_block_hash :: "nat \<Rightarrow> rpc_error + block_hash"
  env_fees :: "block_hash \<Rightarrow> rpc_error + block_tx_fees"
  env_mempool_entry_time :: "txid \<Rightarrow> rpc_error + nat"
  env_connection :: bool
  env_connection_retry :: bool
  env_utc_now :: datetime
  env_local_now :: int
  env_pools :: "pool list"
  env_network :: network

record 'd daemon_state =
  last_templates :: "block_template list"
  ds_metrics :: metrics
  ds_db :: "'d"

section \<open>Template selection\<close>

definition template_difference :: "txid list \<Rightarrow> block_template \<Rightarrow> nat" where
  "template_difference block_txids t =
     (let template_txids = template_txids_of t;
          extra = length (hs_difference block_txids template_txids);
          missing = length (hs_difference template_txids block_txids)
      in missing + extra)"

definition select_best_template_for_block ::
  "block_template list \<Rightarrow> txid list \<Rightarrow> panic + block_template" where
  "select_best_template_for_block templates block_txids =
     (if templates = [] then Inl (AssertFailed ''!last_templates.is_empty()'')
      else case min_by_key (template_difference block_txids) templates of
             None \<Rightarrow> Inl (UnwrapNone ''min_by_key'')
           | Some t \<Rightarrow> Inr t)"

section \<open>Mempool ages\<close>

definition mempool_age_step :: "env \<Rightarrow> txid \<Rightarrow> (txid, int) hash_map \<times> metrics \<Rightarrow> (txid, int) hash_map \<times> metrics" where
  "mempool_age_step E txid st =
     (let (ages, m) = st;
          m = m\<lparr>runtime_requested_mempool_transactions := runtime_requested_mempool_transactions m + 1\<rparr>;
          seconds = (case env_mempool_entry_time E txid of
                       Inr time \<Rightarrow> as_i32 (as_i64 (env_local_now E - as_i64 (int time)))
                     | Inl e \<Rightarrow> - 1)
      in (hm_insert txid seconds ages, m))"

definition mempool_age_seconds :: "env \<Rightarrow> txid list \<Rightarrow> metrics \<Rightarrow> (txid, int) hash_map \<times> metrics" where
  "mempool_age_seconds E txids_only_in_template m = fold (mempool_age_step E) txids_only_in_template ([], m)"

section \<open>Comparison\<close>

record comparison =
  cmp_block_tx_data :: block_tx_data
  cmp_template :: block_template
  cmp_template_tx_data :: template_tx_data
  cmp_template_packages :: "tx_package list"
  cmp_block_packages :: "tx_package list"
  cmp_only_in_block :: "txid list"
  cmp_only_in_template :: "txid list"
  cmp_shared_tx :: nat

definition compare_block ::
  "lib \<Rightarrow> hash_iter \<Rightarrow> block \<Rightarrow> block_tx_fees \<Rightarrow> block_template list \<Rightarrow> panic + comparison" where
  "compare_block L H blk block_tx_fees templates =
     bind_res (build_block_tx_data L H blk block_tx_fees) (\<lambda>block_tx_data.
     bind_res (select_best_template_for_block templates (td_txids block_tx_data)) (\<lambda>template.
     let template_tx_data = build_template_tx_data L H template
     in bind_res (build_packages L (td_txinfos template_tx_data)) (\<lambda>template_tx_packages.
        bind_res (build_packages L (td_txinfos block_tx_data)) (\<lambda>block_tx_packages.
        Inr \<lparr>cmp_block_tx_data = block_tx_data, cmp_template = template,
             cmp_template_tx_data = template_tx_data, cmp_template_packages = template_tx_packages,
             cmp_block_packages = block_tx_packages,
             cmp_only_in_block =
               iter_txids H (hs_difference (td_txids block_tx_data) (td_txids template_tx_data)),
             cmp_only_in_template =
               iter_txids H (hs_difference (td_txids template_tx_data) (td_txids block_tx_data)),
             cmp_shared_tx =
               length (hs_intersection (td_txids block_tx_data) (td_txids template_tx_data))\<rparr>))))"

definition build_block_of ::
  "lib \<Rightarrow> env \<Rightarrow> block \<Rightarrow> block_tx_fees \<Rightarrow> comparison \<Rightarrow> utxo_map \<Rightarrow> string list \<Rightarrow> panic + new_block" where
  "build_block_of L E blk block_tx_fees c utxos sanctioned_addresses =
     bind_res (get_sanctioned_missing_tx_count L (cmp_only_in_template c) (cmp_template_tx_data c) utxos
                 sanctioned_addresses) (\<lambda>sanctioned_missing_tx.
     let block_fees = sum_u64 (map fee_amount (fees_tx block_tx_fees));
         template_fees = sum_u64 (map tmpl_fee (transactions (cmp_template c)));
         missing_tx = as_i32 (int (length (cmp_only_in_template c)));
         extra_tx = as_i32 (int (length (cmp_only_in_block c)))
     in build_block L (env_utc_now E) blk (cmp_template c) (td_txid_to_txinfo_map (cmp_template_tx_data c))
          (map (\<lambda>p. as_i64 (int (pkg_weight L p))) (cmp_template_packages c))
          (map (pkg_feerate L) (cmp_template_packages c))
          (map (\<lambda>p. as_i64 (int (pkg_weight L p))) (cmp_block_packages c))
          (map (pkg_feerate L) (cmp_block_packages c))
          missing_tx (as_i32 (int sanctioned_missing_tx)) extra_tx (as_i32 (int (cmp_shared_tx c)))
          block_fees template_fees utxos sanctioned_addresses (env_pools E) (env_network E))"

section \<open>Rows of a block\<close>

record block_rows =
  br_transactions :: tx_map
  br_conflicting :: "conflicting_transaction list"
  br_only_in_template :: "transaction_only_in_template list"
  br_only_in_block :: "transaction_only_in_block list"
  br_sanctioned :: "sanctioned_transaction_info list"
  br_debug :: "debug_template_selection_info list"

definition count_conflicts :: "conflicting_transaction list \<Rightarrow> metrics \<Rightarrow> metrics" where
  "count_conflicts cts m =
     (if cts \<noteq> [] then m\<lparr>stat_conflicting_transaction_sets := stat_conflicting_transaction_sets m + length cts\<rparr>
      else m)"

definition count_sanctioned :: "sanctioned_transaction_info list \<Rightarrow> metrics \<Rightarrow> metrics" where
  "count_sanctioned infos m =
     (if infos \<noteq> [] then m\<lparr>stat_sanctioned_transactions := stat_sanctioned_transactions m + length infos\<rparr>
      else m)"

definition build_block_rows ::
  "lib \<Rightarrow> hash_iter \<Rightarrow> env \<Rightarrow> block_template list \<Rightarrow> comparison \<Rightarrow> utxo_map \<Rightarrow> string list \<Rightarrow> int \<Rightarrow> metrics \<Rightarrow>
     panic + (block_rows \<times> metrics)" where
  "build_block_rows L H E templates c utxos sanctioned_addresses block_id m =
     (let bd = cmp_block_tx_data c; td = cmp_template_tx_data c
      in bind_res (build_conflicting_transactions L H block_id (cmp_only_in_template c)
           (td_txid_to_txinfo_map td) (cmp_only_in_block c) (td_txid_to_txinfo_map bd) utxos
           sanctioned_addresses ([], m)) (\<lambda>(conflicting, txs, m).
         let m = count_conflicts conflicting m;
             (ages, m) = mempool_age_seconds E (cmp_only_in_template c) m
         in bind_res (build_transactions_only_in_template L H block_id (cmp_only_in_template c)
              (td_txid_to_txinfo_map td) ages utxos sanctioned_addresses (txs, m)) (\<lambda>(only_in_template, st).
            bind_res (build_transactions_only_in_block L H block_id (cmp_only_in_block c)
              (td_txid_to_txinfo_map bd) utxos sanctioned_addresses st) (\<lambda>(only_in_block, st).
            bind_res (build_sanctioned_transaction_infos L H block_id bd (td_txids td)
              (td_txid_to_txinfo_map td) (cmp_only_in_block c) utxos sanctioned_addresses st)
              (\<lambda>(sanctioned, txs, m).
            let m = count_sanctioned sanctioned m
            in bind_res (build_debug_template_selection_infos L block_id templates (td_txids bd)
                 (current_time (cmp_template c))) (\<lambda>debug.
               Inr (\<lparr>br_transactions = txs, br_conflicting = conflicting,
                     br_only_in_template = only_in_template, br_only_in_block = only_in_block,
                     br_sanctioned = sanctioned, br_debug = debug\<rparr>, m)))))))"

section \<open>Storing\<close>

text \<open>An insert that is logged and ends the processing when it fails; the flag says whether the
  end was reached.\<close>

definition try_insert ::
  "('d, unit) dbop \<Rightarrow> ('d \<times> metrics \<Rightarrow> bool \<times> 'd \<times> metrics) \<Rightarrow> 'd \<times> metrics \<Rightarrow> bool \<times> 'd \<times> metrics" where
  "try_insert op rest dm =
     (let (d, m) = dm
      in case op d of
           (Inl e, d') \<Rightarrow> (False, d', log_processing_error m)
         | (Inr u, d') \<Rightarrow> rest (d', m))"

definition store_rows ::
  "'d pg \<Rightarrow> hash_iter \<Rightarrow> block_rows \<Rightarrow> sanctioned_utxo list \<Rightarrow> 'd \<times> metrics \<Rightarrow> bool \<times> 'd \<times> metrics" where
  "store_rows P H r newly_sanctioned_utxos =
     try_insert (insert_transactions P (hm_values (iter_transactions H (br_transactions r))))
    (try_insert (insert_transactions_only_in_block P (br_only_in_block r))
    (try_insert (insert_transactions_only_in_template P (br_only_in_template r))
    (try_insert (insert_sanctioned_transaction_infos P (br_sanctioned r))
    (try_insert (insert_conflicting_transactions P (br_conflicting r))
    (try_insert (if newly_sanctioned_utxos \<noteq> [] then insert_sanctioned_utxos P newly_sanctioned_utxos
                 else db_return ())
    (\<lambda>(d, m). case insert_debug_template_selection_infos P (br_debug r) d of
                (Inl e, d') \<Rightarrow> (False, d', m) | (Inr u, d') \<Rightarrow> (True, d', m)))))))"

section \<open>The whole function\<close>

definition get_connection :: "env \<Rightarrow> metrics \<Rightarrow> bool \<times> metrics" where
  "get_connection E m =
     (if env_connection E then (True, m)
      else let m = m\<lparr>error_dbpool := error_dbpool m + 1\<rparr>
           in if env_connection_retry E then (True, m)
              else (False, m\<lparr>error_dbpool := error_dbpool m + 1\<rparr>))"

definition load_or_empty :: "('d, 'a list) dbop \<Rightarrow> 'd \<times> metrics \<Rightarrow> 'a list \<times> 'd \<times> metrics" where
  "load_or_empty op dm =
     (let (d, m) = dm
      in case op d of
           (Inr xs, d') \<Rightarrow> (xs, d', m)
         | (Inl e, d') \<Rightarrow> ([], d', log_processing_error m))"

definition process_connected ::
  "lib \<Rightarrow> hash_iter \<Rightarrow> 'd pg \<Rightarrow> env \<Rightarrow> block \<Rightarrow> block_tx_fees \<Rightarrow> comparison \<Rightarrow> 'd daemon_state \<Rightarrow>
     panic + 'd daemon_state" where
  "process_connected L H P E blk block_tx_fees c ds =
     (let (addresses, d, m) = load_or_empty (db_sanctioned_addresses P) (ds_db ds, ds_metrics ds);
          sanctioned_addresses = hs_collect (map sa_address addresses);
          (sanctioned_utxos, d, m) = load_or_empty (get_sanctioned_utxos P) (d, m);
          utxos = build_outpoint_to_sanctioned_utxo_map sanctioned_utxos
      in bind_res (build_block_of L E blk block_tx_fees c utxos sanctioned_addresses) (\<lambda>new_block.
         case insert_block P new_block d of
           (Inl e, d) \<Rightarrow> Inr (ds\<lparr>ds_db := d, ds_metrics := log_processing_error m\<rparr>)
         | (Inr block_id, d) \<Rightarrow>
             bind_res (build_block_rows L H E (last_templates ds) c utxos sanctioned_addresses block_id m)
               (\<lambda>(rows, m).
                  let (done, d, m) = store_rows P H rows
                        (build_newly_created_sanctioned_utxos L blk sanctioned_addresses) (d, m)
                  in Inr (ds\<lparr>last_templates := if done then [] else last_templates ds,
                             ds_db := d, ds_metrics := m\<rparr>))))"

definition process ::
  "lib \<Rightarrow> hash_iter \<Rightarrow> 'd pg \<Rightarrow> env \<Rightarrow> block \<Rightarrow> block_tx_fees \<Rightarrow> 'd daemon_state \<Rightarrow> panic + 'd daemon_state" where
  "process L H P E blk block_tx_fees ds =
     bind_res (compare_block L H blk block_tx_fees (last_templates ds)) (\<lambda>c.
       case get_connection E (ds_metrics ds) of
         (False, m) \<Rightarrow> Inr (ds\<lparr>ds_metrics := m\<rparr>)
       | (True, m) \<Rightarrow> process_connected L H P E blk block_tx_fees c (ds\<lparr>ds_metrics := m\<rparr>))"

section \<open>Facts about the comparison\<close>

definition node_ok :: "lib \<Rightarrow> hash_iter \<Rightarrow> block \<Rightarrow> block_tx_fees \<Rightarrow> block_template list \<Rightarrow> bool" where
  "node_ok L H blk fees templates \<longleftrightarrow>
     iteration_law H \<and> txid_order_law L \<and> fees_known L blk fees \<and>
     list_all (template_ids_agree L) templates"

text \<open>Timestamps in the range of the calendar library, and a block with a coinbase.\<close>

definition times_ok :: "lib \<Rightarrow> block \<Rightarrow> block_template list \<Rightarrow> bool" where
  "times_ok L blk templates \<longleftrightarrow>
     txdata blk \<noteq> [] \<and> from_timestamp L (as_i64 (int (header_time (header blk)))) \<noteq> None \<and>
     list_all (\<lambda>t. from_timestamp L (as_i64 (int (current_time t))) \<noteq> None) templates"

definition comparison_ok :: "lib \<Rightarrow> comparison \<Rightarrow> bool" where
  "comparison_ok L c \<longleftrightarrow>
     (let B = td_txids (cmp_block_tx_data c); T = td_txids (cmp_template_tx_data c)
      in wf_tx_data L (cmp_block_tx_data c) \<and> wf_tx_data L (cmp_template_tx_data c) \<and>
         distinct (cmp_only_in_block c) \<and> set (cmp_only_in_block c) = set B - set T \<and>
         distinct (cmp_only_in_template c) \<and> set (cmp_only_in_template c) = set T - set B \<and>
         cmp_shared_tx c = card (set B \<inter> set T))"

lemma card_split: "finite A \<Longrightarrow> card (A - B) + card (A \<inter> B) = card A"
  by (subst card_Un_disjoint [symmetric]) (auto intro: arg_cong [of _ _ card])

lemma template_difference_card:
  assumes "distinct block_txids"
  shows "template_difference block_txids t =
    card (sym_diff (set block_txids) (tmpl_txid ` set (transactions t)))"
proof -
  let ?B = "set block_txids" and ?T = "tmpl_txid ` set (transactions t)"
  have "card (sym_diff ?B ?T) = card (?B - ?T) + card (?T - ?B)"
    by (intro card_Un_disjoint) auto
  then show ?thesis
    using assms by (simp add: template_difference_def template_txids_of_def hs_difference_length Let_def)
qed

lemma select_in:
  "templates \<noteq> [] \<Longrightarrow> \<exists>t\<in>set templates. select_best_template_for_block templates ids = Inr t"
  using min_by_key_split [of "template_difference ids" templates]
  by (cases "min_by_key (template_difference ids) templates")
    (fastforce simp: select_best_template_for_block_def)+

lemma compare_block_ok:
  assumes "node_ok L H blk fees templates" "templates \<noteq> []"
  shows "\<exists>c. compare_block L H blk fees templates = Inr c \<and> comparison_ok L c \<and>
    cmp_template c \<in> set templates \<and>
    select_best_template_for_block templates (td_txids (cmp_block_tx_data c)) = Inr (cmp_template c) \<and>
    map ti_tx (td_txinfos (cmp_block_tx_data c)) = txdata blk \<and>
    map ti_tx (td_txinfos (cmp_template_tx_data c)) = template_txs L (cmp_template c)"
proof -
  from assms(1) have law: "iteration_law H" and fees: "fees_known L blk fees"
    and ids: "\<And>t. t \<in> set templates \<Longrightarrow> template_ids_agree L t"
    by (auto simp: node_ok_def list_all_iff)
  obtain bd where bd: "build_block_tx_data L H blk fees = Inr bd" "wf_tx_data L bd"
    "map ti_tx (td_txinfos bd) = txdata blk" using build_block_tx_data_total [OF law fees] by blast
  obtain t where t: "t \<in> set templates" "select_best_template_for_block templates (td_txids bd) = Inr t"
    using select_in [OF assms(2)] by blast
  let ?td = "build_template_tx_data L H t"
  have td: "wf_tx_data L ?td" "map ti_tx (td_txinfos ?td) = template_txs L t"
    using build_template_tx_data_ok [OF law ids [OF t(1)]] by auto
  obtain pt where pt: "build_packages L (td_txinfos ?td) = Inr pt" using build_packages_runs by blast
  obtain pb where pb: "build_packages L (td_txinfos bd) = Inr pb" using build_packages_runs by blast
  have "distinct (td_txids bd)" "distinct (td_txids ?td)" using bd(2) td(1) by (simp_all add: wf_tx_data_def)
  then show ?thesis
    using bd t td pt pb
    by (simp add: compare_block_def comparison_ok_def Let_def hs_intersection_length
        iteration_law_sets [OF law] iteration_law_distinct [OF law])
qed

section \<open>Closed form of the rows\<close>

definition row_infos :: "comparison \<Rightarrow> tx_info set" where
  "row_infos c = side_txs (td_txid_to_txinfo_map (cmp_template_tx_data c)) (cmp_only_in_template c) \<union>
     side_txs (td_txid_to_txinfo_map (cmp_block_tx_data c)) (cmp_only_in_block c)"

lemma set_infos_of: "set txids \<subseteq> dom (hm_get m) \<Longrightarrow> set (infos_of m txids) = side_txs m txids"
  by (force simp: side_txs_def)

lemma debug_infos_ok:
  assumes "list_all (\<lambda>t. from_timestamp L (as_i64 (int (current_time t))) \<noteq> None) templates"
  shows "\<exists>rows. build_debug_template_selection_infos L block_id templates ids sel = Inr rows"
  unfolding build_debug_template_selection_infos_def
  by (rule fold_res_ok) (use assms in \<open>auto simp: list_all_iff Let_def expect_time_def split: option.splits\<close>)

text \<open>All stages succeed, and the final map of transactions has the tags of all of them.\<close>

lemma comparison_maps:
  assumes "comparison_ok L c"
  shows "set (cmp_only_in_template c) \<subseteq> dom (hm_get (td_txid_to_txinfo_map (cmp_template_tx_data c)))"
    "set (cmp_only_in_block c) \<subseteq> dom (hm_get (td_txid_to_txinfo_map (cmp_block_tx_data c)))"
    "keyed_by_txid (td_txid_to_txinfo_map (cmp_template_tx_data c))"
    "keyed_by_txid (td_txid_to_txinfo_map (cmp_block_tx_data c))"
  using assms wf_dom by (auto simp: comparison_ok_def Let_def wf_tx_data_def)

lemma comparison_txids:
  assumes "comparison_ok L c"
  shows "txid \<in> set (cmp_only_in_template c) \<Longrightarrow>
      ti_txid (the (hm_get (td_txid_to_txinfo_map (cmp_template_tx_data c)) txid)) = txid"
    "txid \<in> set (cmp_only_in_block c) \<Longrightarrow>
      ti_txid (the (hm_get (td_txid_to_txinfo_map (cmp_block_tx_data c)) txid)) = txid"
  using assms wf_the_txid by (auto simp: comparison_ok_def Let_def)

lemma row_infos_cover:
  assumes "comparison_ok L c" "txid \<in> set (cmp_only_in_block c) \<union> set (cmp_only_in_template c)"
  shows "\<exists>i\<in>row_infos c. ti_txid i = txid"
  using assms(2) comparison_maps [OF assms(1)] unfolding row_infos_def side_txs_def
  by (fastforce dest: keyed_by_txid_get)

text \<open>The states of the map of transactions after the conflicts and after both one-sided loops.\<close>

definition conflict_state ::
  "lib \<Rightarrow> hash_iter \<Rightarrow> utxo_map \<Rightarrow> string list \<Rightarrow> conflict list \<Rightarrow> metrics \<Rightarrow> tx_map \<times> metrics" where
  "conflict_state L H utxos addrs cs m = fold (add_conflict_txs L H utxos addrs) cs ([], m)"

definition one_sided_state ::
  "lib \<Rightarrow> hash_iter \<Rightarrow> utxo_map \<Rightarrow> string list \<Rightarrow> comparison \<Rightarrow> tx_map \<times> metrics \<Rightarrow> tx_map \<times> metrics" where
  "one_sided_state L H utxos addrs c st =
     fold (build_and_add L H False utxos addrs)
       (infos_of (td_txid_to_txinfo_map (cmp_block_tx_data c)) (cmp_only_in_block c))
       (fold (build_and_add L H False utxos addrs)
          (infos_of (td_txid_to_txinfo_map (cmp_template_tx_data c)) (cmp_only_in_template c)) st)"

definition rows_state ::
  "lib \<Rightarrow> hash_iter \<Rightarrow> utxo_map \<Rightarrow> string list \<Rightarrow> comparison \<Rightarrow> conflict list \<Rightarrow> metrics \<Rightarrow> metrics \<Rightarrow> tx_map \<times> metrics" where
  "rows_state L H utxos addrs c cs m m2 =
     (let bd = cmp_block_tx_data c; td = cmp_template_tx_data c
      in add_sanctioned L H utxos addrs (infos_of (td_txid_to_txinfo_map bd) (cmp_only_in_block c))
           (add_sanctioned L H utxos addrs (infos_of (td_txid_to_txinfo_map td) (td_txids td))
              (one_sided_state L H utxos addrs c (fst (conflict_state L H utxos addrs cs m), m2))))"

text \<open>The tags and the keys of the final map include those of every stage.\<close>

lemma rows_state_grows:
  assumes "comparison_ok L c"
  shows "(\<Union>i\<in>conflict_txs cs. built_tags L True utxos addrs k i) \<union>
      (\<Union>i\<in>row_infos c. built_tags L False utxos addrs k i) \<subseteq> tags_in (fst (rows_state L H utxos addrs c cs m m2)) k"
    "(\<lambda>i. rev (ti_txid i)) ` {i \<in> row_infos c \<union> conflict_txs cs. buildable L i} \<subseteq>
      dom (hm_get (fst (rows_state L H utxos addrs c cs m m2)))"
proof -
  have rows: "row_infos c =
      set (infos_of (td_txid_to_txinfo_map (cmp_template_tx_data c)) (cmp_only_in_template c)) \<union>
      set (infos_of (td_txid_to_txinfo_map (cmp_block_tx_data c)) (cmp_only_in_block c))"
    using set_infos_of comparison_maps [OF assms] by (simp add: row_infos_def del: set_map)
  show "(\<Union>i\<in>conflict_txs cs. built_tags L True utxos addrs k i) \<union>
      (\<Union>i\<in>row_infos c. built_tags L False utxos addrs k i) \<subseteq> tags_in (fst (rows_state L H utxos addrs c cs m m2)) k"
    unfolding rows rows_state_def one_sided_state_def conflict_state_def Let_def
    by (auto simp: add_sanctioned_def tags_in_fold conflict_fold_state)
  show "(\<lambda>i. rev (ti_txid i)) ` {i \<in> row_infos c \<union> conflict_txs cs. buildable L i} \<subseteq>
      dom (hm_get (fst (rows_state L H utxos addrs c cs m m2)))"
    unfolding rows rows_state_def one_sided_state_def conflict_state_def Let_def
    by (auto simp: dom_add_sanctioned dom_fold conflict_fold_state)
qed

lemma build_block_rows_run:
  assumes ok: "comparison_ok L c" and laws: "txid_order_law L" "iteration_law H"
    and times: "list_all (\<lambda>t. from_timestamp L (as_i64 (int (current_time t))) \<noteq> None) templates"
  shows "\<exists>rows m' cs m2. build_block_rows L H E templates c utxos addrs block_id m = Inr (rows, m') \<and>
    find_conflicts L H (td_txid_to_txinfo_map (cmp_template_tx_data c)) (cmp_only_in_template c)
      (td_txid_to_txinfo_map (cmp_block_tx_data c)) (cmp_only_in_block c) = Inr cs \<and>
    br_conflicting rows = map (conflict_row block_id) cs \<and>
    map oib_txid (br_only_in_block rows) = map rev (cmp_only_in_block c) \<and>
    map oit_txid (br_only_in_template rows) = map rev (cmp_only_in_template c) \<and>
    br_transactions rows = fst (rows_state L H utxos addrs c cs m m2) \<and>
    sti_txid ` set (br_sanctioned rows) \<subseteq> dom (hm_get (br_transactions rows))"
proof -
  let ?td = "cmp_template_tx_data c" and ?bd = "cmp_block_tx_data c"
  let ?tm = "td_txid_to_txinfo_map ?td" and ?bm = "td_txid_to_txinfo_map ?bd"
  let ?ot = "cmp_only_in_template c" and ?ob = "cmp_only_in_block c"
  note maps = comparison_maps [OF ok]
  from ok have wf: "wf_tx_data L ?bd" "wf_tx_data L ?td" and ob: "set ?ob = set (td_txids ?bd) - set (td_txids ?td)"
    by (simp_all add: comparison_ok_def Let_def)
  obtain cs where cs: "find_conflicts L H ?tm ?ot ?bm ?ob = Inr cs"
    using find_conflicts_result [OF laws maps] by blast
  obtain txs1 m1 where s1: "conflict_state L H utxos addrs cs m = (txs1, m1)" by fastforce
  have conf: "build_conflicting_transactions L H block_id ?ot ?tm ?ob ?bm utxos addrs ([], m) =
      Inr (map (conflict_row block_id) cs, txs1, m1)"
    using s1 by (simp add: build_conflicting_transactions_def cs conflict_state_def)
  obtain ages m2 where ages: "mempool_age_seconds E ?ot (count_conflicts (map (conflict_row block_id) cs) m1) = (ages, m2)"
    by fastforce
  let ?st3 = "one_sided_state L H utxos addrs c (txs1, m2)"
  obtain srows txs4 m4 where san: "build_sanctioned_transaction_infos L H block_id ?bd (td_txids ?td) ?tm ?ob
      utxos addrs ?st3 = Inr (srows, txs4, m4)"
    and refs: "sti_txid ` set srows \<subseteq> dom (hm_get txs4)"
    using sanctioned_infos_closed [OF wf ob] by (metis fst_conv prod.collapse)
  obtain debug where debug: "build_debug_template_selection_infos L block_id templates (td_txids ?bd)
      (current_time (cmp_template c)) = Inr debug"
    using debug_infos_ok [OF times] by blast
  have st4: "(txs4, m4) = rows_state L H utxos addrs c cs m m2"
    using san sanctioned_infos_closed_form [of "td_txids ?td" ?tm ?ob ?bd] maps(2) wf_dom [OF wf(2)] s1
    by (simp add: rows_state_def Let_def)
  show ?thesis
    using cs refs comparison_txids [OF ok] st4 [symmetric]
    by (intro exI [of _ "count_sanctioned srows m4"] exI [of _ cs] exI [of _ m2] exI conjI)
      (simp add: build_block_rows_def Let_def conf ages only_in_template_closed_form [OF maps(1)]
        only_in_block_closed_form [OF maps(2)] san [unfolded one_sided_state_def] debug,
       simp_all add: only_in_block_row_def only_in_template_row_def)
qed

lemma build_block_rows_ok:
  assumes "comparison_ok L c" "txid_order_law L" "iteration_law H"
    and "list_all (\<lambda>t. from_timestamp L (as_i64 (int (current_time t))) \<noteq> None) templates"
  shows "\<exists>rows m' cs. build_block_rows L H E templates c utxos addrs block_id m = Inr (rows, m') \<and>
    find_conflicts L H (td_txid_to_txinfo_map (cmp_template_tx_data c)) (cmp_only_in_template c)
      (td_txid_to_txinfo_map (cmp_block_tx_data c)) (cmp_only_in_block c) = Inr cs \<and>
    br_conflicting rows = map (conflict_row block_id) cs \<and>
    map oib_txid (br_only_in_block rows) = map rev (cmp_only_in_block c) \<and>
    map oit_txid (br_only_in_template rows) = map rev (cmp_only_in_template c) \<and>
    (\<forall>k. (\<Union>i\<in>conflict_txs cs. built_tags L True utxos addrs k i) \<union>
         (\<Union>i\<in>row_infos c. built_tags L False utxos addrs k i) \<subseteq> tags_in (br_transactions rows) k) \<and>
    (\<lambda>i. rev (ti_txid i)) ` {i \<in> row_infos c \<union> conflict_txs cs. buildable L i} \<subseteq> dom (hm_get (br_transactions rows)) \<and>
    sti_txid ` set (br_sanctioned rows) \<subseteq> dom (hm_get (br_transactions rows))"
proof -
  obtain rows m' cs m2 where *: "build_block_rows L H E templates c utxos addrs block_id m = Inr (rows, m')"
    "find_conflicts L H (td_txid_to_txinfo_map (cmp_template_tx_data c)) (cmp_only_in_template c)
      (td_txid_to_txinfo_map (cmp_block_tx_data c)) (cmp_only_in_block c) = Inr cs"
    "br_conflicting rows = map (conflict_row block_id) cs"
    "map oib_txid (br_only_in_block rows) = map rev (cmp_only_in_block c)"
    "map oit_txid (br_only_in_template rows) = map rev (cmp_only_in_template c)"
    "br_transactions rows = fst (rows_state L H utxos addrs c cs m m2)"
    "sti_txid ` set (br_sanctioned rows) \<subseteq> dom (hm_get (br_transactions rows))"
    using build_block_rows_run [OF assms, of E utxos addrs block_id m] by (elim exE conjE) (rule that)
  show ?thesis
    by (intro exI [of _ rows] exI [of _ m'] exI [of _ cs] conjI *(1-5,7) allI;
        unfold *(6); rule rows_state_grows [OF assms(1)])
qed

section \<open>Facts about processing\<close>

lemma build_block_ok:
  assumes "times_ok L blk templates" "t \<in> set templates"
  shows "\<exists>b. build_block L now blk t m tw tf bw bf x sx y z bfee tfee utxos addrs pools net = Inr b"
proof -
  obtain bt where bt: "from_timestamp L (as_i64 (int (header_time (header blk)))) = Some bt"
    using assms(1) by (auto simp: times_ok_def)
  obtain tt where tt: "from_timestamp L (as_i64 (int (current_time t))) = Some tt"
    using assms by (auto simp: times_ok_def list_all_iff)
  obtain cb rest where cb: "txdata blk = cb # rest"
    using assms(1) by (cases "txdata blk") (auto simp: times_ok_def)
  obtain pn pl pm where pool: "get_pool_info_or_default (identify_pool L net pools blk) = (pn, pl, pm)"
    by (metis prod_cases3)
  show ?thesis by (simp add: build_block_def Let_def pool expect_time_def bt tt cb)
qed

text \<open>A database whose statements never fail.\<close>

definition db_reliable :: "'d pg \<Rightarrow> bool" where
  "db_reliable P \<longleftrightarrow>
     (\<forall>b d. \<exists>i d'. insert_block P b d = (Inr i, d')) \<and>
     (\<forall>ts d. \<exists>d'. insert_transactions P ts d = (Inr (), d')) \<and>
     (\<forall>rs d. \<exists>d'. insert_transactions_only_in_block P rs d = (Inr (), d')) \<and>
     (\<forall>rs d. \<exists>d'. insert_transactions_only_in_template P rs d = (Inr (), d')) \<and>
     (\<forall>rs d. \<exists>d'. insert_sanctioned_transaction_infos P rs d = (Inr (), d')) \<and>
     (\<forall>rs d. \<exists>d'. insert_conflicting_transactions P rs d = (Inr (), d')) \<and>
     (\<forall>us d. \<exists>d'. insert_sanctioned_utxos P us d = (Inr (), d')) \<and>
     (\<forall>rs d. \<exists>d'. insert_debug_template_selection_infos P rs d = (Inr (), d'))"

lemma try_insert_ok:
  "(\<And>d. \<exists>d'. op d = (Inr (), d')) \<Longrightarrow> (\<And>dm. fst (rest dm)) \<Longrightarrow> fst (try_insert op rest dm)"
  unfolding try_insert_def by (cases dm) (metis (no_types, lifting) old.sum.simps(6) split_conv)

lemma store_rows_reliable:
  assumes "db_reliable P"
  shows "fst (store_rows P H r us dm)"
proof -
  note R = assms [unfolded db_reliable_def]
  have debug: "fst ((\<lambda>(d, m). case insert_debug_template_selection_infos P (br_debug r) d of
      (Inl e, d') \<Rightarrow> (False, d', m) | (Inr u, d') \<Rightarrow> (True, d', m)) dm)" for dm :: "'a \<times> metrics"
    using R by (cases dm) (metis (no_types, lifting) case_prod_conv fst_conv old.sum.simps(6))
  show ?thesis
    unfolding store_rows_def
    by (intro try_insert_ok) (use R debug in \<open>auto simp: db_return_def\<close>)
qed

text \<open>Once the comparison succeeded, everything after it does, and the templates are kept or cleared.\<close>

lemma process_connected_total:
  assumes "comparison_ok L c" "txid_order_law L" "iteration_law H"
    and "times_ok L blk (last_templates ds)" "cmp_template c \<in> set (last_templates ds)"
  shows "\<exists>ds'. process_connected L H P E blk fees c ds = Inr ds' \<and>
    (last_templates ds' = [] \<or> last_templates ds' = last_templates ds) \<and>
    (db_reliable P \<longrightarrow> last_templates ds' = [])"
proof -
  obtain addresses d1 m1 where a: "load_or_empty (db_sanctioned_addresses P) (ds_db ds, ds_metrics ds) = (addresses, d1, m1)"
    by (metis prod_cases3)
  obtain us d2 m2 where u: "load_or_empty (get_sanctioned_utxos P) (d1, m1) = (us, d2, m2)"
    by (metis prod_cases3)
  let ?addrs = "hs_collect (map sa_address addresses)" and ?utxos = "build_outpoint_to_sanctioned_utxo_map us"
  have "set (cmp_only_in_template c) \<subseteq> dom (hm_get (td_txid_to_txinfo_map (cmp_template_tx_data c)))"
    using assms(1) wf_dom by (auto simp: comparison_ok_def Let_def)
  then obtain n where n: "get_sanctioned_missing_tx_count L (cmp_only_in_template c) (cmp_template_tx_data c)
      ?utxos ?addrs = Inr n"
    unfolding get_sanctioned_missing_tx_count_def missing_count_fold by simp
  obtain b where b: "build_block_of L E blk fees c ?utxos ?addrs = Inr b"
    using build_block_ok [OF assms(4,5)] by (simp add: build_block_of_def n Let_def) blast
  obtain r d3 where ins: "insert_block P b d2 = (r, d3)" by fastforce
  show ?thesis
  proof (cases r)
    case (Inl e)
    with ins have "\<not> db_reliable P" unfolding db_reliable_def by (metis Inl_Inr_False prod.inject)
    with Inl a u b ins show ?thesis by (simp add: process_connected_def)
  next
    case (Inr block_id)
    from assms(4) have "list_all (\<lambda>t. from_timestamp L (as_i64 (int (current_time t))) \<noteq> None) (last_templates ds)"
      by (simp add: times_ok_def)
    from build_block_rows_ok [OF assms(1-3) this, of E ?utxos ?addrs block_id m2] obtain rows m3
      where rows: "build_block_rows L H E (last_templates ds) c ?utxos ?addrs block_id m2 = Inr (rows, m3)"
      by (elim exE conjE) (rule that)
    obtain ok d4 m4 where st: "store_rows P H rows (build_newly_created_sanctioned_utxos L blk ?addrs) (d3, m3) = (ok, d4, m4)"
      by (metis prod_cases3)
    have "db_reliable P \<Longrightarrow> ok" using store_rows_reliable [of P H rows] st by (metis fst_conv)
    then show ?thesis using a u b ins Inr rows st by (simp add: process_connected_def)
  qed
qed

lemma process_total:
  assumes "node_ok L H blk fees (last_templates ds)" "last_templates ds \<noteq> []"
    and "times_ok L blk (last_templates ds)"
  shows "\<exists>ds'. process L H P E blk fees ds = Inr ds' \<and>
    (last_templates ds' = [] \<or> last_templates ds' = last_templates ds) \<and>
    (db_reliable P \<and> (env_connection E \<or> env_connection_retry E) \<longrightarrow> last_templates ds' = [])"
proof -
  obtain c where c: "compare_block L H blk fees (last_templates ds) = Inr c" "comparison_ok L c"
    "cmp_template c \<in> set (last_templates ds)" using compare_block_ok [OF assms(1,2)] by blast
  have laws: "txid_order_law L" "iteration_law H" using assms(1) by (simp_all add: node_ok_def)
  obtain ok m where conn: "get_connection E (ds_metrics ds) = (ok, m)" by fastforce
  have ok: "ok \<longleftrightarrow> env_connection E \<or> env_connection_retry E"
    using conn by (auto simp: get_connection_def Let_def split: if_splits)
  show ?thesis
  proof (cases ok)
    case True
    from process_connected_total [OF c(2) laws, of blk "ds\<lparr>ds_metrics := m\<rparr>" P E fees] assms(3) c(3)
    show ?thesis using True by (simp add: process_def c(1) conn) blast
  next
    case False
    then show ?thesis using ok by (simp add: process_def c(1) conn)
  qed
qed

section \<open>Sample inputs\<close>

definition sample_template :: "(byte \<times> byte \<times> byte) list \<Rightarrow> block_template" where
  "sample_template txs =
     \<lparr>previous_block_hash = [9], tmpl_height = 800000, current_time = 1700000000, coinbase_value = 625000000,
      transactions = map (\<lambda>(i, p, a). \<lparr>tmpl_txid = [i], raw_tx = [i, p, 0, a], tmpl_fee = 1000,
                                        tmpl_weight = 1000, tmpl_sigops = 1\<rparr>) txs\<rparr>"

definition sample_fees :: "byte list \<Rightarrow> block_tx_fees" where
  "sample_fees ids = \<lparr>fees_tx = map (\<lambda>i. \<lparr>fee_txid = [i], fee_amount = 500\<rparr>) ids\<rparr>"

definition sample_blk :: block where
  "sample_blk = sample_block [sample_tx 1 [] 2, sample_tx 8 [(3, 0)] 1]"

definition sample_env :: env where
  "sample_env =
     \<lparr>env_template = Inl (RpcError ''timeout''), env_block = (\<lambda>h. Inl (RpcError ''timeout'')),
      env_block_hash = (\<lambda>h. Inl (RpcError ''timeout'')), env_fees = (\<lambda>h. Inl (RpcError ''timeout'')),
      env_mempool_entry_time = (\<lambda>t. Inr 1699999000), env_connection = True, env_connection_retry = True,
      env_utc_now = 1700000100, env_local_now = 1700000100, env_pools = [], env_network = Bitcoin\<rparr>"

definition sample_state :: "block_template list \<Rightarrow> mem_db daemon_state" where
  "sample_state ts = \<lparr>last_templates = ts, ds_metrics = sample_metrics, ds_db = mem_empty\<rparr>"

text \<open>The in-memory database without any constraint checks.\<close>

definition unchecked_pg :: "mem_db pg" where
  "unchecked_pg = mem_pg
     \<lparr>pg_insert_block := (\<lambda>b d. (Inr 1, d\<lparr>mem_blocks := mem_blocks d @ [(1, b)]\<rparr>)),
      pg_select_tags := (\<lambda>k d. (Inr (case mem_tags d k of Some ts \<Rightarrow> ts | None \<Rightarrow> []), d)),
      pg_insert_only_in_block := (\<lambda>rs d. (Inr (), d\<lparr>mem_only_in_block := mem_only_in_block d @ rs\<rparr>)),
      pg_insert_only_in_template := (\<lambda>rs d. (Inr (), d\<lparr>mem_only_in_template := mem_only_in_template d @ rs\<rparr>)),
      pg_insert_sanctioned_infos := (\<lambda>rs d. (Inr (), d\<lparr>mem_sanctioned_infos := mem_sanctioned_infos d @ rs\<rparr>))\<rparr>"

lemma unchecked_reliable: "db_reliable unchecked_pg"
proof -
  have "\<exists>d'. db_for (merge_stored_tags unchecked_pg ids) ts d = (Inr (), d')" for ids ts d
    by (induction ts arbitrary: d)
      (auto simp: db_return_def db_bind_def merge_stored_tags_def unchecked_pg_def mem_pg_def)
  then have "\<exists>d'. insert_transactions unchecked_pg ts d = (Inr (), d')" for ts d
    by (auto simp: insert_transactions_def db_bind_def db_return_def Let_def unchecked_pg_def mem_pg_def)
  then show ?thesis
    by (simp add: db_reliable_def insert_block_def insert_transactions_only_in_block_def
        insert_transactions_only_in_template_def insert_sanctioned_transaction_infos_def
        insert_conflicting_transactions_def insert_sanctioned_utxos_def
        insert_debug_template_selection_infos_def unchecked_pg_def mem_pg_def)
qed

lemma sample_node_ok: "node_ok sample_lib sample_iter sample_blk (sample_fees [1, 8]) [sample_template [(7, 3, 1)]]"
  using sample_laws
  by (simp add: node_ok_def fees_known_def sample_blk_def sample_block_def sample_fees_def
      template_ids_agree_def sample_template_def)
    (simp add: sample_lib_def sample_tx_def)

lemma sample_times_ok: "times_ok sample_lib sample_blk [sample_template [(7, 3, 1)]]"
  by (simp add: times_ok_def sample_blk_def sample_block_def sample_template_def sample_lib_def as_i64_id)

section \<open>Properties\<close>

text \<open>C11: Among the remembered templates the selection returns the first one whose transaction
  ids differ least from the block's, measured by the size of the symmetric difference; it fails
  only for an empty list of templates.\<close>

theorem selected_template_is_closest:
  assumes "distinct ids" "templates \<noteq> []"
  shows "\<exists>t us vs. select_best_template_for_block templates ids = Inr t \<and> templates = us @ t # vs \<and>
    (\<forall>u\<in>set us. card (sym_diff (set ids) (tmpl_txid ` set (transactions t))) <
                card (sym_diff (set ids) (tmpl_txid ` set (transactions u)))) \<and>
    (\<forall>v\<in>set vs. card (sym_diff (set ids) (tmpl_txid ` set (transactions t))) \<le>
                card (sym_diff (set ids) (tmpl_txid ` set (transactions v))))"
proof -
  from assms(2) obtain t where t: "min_by_key (template_difference ids) templates = Some t"
    by (cases "min_by_key (template_difference ids) templates") auto
  then have "select_best_template_for_block templates ids = Inr t"
    using assms(2) by (simp add: select_best_template_for_block_def)
  with min_by_key_split [OF t] show ?thesis
    unfolding template_difference_card [OF assms(1)] by blast
qed

theorem selected_template_is_closest_witness:
  "\<exists>t us vs. select_best_template_for_block [sample_template [(5, 3, 1)], sample_template [(8, 3, 1)]] [[1], [8]] = Inr t \<and>
     [sample_template [(5, 3, 1)], sample_template [(8, 3, 1)]] = us @ t # vs"
  using selected_template_is_closest [of "[[1], [8]]" "[sample_template [(5, 3, 1)], sample_template [(8, 3, 1)]]"]
  by auto

text \<open>C21: The comparison of a block with its selected template succeeds and its counts are those
  of the two sets of ids: the missing ids are the template's without the block's, the extra ids
  the block's without the template's, shared and missing make up the template, shared and extra
  make up the block.\<close>

theorem comparison_counts:
  assumes "node_ok L H blk fees templates" "templates \<noteq> []"
  shows "\<exists>c B T. compare_block L H blk fees templates = Inr c \<and>
    B = compute_txid L ` set (txdata blk) \<and> T = compute_txid L ` set (template_txs L (cmp_template c)) \<and>
    set (cmp_only_in_template c) = T - B \<and> set (cmp_only_in_block c) = B - T \<and>
    length (cmp_only_in_template c) + cmp_shared_tx c = card T \<and>
    length (cmp_only_in_block c) + cmp_shared_tx c = card B"
proof -
  obtain c where c: "compare_block L H blk fees templates = Inr c" "comparison_ok L c"
    "map ti_tx (td_txinfos (cmp_block_tx_data c)) = txdata blk"
    "map ti_tx (td_txinfos (cmp_template_tx_data c)) = template_txs L (cmp_template c)"
    using compare_block_ok [OF assms] by blast
  let ?B = "set (td_txids (cmp_block_tx_data c))" and ?T = "set (td_txids (cmp_template_tx_data c))"
  from c(2) have ok: "wf_tx_data L (cmp_block_tx_data c)" "wf_tx_data L (cmp_template_tx_data c)"
    "distinct (cmp_only_in_block c)" "set (cmp_only_in_block c) = ?B - ?T"
    "distinct (cmp_only_in_template c)" "set (cmp_only_in_template c) = ?T - ?B" "cmp_shared_tx c = card (?B \<inter> ?T)"
    by (simp_all add: comparison_ok_def Let_def)
  have ids: "set (td_txids d) = compute_txid L ` ti_tx ` set (td_txinfos d)" if "wf_tx_data L d" for d
    using that by (auto simp: wf_tx_data_def image_image)
  have BT: "?B = compute_txid L ` set (txdata blk)" "?T = compute_txid L ` set (template_txs L (cmp_template c))"
    unfolding ids [OF ok(1)] ids [OF ok(2)] c(3,4) [symmetric] by simp_all
  have "length (cmp_only_in_template c) + cmp_shared_tx c = card ?T"
    "length (cmp_only_in_block c) + cmp_shared_tx c = card ?B"
    using ok(4,6,7) distinct_card [OF ok(3)] distinct_card [OF ok(5)] card_split [of ?T ?B] card_split [of ?B ?T]
    by (simp_all add: Int_commute)
  with c(1) ok BT show ?thesis by metis
qed

theorem comparison_counts_witness:
  "\<exists>c. compare_block sample_lib sample_iter sample_blk (sample_fees [1, 8]) [sample_template [(7, 3, 1)]] = Inr c \<and>
     length (cmp_only_in_block c) + cmp_shared_tx c = card (compute_txid sample_lib ` set (txdata sample_blk))"
  using comparison_counts [OF sample_node_ok] by auto

text \<open>C5: Processing a block never panics when the node's answers are consistent (a fee for every
  transaction, computed ids that agree with the reported ones), at least one template is remembered,
  the block has a coinbase transaction and all timestamps are in the calendar's range. The
  remembered templates are afterwards either all kept or all dropped, and they are dropped when
  there is a database connection and no insert fails.\<close>

theorem process_does_not_panic:
  assumes "node_ok L H blk fees (last_templates ds)" "last_templates ds \<noteq> []"
    and "times_ok L blk (last_templates ds)"
  shows "\<exists>ds'. process L H P E blk fees ds = Inr ds' \<and>
    (last_templates ds' = [] \<or> last_templates ds' = last_templates ds) \<and>
    (db_reliable P \<and> (env_connection E \<or> env_connection_retry E) \<longrightarrow> last_templates ds' = [])"
  by (rule process_total [OF assms])

theorem process_does_not_panic_witness:
  "\<exists>ds'. process sample_lib sample_iter unchecked_pg sample_env sample_blk (sample_fees [1, 8])
     (sample_state [sample_template [(7, 3, 1)]]) = Inr ds' \<and> last_templates ds' = []"
proof -
  let ?ds = "sample_state [sample_template [(7, 3, 1)]]"
  have ds: "last_templates ?ds = [sample_template [(7, 3, 1)]]" by (simp add: sample_state_def)
  have conn: "env_connection sample_env" by (simp add: sample_env_def)
  have "node_ok sample_lib sample_iter sample_blk (sample_fees [1, 8]) (last_templates ?ds)"
    "last_templates ?ds \<noteq> []" "times_ok sample_lib sample_blk (last_templates ?ds)"
    using sample_node_ok sample_times_ok by (simp_all add: ds)
  from process_does_not_panic [OF this, of unchecked_pg sample_env] unchecked_reliable conn show ?thesis by blast
qed



end
