(* ===== verification/Background_Tasks.thy ===== *)
theory Background_Tasks
  imports Block_Processing
begin

text \<open>
  The background tasks of \<^verbatim>\<open>daemon/src/main.rs\<close>: the UTXO set scan, retagging of stored
  transactions, the update of the sanctioned addresses and of the pool dataset, the
  re-identification of unknown pools, and the extraction of the RPC credentials. HTTP answers,
  RPC answers, address parsing and JSON parsing are arguments; threads run one iteration per call.
\<close>

section \<open>Text of the standard library\<close>

text \<open>\<^verbatim>\<open>str::lines\<close>: lines end with a newline or a carriage return and a newline; a final line
  without a newline keeps a carriage return, and an empty final line is no line.\<close>

definition strip_cr :: "string \<Rightarrow> string" where
  "strip_cr s = (if s \<noteq> [] \<and> last s = CHR 0x0D then butlast s else s)"

fun lines_from :: "string \<Rightarrow> string \<Rightarrow> string list" where
  "lines_from acc [] = (if acc = [] then [] else [acc])"
| "lines_from acc (c # cs) =
     (if c = CHR 0x0A then strip_cr acc # lines_from [] cs else lines_from (acc @ [c]) cs)"

definition rust_lines :: "string \<Rightarrow> string list" where
  "rust_lines s = lines_from [] s"

text \<open>\<^verbatim>\<open>splitn(2, ':')\<close>: the text before and after the first colon, or the whole text.\<close>

fun split_first_colon :: "string \<Rightarrow> string \<times> string option" where
  "split_first_colon [] = ([], None)"
| "split_first_colon (c # cs) =
     (if c = CHR '':'' then ([], Some cs)
      else let (a, b) = split_first_colon cs in (c # a, b))"

section \<open>UTXO set scan\<close>

record scan_utxo =
  scan_txid :: txid
  scan_vout :: nat
  scan_script :: bytes
  scan_sat :: nat
  scan_utxo_height :: nat

record scan_result =
  scan_height :: "nat option"
  scan_unspents :: "scan_utxo list"
  scan_total :: nat

definition scanned_utxo :: "scan_utxo \<Rightarrow> sanctioned_utxo" where
  "scanned_utxo u =
     \<lparr>su_txid = rev (scan_txid u), su_vout = as_i32 (int (scan_vout u)), su_script_pubkey = scan_script u,
      su_amount = as_i64 (int (scan_sat u)), su_height = as_i32 (int (scan_utxo_height u))\<rparr>"

definition scan_descriptors :: "(string \<Rightarrow> bool) \<Rightarrow> string list \<Rightarrow> string list" where
  "scan_descriptors parses addrs = map (\<lambda>addr. ''addr('' @ addr @ '')'') (filter parses addrs)"

definition scantxoutset_sanctioned_tx ::
  "(string \<Rightarrow> bool) \<Rightarrow> (string list \<Rightarrow> rpc_error + scan_result) \<Rightarrow> datetime \<Rightarrow> nat \<Rightarrow> string list \<Rightarrow>
     rpc_error + (sanctioned_utxo list \<times> sanctioned_utxo_scan_info)" where
  "scantxoutset_sanctioned_tx parses scan now duration addrs =
     bind_res (scan (scan_descriptors parses addrs)) (\<lambda>r.
       Inr (map scanned_utxo (scan_unspents r),
            \<lparr>scan_end_time = now, scan_end_height = as_i32 (int (or_default (scan_height r))),
             scan_duration_seconds = as_i32 (int duration),
             scan_utxo_amount = as_i64 (int (scan_total r)),
             scan_utxo_count = as_i32 (int (length (scan_unspents r)))\<rparr>))"

definition utxo_scan_iteration ::
  "(string \<Rightarrow> bool) \<Rightarrow> (string list \<Rightarrow> rpc_error + scan_result) \<Rightarrow> datetime \<Rightarrow> nat \<Rightarrow> bool \<Rightarrow> 'd pg \<Rightarrow>
     'd \<times> metrics \<Rightarrow> 'd \<times> metrics" where
  "utxo_scan_iteration parses scan now duration connection P dm =
     (let (d, m) = dm
      in if \<not> connection then (d, m)
         else case db_sanctioned_addresses P d of
                (Inl e, d) \<Rightarrow> (d, m)
              | (Inr sa, d) \<Rightarrow>
                  (case scantxoutset_sanctioned_tx parses scan now duration (map sa_address sa) of
                     Inl e \<Rightarrow> (d, m\<lparr>error_rpc := error_rpc m + 1\<rparr>)
                   | Inr (sanctioned_utxos, scan_info) \<Rightarrow>
                       (case insert_sanctioned_utxo_scan_info P scan_info d of
                          (Inl e, d) \<Rightarrow> (d, m)
                        | (Inr u, d) \<Rightarrow> (snd (clean_and_insert_sanctioned_utxos P sanctioned_utxos d), m))))"

section \<open>Retagging\<close>

definition retag_one ::
  "lib \<Rightarrow> (bytes \<Rightarrow> txid option) \<Rightarrow> (txid \<Rightarrow> rpc_error + transaction) \<Rightarrow> string list \<Rightarrow> 'd pg \<Rightarrow>
     db_transaction \<Rightarrow> 'd \<Rightarrow> panic + 'd" where
  "retag_one L from_slice raw_transaction sanctioned_addresses P tx_in_db d =
     (case from_slice (rev (t_txid tx_in_db)) of
        None \<Rightarrow> Inl (UnwrapNone ''from_slice'')
      | Some txid \<Rightarrow>
          (case raw_transaction txid of
             Inl e \<Rightarrow> Inr d
           | Inr tx \<Rightarrow>
               let tx_info = \<lparr>ti_txid = txid, ti_tx = tx, ti_pos = - 1, ti_fee = as_u64 (t_fee tx_in_db)\<rparr>;
                   old_tags = sort (t_tags tx_in_db);
                   new_tags = retag_merge (t_tags tx_in_db) (retag_transaction L tx tx_info sanctioned_addresses)
               in if new_tags \<noteq> old_tags
                  then Inr (snd (update_transaction_tags P new_tags (t_txid tx_in_db) d))
                  else Inr d))"

definition retag_transactions ::
  "lib \<Rightarrow> (bytes \<Rightarrow> txid option) \<Rightarrow> (txid \<Rightarrow> rpc_error + transaction) \<Rightarrow> bool \<Rightarrow> 'd pg \<Rightarrow> 'd \<Rightarrow> panic + 'd" where
  "retag_transactions L from_slice raw_transaction connection P d =
     (if \<not> connection then Inr d
      else case all_transactions P d of
             (Inl e, d) \<Rightarrow> Inr d
           | (Inr transactions_in_db, d) \<Rightarrow>
               (case db_sanctioned_addresses P d of
                  (Inl e, d) \<Rightarrow> Inr d
                | (Inr addresses, d) \<Rightarrow>
                    fold_res (retag_one L from_slice raw_transaction (hs_collect (map sa_address addresses)) P)
                      transactions_in_db d))"

section \<open>Sanctioned addresses and pool dataset\<close>

datatype minreq_error = MinreqError string

record http_response =
  status_code :: nat
  reason_phrase :: string
  as_str :: "minreq_error + string"

datatype UpdateSanctionedAddressesError =
    Database db_error | MinReq minreq_error | DBPool string | HTTP string

definition http_error_text :: "string \<Rightarrow> http_response \<Rightarrow> string" where
  "http_error_text url r =
     url @ '' returned: '' @ show_nat (status_code r) @ '' '' @ reason_phrase r"

definition parsed_addresses :: "(string \<Rightarrow> bool) \<Rightarrow> string \<Rightarrow> sanctioned_address list" where
  "parsed_addresses parses text =
     filter (\<lambda>a. parses (sa_address a)) (map (\<lambda>a. \<lparr>sa_address = a\<rparr>) (rust_lines text))"

definition update_sanctioned_addresses ::
  "(string \<Rightarrow> bool) \<Rightarrow> (string \<Rightarrow> minreq_error + http_response) \<Rightarrow> string option \<Rightarrow> 'd pg \<Rightarrow> string \<Rightarrow> 'd \<Rightarrow>
     (UpdateSanctionedAddressesError + unit) \<times> 'd" where
  "update_sanctioned_addresses parses http_get pool_error P url d =
     (case http_get url of
        Inl e \<Rightarrow> (Inl (MinReq e), d)
      | Inr response \<Rightarrow>
          if 400 \<le> status_code response then (Inl (HTTP (http_error_text url response)), d)
          else case as_str response of
                 Inl e \<Rightarrow> (Inl (MinReq e), d)
               | Inr text \<Rightarrow>
                   (case pool_error of
                      Some e \<Rightarrow> (Inl (DBPool e), d)
                    | None \<Rightarrow>
                        (case replace_sanctioned_addresses P (parsed_addresses parses text) d of
                           (Inr u, d) \<Rightarrow> (Inr (), d)
                         | (Inl e, d) \<Rightarrow> (Inl (Database e), d))))"

datatype serde_error = SerdeError string

datatype UpdatePoolIdentificationDatasetError =
    PoolMinReq minreq_error | PoolHTTP string | PoolParseError serde_error

definition load_pool_identification_dataset ::
  "(string \<Rightarrow> serde_error + pool list) \<Rightarrow> (string \<Rightarrow> minreq_error + http_response) \<Rightarrow> string \<Rightarrow>
     UpdatePoolIdentificationDatasetError + pool list" where
  "load_pool_identification_dataset parse_json http_get url =
     (case http_get url of
        Inl e \<Rightarrow> Inl (PoolMinReq e)
      | Inr response \<Rightarrow>
          if 400 \<le> status_code response then Inl (PoolHTTP (http_error_text url response))
          else case as_str response of
                 Inl e \<Rightarrow> Inl (PoolMinReq e)
               | Inr text \<Rightarrow>
                   (case parse_json text of Inl e \<Rightarrow> Inl (PoolParseError e) | Inr dataset \<Rightarrow> Inr dataset))"

definition update_pools ::
  "(string \<Rightarrow> serde_error + pool list) \<Rightarrow> (string \<Rightarrow> minreq_error + http_response) \<Rightarrow> string \<Rightarrow> pool list \<Rightarrow> pool list" where
  "update_pools parse_json http_get url pools =
     (case load_pool_identification_dataset parse_json http_get url of
        Inr new_pools \<Rightarrow> new_pools | Inl e \<Rightarrow> pools)"

section \<open>Re-identification of unknown pools\<close>

text \<open>The loop continues after an invalid hash or a failed update and stops at the first block the
  node does not return.\<close>

fun reidentify_blocks ::
  "lib \<Rightarrow> (bytes \<Rightarrow> block_hash option) \<Rightarrow> (block_hash \<Rightarrow> rpc_error + block) \<Rightarrow> network \<Rightarrow> pool list \<Rightarrow> 'd pg \<Rightarrow>
     db_block list \<Rightarrow> 'd \<Rightarrow> 'd" where
  "reidentify_blocks L from_slice get_block network pools P [] d = d"
| "reidentify_blocks L from_slice get_block network pools P (b # bs) d =
     (case from_slice (rev (nb_hash b)) of
        None \<Rightarrow> reidentify_blocks L from_slice get_block network pools P bs d
      | Some hash \<Rightarrow>
          (case get_block hash of
             Inl e \<Rightarrow> d
           | Inr bitcoin_block \<Rightarrow>
               let d = (case identify_pool L network pools bitcoin_block of
                          Some result \<Rightarrow>
                            snd (update_pool_name_with_block_id P (b_id b) (pool_name_of (id_pool result)) d)
                        | None \<Rightarrow> d)
               in reidentify_blocks L from_slice get_block network pools P bs d))"

definition retry_unknown_pool_identification ::
  "lib \<Rightarrow> (bytes \<Rightarrow> block_hash option) \<Rightarrow> (block_hash \<Rightarrow> rpc_error + block) \<Rightarrow> network \<Rightarrow> pool list \<Rightarrow> bool \<Rightarrow>
     'd pg \<Rightarrow> 'd \<Rightarrow> 'd" where
  "retry_unknown_pool_identification L from_slice get_block network pools connection P d =
     (if \<not> connection then d
      else case unknown_pool_blocks P d of
             (Inl e, d) \<Rightarrow> d
           | (Inr blocks_with_unknown_pools, d) \<Rightarrow>
               reidentify_blocks L from_slice get_block network pools P blocks_with_unknown_pools d)"

section \<open>Credentials\<close>

datatype auth = NoAuth | UserPass string string | CookieFile string

datatype auth_error = IoError string | InvalidCookieFile

definition get_user_pass ::
  "(string \<Rightarrow> auth_error + string) \<Rightarrow> auth \<Rightarrow> auth_error + (string option \<times> string option)" where
  "get_user_pass read_file a =
     (case a of
        NoAuth \<Rightarrow> Inr (None, None)
      | UserPass u p \<Rightarrow> Inr (Some u, Some p)
      | CookieFile path \<Rightarrow>
          bind_res (read_file path) (\<lambda>contents.
            case split_first_colon contents of
              (user, Some pass) \<Rightarrow> Inr (Some user, Some pass)
            | (user, None) \<Rightarrow> Inl InvalidCookieFile))"

section \<open>Laws of the tables\<close>

text \<open>Loading changes no tags, and the loaded rows carry the stored tags.\<close>

definition load_law :: "'d pg \<Rightarrow> ('d \<Rightarrow> bytes \<Rightarrow> int list option) \<Rightarrow> bool" where
  "load_law P tags_of \<longleftrightarrow>
     (\<forall>d r d'. pg_load_transactions P d = (r, d') \<longrightarrow> tags_of d' = tags_of d) \<and>
     (\<forall>d ts d'. pg_load_transactions P d = (Inr ts, d') \<longrightarrow>
        distinct (map t_txid ts) \<and> (\<forall>t\<in>set ts. tags_of d (t_txid t) = Some (t_tags t))) \<and>
     (\<forall>d r d'. pg_load_addresses P d = (r, d') \<longrightarrow> tags_of d' = tags_of d) \<and>
     (\<forall>k ts d e d'. pg_update_tags P k ts d = (Inl e, d') \<longrightarrow> tags_of d' = tags_of d)"

text \<open>The pool names of the stored blocks, by block id.\<close>

definition pool_name_law :: "'d pg \<Rightarrow> ('d \<Rightarrow> int \<Rightarrow> string option) \<Rightarrow> bool" where
  "pool_name_law P names \<longleftrightarrow>
     (\<forall>k n d e d'. pg_update_pool_name P k n d = (Inl e, d') \<longrightarrow> names d' = names d) \<and>
     (\<forall>k n d d'. pg_update_pool_name P k n d = (Inr (), d') \<longrightarrow>
        names d' = (names d)(k := map_option (\<lambda>old. n) (names d k))) \<and>
     (\<forall>n d r d'. pg_select_blocks_of_pool P n d = (r, d') \<longrightarrow> names d' = names d \<and>
        (\<forall>bs b. r = Inr bs \<and> b \<in> set bs \<longrightarrow> names d (b_id b) = Some n))"

definition mem_names :: "mem_db \<Rightarrow> int \<Rightarrow> string option" where
  "mem_names d k = map_option nb_pool_name (map_of (mem_blocks d) k)"

text \<open>The in-memory database with one loaded row per key.\<close>

definition keyed_pg :: "mem_db pg" where
  "keyed_pg = mem_pg\<lparr>pg_load_transactions := (\<lambda>d.
     (Inr (map (\<lambda>k. the (map_of (map (\<lambda>t. (t_txid t, t)) (mem_txs d)) k)) (remdups (map t_txid (mem_txs d)))), d)),
     pg_select_blocks_of_pool := (\<lambda>n d. (Inr (map (\<lambda>(i, b). new_block.extend b (db_block.fields i))
       (filter (\<lambda>(i, b). map_of (mem_blocks d) i = Some b \<and> nb_pool_name b = n) (mem_blocks d))), d))\<rparr>"

lemma keyed_tx_table_law: "tx_table_law keyed_pg mem_tags"
  using mem_tx_table_law by (simp add: tx_table_law_def keyed_pg_def)

lemma keyed_load_law: "load_law keyed_pg mem_tags"
proof -
  let ?m = "\<lambda>d. map_of (map (\<lambda>t. (t_txid t, t)) (mem_txs d))"
  have row: "\<exists>t. ?m d k = Some t \<and> t_txid t = k \<and> mem_tags d k = Some (t_tags t)"
    if "k \<in> t_txid ` set (mem_txs d)" for d k
  proof -
    from that have "?m d k \<noteq> None" by (simp add: map_of_eq_None_iff image_image)
    then obtain t where t: "?m d k = Some t" by blast
    then have "t_txid t = k" by (auto dest: map_of_SomeD)
    moreover have "mem_tags d k = map_option t_tags (?m d k)"
    proof -
      have "map_of (map (\<lambda>t. (t_txid t, t_tags t)) ts) k = map_option t_tags (map_of (map (\<lambda>t. (t_txid t, t)) ts) k)"
        for ts :: "db_transaction list" by (induction ts) auto
      then show ?thesis by (simp only: mem_tags_def)
    qed
    ultimately show ?thesis using t by simp
  qed
  have "distinct (map t_txid (map (\<lambda>k. the (?m d k)) (remdups (map t_txid (mem_txs d))))) \<and>
      (\<forall>t\<in>set (map (\<lambda>k. the (?m d k)) (remdups (map t_txid (mem_txs d)))). mem_tags d (t_txid t) = Some (t_tags t))" for d
  proof
    have "map (\<lambda>k. t_txid (the (?m d k))) (remdups (map t_txid (mem_txs d))) = remdups (map t_txid (mem_txs d))"
      by (rule map_idI) (use row in fastforce)
    then show "distinct (map t_txid (map (\<lambda>k. the (?m d k)) (remdups (map t_txid (mem_txs d)))))"
      by (simp add: comp_def)
    show "\<forall>t\<in>set (map (\<lambda>k. the (?m d k)) (remdups (map t_txid (mem_txs d)))). mem_tags d (t_txid t) = Some (t_tags t)"
      using row by fastforce
  qed
  then show ?thesis by (auto simp: load_law_def keyed_pg_def mem_pg_def)
qed

lemma keyed_pool_name_law: "pool_name_law keyed_pg mem_names"
proof -
  have "map_of (map (\<lambda>(i, b). (i, if i = k then f b else b)) xs) j =
      (if j = k then map_option f (map_of xs j) else map_of xs j)" for f and xs :: "(int \<times> new_block) list" and j k
    by (induction xs) auto
  then show ?thesis
    by (auto simp: pool_name_law_def keyed_pg_def mem_pg_def mem_names_def fun_eq_iff new_block.defs db_block.defs option.map_comp comp_def)
qed

section \<open>Facts\<close>

lemma lines_from_line:
  "CHR 0x0A \<notin> set a \<Longrightarrow> lines_from acc (a @ CHR 0x0A # rest) = strip_cr (acc @ a) # lines_from [] rest"
  by (induction a arbitrary: acc) auto

lemma split_first_colon_user:
  "CHR '':'' \<notin> set u \<Longrightarrow> split_first_colon (u @ CHR '':'' # p) = (u, Some p)"
  by (induction u) auto

lemma split_first_colon_none: "CHR '':'' \<notin> set u \<Longrightarrow> split_first_colon u = (u, None)"
  by (induction u) auto

text \<open>Updating the tags of one stored transaction keeps all tags of all transactions.\<close>

definition tags_grow :: "(bytes \<Rightarrow> int list option) \<Rightarrow> (bytes \<Rightarrow> int list option) \<Rightarrow> bool" where
  "tags_grow old new \<longleftrightarrow>
     (\<forall>k. case old k of None \<Rightarrow> new k = None | Some ts \<Rightarrow> \<exists>ts'. new k = Some ts' \<and> set ts \<subseteq> set ts')"

lemma tags_grow_refl: "tags_grow t t"
  by (simp add: tags_grow_def split: option.splits)

lemma tags_grow_upd: "tags_grow old new \<Longrightarrow> new k = Some ts \<Longrightarrow> set ts \<subseteq> set ts' \<Longrightarrow> tags_grow old (new(k \<mapsto> ts'))"
proof -
  assume g: "tags_grow old new" and k: "new k = Some ts" "set ts \<subseteq> set ts'"
  have "case old j of None \<Rightarrow> (new(k \<mapsto> ts')) j = None | Some us \<Rightarrow> \<exists>us'. (new(k \<mapsto> ts')) j = Some us' \<and> set us \<subseteq> set us'" for j
    using g [unfolded tags_grow_def, THEN spec, of j] k by (cases "old j"; cases "j = k") auto
  then show ?thesis unfolding tags_grow_def by blast
qed

lemma retag_one_grows:
  assumes laws: "tx_table_law P tags_of" "load_law P tags_of"
    and run: "retag_one L from_slice raw addrs P tx d = Inr d'"
    and cur: "tags_of d (t_txid tx) = Some (t_tags tx)"
  shows "tags_of d' = tags_of d \<or>
    (\<exists>ts. tags_of d' = (tags_of d)(t_txid tx \<mapsto> ts) \<and> set (t_tags tx) \<subseteq> set ts)"
proof -
  have upd: "tags_of (snd (update_transaction_tags P ts (t_txid tx) d)) = tags_of d \<or>
      tags_of (snd (update_transaction_tags P ts (t_txid tx) d)) = (tags_of d)(t_txid tx \<mapsto> ts)" for ts
  proof -
    obtain r d2 where r: "pg_update_tags P (t_txid tx) ts d = (r, d2)" by fastforce
    then show ?thesis
      using laws cur by (cases r) (auto simp: update_transaction_tags_def tx_table_law_def load_law_def)
  qed
  have "d' = d \<or> (\<exists>new. d' = snd (update_transaction_tags P (retag_merge (t_tags tx) new) (t_txid tx) d))"
    using run unfolding retag_one_def Let_def by (auto split: option.splits sum.splits if_splits)
  then show ?thesis
  proof (elim disjE exE)
    fix new assume d': "d' = snd (update_transaction_tags P (retag_merge (t_tags tx) new) (t_txid tx) d)"
    from upd [of "retag_merge (t_tags tx) new"] rm.keeps_old [of "t_tags tx" new] show ?thesis
      unfolding d' by blast
  qed simp
qed

lemma retag_loop_grows:
  assumes laws: "tx_table_law P tags_of" "load_law P tags_of" and start: "tags_grow old (tags_of d)"
  shows "fold_res (retag_one L from_slice raw addrs P) txs d = Inr d' \<Longrightarrow> distinct (map t_txid txs) \<Longrightarrow>
    \<forall>t\<in>set txs. tags_of d (t_txid t) = Some (t_tags t) \<Longrightarrow> tags_grow old (tags_of d')"
  using start
proof (induction txs arbitrary: d)
  case (Cons tx txs)
  then obtain d1 where one: "retag_one L from_slice raw addrs P tx d = Inr d1"
    and rest: "fold_res (retag_one L from_slice raw addrs P) txs d1 = Inr d'" by (auto simp: res_simps)
  have cur: "tags_of d (t_txid tx) = Some (t_tags tx)" using Cons.prems(3) by simp
  from retag_one_grows [OF laws one cur] have eff: "tags_of d1 = tags_of d \<or>
      (\<exists>ts. tags_of d1 = (tags_of d)(t_txid tx \<mapsto> ts) \<and> set (t_tags tx) \<subseteq> set ts)" .
  then have "tags_grow old (tags_of d1)"
    using Cons.prems(4) tags_grow_upd [of old "tags_of d" "t_txid tx" "t_tags tx"] cur by metis
  moreover have "\<forall>t\<in>set txs. tags_of d1 (t_txid t) = Some (t_tags t)"
    using eff Cons.prems(2,3) by (metis (mono_tags, lifting) distinct.simps(2) fun_upd_other image_eqI
        list.set_intros(2) list.set_map list.simps(9))
  ultimately show ?case using Cons.IH [OF rest] Cons.prems(2) by simp
qed simp

lemma rust_lines_written:
  assumes "\<forall>l\<in>set ls. CHR 0x0A \<notin> set l \<and> (l \<noteq> [] \<longrightarrow> last l \<noteq> CHR 0x0D)"
  shows "rust_lines (concat (map (\<lambda>l. l @ [CHR 0x0A]) ls)) = ls"
  using assms unfolding rust_lines_def
  by (induction ls) (auto simp: lines_from_line strip_cr_def)

lemma reidentify_blocks_names:
  assumes "pool_name_law P names"
  shows "names (reidentify_blocks L from_slice get_block network pools P bs d) k = names d k \<or>
    (\<exists>b\<in>set bs. \<exists>hash blk result. b_id b = k \<and> from_slice (rev (nb_hash b)) = Some hash \<and>
       get_block hash = Inr blk \<and> identify_pool L network pools blk = Some result \<and>
       names (reidentify_blocks L from_slice get_block network pools P bs d) k =
         Some (pool_name_of (id_pool result)))"
proof (induction bs arbitrary: d)
  case (Cons b bs)
  show ?case
  proof (cases "\<exists>hash blk result. from_slice (rev (nb_hash b)) = Some hash \<and> get_block hash = Inr blk \<and>
      identify_pool L network pools blk = Some result")
    case True
    then obtain hash blk result where b: "from_slice (rev (nb_hash b)) = Some hash" "get_block hash = Inr blk"
      "identify_pool L network pools blk = Some result" by blast
    let ?n = "pool_name_of (id_pool result)"
    let ?d = "snd (update_pool_name_with_block_id P (b_id b) ?n d)"
    have upd: "names ?d k = names d k \<or> b_id b = k \<and> names ?d k = Some ?n"
    proof -
      obtain r d2 where r: "pg_update_pool_name P (b_id b) ?n d = (r, d2)" by fastforce
      then show ?thesis
        using assms by (cases r; cases "names d k")
          (auto simp: update_pool_name_with_block_id_def pool_name_law_def)
    qed
    have run: "reidentify_blocks L from_slice get_block network pools P (b # bs) d =
        reidentify_blocks L from_slice get_block network pools P bs ?d" using b by simp
    from Cons.IH [of ?d] upd b show ?thesis unfolding run by (metis list.set_intros(1,2))
  next
    case False
    with Cons.IH [of d] show ?thesis by (auto split: option.splits sum.splits)
  qed
qed simp

lemma update_sanctioned_addresses_result:
  assumes "transaction_law P" "address_table_law P rows"
    and "update_sanctioned_addresses parses http_get pool_error P url d = (r, d')"
  shows "(\<exists>e. r = Inl e \<and> d' = d) \<or>
    (\<exists>response body. http_get url = Inr response \<and> status_code response < 400 \<and>
       as_str response = Inr body \<and> pool_error = None \<and> r = Inr () \<and>
       mset (rows d') = mset (map (\<lambda>a. \<lparr>sa_address = a\<rparr>) (filter parses (rust_lines body))))"
proof -
  have rows: "parsed_addresses parses body = map (\<lambda>a. \<lparr>sa_address = a\<rparr>) (filter parses (rust_lines body))" for body
    by (simp add: parsed_addresses_def filter_map comp_def)
  have repl: "(\<exists>e. q = Inl e \<and> d'' = d) \<or> (q = Inr () \<and> mset (rows d'') = mset new)"
    if "replace_sanctioned_addresses P new d = (q, d'')" for new q d''
    by (rule replace_atomic [OF assms(1) _ _ that [unfolded replace_sanctioned_addresses_def]])
      (use assms(2) in \<open>auto simp: address_table_law_def\<close>)
  note run = assms(3) [unfolded update_sanctioned_addresses_def]
  show ?thesis
  proof (cases "\<exists>response body. http_get url = Inr response \<and> status_code response < 400 \<and>
      as_str response = Inr body \<and> pool_error = None")
    case True
    then obtain response body where ok: "http_get url = Inr response" "status_code response < 400"
      "as_str response = Inr body" "pool_error = None" by blast
    obtain q d'' where rep: "replace_sanctioned_addresses P (parsed_addresses parses body) d = (q, d'')" by fastforce
    with run ok have "d' = d''" "r = (case q of Inr u \<Rightarrow> Inr () | Inl e \<Rightarrow> Inl (Database e))"
      by (cases q; simp)+
    with repl [OF rep] ok show ?thesis unfolding rows by (cases q) auto
  next
    case False
    then have "(\<exists>e. r = Inl e) \<and> d' = d"
      using run by (cases "http_get url"; cases pool_error) (auto split: if_splits sum.splits simp: not_le)
    then show ?thesis by blast
  qed
qed

section \<open>Properties\<close>

text \<open>C33: An update of the sanctioned addresses either fails and leaves the database as it was, or
  succeeds and the table holds exactly the lines of the downloaded text that parse as addresses;
  it fails for a transport error, for a status of 400 or more, for a body that is not text, and
  without a connection.\<close>

theorem address_update_is_atomic:
  assumes "transaction_law P" "address_table_law P rows"
    and "update_sanctioned_addresses parses http_get pool_error P url d = (r, d')"
  shows "(\<exists>e. r = Inl e \<and> d' = d) \<or>
    (\<exists>response body. http_get url = Inr response \<and> status_code response < 400 \<and>
       as_str response = Inr body \<and> pool_error = None \<and> r = Inr () \<and>
       mset (rows d') = mset (map (\<lambda>a. \<lparr>sa_address = a\<rparr>) (filter parses (rust_lines body))))"
  using assms by (rule update_sanctioned_addresses_result)

theorem address_update_is_atomic_witness:
  "\<exists>d'. update_sanctioned_addresses (\<lambda>a. a \<noteq> ''junk'')
      (\<lambda>url. Inr \<lparr>status_code = 200, reason_phrase = ''OK'', as_str = Inr (''a'' @ [CHR 0x0A] @ ''junk'')\<rparr>)
      None mem_pg ''u'' mem_empty = (Inr (), d') \<and> mset (mem_addresses d') = {#\<lparr>sa_address = ''a''\<rparr>#}"
proof -
  let ?http = "\<lambda>url. Inr \<lparr>status_code = 200, reason_phrase = ''OK'', as_str = Inr (''a'' @ [CHR 0x0A] @ ''junk'')\<rparr>"
  obtain d' where run: "update_sanctioned_addresses (\<lambda>a. a \<noteq> ''junk'') ?http None mem_pg ''u'' mem_empty = (Inr (), d')"
    by (simp add: update_sanctioned_addresses_def replace_sanctioned_addresses_def mem_pg_def db_bind_def)
  from address_update_is_atomic [OF mem_transaction_law mem_address_table_law run] run show ?thesis
    by (auto simp: rust_lines_def strip_cr_def)
qed

text \<open>A published list of addresses is read back: from a list written with a newline after each
  address, where no address contains a newline or ends with a carriage return, exactly the
  addresses that parse become rows, in the published order.\<close>

theorem address_list_roundtrip:
  assumes "\<forall>l\<in>set ls. CHR 0x0A \<notin> set l \<and> (l \<noteq> [] \<longrightarrow> last l \<noteq> CHR 0x0D)"
  shows "parsed_addresses parses (concat (map (\<lambda>l. l @ [CHR 0x0A]) ls)) =
    map (\<lambda>l. \<lparr>sa_address = l\<rparr>) (filter parses ls)"
  by (simp add: parsed_addresses_def rust_lines_written [OF assms] filter_map comp_def)

theorem address_list_roundtrip_witness:
  "parsed_addresses (\<lambda>l. l \<noteq> []) (concat (map (\<lambda>l. l @ [CHR 0x0A]) [''1abc'', '''', ''bc1q''])) =
     [\<lparr>sa_address = ''1abc''\<rparr>, \<lparr>sa_address = ''bc1q''\<rparr>]"
  by (subst address_list_roundtrip) simp_all

text \<open>C32: An output found by the UTXO set scan is detected when it is spent: the rows of a scan with
  unique keys make any transaction that spends such an output count as coming from a sanctioned
  address, and the address of its script is reported.\<close>

theorem scanned_utxo_spend_is_detected:
  assumes "iteration_law H" "scantxoutset_sanctioned_tx parses scan now dur scanned = Inr (us, info)"
    and "scan (scan_descriptors parses scanned) = Inr r" "u \<in> set (scan_unspents r)" "scan_vout u < 2 ^ 32"
    and "distinct (map (\<lambda>u. (rev (su_txid u), as_u32 (su_vout u))) us)"
    and "\<lparr>op_txid = scan_txid u, op_vout = scan_vout u\<rparr> \<in> previous_output ` set (tx_input spender)"
    and "address_from_script L (scan_script u) = Some a"
  shows "is_tx_from_sanctioned spender (build_outpoint_to_sanctioned_utxo_map us) \<and>
    a \<in> set (tx_sanctioned_addresses L H spender (build_outpoint_to_sanctioned_utxo_map us) addrs)"
proof -
  let ?op = "\<lparr>op_txid = scan_txid u, op_vout = scan_vout u\<rparr>"
  have mem: "scanned_utxo u \<in> set us"
    using assms(2,3,4) by (auto simp: scantxoutset_sanctioned_tx_def)
  have key: "(rev (su_txid (scanned_utxo u)), as_u32 (su_vout (scanned_utxo u))) = outpoint_key ?op"
    using assms(5) by (simp add: scanned_utxo_def outpoint_key_def as_u32_as_i32)
  have get: "hm_get (build_outpoint_to_sanctioned_utxo_map us) (outpoint_key ?op) = Some (scanned_utxo u)"
    using build_map_get [OF mem assms(6)] unfolding key .
  moreover have "address_from_script L (su_script_pubkey (scanned_utxo u)) = Some a"
    using assms(8) by (simp add: scanned_utxo_def)
  ultimately show ?thesis
    using assms(7) unfolding tx_sanctioned_addresses_set [OF assms(1)]
    by (auto simp: is_tx_from_sanctioned_iff spent_sanctioned_addresses_def intro!: bexI)
qed

theorem scanned_utxo_spend_is_detected_witness:
  "is_tx_from_sanctioned (sample_tx 8 [(7, 0)] 2) (build_outpoint_to_sanctioned_utxo_map
     [scanned_utxo \<lparr>scan_txid = [7], scan_vout = 0, scan_script = [1], scan_sat = 5000, scan_utxo_height = 800000\<rparr>])"
proof -
  let ?u = "\<lparr>scan_txid = [7], scan_vout = 0, scan_script = [1], scan_sat = 5000, scan_utxo_height = 800000\<rparr>"
  let ?r = "\<lparr>scan_height = Some 800000, scan_unspents = [?u], scan_total = 5000\<rparr>"
  obtain info where run: "scantxoutset_sanctioned_tx (\<lambda>a. True) (\<lambda>ds. Inr ?r) 0 1 [''a''] = Inr ([scanned_utxo ?u], info)"
    by (simp add: scantxoutset_sanctioned_tx_def)
  have "is_tx_from_sanctioned (sample_tx 8 [(7, 0)] 2) (build_outpoint_to_sanctioned_utxo_map [scanned_utxo ?u]) \<and>
      ''a'' \<in> set (tx_sanctioned_addresses sample_lib sample_iter (sample_tx 8 [(7, 0)] 2)
        (build_outpoint_to_sanctioned_utxo_map [scanned_utxo ?u]) [])"
    by (rule scanned_utxo_spend_is_detected [OF sample_iteration_law run, where r = ?r and u = ?u])
      (simp_all add: sample_tx_def sample_lib_def)
  then show ?thesis by blast
qed



text \<open>The credentials of a cookie file are split at its first colon: a user name without a colon
  and any password are read back, and a file without a colon is rejected.\<close>

theorem cookie_credentials_roundtrip:
  assumes "CHR '':'' \<notin> set u"
  shows "(read_file path = Inr (u @ CHR '':'' # p) \<longrightarrow>
      get_user_pass read_file (CookieFile path) = Inr (Some u, Some p)) \<and>
    (read_file path = Inr u \<longrightarrow> get_user_pass read_file (CookieFile path) = Inl InvalidCookieFile)"
  using split_first_colon_user [OF assms] split_first_colon_none [OF assms] by (simp add: get_user_pass_def)

theorem cookie_credentials_roundtrip_witness:
  "get_user_pass (\<lambda>path. Inr ''__cookie__:ab:cd'') (CookieFile ''x'') = Inr (Some ''__cookie__'', Some ''ab:cd'')"
  using cookie_credentials_roundtrip [of "''__cookie__''" "\<lambda>path. Inr ''__cookie__:ab:cd''" "''x''" "''ab:cd''"] by simp

text \<open>C34: Retrying the pool identification never touches a block whose pool is known: the name of
  a stored block either stays, or it was unknown and becomes the name of a pool that the
  identification returns for a block of the node, whatever the node and the database answer.\<close>

theorem reidentification_only_names_unknown_blocks:
  assumes "pool_name_law P names"
  shows "let d' = retry_unknown_pool_identification L from_slice get_block network pools connection P d
    in names d' k = names d k \<or>
       names d k = Some ''Unknown'' \<and>
         (\<exists>hash blk result. get_block hash = Inr blk \<and> identify_pool L network pools blk = Some result \<and>
            names d' k = Some (pool_name_of (id_pool result)))"
proof -
  obtain r d1 where sel: "unknown_pool_blocks P d = (r, d1)" by fastforce
  have same: "names d1 = names d" and unknown: "r = Inr bs \<Longrightarrow> b \<in> set bs \<Longrightarrow> names d (b_id b) = Some ''Unknown''" for bs b
    using assms sel unfolding pool_name_law_def unknown_pool_blocks_def by metis+
  show ?thesis
  proof (cases "connection \<and> (\<exists>bs. r = Inr bs)")
    case True
    then obtain bs where r: "r = Inr bs" by blast
    from reidentify_blocks_names [OF assms, of L from_slice get_block network pools bs d1 k] unknown [OF r] True sel r same
    show ?thesis by (auto simp: retry_unknown_pool_identification_def Let_def)
  next
    case False
    with sel same show ?thesis by (cases r) (auto simp: retry_unknown_pool_identification_def)
  qed
qed

theorem reidentification_only_names_unknown_blocks_witness:
  "\<forall>b. mem_names (retry_unknown_pool_identification
     (sample_lib\<lparr>identify_pool := (\<lambda>n ps b. Some \<lparr>id_pool = \<lparr>pool_name_of = ''p'', pool_link_of = ''l''\<rparr>, id_method = IdTag\<rparr>)\<rparr>)
     Some (\<lambda>h. Inr sample_blk) Bitcoin [] True keyed_pg (mem_empty\<lparr>mem_blocks := [(1, b\<lparr>nb_pool_name := ''Known''\<rparr>)]\<rparr>)) 1 =
       Some ''Known''"
proof
  fix b :: new_block
  let ?L = "sample_lib\<lparr>identify_pool := (\<lambda>n ps b. Some \<lparr>id_pool = \<lparr>pool_name_of = ''p'', pool_link_of = ''l''\<rparr>, id_method = IdTag\<rparr>)\<rparr>"
  let ?d = "mem_empty\<lparr>mem_blocks := [(1, b\<lparr>nb_pool_name := ''Known''\<rparr>)]\<rparr>"
  have "mem_names ?d 1 = Some ''Known''" by (simp add: mem_names_def)
  with reidentification_only_names_unknown_blocks [OF keyed_pool_name_law, of ?L Some "\<lambda>h. Inr sample_blk" Bitcoin
      "[]" True ?d 1]
  show "mem_names (retry_unknown_pool_identification ?L Some (\<lambda>h. Inr sample_blk) Bitcoin [] True keyed_pg ?d) 1 =
      Some ''Known''" by (auto simp: Let_def)
qed

end
