(* ===== verification/Config.thy ===== *)
theory Config
  imports Background_Tasks
begin

text \<open>
  The configuration of both programs (\<^verbatim>\<open>shared/src/config.rs\<close>). Environment variables, the file
  system, the TOML parser, the parser of log levels and the network names of the Bitcoin library
  are the record \<open>host\<close>. A failed load is a value of \<open>config_failure\<close>: either one of the errors
  of the source or the panic of an \<^verbatim>\<open>expect\<close>. The error payloads of other crates are represented
  by the text they display.
\<close>

section \<open>Values\<close>

definition ENVVAR_CONFIG_FILE :: string where "ENVVAR_CONFIG_FILE = ''CONFIG_FILE''"
definition DEFAULT_DAEMON_CONFIG :: string where "DEFAULT_DAEMON_CONFIG = ''daemon-config.toml''"
definition DEFAULT_WEB_CONFIG :: string where "DEFAULT_WEB_CONFIG = ''web-config.toml''"

definition DEFAULT_SANCTIONED_ADDRESSES_URL :: string where
  "DEFAULT_SANCTIONED_ADDRESSES_URL =
     ''https://raw.githubusercontent.com/0xB10C/ofac-sanctioned-digital-currency-addresses/lists/sanctioned_addresses_XBT.txt''"

definition DEFAULT_POOL_IDENTIFICATOIN_DATASET_URL :: string where
  "DEFAULT_POOL_IDENTIFICATOIN_DATASET_URL =
     ''https://raw.githubusercontent.com/bitcoin-data/mining-pools/generated/pool-list.json''"

definition DEFAULT_POOL_IDENTIFICATOIN_NETWORK :: network where
  "DEFAULT_POOL_IDENTIFICATOIN_NETWORK = Bitcoin"

datatype level_filter = LevelOff | LevelError | LevelWarn | LevelInfo | LevelDebug | LevelTrace

record PrometheusConfig =
  prom_enable :: bool
  prom_address :: string

record PoolIdentificationTomlConfig =
  pit_dataset_url :: "string option"
  pit_network :: "string option"

record PoolIdentificationConfig =
  pi_dataset_url :: string
  pi_network :: network

record DaemonTomlConfig =
  dt_rpc_host :: string
  dt_rpc_port :: nat
  dt_rpc_cookie_file :: "string option"
  dt_rpc_user :: "string option"
  dt_rpc_password :: "string option"
  dt_database_url :: string
  dt_log_level :: string
  dt_retag_transactions :: bool
  dt_prometheus :: PrometheusConfig
  dt_sanctioned_addresses_url :: "string option"
  dt_pool_identificatoin :: "PoolIdentificationTomlConfig option"

record DaemonConfig =
  rpc_url :: string
  rpc_auth :: auth
  database_url :: string
  log_level :: level_filter
  retag_transactions_enabled :: bool
  prometheus :: PrometheusConfig
  sanctioned_addresses_url :: string
  pool_identification :: PoolIdentificationConfig

record WebSiteConfig =
  site_title :: string
  site_footer :: string
  site_base_url :: string

record WebTomlConfig =
  wt_address :: string
  wt_database_url :: string
  wt_log_level :: string
  wt_debug_pages :: "bool option"
  wt_www_dir_path :: string
  wt_site :: WebSiteConfig

record WebConfig =
  wc_address :: string
  wc_database_url :: string
  wc_log_level :: level_filter
  wc_debug_pages :: bool
  wc_www_dir_path :: string
  wc_site :: WebSiteConfig

datatype io_error = OsError string
datatype toml_error = TomlDeError string
datatype level_error = ParseLevelError string

datatype ConfigError =
    CookieFileDoesNotExist
  | NoRpcAuth
  | InvalidLogLevel level_error
  | TomlError toml_error
  | ReadError io_error

text \<open>The \<^verbatim>\<open>Display\<close> text of an error.\<close>

fun config_error_text :: "ConfigError \<Rightarrow> string" where
  "config_error_text CookieFileDoesNotExist =
     ''the .cookie file path set via rpc_cookie_file does not exist''"
| "config_error_text NoRpcAuth =
     ''please specify a Bitcoin Core RPC .cookie file (option: '' @ [CHR 0x27] @ ''rpc_cookie_file'' @ [CHR 0x27] @
     '') or a rpc_user and rpc_password''"
| "config_error_text (InvalidLogLevel (ParseLevelError e)) = ''the specified log level is invalid: '' @ e"
| "config_error_text (TomlError (TomlDeError e)) =
     ''the TOML in the configuration file could not be parsed: '' @ e"
| "config_error_text (ReadError (OsError e)) = ''the configuration file could not be read: '' @ e"

datatype config_failure = ConfigFailed ConfigError | ConfigPanic panic

section \<open>Environment\<close>

record host =
  env_var :: "string \<Rightarrow> string option"
  read_to_string :: "string \<Rightarrow> io_error + string"
  path_exists :: "string \<Rightarrow> bool"
  toml_daemon :: "string \<Rightarrow> toml_error + DaemonTomlConfig"
  toml_web :: "string \<Rightarrow> toml_error + WebTomlConfig"
  level_from_str :: "string \<Rightarrow> level_error + level_filter"
  network_from_str :: "string \<Rightarrow> network option"
  network_to_string :: "network \<Rightarrow> string"

text \<open>The library reads back the name it prints for the main network, in lower case too.\<close>

definition to_lowercase :: "string \<Rightarrow> string" where
  "to_lowercase s =
     map (\<lambda>c. if of_char CHR ''A'' \<le> (of_char c :: nat) \<and> (of_char c :: nat) \<le> of_char CHR ''Z''
               then char_of ((of_char c :: nat) + 32) else c) s"

definition network_name_law :: "host \<Rightarrow> bool" where
  "network_name_law E \<longleftrightarrow> network_from_str E (to_lowercase (network_to_string E Bitcoin)) = Some Bitcoin"

definition map_err :: "('e \<Rightarrow> 'f) \<Rightarrow> 'e + 'a \<Rightarrow> 'f + 'a" where
  "map_err f r = (case r of Inl e \<Rightarrow> Inl (f e) | Inr a \<Rightarrow> Inr a)"

lemma map_err_Inr [res_simps]: "map_err f r = Inr a \<longleftrightarrow> r = Inr a"
  by (simp add: map_err_def split: sum.splits)

lemma map_err_simps [simp]: "map_err f (Inl e) = Inl (f e)" "map_err f (Inr a) = Inr a"
  by (simp_all add: map_err_def)

section \<open>Loading\<close>

definition default_pool_identification :: "host \<Rightarrow> PoolIdentificationTomlConfig" where
  "default_pool_identification E =
     \<lparr>pit_dataset_url = Some DEFAULT_POOL_IDENTIFICATOIN_DATASET_URL,
      pit_network = Some (network_to_string E DEFAULT_POOL_IDENTIFICATOIN_NETWORK)\<rparr>"

definition pool_identification_from ::
  "host \<Rightarrow> PoolIdentificationTomlConfig \<Rightarrow> config_failure + PoolIdentificationConfig" where
  "pool_identification_from E toml =
     (case network_from_str E (to_lowercase (case pit_network toml of
          Some n \<Rightarrow> n | None \<Rightarrow> network_to_string E DEFAULT_POOL_IDENTIFICATOIN_NETWORK)) of
        None \<Rightarrow> Inl (ConfigPanic (ExpectFailed ''invalid pool identification network''))
      | Some network \<Rightarrow>
          Inr \<lparr>pi_dataset_url = (case pit_dataset_url toml of
                 Some u \<Rightarrow> u | None \<Rightarrow> DEFAULT_POOL_IDENTIFICATOIN_DATASET_URL),
               pi_network = network\<rparr>)"

definition rpc_auth_of :: "host \<Rightarrow> DaemonTomlConfig \<Rightarrow> config_failure + auth" where
  "rpc_auth_of E config =
     (case dt_rpc_cookie_file config of
        Some cookie \<Rightarrow>
          if \<not> path_exists E cookie then Inl (ConfigFailed CookieFileDoesNotExist) else Inr (CookieFile cookie)
      | None \<Rightarrow>
          (case (dt_rpc_user config, dt_rpc_password config) of
             (Some user, Some password) \<Rightarrow> Inr (UserPass user password)
           | _ \<Rightarrow> Inl (ConfigFailed NoRpcAuth)))"

definition load_daemon_config :: "host \<Rightarrow> config_failure + DaemonConfig" where
  "load_daemon_config E =
     (let config_file_path = (case env_var E ENVVAR_CONFIG_FILE of Some p \<Rightarrow> p | None \<Rightarrow> DEFAULT_DAEMON_CONFIG)
      in bind_res (map_err (ConfigFailed \<circ> ReadError) (read_to_string E config_file_path)) (\<lambda>config_string.
         bind_res (map_err (ConfigFailed \<circ> TomlError) (toml_daemon E config_string)) (\<lambda>config.
         bind_res (rpc_auth_of E config) (\<lambda>auth.
         bind_res (map_err (ConfigFailed \<circ> InvalidLogLevel) (level_from_str E (dt_log_level config))) (\<lambda>level.
         bind_res (pool_identification_from E (case dt_pool_identificatoin config of
             Some p \<Rightarrow> p | None \<Rightarrow> default_pool_identification E)) (\<lambda>pools.
           Inr \<lparr>rpc_url = ''http://'' @ dt_rpc_host config @ '':'' @ show_nat (dt_rpc_port config),
                rpc_auth = auth, database_url = dt_database_url config, log_level = level,
                retag_transactions_enabled = dt_retag_transactions config,
                prometheus = dt_prometheus config,
                sanctioned_addresses_url = (case dt_sanctioned_addresses_url config of
                  Some u \<Rightarrow> u | None \<Rightarrow> DEFAULT_SANCTIONED_ADDRESSES_URL),
                pool_identification = pools\<rparr>))))))"

definition load_web_config :: "host \<Rightarrow> config_failure + WebConfig" where
  "load_web_config E =
     bind_res (map_err (ConfigFailed \<circ> ReadError) (read_to_string E
       (case env_var E ENVVAR_CONFIG_FILE of Some p \<Rightarrow> p | None \<Rightarrow> DEFAULT_WEB_CONFIG))) (\<lambda>config_string.
     bind_res (map_err (ConfigFailed \<circ> TomlError) (toml_web E config_string)) (\<lambda>config.
     bind_res (map_err (ConfigFailed \<circ> InvalidLogLevel) (level_from_str E (wt_log_level config))) (\<lambda>level.
       Inr \<lparr>wc_address = wt_address config, wc_database_url = wt_database_url config, wc_log_level = level,
            wc_debug_pages = (case wt_debug_pages config of Some b \<Rightarrow> b | None \<Rightarrow> False),
            wc_www_dir_path = wt_www_dir_path config, wc_site = wt_site config\<rparr>)))"

section \<open>Facts\<close>

text \<open>The default section never makes the load panic.\<close>

lemma default_pool_identification_ok:
  assumes "network_name_law E"
  shows "pool_identification_from E (default_pool_identification E) =
    Inr \<lparr>pi_dataset_url = DEFAULT_POOL_IDENTIFICATOIN_DATASET_URL, pi_network = Bitcoin\<rparr>"
  using assms by (simp add: pool_identification_from_def default_pool_identification_def network_name_law_def
      DEFAULT_POOL_IDENTIFICATOIN_NETWORK_def)

lemma rpc_auth_of_Inr:
  "rpc_auth_of E t = Inr a \<longleftrightarrow>
     (\<exists>p. dt_rpc_cookie_file t = Some p \<and> path_exists E p \<and> a = CookieFile p) \<or>
     (\<exists>u p. dt_rpc_cookie_file t = None \<and> dt_rpc_user t = Some u \<and> dt_rpc_password t = Some p \<and> a = UserPass u p)"
  by (auto simp: rpc_auth_of_def split: option.splits)

lemma load_daemon_config_Inr:
  assumes "load_daemon_config E = Inr c"
  obtains s t where "toml_daemon E s = Inr t" "rpc_auth_of E t = Inr (rpc_auth c)"
    "level_from_str E (dt_log_level t) = Inr (log_level c)"
    "dt_sanctioned_addresses_url t = None \<longrightarrow> sanctioned_addresses_url c = DEFAULT_SANCTIONED_ADDRESSES_URL"
  using assms by (auto simp: load_daemon_config_def Let_def res_simps)

lemma get_user_pass_complete:
  assumes "a \<noteq> NoAuth" "get_user_pass read_file a = Inr (user, pass)"
  shows "user \<noteq> None \<and> pass \<noteq> None"
proof (cases a)
  case (CookieFile path)
  with assms(2) obtain contents where c: "read_file path = Inr contents"
    by (auto simp: get_user_pass_def res_simps)
  obtain u rest where "split_first_colon contents = (u, rest)" by fastforce
  with assms(2) CookieFile c show ?thesis by (cases rest) (auto simp: get_user_pass_def)
qed (use assms in \<open>auto simp: get_user_pass_def\<close>)

section \<open>Properties\<close>

text \<open>A loaded daemon configuration always has usable credentials: the authentication is a cookie
  file that exists or a user with a password, never none, and a configured cookie file wins over
  user and password. So the start-up code always finds a user name once the credentials can be
  read.\<close>

theorem loaded_config_has_credentials:
  assumes "load_daemon_config E = Inr c"
  shows "\<exists>s t. toml_daemon E s = Inr t \<and>
    rpc_auth c = (case dt_rpc_cookie_file t of
       Some p \<Rightarrow> CookieFile p | None \<Rightarrow> UserPass (the (dt_rpc_user t)) (the (dt_rpc_password t))) \<and>
    (\<forall>p. rpc_auth c = CookieFile p \<longrightarrow> path_exists E p) \<and>
    (\<forall>read_file user pass. get_user_pass read_file (rpc_auth c) = Inr (user, pass) \<longrightarrow> user \<noteq> None \<and> pass \<noteq> None)"
proof -
  obtain s t where t: "toml_daemon E s = Inr t" "rpc_auth_of E t = Inr (rpc_auth c)"
    using assms by (rule load_daemon_config_Inr)
  then have "rpc_auth c \<noteq> NoAuth" by (auto simp: rpc_auth_of_Inr)
  with get_user_pass_complete have "\<forall>read_file user pass. get_user_pass read_file (rpc_auth c) = Inr (user, pass) \<longrightarrow>
      user \<noteq> None \<and> pass \<noteq> None" by blast
  with t show ?thesis by (intro exI [of _ s] exI [of _ t]) (auto simp: rpc_auth_of_Inr)
qed

text \<open>A host on which the example configuration loads.\<close>

definition sample_host :: host where
  "sample_host =
     \<lparr>env_var = (\<lambda>v. None), read_to_string = (\<lambda>p. Inr ''toml''), path_exists = (\<lambda>p. False),
      toml_daemon = (\<lambda>s. Inr \<lparr>dt_rpc_host = ''127.0.0.1'', dt_rpc_port = 8332, dt_rpc_cookie_file = None,
        dt_rpc_user = Some ''u'', dt_rpc_password = Some ''p'', dt_database_url = ''postgres'',
        dt_log_level = ''info'', dt_retag_transactions = False,
        dt_prometheus = \<lparr>prom_enable = False, prom_address = ''127.0.0.1:23842''\<rparr>,
        dt_sanctioned_addresses_url = None, dt_pool_identificatoin = None\<rparr>),
      toml_web = (\<lambda>s. Inl (TomlDeError ''missing field'')),
      level_from_str = (\<lambda>s. if s = ''info'' then Inr LevelInfo else Inl (ParseLevelError s)),
      network_from_str = (\<lambda>s. if s = ''bitcoin'' then Some Bitcoin else if s = ''signet'' then Some Signet else None),
      network_to_string = (\<lambda>n. ''bitcoin'')\<rparr>"

lemma sample_network_name_law: "network_name_law sample_host"
  by (simp add: network_name_law_def sample_host_def to_lowercase_def)

lemma sample_config_loads: "\<exists>c. load_daemon_config sample_host = Inr c \<and> rpc_auth c = UserPass ''u'' ''p''"
  using default_pool_identification_ok [OF sample_network_name_law]
  by (simp add: load_daemon_config_def rpc_auth_of_def Let_def) (simp add: sample_host_def)

theorem loaded_config_has_credentials_witness:
  "\<exists>c. load_daemon_config sample_host = Inr c \<and> get_user_pass (\<lambda>p. Inl InvalidCookieFile) (rpc_auth c) = Inr (Some ''u'', Some ''p'') \<and>
     \<not> (\<exists>pass. get_user_pass (\<lambda>p. Inl InvalidCookieFile) (rpc_auth c) = Inr (None, pass))"
proof -
  obtain c where c: "load_daemon_config sample_host = Inr c" "rpc_auth c = UserPass ''u'' ''p''"
    using sample_config_loads by blast
  from loaded_config_has_credentials [OF c(1)]
  have "\<not> (\<exists>pass. get_user_pass (\<lambda>p. Inl InvalidCookieFile) (rpc_auth c) = Inr (None, pass))" by blast
  moreover have "get_user_pass (\<lambda>p. Inl InvalidCookieFile) (rpc_auth c) = Inr (Some ''u'', Some ''p'')"
    by (simp add: get_user_pass_def c(2))
  ultimately show ?thesis using c(1) by blast
qed

end
