(* ===== verification/Decimal.thy ===== *)
theory Decimal
  imports Obs_Prelude
begin

text \<open>
  Decimal numbers in texts: \<^verbatim>\<open>str::parse::<u32>\<close> and its relation to the decimal \<^verbatim>\<open>Display\<close> of the
  prelude. A text is a list of bytes.
\<close>

definition digit_value :: "char \<Rightarrow> nat option" where
  "digit_value c =
     (if 48 \<le> (of_char c :: nat) \<and> (of_char c :: nat) \<le> 57 then Some (of_char c - 48) else None)"

fun parse_digits :: "nat \<Rightarrow> string \<Rightarrow> nat option" where
  "parse_digits acc [] = Some acc"
| "parse_digits acc (c # cs) =
     (case digit_value c of None \<Rightarrow> None | Some v \<Rightarrow> parse_digits (10 * acc + v) cs)"

text \<open>An optional plus sign, then at least one digit; a value beyond the type is an error.\<close>

definition parse_u32 :: "string \<Rightarrow> nat option" where
  "parse_u32 s =
     (let digits = (case s of c # cs \<Rightarrow> if c = CHR ''+'' \<and> cs \<noteq> [] then cs else s | [] \<Rightarrow> s)
      in if digits = [] then None
         else case parse_digits 0 digits of
                Some n \<Rightarrow> if n < 2 ^ 32 then Some n else None
              | None \<Rightarrow> None)"

lemma digit_char: "m < 10 \<Longrightarrow> of_char (char_of (48 + m)) = (48 + m :: nat)"
  by simp

lemma digit_value_char [simp]: "m < 10 \<Longrightarrow> digit_value (char_of (48 + m)) = Some m"
  using digit_char [of m] by (simp add: digit_value_def)

lemma show_nat_digits: "c \<in> set (show_nat n) \<Longrightarrow> digit_value c \<noteq> None"
proof (induction n rule: show_nat.induct)
  case (1 n)
  then show ?case by (cases "n < 10") (auto simp: show_nat.simps [of n])
qed

lemma show_nat_not_Nil [simp]: "show_nat n \<noteq> []"
  by (subst show_nat.simps) simp

lemma parse_digits_append:
  "parse_digits acc (xs @ ys) = (case parse_digits acc xs of None \<Rightarrow> None | Some v \<Rightarrow> parse_digits v ys)"
  by (induction acc xs rule: parse_digits.induct) (auto split: option.splits)

lemma parse_digits_show: "parse_digits 0 (show_nat n) = Some n"
proof (induction n rule: show_nat.induct)
  case (1 n)
  show ?case
  proof (cases "n < 10")
    case True
    then show ?thesis by (simp add: show_nat.simps [of n])
  next
    case False
    with 1 have "parse_digits 0 (show_nat (n div 10)) = Some (n div 10)" by simp
    with False show ?thesis by (simp add: show_nat.simps [of n] parse_digits_append)
  qed
qed

lemma show_nat_hd: "hd (show_nat n) \<noteq> CHR ''+''"
  using show_nat_digits [of "hd (show_nat n)" n] by (auto simp: digit_value_def)

lemma parse_u32_show: "parse_u32 (show_nat n) = (if n < 2 ^ 32 then Some n else None)"
proof -
  have "(case show_nat n of c # cs \<Rightarrow> if c = CHR ''+'' \<and> cs \<noteq> [] then cs else show_nat n | [] \<Rightarrow> show_nat n) = show_nat n"
    using show_nat_hd [of n] by (cases "show_nat n") auto
  then show ?thesis by (simp add: parse_u32_def parse_digits_show)
qed

lemma show_nat_inj: "show_nat a = show_nat b \<Longrightarrow> a = b"
  by (metis option.inject parse_digits_show)

text \<open>A text that is read contains only digits after its optional sign.\<close>

lemma parse_digits_Some: "parse_digits acc s = Some n \<Longrightarrow> list_all (\<lambda>c. digit_value c \<noteq> None) s"
  by (induction acc s rule: parse_digits.induct) (auto split: option.splits)

lemma parse_u32_bound: "parse_u32 s = Some n \<Longrightarrow> n < 2 ^ 32"
  by (auto simp: parse_u32_def Let_def split: option.splits if_splits list.splits)

end
