(* ===== verification/Metric_Server.thy ===== *)
theory Metric_Server
  imports Config Decimal
begin

text \<open>
  The HTTP server for the metrics (\<^verbatim>\<open>shared/src/prometheus_metric_server.rs\<close>): it answers every
  accepted connection with the text of the gathered metrics. The stream operations and the
  encoder of the Prometheus library are the record \<open>request_env\<close>; the answer that is written is
  the value of a handled request. A text is a list of bytes, so its \<^verbatim>\<open>len\<close> is its length.
\<close>

datatype RequestHandlingError = Io io_error | Utf8 string | Encoding string

fun request_error_text :: "RequestHandlingError \<Rightarrow> string" where
  "request_error_text (Utf8 e) = ''UTF-8 error: '' @ e"
| "request_error_text (Io (OsError e)) = ''IO error: '' @ e"
| "request_error_text (Encoding e) = ''encoding error: '' @ e"

record request_env =
  stream_read :: "io_error + nat"
  encode_metrics :: "string + bytes"
  from_utf8 :: "bytes \<Rightarrow> string + string"
  write_all :: "string \<Rightarrow> io_error + unit"
  flush_stream :: "io_error + unit"

definition crlf :: string where "crlf = [CHR 0x0D, CHR 0x0A]"

definition metrics_response :: "string \<Rightarrow> string" where
  "metrics_response contents =
     ''HTTP/1.1 200 OK'' @ crlf @ ''Content-Length: '' @ show_nat (length contents) @ crlf @ crlf @ contents"

definition handle_request :: "request_env \<Rightarrow> RequestHandlingError + string" where
  "handle_request E =
     bind_res (map_err Io (stream_read E)) (\<lambda>n.
     bind_res (map_err Encoding (encode_metrics E)) (\<lambda>output_buffer.
     bind_res (map_err Utf8 (from_utf8 E output_buffer)) (\<lambda>contents.
     let response = metrics_response contents
     in bind_res (map_err Io (write_all E response)) (\<lambda>u.
        bind_res (map_err Io (flush_stream E)) (\<lambda>u. Inr response)))))"

text \<open>The loop over the incoming connections: a failed accept is skipped, and a failed request does
  not stop the loop.\<close>

fun serve :: "(io_error + request_env) list \<Rightarrow> (RequestHandlingError + string) list" where
  "serve [] = []"
| "serve (Inl e # incoming) = serve incoming"
| "serve (Inr E # incoming) = handle_request E # serve incoming"

definition start_http_server ::
  "(string \<Rightarrow> io_error + (io_error + request_env) list) \<Rightarrow> string \<Rightarrow> io_error + (RequestHandlingError + string) list" where
  "start_http_server bind_address prometheus_address =
     bind_res (bind_address prometheus_address) (\<lambda>incoming. Inr (serve incoming))"

lemma serve_answers: "length (serve incoming) = length (filter (\<lambda>i. \<not> isl i) incoming)"
  by (induction incoming rule: serve.induct) auto

lemma serve_append: "serve (xs @ ys) = serve xs @ serve ys"
  by (induction xs rule: serve.induct) auto

text \<open>The framing of an answer: the body is what follows the first empty line, and its length is
  the announced one.\<close>

fun after_empty_line :: "string \<Rightarrow> string" where
  "after_empty_line (a # b # c # d # rest) =
     (if [a, b, c, d] = crlf @ crlf then rest else after_empty_line (b # c # d # rest))"
| "after_empty_line _ = []"

lemma after_empty_line_step:
  "x \<noteq> CHR 0x0D \<Longrightarrow> 3 \<le> length s \<Longrightarrow> after_empty_line (x # s) = after_empty_line s"
  by (cases s; cases "tl s"; cases "tl (tl s)") (auto simp: crlf_def)

lemma after_empty_line_skip:
  "CHR 0x0D \<notin> set h \<Longrightarrow> after_empty_line (h @ crlf @ crlf @ body) = body"
proof (induction h)
  case (Cons x h)
  have "after_empty_line (x # h @ crlf @ crlf @ body) = after_empty_line (h @ crlf @ crlf @ body)"
    using Cons.prems by (intro after_empty_line_step) (auto simp: crlf_def)
  with Cons show ?case by simp
qed (simp add: crlf_def)

lemma show_nat_no_cr: "CHR 0x0D \<notin> set (show_nat n)"
  using show_nat_digits [of "CHR 0x0D" n] by (auto simp: digit_value_def)

lemma metrics_response_body: "after_empty_line (metrics_response contents) = contents"
proof -
  let ?h = "''Content-Length: '' @ show_nat (length contents)"
  have "after_empty_line (?h @ crlf @ crlf @ contents) = contents"
    by (rule after_empty_line_skip) (use show_nat_no_cr in auto)
  moreover have "after_empty_line (metrics_response contents) = after_empty_line (?h @ crlf @ crlf @ contents)"
    by (simp add: metrics_response_def crlf_def)
  ultimately show ?thesis by simp
qed

end
