(* ===== verification/Main_Loop.thy ===== *)
theory Main_Loop
  imports Block_Processing
begin

text \<open>
  The main loop of the daemon (\<^verbatim>\<open>main_loop\<close> and \<^verbatim>\<open>log_template_infos\<close> of \<^verbatim>\<open>daemon/src/main.rs\<close>)
  as a state machine: one iteration is a function of the answers it gets and of the daemon's
  state, every early \<^verbatim>\<open>continue\<close> is a branch, and the runs of the daemon are an inductive
  relation over the sequence of environments. The loop itself never ends; sleeping is not modelled.
\<close>

section \<open>One iteration\<close>

definition MAX_OLD_TEMPLATES :: nat where "MAX_OLD_TEMPLATES = 15"

definition log_template_infos :: "block_template \<Rightarrow> metrics \<Rightarrow> metrics" where
  "log_template_infos t m =
     (let template_sigops = sum_u64 (map tmpl_sigops (transactions t))
      in m\<lparr>stat_current_template_transactions := as_i64 (int (length (transactions t))),
           stat_current_template_coinbase_value := as_i64 (int (coinbase_value t)),
           stat_current_template_sigops := as_i64 (int template_sigops)\<rparr>)"

abbreviation upd_metrics :: "(metrics \<Rightarrow> metrics) \<Rightarrow> 'd daemon_state \<Rightarrow> 'd daemon_state" where
  "upd_metrics f ds \<equiv> ds\<lparr>ds_metrics := f (ds_metrics ds)\<rparr>"

definition count_rpc_error :: "'d daemon_state \<Rightarrow> 'd daemon_state" where
  "count_rpc_error ds = upd_metrics (\<lambda>m. m\<lparr>error_rpc := error_rpc m + 1\<rparr>) ds"

definition count_requested_block :: "'d daemon_state \<Rightarrow> 'd daemon_state" where
  "count_requested_block ds =
     upd_metrics (\<lambda>m. m\<lparr>runtime_requested_blocks := runtime_requested_blocks m + 1\<rparr>) ds"

definition push_template :: "block_template \<Rightarrow> block_template list \<Rightarrow> block_template list" where
  "push_template t ts =
     (let ts = ts @ [t] in if MAX_OLD_TEMPLATES < length ts then tl ts else ts)"

text \<open>The block after the remembered templates was skipped: its successor is already there.\<close>

definition process_missed_block ::
  "lib \<Rightarrow> hash_iter \<Rightarrow> 'd pg \<Rightarrow> env \<Rightarrow> block_template \<Rightarrow> block_template \<Rightarrow> 'd daemon_state \<Rightarrow>
     panic + 'd daemon_state" where
  "process_missed_block L H P E previous_template current_template ds =
     (let ds = upd_metrics (\<lambda>m. m\<lparr>runtime_skipped_block_events := runtime_skipped_block_events m + 1\<rparr>) ds
      in case env_block_hash E (tmpl_height previous_template) of
           Inl e \<Rightarrow> Inr ds
         | Inr hash_of_missed_block \<Rightarrow>
             (case env_block E hash_of_missed_block of
                Inl e \<Rightarrow> Inr ds
              | Inr blk \<Rightarrow>
                  let ds = count_requested_block ds
                  in case env_fees E hash_of_missed_block of
                       Inl e \<Rightarrow> Inr (count_rpc_error ds)
                     | Inr block_tx_fees \<Rightarrow>
                         bind_res (process L H P E blk block_tx_fees ds) (\<lambda>ds.
                           Inr (ds\<lparr>last_templates := last_templates ds @ [current_template]\<rparr>))))"

definition process_new_tip ::
  "lib \<Rightarrow> hash_iter \<Rightarrow> 'd pg \<Rightarrow> env \<Rightarrow> block_template \<Rightarrow> block_template \<Rightarrow> 'd daemon_state \<Rightarrow>
     panic + 'd daemon_state" where
  "process_new_tip L H P E previous_template current_template ds =
     (case env_block E (previous_block_hash current_template) of
        Inl e \<Rightarrow> Inr (count_rpc_error ds)
      | Inr blk \<Rightarrow>
          let ds = count_requested_block ds
          in if prev_blockhash (header blk) \<noteq> previous_block_hash previous_template
             then process_missed_block L H P E previous_template current_template ds
             else case env_fees E (previous_block_hash current_template) of
                    Inl e \<Rightarrow> Inr (count_rpc_error ds)
                  | Inr block_tx_fees \<Rightarrow> process L H P E blk block_tx_fees ds)"

definition main_loop_iteration ::
  "lib \<Rightarrow> hash_iter \<Rightarrow> 'd pg \<Rightarrow> env \<Rightarrow> 'd daemon_state \<Rightarrow> panic + 'd daemon_state" where
  "main_loop_iteration L H P E ds =
     (let ds = upd_metrics (\<lambda>m. m\<lparr>runtime_templates_in_memory := as_i64 (int (length (last_templates ds)))\<rparr>) ds
      in case env_template E of
           Inl e \<Rightarrow> Inr (count_rpc_error ds)
         | Inr current_template \<Rightarrow>
             let ds = upd_metrics (\<lambda>m. log_template_infos current_template
                        (m\<lparr>runtime_requested_templates := runtime_requested_templates m + 1\<rparr>)) ds
             in if last_templates ds = [] then Inr (ds\<lparr>last_templates := last_templates ds @ [current_template]\<rparr>)
                else let previous_template = last (last_templates ds)
                     in if previous_block_hash previous_template = previous_block_hash current_template
                        then Inr (ds\<lparr>last_templates := push_template current_template (last_templates ds)\<rparr>)
                        else process_new_tip L H P E previous_template current_template ds)"

section \<open>Runs\<close>

definition initial_state :: "metrics \<Rightarrow> 'd \<Rightarrow> 'd daemon_state" where
  "initial_state m d = \<lparr>last_templates = [], ds_metrics = m, ds_db = d\<rparr>"

inductive daemon_run ::
  "lib \<Rightarrow> hash_iter \<Rightarrow> 'd pg \<Rightarrow> 'd daemon_state \<Rightarrow> env list \<Rightarrow> 'd daemon_state \<Rightarrow> bool"
  for L H P s where
  start: "daemon_run L H P s [] s"
| step: "daemon_run L H P s Es t \<Longrightarrow> main_loop_iteration L H P E t = Inr u \<Longrightarrow> daemon_run L H P s (Es @ [E]) u"

inductive_cases daemon_run_snocE: "daemon_run L H P s (Es @ [E]) u"

text \<open>Consistent answers of the node during one iteration.\<close>

definition template_ok :: "lib \<Rightarrow> block_template \<Rightarrow> bool" where
  "template_ok L t \<longleftrightarrow>
     template_ids_agree L t \<and> from_timestamp L (as_i64 (int (current_time t))) \<noteq> None"

definition block_ok :: "lib \<Rightarrow> block \<Rightarrow> bool" where
  "block_ok L b \<longleftrightarrow> txdata b \<noteq> [] \<and> from_timestamp L (as_i64 (int (header_time (header b)))) \<noteq> None"

definition env_ok :: "lib \<Rightarrow> env \<Rightarrow> bool" where
  "env_ok L E \<longleftrightarrow>
     (\<forall>t. env_template E = Inr t \<longrightarrow> template_ok L t) \<and>
     (\<forall>h b. env_block E h = Inr b \<longrightarrow> block_ok L b) \<and>
     (\<forall>h b fees. env_block E h = Inr b \<and> env_fees E h = Inr fees \<longrightarrow> fees_known L b fees)"

section \<open>Buffer invariants\<close>

lemma push_template_length: "length ts \<le> MAX_OLD_TEMPLATES \<Longrightarrow> length (push_template t ts) \<le> MAX_OLD_TEMPLATES"
  by (auto simp: push_template_def MAX_OLD_TEMPLATES_def Let_def)

lemma push_template_set: "set (push_template t ts) \<subseteq> insert t (set ts)"
  by (cases ts) (auto simp: push_template_def Let_def)

lemma push_template_all: "P t \<Longrightarrow> list_all P ts \<Longrightarrow> list_all P (push_template t ts)"
  using push_template_set [of t ts] by (auto simp: list_all_iff)

lemma push_template_not_Nil: "push_template t ts \<noteq> []"
  by (cases ts) (auto simp: push_template_def Let_def MAX_OLD_TEMPLATES_def)

lemma process_templates_ok:
  assumes "iteration_law H" "txid_order_law L" "env_ok L E" "list_all (template_ok L) (last_templates ds)"
    and "last_templates ds \<noteq> []" "env_block E h = Inr blk" "env_fees E h = Inr fees"
  shows "\<exists>ds'. process L H P E blk fees ds = Inr ds' \<and>
    (last_templates ds' = [] \<or> last_templates ds' = last_templates ds) \<and>
    (db_reliable P \<and> (env_connection E \<or> env_connection_retry E) \<longrightarrow> last_templates ds' = [])"
proof (rule process_total)
  have "block_ok L blk" "fees_known L blk fees" using assms(3,6,7) unfolding env_ok_def by blast+
  then show "node_ok L H blk fees (last_templates ds)" "times_ok L blk (last_templates ds)"
    using assms(1,2,4) by (auto simp: node_ok_def times_ok_def template_ok_def block_ok_def list_all_iff)
qed (fact assms(5))

text \<open>What an iteration does to the remembered templates, on every branch. The block is stored for
  certain when the database accepts all rows and there is a connection.\<close>

abbreviation block_is_stored :: "'d pg \<Rightarrow> env \<Rightarrow> bool" where
  "block_is_stored P E \<equiv> db_reliable P \<and> (env_connection E \<or> env_connection_retry E)"

lemma count_keeps_templates [simp]:
  "last_templates (count_requested_block s) = last_templates s"
  "last_templates (count_rpc_error s) = last_templates s"
  by (simp_all add: count_requested_block_def count_rpc_error_def)

lemma missed_block_templates:
  assumes laws: "iteration_law H" "txid_order_law L" and env: "env_ok L E"
    and ts: "list_all (template_ok L) (last_templates s)" "last_templates s \<noteq> []"
  shows "\<exists>s'. process_missed_block L H P E p t s = Inr s' \<and>
    (last_templates s' = last_templates s \<or> last_templates s' = [t] \<or>
     \<not> block_is_stored P E \<and> last_templates s' = last_templates s @ [t])"
proof -
  let ?s = "count_requested_block (upd_metrics (\<lambda>m. m\<lparr>runtime_skipped_block_events := runtime_skipped_block_events m + 1\<rparr>) s)"
  consider (failed) "(\<exists>e. env_block_hash E (tmpl_height p) = Inl e) \<or>
      (\<exists>h e. env_block_hash E (tmpl_height p) = Inr h \<and> env_block E h = Inl e) \<or>
      (\<exists>h b e. env_block_hash E (tmpl_height p) = Inr h \<and> env_block E h = Inr b \<and> env_fees E h = Inl e)"
    | (answered) h blk fees where "env_block_hash E (tmpl_height p) = Inr h" "env_block E h = Inr blk" "env_fees E h = Inr fees"
    by (metis old.sum.exhaust)
  then show ?thesis
  proof cases
    case failed
    then show ?thesis by (auto simp: process_missed_block_def Let_def)
  next
    case answered
    from process_templates_ok [OF laws env _ _ answered(2,3), of ?s P] ts
    obtain u where "process L H P E blk fees ?s = Inr u" "last_templates u = [] \<or> last_templates u = last_templates s"
      "block_is_stored P E \<longrightarrow> last_templates u = []" by auto
    with answered show ?thesis by (auto simp: process_missed_block_def Let_def)
  qed
qed

lemma new_tip_templates:
  assumes laws: "iteration_law H" "txid_order_law L" and env: "env_ok L E"
    and ts: "list_all (template_ok L) (last_templates s)" "last_templates s \<noteq> []"
  shows "\<exists>s'. process_new_tip L H P E p t s = Inr s' \<and>
    (last_templates s' = last_templates s \<or> last_templates s' = [] \<or> last_templates s' = [t] \<or>
     \<not> block_is_stored P E \<and> last_templates s' = last_templates s @ [t])"
proof (cases "env_block E (previous_block_hash t)")
  case (Inl e)
  then show ?thesis by (simp add: process_new_tip_def)
next
  case blk: (Inr blk)
  let ?s = "count_requested_block s"
  show ?thesis
  proof (cases "prev_blockhash (header blk) \<noteq> previous_block_hash p")
    case True
    with missed_block_templates [OF laws env, of ?s P p t] ts blk show ?thesis by (auto simp: process_new_tip_def)
  next
    case same: False
    show ?thesis
    proof (cases "env_fees E (previous_block_hash t)")
      case (Inr fees)
      from process_templates_ok [OF laws env _ _ blk Inr, of ?s P] ts
      obtain u where "process L H P E blk fees ?s = Inr u"
        "last_templates u = [] \<or> last_templates u = last_templates s" by auto
      with same blk Inr show ?thesis by (auto simp: process_new_tip_def)
    qed (use same blk in \<open>simp add: process_new_tip_def Let_def\<close>)
  qed
qed

lemma iteration_templates:
  assumes laws: "iteration_law H" "txid_order_law L" and env: "env_ok L E"
    and ts: "list_all (template_ok L) (last_templates ds)"
  shows "\<exists>ds'. main_loop_iteration L H P E ds = Inr ds' \<and>
    (last_templates ds' = last_templates ds \<or> last_templates ds' = [] \<or>
     (\<exists>t. env_template E = Inr t \<and>
        (last_templates ds \<noteq> [] \<and> previous_block_hash (last (last_templates ds)) = previous_block_hash t \<and>
           last_templates ds' = push_template t (last_templates ds) \<or>
         last_templates ds' = [t] \<or>
         \<not> block_is_stored P E \<and> last_templates ds' = last_templates ds @ [t])))"
proof (cases "env_template E")
  case (Inl e)
  then show ?thesis by (simp add: main_loop_iteration_def Let_def)
next
  case t: (Inr t)
  let ?s = "upd_metrics (\<lambda>m. log_template_infos t (m\<lparr>runtime_requested_templates := runtime_requested_templates m + 1\<rparr>))
    (upd_metrics (\<lambda>m. m\<lparr>runtime_templates_in_memory := as_i64 (int (length (last_templates ds)))\<rparr>) ds)"
  show ?thesis
  proof (cases "last_templates ds \<noteq> [] \<and> previous_block_hash (last (last_templates ds)) \<noteq> previous_block_hash t")
    case True
    with new_tip_templates [OF laws env, of ?s P "last (last_templates ds)" t] t ts show ?thesis
      by (auto simp: main_loop_iteration_def Let_def)
  next
    case False
    with t show ?thesis by (auto simp: main_loop_iteration_def Let_def)
  qed
qed

definition buffer_inv :: "block_template list \<Rightarrow> bool" where
  "buffer_inv ts \<longleftrightarrow>
     length ts \<le> MAX_OLD_TEMPLATES \<and> (\<exists>h. \<forall>t\<in>set ts. previous_block_hash t = h)"

lemma buffer_inv_push:
  assumes "buffer_inv ts" "ts \<noteq> []" "previous_block_hash (last ts) = previous_block_hash t"
  shows "buffer_inv (push_template t ts)"
proof -
  have "\<forall>u\<in>set (push_template t ts). previous_block_hash u = previous_block_hash t"
    using assms push_template_set [of t ts] last_in_set [OF assms(2)] unfolding buffer_inv_def by (metis insertE subsetD)
  with push_template_length [of ts t] assms(1) show ?thesis unfolding buffer_inv_def by blast
qed

lemma buffer_inv_small: "buffer_inv []" "buffer_inv [t]"
  by (simp_all add: buffer_inv_def MAX_OLD_TEMPLATES_def)

lemma iteration_keeps_ok:
  assumes "iteration_law H" "txid_order_law L" "env_ok L E" "list_all (template_ok L) (last_templates ds)"
    and "main_loop_iteration L H P E ds = Inr ds'"
  shows "list_all (template_ok L) (last_templates ds')"
proof -
  have "env_template E = Inr t \<Longrightarrow> template_ok L t" for t using assms(3) by (simp add: env_ok_def)
  with iteration_templates [OF assms(1-4), of P] assms(4,5) show ?thesis
    by (auto intro: push_template_all)
qed

lemma run_keeps_ok:
  assumes "iteration_law H" "txid_order_law L"
  shows "daemon_run L H P s Es t \<Longrightarrow> last_templates s = [] \<Longrightarrow> list_all (env_ok L) Es \<Longrightarrow>
    list_all (template_ok L) (last_templates t)"
  by (induction rule: daemon_run.induct) (auto dest: iteration_keeps_ok [OF assms])

lemma run_buffer_inv:
  assumes laws: "iteration_law H" "txid_order_law L" and db: "db_reliable P"
  shows "daemon_run L H P s Es t \<Longrightarrow> last_templates s = [] \<Longrightarrow> list_all (env_ok L) Es \<Longrightarrow>
    list_all (\<lambda>E. env_connection E \<or> env_connection_retry E) Es \<Longrightarrow> buffer_inv (last_templates t)"
proof (induction rule: daemon_run.induct)
  case start
  then show ?case by (simp add: buffer_inv_small)
next
  case (step Es t E u)
  then have ok: "list_all (template_ok L) (last_templates t)" "env_ok L E" "env_connection E \<or> env_connection_retry E"
    and inv: "buffer_inv (last_templates t)"
    using run_keeps_ok [OF laws step.hyps(1)] by auto
  from iteration_templates [OF laws ok(2,1), of P] step.hyps(2) db ok(3) inv show ?case
    by (auto simp: buffer_inv_small buffer_inv_push)
qed

section \<open>Properties\<close>

text \<open>C3: Started without templates, and as long as the node's answers are consistent, the main
  loop never panics: every iteration after any run gives a next state, whatever the database and
  the connection pool do.\<close>

theorem main_loop_never_panics:
  assumes "iteration_law H" "txid_order_law L"
    and "daemon_run L H P (initial_state m d) Es s" "list_all (env_ok L) Es" "env_ok L E"
  shows "\<exists>s'. main_loop_iteration L H P E s = Inr s' \<and> daemon_run L H P (initial_state m d) (Es @ [E]) s'"
proof -
  have "list_all (template_ok L) (last_templates s)"
    using run_keeps_ok [OF assms(1-3) _ assms(4)] by (simp add: initial_state_def)
  from iteration_templates [OF assms(1,2,5) this, of P] daemon_run.step [OF assms(3), of E] show ?thesis by blast
qed

theorem main_loop_never_panics_witness:
  "\<exists>s'. main_loop_iteration sample_lib sample_iter mem_pg
       (sample_env\<lparr>env_template := Inr (sample_template [(7, 3, 1)])\<rparr>) (initial_state sample_metrics mem_empty) = Inr s' \<and>
     daemon_run sample_lib sample_iter mem_pg (initial_state sample_metrics mem_empty)
       [sample_env\<lparr>env_template := Inr (sample_template [(7, 3, 1)])\<rparr>] s'"
proof -
  let ?E = "sample_env\<lparr>env_template := Inr (sample_template [(7, 3, 1)])\<rparr>"
  have "env_ok sample_lib ?E"
    using sample_node_ok sample_times_ok
    by (simp add: env_ok_def sample_env_def template_ok_def node_ok_def times_ok_def)
  with main_loop_never_panics [OF sample_iteration_law sample_txid_order_law daemon_run.start, of ?E mem_pg sample_metrics mem_empty]
  show ?thesis by simp
qed



text \<open>C37: When a block was skipped and the processing of the missed block keeps the templates (here:
  no database connection), the current template is appended without dropping an old one, so the
  bound on the number of remembered templates does not hold then.\<close>

theorem missed_block_push_is_uncapped:
  assumes "iteration_law H" "txid_order_law L" "env_ok L E" "list_all (template_ok L) (last_templates ds)"
    and "env_template E = Inr t" "last_templates ds \<noteq> []" "p = last (last_templates ds)"
    and "previous_block_hash p \<noteq> previous_block_hash t"
    and "env_block E (previous_block_hash t) = Inr blk" "prev_blockhash (header blk) \<noteq> previous_block_hash p"
    and "env_block_hash E (tmpl_height p) = Inr h" "env_block E h = Inr missed" "env_fees E h = Inr fees"
    and "\<not> env_connection E" "\<not> env_connection_retry E"
  shows "\<exists>ds'. main_loop_iteration L H P E ds = Inr ds' \<and> last_templates ds' = last_templates ds @ [t]"
proof -
  have "node_ok L H missed fees (last_templates ds)"
    using assms(1-4,12,13) by (auto simp: node_ok_def template_ok_def env_ok_def list_all_iff)
  from compare_block_ok [OF this assms(6)] obtain c
    where c: "compare_block L H missed fees (last_templates ds) = Inr c" by blast
  have "process L H P E missed fees s = Inr (s\<lparr>ds_metrics := snd (get_connection E (ds_metrics s))\<rparr>)"
    if "last_templates s = last_templates ds" for s :: "'a daemon_state"
    using c assms(14,15) that by (simp add: process_def get_connection_def Let_def)
  with assms(5-13) show ?thesis
    by (simp add: main_loop_iteration_def process_new_tip_def process_missed_block_def Let_def
        count_requested_block_def)
qed

theorem missed_block_push_is_uncapped_witness:
  "\<exists>ds'. main_loop_iteration sample_lib sample_iter mem_pg
      (sample_env\<lparr>env_template := Inr ((sample_template [])\<lparr>previous_block_hash := [11]\<rparr>),
        env_block := (\<lambda>h. Inr (sample_blk\<lparr>header := (header sample_blk)\<lparr>prev_blockhash := [10]\<rparr>\<rparr>)),
        env_block_hash := (\<lambda>h. Inr [10]), env_fees := (\<lambda>h. Inr (sample_fees [1, 8])),
        env_connection := False, env_connection_retry := False\<rparr>)
      (sample_state (replicate 15 (sample_template [(7, 3, 1)]))) = Inr ds' \<and> length (last_templates ds') = 16"
proof -
  let ?t = "(sample_template [])\<lparr>previous_block_hash := [11]\<rparr>"
  let ?b = "sample_blk\<lparr>header := (header sample_blk)\<lparr>prev_blockhash := [10]\<rparr>\<rparr>"
  let ?E = "sample_env\<lparr>env_template := Inr ?t, env_block := (\<lambda>h. Inr ?b), env_block_hash := (\<lambda>h. Inr [10]),
    env_fees := (\<lambda>h. Inr (sample_fees [1, 8])), env_connection := False, env_connection_retry := False\<rparr>"
  let ?ts = "replicate 15 (sample_template [(7, 3, 1)])"
  let ?ds = "sample_state ?ts"
  have tmpl1: "template_ok sample_lib (sample_template [(7, 3, 1)])"
    using sample_node_ok sample_times_ok by (simp add: template_ok_def node_ok_def times_ok_def)
  have "current_time ?t = current_time (sample_template [(7, 3, 1)])" "transactions ?t = []"
    by (simp_all add: sample_template_def)
  then have tmpl2: "template_ok sample_lib ?t"
    using tmpl1 by (simp add: template_ok_def template_ids_agree_def)
  have "block_ok sample_lib ?b" "fees_known sample_lib ?b (sample_fees [1, 8])"
    using sample_node_ok sample_times_ok by (simp_all add: block_ok_def times_ok_def node_ok_def fees_known_def)
  then have env: "env_ok sample_lib ?E" using tmpl2 by (simp add: env_ok_def)
  have ts: "list_all (template_ok sample_lib) (last_templates ?ds)"
    using tmpl1 by (simp add: sample_state_def list_all_iff)
  have last: "last (last_templates ?ds) = sample_template [(7, 3, 1)]"
    by (simp add: sample_state_def last_replicate)
  have "\<exists>ds'. main_loop_iteration sample_lib sample_iter mem_pg ?E ?ds = Inr ds' \<and> last_templates ds' = last_templates ?ds @ [?t]"
    by (rule missed_block_push_is_uncapped [OF sample_iteration_law sample_txid_order_law env ts _ _ refl,
          where blk = ?b and missed = ?b and h = "[10]" and fees = "sample_fees [1, 8]"])
      (simp_all add: last, simp_all add: sample_state_def sample_template_def)
  then show ?thesis by (auto simp: sample_state_def)
qed

end
