(* ===== verification/Startup.thy ===== *)
theory Startup
  imports Metric_Server Main_Loop
begin

text \<open>
  The start-up of the daemon (\<^verbatim>\<open>main\<close> and \<^verbatim>\<open>startup_db_mirgation\<close> of \<^verbatim>\<open>daemon/src/main.rs\<close>): every
  failing step ends the program with a panic, in the order of the source. The answers of the
  logger, of the RPC clients, of the connection pools and of the HTTP requests are the record
  \<open>startup_env\<close>; where the source asks the same service several times, the answers are indexed by
  the call. The value of a successful start-up is what \<^verbatim>\<open>main_loop\<close> receives, with the background
  tasks that were started; their effects are those of the theory \<open>Background_Tasks\<close>.
\<close>

record startup_env =
  se_host :: host
  se_logger_error :: "string option"
  se_rpc_client_error :: "nat \<Rightarrow> string option"
  se_blockchain_info :: "rpc_error + unit"
  se_new_pool_error :: "nat \<Rightarrow> string option"
  se_metric_server_error :: "string \<Rightarrow> io_error option"
  se_connection_error :: "nat \<Rightarrow> string option"
  se_address_parses :: "string \<Rightarrow> bool"
  se_http_get :: "string \<Rightarrow> minreq_error + http_response"
  se_parse_json :: "string \<Rightarrow> serde_error + pool list"
  se_default_pools :: "serde_error + pool list"
  se_read_cookie :: "string \<Rightarrow> auth_error + string"
  se_url_valid :: "string \<Rightarrow> bool"
  se_network_info :: "rpc_error + string"

datatype task =
    AddressUpdates string
  | PoolUpdates string
  | UtxoSetScans
  | RetryUnknownPools network
  | Retagging

record 'd started =
  st_config :: DaemonConfig
  st_pools :: "pool list"
  st_tasks :: "task list"
  st_db :: "'d"

text \<open>A step that panics with a message unless it has no error.\<close>

definition no_error :: "'e option \<Rightarrow> string \<Rightarrow> panic + unit" where
  "no_error e msg = (case e of None \<Rightarrow> Inr () | Some x \<Rightarrow> Inl (ExpectFailed msg))"

definition or_panic :: "'e + 'a \<Rightarrow> string \<Rightarrow> panic + 'a" where
  "or_panic r msg = (case r of Inl e \<Rightarrow> Inl (ExpectFailed msg) | Inr a \<Rightarrow> Inr a)"

lemma no_error_Inr [res_simps]: "no_error e msg = Inr u \<longleftrightarrow> e = None"
  by (simp add: no_error_def split: option.splits)

lemma or_panic_Inr [res_simps]: "or_panic r msg = Inr a \<longleftrightarrow> r = Inr a"
  by (simp add: or_panic_def split: sum.splits)

definition startup_db_mirgation :: "'d pg \<Rightarrow> string option \<Rightarrow> 'd \<Rightarrow> panic + 'd" where
  "startup_db_mirgation P connection_error d =
     bind_res (no_error connection_error
       ''During startup: Could not get a database connection from the connection pool.'') (\<lambda>u.
     case run_migrations P d of
       (Inr v, d) \<Rightarrow> Inr d
     | (Inl e, d) \<Rightarrow> Inl (ExpectFailed ''During startup: Could not run the PostgreSQL database migration.''))"

definition start_sanctioned_addresses_updater_thread ::
  "'d pg \<Rightarrow> startup_env \<Rightarrow> string \<Rightarrow> 'd \<Rightarrow> UpdateSanctionedAddressesError + (task \<times> 'd)" where
  "start_sanctioned_addresses_updater_thread P E url d =
     (case update_sanctioned_addresses (se_address_parses E) (se_http_get E) (se_connection_error E 1) P url d of
        (Inl e, d) \<Rightarrow> Inl e
      | (Inr u, d) \<Rightarrow> Inr (AddressUpdates url, d))"

text \<open>\<^verbatim>\<open>replace('/', "")\<close> and \<^verbatim>\<open>replace(':', " ")\<close>.\<close>

definition node_version :: "string \<Rightarrow> string" where
  "node_version subversion =
     map (\<lambda>c. if c = CHR '':'' then CHR '' '' else c) (filter (\<lambda>c. c \<noteq> CHR ''/'') subversion)"

definition store_node_version :: "'d pg \<Rightarrow> startup_env \<Rightarrow> 'd \<Rightarrow> panic + 'd" where
  "store_node_version P E d =
     bind_res (or_panic (se_network_info E) ''Could not connect to the Bitcoin Core RPC server.'') (\<lambda>subversion.
     bind_res (no_error (se_connection_error E 2)
       ''During startup: Could not get a database connection from the connection pool.'') (\<lambda>u.
     case update_node_info P (node_version subversion) d of
       (Inr v, d) \<Rightarrow> Inr d
     | (Inl e, d) \<Rightarrow>
         Inl (ExpectFailed ''During startup: Could not update the node information in the database.'')))"

definition start_retagging :: "startup_env \<Rightarrow> DaemonConfig \<Rightarrow> panic + task list" where
  "start_retagging E config =
     (if retag_transactions_enabled config
      then bind_res (no_error (se_new_pool_error E 3)
             ''During startup: Could not create a Postgres connection pool'') (\<lambda>u.
           bind_res (no_error (se_rpc_client_error E 2)
             ''During startup: Could not setup the Bitcoin Core RPC client'') (\<lambda>u. Inr [Retagging]))
      else Inr [])"

definition startup :: "'d pg \<Rightarrow> startup_env \<Rightarrow> 'd \<Rightarrow> panic + 'd started" where
  "startup P E d =
     bind_res (or_panic (load_daemon_config (se_host E)) ''Could not load the configuration'') (\<lambda>config.
     bind_res (no_error (se_logger_error E) ''Could not setup logger'') (\<lambda>u.
     bind_res (no_error (se_rpc_client_error E 0) ''Could not setup the Bitcoin Core RPC client'') (\<lambda>u.
     bind_res (or_panic (se_blockchain_info E) ''Could not connect to the Bitcoin Core RPC server.'') (\<lambda>u.
     bind_res (no_error (se_new_pool_error E 0) ''Could not create a Postgres connection pool'') (\<lambda>u.
     bind_res (if prom_enable (prometheus config)
               then no_error (se_metric_server_error E (prom_address (prometheus config)))
                      ''Could not start the Prometheus Metrics Server.''
               else Inr ()) (\<lambda>u.
     bind_res (startup_db_mirgation P (se_connection_error E 0) d) (\<lambda>d.
     bind_res (or_panic (start_sanctioned_addresses_updater_thread P E (sanctioned_addresses_url config) d)
       ''During startup: Could not update the sanctioned address list'') (\<lambda>(address_task, d).
     bind_res (no_error (se_new_pool_error E 1) ''During startup: Could not create a Postgres connection pool'') (\<lambda>u.
     bind_res (or_panic (get_user_pass (se_read_cookie E) (rpc_auth config))
       ''During startup: Could not extract the Bitcoin Core RPC credentials'') (\<lambda>(user, pass).
     bind_res (or_panic (se_default_pools E) ''the default pool dataset should be parseable'') (\<lambda>default_pools.
     let url = pi_dataset_url (pool_identification config);
         pools = update_pools (se_parse_json E) (se_http_get E) url default_pools
     in bind_res (if se_url_valid E (rpc_url config) then Inr () else Inl (ExpectFailed ''invalid rpc url'')) (\<lambda>u.
        bind_res (if user = None then Inl (ExpectFailed ''rpc user is empty'') else Inr ()) (\<lambda>u.
        bind_res (no_error (se_new_pool_error E 2) ''During startup: Could not create a Postgres connection pool'') (\<lambda>u.
        bind_res (no_error (se_rpc_client_error E 1) ''During startup: Could not setup the Bitcoin Core RPC client'') (\<lambda>u.
        bind_res (store_node_version P E d) (\<lambda>d.
        bind_res (start_retagging E config) (\<lambda>retagging.
          Inr \<lparr>st_config = config, st_pools = pools,
               st_tasks = [address_task, PoolUpdates url, UtxoSetScans,
                 RetryUnknownPools (pi_network (pool_identification config))] @ retagging,
               st_db = d\<rparr>)))))))))))))))))"

section \<open>Facts\<close>

text \<open>Writing the version does not touch the addresses.\<close>

definition version_law :: "'d pg \<Rightarrow> ('d \<Rightarrow> sanctioned_address list) \<Rightarrow> ('d \<Rightarrow> string) \<Rightarrow> bool" where
  "version_law P rows version \<longleftrightarrow>
     (\<forall>v d d'. pg_update_node_version P v d = (Inr (), d') \<longrightarrow> rows d' = rows d \<and> version d' = v)"

lemma mem_version_law: "version_law mem_pg mem_addresses mem_version"
  by (simp add: version_law_def mem_pg_def)

lemma store_node_version_Inr:
  assumes "store_node_version P E d = Inr d'"
  obtains subversion where "se_network_info E = Inr subversion" "update_node_info P (node_version subversion) d = (Inr (), d')"
proof -
  from assms obtain subversion where sub: "se_network_info E = Inr subversion" "se_connection_error E 2 = None"
    by (auto simp: store_node_version_def res_simps)
  obtain r d2 where "update_node_info P (node_version subversion) d = (r, d2)" by fastforce
  with assms sub that show ?thesis by (cases r) (auto simp: store_node_version_def or_panic_def no_error_def)
qed

lemma start_addresses_Inr:
  assumes "start_sanctioned_addresses_updater_thread P E url d = Inr (t, d')"
  shows "t = AddressUpdates url"
    "update_sanctioned_addresses (se_address_parses E) (se_http_get E) (se_connection_error E 1) P url d = (Inr (), d')"
  using assms by (auto simp: start_sanctioned_addresses_updater_thread_def split: prod.splits sum.splits)

lemma startup_Inr:
  assumes "startup P E d = Inr s"
  obtains d1 d2 where "load_daemon_config (se_host E) = Inr (st_config s)"
    "startup_db_mirgation P (se_connection_error E 0) d = Inr d1"
    "start_sanctioned_addresses_updater_thread P E (sanctioned_addresses_url (st_config s)) d1 =
       Inr (AddressUpdates (sanctioned_addresses_url (st_config s)), d2)"
    "store_node_version P E d2 = Inr (st_db s)"
    "Retagging \<in> set (st_tasks s) \<longleftrightarrow> retag_transactions_enabled (st_config s)"
proof -
  have retag: "Retagging \<in> set ts \<longleftrightarrow> retag_transactions_enabled c" if "start_retagging E c = Inr ts" for c ts
    using that by (auto simp: start_retagging_def res_simps split: if_splits)
  from assms show ?thesis
    unfolding startup_def Let_def
    by (clarsimp simp: res_simps) (frule start_addresses_Inr(1), drule retag, rule that, simp_all)
qed

section \<open>Properties\<close>

text \<open>C20: The main loop only starts on a prepared database: after a successful start-up the table of
  sanctioned addresses holds exactly the addresses that the configured list publishes, the version
  of the node is stored without slashes and colons, and transactions are retagged if and only if
  the configuration asks for it.\<close>

theorem startup_prepares_database:
  assumes "transaction_law P" "address_table_law P rows" "version_law P rows version" "startup P E d = Inr s"
  shows "\<exists>response body subversion.
    se_http_get E (sanctioned_addresses_url (st_config s)) = Inr response \<and> as_str response = Inr body \<and>
    mset (rows (st_db s)) = mset (map (\<lambda>a. \<lparr>sa_address = a\<rparr>) (filter (se_address_parses E) (rust_lines body))) \<and>
    se_network_info E = Inr subversion \<and> version (st_db s) = node_version subversion \<and>
    set (version (st_db s)) \<inter> {CHR ''/'', CHR '':''} = {} \<and>
    (Retagging \<in> set (st_tasks s) \<longleftrightarrow> retag_transactions_enabled (st_config s))"
proof -
  obtain d1 d2 where addr: "start_sanctioned_addresses_updater_thread P E (sanctioned_addresses_url (st_config s)) d1 =
       Inr (AddressUpdates (sanctioned_addresses_url (st_config s)), d2)"
    and ver: "store_node_version P E d2 = Inr (st_db s)"
    and retag: "Retagging \<in> set (st_tasks s) \<longleftrightarrow> retag_transactions_enabled (st_config s)"
    using assms(4) by (rule startup_Inr)
  obtain subversion where sub: "se_network_info E = Inr subversion"
    "update_node_info P (node_version subversion) d2 = (Inr (), st_db s)" using ver by (rule store_node_version_Inr)
  from assms(3) sub(2) have same: "rows (st_db s) = rows d2" "version (st_db s) = node_version subversion"
    by (auto simp: version_law_def update_node_info_def)
  from update_sanctioned_addresses_result [OF assms(1,2) start_addresses_Inr(2) [OF addr]]
  obtain response body where "se_http_get E (sanctioned_addresses_url (st_config s)) = Inr response" "as_str response = Inr body"
    "mset (rows d2) = mset (map (\<lambda>a. \<lparr>sa_address = a\<rparr>) (filter (se_address_parses E) (rust_lines body)))" by auto
  with sub(1) same retag show ?thesis by (auto simp: node_version_def)
qed

definition sample_startup :: startup_env where
  "sample_startup =
     \<lparr>se_host = sample_host, se_logger_error = None, se_rpc_client_error = (\<lambda>i. None), se_blockchain_info = Inr (),
      se_new_pool_error = (\<lambda>i. None), se_metric_server_error = (\<lambda>a. None), se_connection_error = (\<lambda>i. None),
      se_address_parses = (\<lambda>a. a \<noteq> ''junk''),
      se_http_get = (\<lambda>url. Inr \<lparr>status_code = 200, reason_phrase = ''OK'', as_str = Inr (''a'' @ [CHR 0x0A] @ ''junk'')\<rparr>),
      se_parse_json = (\<lambda>s. Inl (SerdeError ''eof'')), se_default_pools = Inr [],
      se_read_cookie = (\<lambda>p. Inl InvalidCookieFile), se_url_valid = (\<lambda>u. True),
      se_network_info = Inr ''/Satoshi:25.0.0/''\<rparr>"

theorem startup_prepares_database_witness:
  "\<exists>s. startup mem_pg sample_startup mem_empty = Inr s \<and> mset (mem_addresses (st_db s)) = {#\<lparr>sa_address = ''a''\<rparr>#} \<and>
     mem_version (st_db s) = ''Satoshi 25.0.0''"
proof -
  obtain c where c: "load_daemon_config sample_host = Inr c" "rpc_auth c = UserPass ''u'' ''p''"
    "\<not> prom_enable (prometheus c)" "\<not> retag_transactions_enabled c"
    using default_pool_identification_ok [OF sample_network_name_law]
    by (simp add: load_daemon_config_def rpc_auth_of_def Let_def) (simp add: sample_host_def)
  then obtain s where s: "startup mem_pg sample_startup mem_empty = Inr s"
    by (simp add: startup_def sample_startup_def or_panic_def no_error_def startup_db_mirgation_def run_migrations_def
        start_sanctioned_addresses_updater_thread_def update_sanctioned_addresses_def replace_sanctioned_addresses_def
        mem_pg_def db_bind_def get_user_pass_def store_node_version_def update_node_info_def start_retagging_def Let_def)
  from startup_prepares_database [OF mem_transaction_law mem_address_table_law mem_version_law s] s show ?thesis
    by (auto simp: sample_startup_def rust_lines_def strip_cr_def node_version_def)
qed

end
