(* ===== verification/Web_Model.thy ===== *)
theory Web_Model
  imports Config Daemon_Db
begin

text \<open>
  The data of the web front end (\<^verbatim>\<open>web/src/model.rs\<close>) and the read access to the database. A
  connection is the record \<open>web_conn\<close>: the rows of every table in the order in which the server
  delivers them, which is arbitrary, and for every statement, by name, whether it fails. The SQL
  clauses of the source are functions on lists of rows; rows that an \<^verbatim>\<open>ORDER BY\<close> does not order
  keep the order of the server. Text is ordered by the collation of the database.
\<close>

section \<open>Rows for the pages\<close>

record MissingTransactionBlockInfo =
  mtb_hash :: bytes
  mtb_time :: datetime
  mtb_height :: int
  mtb_pool :: string
  mtb_template_position :: int
  mtb_mempool_age :: int
  mtb_template_tx_count :: int
  mtb_last_block_pkg_feerate :: fp

record MissingTransaction =
  mt_transaction :: db_transaction
  mt_blocks :: "MissingTransactionBlockInfo list"

record AvgPoolFees =
  apf_pool_name :: string
  apf_count :: int
  apf_median :: fp
  apf_q1 :: fp
  apf_q3 :: fp

record MissingSanctionedTransaction =
  mst_transaction :: db_transaction
  mst_missing_info :: transaction_only_in_template
  mst_addresses :: "string list"

record PoolSanctionedTableEntry =
  pst_pool_name :: string
  pst_in_both :: int
  pst_only_in_block :: int
  pst_only_in_template :: int

record ConflictingOutpoint =
  cop_txid :: bytes
  cop_vout :: int

record ConflictingTransactionSet =
  cts_template_transactions :: "db_transaction list"
  cts_block_transactions :: "db_transaction list"
  cts_conflicting_outpoints :: "ConflictingOutpoint list"

record ConflictingTranscationInfo =
  cti_block :: db_block
  cti_conflicting_transaction_sets :: "ConflictingTransactionSet list"

record DebugTemplateSelectionInfosAndBlock =
  dsb_block :: db_block
  dsb_infos :: "debug_template_selection_info list"

record BlockWithTx =
  bwt_block :: db_block
  bwt_only_in_template :: "(transaction_only_in_template \<times> db_transaction) list"
  bwt_only_in_block :: "(transaction_only_in_block \<times> db_transaction) list"

section \<open>Connections\<close>

record web_conn =
  w_blocks :: "db_block list"
  w_transactions :: "db_transaction list"
  w_only_in_template :: "transaction_only_in_template list"
  w_only_in_block :: "transaction_only_in_block list"
  w_sanctioned_infos :: "sanctioned_transaction_info list"
  w_conflicting :: "conflicting_transaction list"
  w_scan_infos :: "sanctioned_utxo_scan_info list"
  w_debug :: "debug_template_selection_info list"
  w_addresses :: "sanctioned_address list"
  w_versions :: "string list"
  w_collation :: "string \<Rightarrow> nat"
  w_error :: "string \<Rightarrow> db_error option"

text \<open>A query function of the source ends with a database error or, at an \<^verbatim>\<open>unwrap\<close>, with a panic.\<close>

datatype web_failure = DbFailed db_error | Panicked panic

type_synonym 'a query = "web_failure + 'a"

definition sql_load :: "web_conn \<Rightarrow> string \<Rightarrow> 'a list \<Rightarrow> 'a list query" where
  "sql_load W name rows = (case w_error W name of Some e \<Rightarrow> Inl (DbFailed e) | None \<Rightarrow> Inr rows)"

definition sql_first :: "web_conn \<Rightarrow> string \<Rightarrow> 'a list \<Rightarrow> 'a query" where
  "sql_first W name rows =
     bind_res (sql_load W name rows) (\<lambda>rows. case rows of [] \<Rightarrow> Inl (DbFailed NotFound) | r # rs \<Rightarrow> Inr r)"

definition sql_count :: "web_conn \<Rightarrow> string \<Rightarrow> 'a list \<Rightarrow> int query" where
  "sql_count W name rows = bind_res (sql_load W name rows) (\<lambda>rows. Inr (int (length rows)))"

definition order_desc :: "('a \<Rightarrow> int) \<Rightarrow> 'a list \<Rightarrow> 'a list" where
  "order_desc k xs = sort_key (\<lambda>x. - k x) xs"

definition limit_offset :: "int \<Rightarrow> int \<Rightarrow> 'a list \<Rightarrow> 'a list" where
  "limit_offset limit offset xs = take (nat limit) (drop (nat offset) xs)"

text \<open>The tables are readable when no statement fails.\<close>

definition readable :: "web_conn \<Rightarrow> bool" where
  "readable W \<longleftrightarrow> (\<forall>name. w_error W name = None)"

lemma sql_load_readable [simp]: "readable W \<Longrightarrow> sql_load W name rows = Inr rows"
  by (simp add: readable_def sql_load_def)

lemma sql_count_readable [simp]: "readable W \<Longrightarrow> sql_count W name rows = Inr (int (length rows))"
  by (simp add: sql_count_def)

lemma sql_first_readable [simp]: "readable W \<Longrightarrow> sql_first W name (r # rs) = Inr r"
  by (simp add: sql_first_def)

section \<open>Fallible maps\<close>

fun map_res :: "('a \<Rightarrow> 'e + 'b) \<Rightarrow> 'a list \<Rightarrow> 'e + 'b list" where
  "map_res f [] = Inr []"
| "map_res f (x # xs) = bind_res (f x) (\<lambda>y. bind_res (map_res f xs) (\<lambda>ys. Inr (y # ys)))"

lemma map_res_ok: "(\<And>x. x \<in> set xs \<Longrightarrow> f x = Inr (g x)) \<Longrightarrow> map_res f xs = Inr (map g xs)"
  by (induction xs) auto

lemma map_res_Inr: "map_res f xs = Inr ys \<longleftrightarrow> length xs = length ys \<and> (\<forall>i < length xs. f (xs ! i) = Inr (ys ! i))"
proof (induction xs arbitrary: ys)
  case (Cons x xs)
  then show ?case by (cases ys) (auto simp: res_simps nth_Cons split: nat.splits)
qed auto

lemma map_res_total: "(\<And>x. x \<in> set xs \<Longrightarrow> \<exists>y. f x = Inr y \<and> P x y) \<Longrightarrow> \<exists>ys. map_res f xs = Inr ys \<and> list_all2 P xs ys"
proof (induction xs)
  case (Cons x xs)
  then obtain ys where ys: "map_res f xs = Inr ys" "list_all2 P xs ys" by auto
  from Cons.prems [of x] obtain y where "f x = Inr y" "P x y" by auto
  with ys show ?case by auto
qed simp

lemma list_all2_origin: "list_all2 P xs ys \<Longrightarrow> y \<in> set ys \<Longrightarrow> \<exists>x\<in>set xs. P x y"
  by (metis in_set_conv_nth list_all2_conv_all_nth)

section \<open>Order and pages\<close>

lemma order_desc_perm [simp]: "mset (order_desc k xs) = mset xs" "set (order_desc k xs) = set xs"
  "length (order_desc k xs) = length xs" "distinct (order_desc k xs) = distinct xs"
  by (simp_all add: order_desc_def)

lemma order_desc_sorted: "sorted_wrt (\<lambda>a b. k b \<le> k a) (order_desc k xs)"
  using sorted_sort_key [of "\<lambda>x. - k x" xs] by (simp add: order_desc_def sorted_map)

text \<open>With distinct keys the order does not depend on the order of the server.\<close>

lemma order_desc_unique:
  assumes "mset xs = mset ys" "inj_on k (set xs)"
  shows "order_desc k xs = order_desc k ys"
proof -
  let ?f = "\<lambda>x. - k x"
  have "mset (map ?f (order_desc k xs)) = mset (map ?f (order_desc k ys))" using assms(1) by simp
  then have "map ?f (order_desc k xs) = map ?f (order_desc k ys)"
    by (metis order_desc_def properties_for_sort sorted_sort_key)
  moreover have "set xs = set ys" using assms(1) by (metis set_mset_mset)
  ultimately show ?thesis
    using assms(2) by (intro map_inj_on [of ?f]) (auto simp: inj_on_def)
qed

text \<open>All pages together are the whole list.\<close>

lemma concat_pages:
  assumes "0 < n" "length xs \<le> n * p"
  shows "concat (map (\<lambda>i. take n (drop (n * i) xs)) [0..<p]) = xs"
proof -
  have "concat (map (\<lambda>i. take n (drop (n * i) xs)) [0..<q]) = take (n * q) xs" for q
  proof (induction q)
    case (Suc q)
    have "n * Suc q = n * q + n" by simp
    with Suc show ?case by (simp only: take_add upt_Suc_append map_append concat_append) simp
  qed simp
  with assms(2) show ?thesis by simp
qed

section \<open>A sample database\<close>

definition sample_db_block :: "byte \<Rightarrow> int \<Rightarrow> db_block" where
  "sample_db_block h i =
     \<lparr>nb_hash = [h], nb_prev_hash = [h - 1], nb_height = 800000 + i, nb_tags = [], nb_missing_tx = 0, nb_extra_tx = 0,
      nb_shared_tx = 2, nb_sanctioned_missing_tx = 0, nb_equality = Fin 1, nb_block_time = 1700000000 + 600 * i,
      nb_block_seen_time = 1700000000 + 600 * i, nb_block_tx = 3, nb_block_sanctioned = 0, nb_block_cb_value = 5000,
      nb_block_cb_fees = 500, nb_block_weight = 3000, nb_block_pkg_weights = [1000], nb_block_pkg_feerates = [Fin 2],
      nb_pool_name = ''Pool'', nb_pool_link = '''', nb_pool_id_method = '''', nb_template_tx = 4,
      nb_template_time = 1700000000 + 600 * i, nb_template_sanctioned = 0, nb_template_cb_value = 5000,
      nb_template_cb_fees = 500, nb_template_weight = 3000, nb_template_pkg_weights = [1000],
      nb_template_pkg_feerates = [Fin 2], nb_template_sigops = 8, nb_block_sigops = 8, b_id = i\<rparr>"

text \<open>Three blocks; the transaction \<open>[7]\<close> is missing from all of them, and in the second one the
  transactions \<open>[7]\<close> and \<open>[8]\<close> are in conflict.\<close>

definition sample_web :: web_conn where
  "sample_web =
     \<lparr>w_blocks = [sample_db_block 21 1, sample_db_block 22 2, sample_db_block 23 3],
      w_transactions = [sample_row 7 [], sample_row 8 []],
      w_only_in_template = map (\<lambda>i. \<lparr>oit_block_id = i, oit_position = 1, oit_mempool_age_seconds = 600 * i, oit_txid = [7]\<rparr>) [1, 2, 3],
      w_only_in_block = [\<lparr>oib_block_id = 2, oib_position = 1, oib_txid = [8]\<rparr>],
      w_sanctioned_infos = [],
      w_conflicting = [\<lparr>ct_block_id = 2, ct_template_txids = [[7]], ct_block_txids = [[8]],
        ct_outpoints_txids = [[1]], ct_outpoints_vouts = [0]\<rparr>],
      w_scan_infos = [], w_debug = [], w_addresses = [], w_versions = [''260000''],
      w_collation = length, w_error = (\<lambda>name. None)\<rparr>"

lemma sample_web_readable: "readable sample_web"
  by (simp add: readable_def sample_web_def)

end
