(* ===== verification/Web_Db.thy ===== *)
theory Web_Db
  imports Web_Model
begin

text \<open>
  The queries of the web front end (\<^verbatim>\<open>web/src/db.rs\<close>) over a connection of the theory \<open>Web_Model\<close>.
  Joins are comprehensions over the rows; \<^verbatim>\<open>eq_any\<close> is membership; \<^verbatim>\<open>GROUP BY\<close> is the list of the
  distinct keys. Page counts are computed in \<^verbatim>\<open>f32\<close>, as in the source. The three
  raw SQL queries of the source are translated clause by clause.
\<close>

section \<open>Pages of blocks\<close>

definition MAX_BLOCKS_PER_PAGE :: int where "MAX_BLOCKS_PER_PAGE = 25"
definition MAX_UTXOSET_SCANS_PER_PAGE :: int where "MAX_UTXOSET_SCANS_PER_PAGE = 100"

text \<open>\<^verbatim>\<open>ceil() as u32\<close>: the cast saturates.\<close>

fun ceil_as_u32 :: "fp \<Rightarrow> nat" where
  "ceil_as_u32 (Fin x) = min (nat \<lceil>x\<rceil>) (2 ^ 32 - 1)"
| "ceil_as_u32 Inf = 2 ^ 32 - 1"
| "ceil_as_u32 NaN = 0"

definition max_pages_of :: "int \<Rightarrow> int \<Rightarrow> nat" where
  "max_pages_of rows_count per_page =
     ceil_as_u32 (fp_div f32_prec (u64_as_fp f32_prec (nat rows_count)) (u64_as_fp f32_prec (nat per_page)))"

definition blocks :: "web_conn \<Rightarrow> nat \<Rightarrow> (db_block list \<times> nat) query" where
  "blocks W page =
     bind_res (sql_load W ''blocks'' (limit_offset MAX_BLOCKS_PER_PAGE (MAX_BLOCKS_PER_PAGE * int page)
       (order_desc nb_block_time (w_blocks W)))) (\<lambda>bs.
     bind_res (sql_count W ''blocks count'' (w_blocks W)) (\<lambda>blocks_count.
       Inr (bs, max_pages_of blocks_count MAX_BLOCKS_PER_PAGE)))"

definition blocks_by_pool :: "web_conn \<Rightarrow> nat \<Rightarrow> string \<Rightarrow> (db_block list \<times> nat) query" where
  "blocks_by_pool W page pool =
     bind_res (sql_load W ''blocks_by_pool'' (limit_offset MAX_BLOCKS_PER_PAGE (MAX_BLOCKS_PER_PAGE * int page)
       (order_desc nb_block_time (filter (\<lambda>b. nb_pool_name b = pool) (w_blocks W))))) (\<lambda>bs.
     bind_res (sql_count W ''blocks_by_pool count'' (filter (\<lambda>b. nb_pool_name b = pool) (w_blocks W))) (\<lambda>blocks_count.
       Inr (bs, max_pages_of blocks_count MAX_BLOCKS_PER_PAGE)))"

definition pools :: "web_conn \<Rightarrow> string list query" where
  "pools W = sql_load W ''pools'' (sort_key (w_collation W) (remdups (map nb_pool_name (w_blocks W))))"

definition block_by_hash :: "bytes \<Rightarrow> web_conn \<Rightarrow> db_block query" where
  "block_by_hash block_hash W = sql_first W ''block'' (filter (\<lambda>b. nb_hash b = block_hash) (w_blocks W))"

definition web_unknown_pool_blocks :: "web_conn \<Rightarrow> db_block list query" where
  "web_unknown_pool_blocks W =
     sql_load W ''unknown_pool_blocks'' (order_desc nb_block_time (filter (\<lambda>b. nb_pool_name b = ''Unknown'') (w_blocks W)))"

definition transaction_only_in_template_by_block_id ::
  "int \<Rightarrow> web_conn \<Rightarrow> (transaction_only_in_template \<times> db_transaction) list query" where
  "transaction_only_in_template_by_block_id p_block_id W =
     sql_load W ''transaction_only_in_template_by_block_id''
       (sort_key (\<lambda>(row, t). oit_position row)
          [(row, t). row \<leftarrow> w_only_in_template W, oit_block_id row = p_block_id, t \<leftarrow> w_transactions W, t_txid t = oit_txid row])"

definition transaction_only_in_block_by_block_id ::
  "int \<Rightarrow> web_conn \<Rightarrow> (transaction_only_in_block \<times> db_transaction) list query" where
  "transaction_only_in_block_by_block_id p_block_id W =
     sql_load W ''transaction_only_in_block_by_block_id''
       (sort_key (\<lambda>(row, t). oib_position row)
          [(row, t). row \<leftarrow> w_only_in_block W, oib_block_id row = p_block_id, t \<leftarrow> w_transactions W, t_txid t = oib_txid row])"

definition block_with_tx :: "bytes \<Rightarrow> web_conn \<Rightarrow> BlockWithTx query" where
  "block_with_tx block_hash W =
     bind_res (block_by_hash block_hash W) (\<lambda>block.
     bind_res (transaction_only_in_template_by_block_id (b_id block) W) (\<lambda>only_in_template.
     bind_res (transaction_only_in_block_by_block_id (b_id block) W) (\<lambda>only_in_block.
       Inr \<lparr>bwt_block = block, bwt_only_in_template = only_in_template, bwt_only_in_block = only_in_block\<rparr>)))"

section \<open>Conflicting transactions\<close>

record ConflictingTransactionsData =
  ctd_blocks :: "db_block list"
  ctd_transactions :: "db_transaction list"
  ctd_info :: "conflicting_transaction list"
  ctd_total_block_count :: int

definition txids_of_conflicts :: "conflicting_transaction list \<Rightarrow> bytes list" where
  "txids_of_conflicts infos = concat (map (\<lambda>cti. ct_template_txids cti @ ct_block_txids cti) infos)"

definition conflicting_transactions_data :: "web_conn \<Rightarrow> nat \<Rightarrow> ConflictingTransactionsData query" where
  "conflicting_transactions_data W page =
     bind_res (sql_load W ''conflicting block ids'' (limit_offset MAX_BLOCKS_PER_PAGE (MAX_BLOCKS_PER_PAGE * int page)
       (order_desc snd (remdups
          [(ct_block_id ct, nb_height b). ct \<leftarrow> w_conflicting W, b \<leftarrow> w_blocks W, b_id b = ct_block_id ct])))) (\<lambda>rows.
     let block_ids = map fst rows
     in bind_res (sql_count W ''conflicting block count'' (remdups (map ct_block_id (w_conflicting W)))) (\<lambda>total_block_count.
        bind_res (sql_load W ''conflicting_transactions'' (filter (\<lambda>ct. ct_block_id ct \<in> set block_ids) (w_conflicting W))) (\<lambda>info.
        bind_res (sql_load W ''conflicting transaction'' (filter (\<lambda>t. t_txid t \<in> set (txids_of_conflicts info)) (w_transactions W))) (\<lambda>transactions.
        bind_res (sql_load W ''conflicting block'' (order_desc b_id (filter (\<lambda>b. b_id b \<in> set block_ids) (w_blocks W)))) (\<lambda>blocks.
          Inr \<lparr>ctd_blocks = blocks, ctd_transactions = transactions, ctd_info = info,
               ctd_total_block_count = total_block_count\<rparr>)))))"

text \<open>The lookup of a transaction of a conflict; a missing transaction is a panic.\<close>

definition conflict_tx :: "(bytes, db_transaction) hash_map \<Rightarrow> bytes \<Rightarrow> db_transaction query" where
  "conflict_tx txid_to_tx_map txid =
     (case hm_get txid_to_tx_map txid of
        None \<Rightarrow> Inl (Panicked (UnwrapNone ''txid_to_tx_map'')) | Some tx \<Rightarrow> Inr tx)"

definition conflict_set ::
  "(bytes, db_transaction) hash_map \<Rightarrow> conflicting_transaction \<Rightarrow> ConflictingTransactionSet query" where
  "conflict_set txid_to_tx_map ct =
     bind_res (map_res (conflict_tx txid_to_tx_map) (ct_template_txids ct)) (\<lambda>template_transactions.
     bind_res (map_res (conflict_tx txid_to_tx_map) (ct_block_txids ct)) (\<lambda>block_transactions.
       Inr \<lparr>cts_template_transactions = template_transactions, cts_block_transactions = block_transactions,
            cts_conflicting_outpoints =
              map (\<lambda>(txid, vout). \<lparr>cop_txid = txid, cop_vout = vout\<rparr>) (zip (ct_outpoints_txids ct) (ct_outpoints_vouts ct))\<rparr>))"

definition tx_map_of :: "db_transaction list \<Rightarrow> (bytes, db_transaction) hash_map" where
  "tx_map_of txs = hm_collect (map (\<lambda>tx. (t_txid tx, tx)) txs)"

definition blocks_with_conflicting_transactions ::
  "web_conn \<Rightarrow> nat \<Rightarrow> (ConflictingTranscationInfo list \<times> nat) query" where
  "blocks_with_conflicting_transactions W page =
     bind_res (conflicting_transactions_data W page) (\<lambda>data.
     bind_res (map_res (\<lambda>block.
         bind_res (map_res (conflict_set (tx_map_of (ctd_transactions data)))
           (filter (\<lambda>ct. ct_block_id ct = b_id block) (ctd_info data))) (\<lambda>sets.
           Inr \<lparr>cti_block = block, cti_conflicting_transaction_sets = sets\<rparr>)) (ctd_blocks data)) (\<lambda>infos.
       Inr (infos, max_pages_of (ctd_total_block_count data) MAX_BLOCKS_PER_PAGE)))"

definition single_block_with_conflicting_transactions_data ::
  "web_conn \<Rightarrow> bytes \<Rightarrow> (db_block \<times> db_transaction list \<times> conflicting_transaction list) query" where
  "single_block_with_conflicting_transactions_data W block_hash =
     bind_res (sql_first W ''single conflicting block'' (filter (\<lambda>b. nb_hash b = block_hash) (w_blocks W))) (\<lambda>this_block.
     bind_res (sql_load W ''single conflicting_transactions''
       (filter (\<lambda>ct. ct_block_id ct = b_id this_block) (w_conflicting W))) (\<lambda>info.
     bind_res (sql_load W ''single conflicting transaction''
       (filter (\<lambda>t. t_txid t \<in> set (txids_of_conflicts info)) (w_transactions W))) (\<lambda>transactions.
       Inr (this_block, transactions, info))))"

definition single_block_with_conflicting_transactions :: "web_conn \<Rightarrow> bytes \<Rightarrow> ConflictingTranscationInfo query" where
  "single_block_with_conflicting_transactions W block_hash =
     bind_res (single_block_with_conflicting_transactions_data W block_hash) (\<lambda>(block, txs, info).
     bind_res (map_res (conflict_set (tx_map_of txs)) info) (\<lambda>sets.
       Inr \<lparr>cti_block = block, cti_conflicting_transaction_sets = sets\<rparr>))"

section \<open>Sanctioned transactions\<close>

definition debug_sanctioned_table :: "web_conn \<Rightarrow> PoolSanctionedTableEntry list query" where
  "debug_sanctioned_table W =
     (let rows = [(nb_pool_name b, i). i \<leftarrow> w_sanctioned_infos W, b \<leftarrow> w_blocks W, b_id b = sti_block_id i]
      in sql_load W ''debug_sanctioned_table''
           (map (\<lambda>pool.
              let is = map snd (filter (\<lambda>(p, i). p = pool) rows)
              in \<lparr>pst_pool_name = pool,
                  pst_in_both = int (length (filter (\<lambda>i. sti_in_block i \<and> sti_in_template i) is)),
                  pst_only_in_block = int (length (filter (\<lambda>i. sti_in_block i \<and> \<not> sti_in_template i) is)),
                  pst_only_in_template = int (length (filter (\<lambda>i. \<not> sti_in_block i \<and> sti_in_template i) is))\<rparr>)
              (sort_key (w_collation W) (remdups (map fst rows)))))"

definition missing_sanctioned_txns_for_block ::
  "bytes \<Rightarrow> web_conn \<Rightarrow> MissingSanctionedTransaction list query" where
  "missing_sanctioned_txns_for_block req_hash W =
     bind_res (sql_first W ''sanctioned block id'' (map b_id (filter (\<lambda>b. nb_hash b = req_hash) (w_blocks W)))) (\<lambda>this_block_id.
     bind_res (sql_load W ''missing_sanctioned''
       [(tx, info, oit). tx \<leftarrow> w_transactions W, info \<leftarrow> w_sanctioned_infos W, sti_txid info = t_txid tx,
          oit \<leftarrow> w_only_in_template W, oit_txid oit = t_txid tx,
          sti_block_id info = this_block_id \<and> \<not> sti_in_block info \<and> sti_in_template info]) (\<lambda>rows.
       Inr (map (\<lambda>(tx, info, oit). \<lparr>mst_transaction = tx, mst_missing_info = oit, mst_addresses = sti_addresses info\<rparr>) rows)))"

text \<open>The raw query on the fees: casts to \<^verbatim>\<open>float\<close> round to double precision, a division by zero is an error
  of the statement, and \<^verbatim>\<open>percentile_disc\<close> is the smallest value that covers the given share of the rows.\<close>

definition fee_ratio :: "db_block \<Rightarrow> rat" where
  "fee_ratio b =
     round_prec f64_prec (round_prec f64_prec (of_int (nb_block_cb_fees b)) / round_prec f64_prec (of_int (nb_template_cb_fees b)))"

definition percentile_disc :: "nat \<Rightarrow> nat \<Rightarrow> rat list \<Rightarrow> rat" where
  "percentile_disc p q xs = sort xs ! ((p * length xs + q - 1) div q - 1)"

definition avg_fees_by_pool :: "web_conn \<Rightarrow> AvgPoolFees list query" where
  "avg_fees_by_pool W =
     (let blocks_of = (\<lambda>pool. filter (\<lambda>b. nb_pool_name b = pool) (w_blocks W));
          ratios = (\<lambda>pool. map fee_ratio (blocks_of pool));
          groups = filter (\<lambda>pool. 10 < length (blocks_of pool)) (remdups (map nb_pool_name (w_blocks W)))
      in if list_ex (\<lambda>b. nb_template_cb_fees b = 0) (w_blocks W) then Inl (DbFailed (DbError ''division by zero''))
         else sql_load W ''avg_fees_by_pool''
           (map (\<lambda>pool. \<lparr>apf_pool_name = pool, apf_count = int (length (blocks_of pool)),
               apf_median = Fin (percentile_disc 1 2 (ratios pool)), apf_q1 = Fin (percentile_disc 1 4 (ratios pool)),
               apf_q3 = Fin (percentile_disc 3 4 (ratios pool))\<rparr>)
             (sort_key (\<lambda>pool. - percentile_disc 1 2 (ratios pool)) groups)))"

definition blocks_with_missing_sanctioned :: "web_conn \<Rightarrow> db_block list query" where
  "blocks_with_missing_sanctioned W =
     sql_load W ''blocks_with_missing_sanctioned''
       (order_desc nb_block_time (filter (\<lambda>b. 0 < nb_sanctioned_missing_tx b) (w_blocks W)))"

definition debug_templates_and_blocks_with_sanctioned_tx :: "web_conn \<Rightarrow> db_block list query" where
  "debug_templates_and_blocks_with_sanctioned_tx W =
     sql_load W ''debug_templates_and_blocks_with_sanctioned_tx''
       (order_desc nb_block_time (filter (\<lambda>b. 0 < nb_template_sanctioned b \<or> 0 < nb_block_sanctioned b) (w_blocks W)))"

section \<open>Missing transactions\<close>

text \<open>
  The shared condition of the two raw queries: a transaction counts where its position is in the
  first 98 percent of the template (exact decimal arithmetic), the block is not empty, and the
  block is among the last 20000 ids. The transactions that count at least three times are shown.
\<close>

definition missing_rows :: "web_conn \<Rightarrow> transaction_only_in_template list" where
  "missing_rows W =
     (let max_id = foldr max (map oit_block_id (w_only_in_template W)) (- (2 ^ 63))
      in [row. row \<leftarrow> w_only_in_template W, b \<leftarrow> w_blocks W,
             b_id b = oit_block_id row \<and> 100 * oit_position row < 98 * nb_template_tx b \<and> 1 < nb_block_tx b \<and>
             max_id - 20000 < oit_block_id row])"

definition missing_txids :: "web_conn \<Rightarrow> bytes list" where
  "missing_txids W =
     filter (\<lambda>k. 2 < length (filter (\<lambda>row. oit_txid row = k) (missing_rows W))) (remdups (map oit_txid (missing_rows W)))"

definition max_block_id :: "web_conn \<Rightarrow> bytes \<Rightarrow> int" where
  "max_block_id W k = foldr max (map oit_block_id (filter (\<lambda>row. oit_txid row = k) (missing_rows W))) (- (2 ^ 63))"

record MissingTransactionsData =
  mtd_transactions :: "db_transaction list"
  mtd_only_in_template :: "transaction_only_in_template list"
  mtd_blocks :: "db_block list"
  mtd_total_missing_count :: int

definition missing_transactions_data :: "web_conn \<Rightarrow> nat \<Rightarrow> MissingTransactionsData query" where
  "missing_transactions_data W page =
     bind_res (sql_count W ''count missing_transactions'' (missing_txids W)) (\<lambda>total_missing_count.
     bind_res (sql_load W ''missing_transactions'' (limit_offset MAX_BLOCKS_PER_PAGE (int page * MAX_BLOCKS_PER_PAGE)
       (order_desc (max_block_id W) (missing_txids W)))) (\<lambda>txids.
     bind_res (sql_load W ''missing transaction'' (filter (\<lambda>t. t_txid t \<in> set txids) (w_transactions W))) (\<lambda>transactions.
     bind_res (sql_load W ''missing only_in_template''
       (order_desc oit_block_id (remdups (filter (\<lambda>row. oit_txid row \<in> set txids) (w_only_in_template W))))) (\<lambda>only_in_template.
     let block_ids = map oit_block_id only_in_template
     in bind_res (sql_load W ''missing block'' (filter (\<lambda>b. b_id b \<in> set block_ids) (w_blocks W))) (\<lambda>blocks.
          Inr \<lparr>mtd_transactions = transactions, mtd_only_in_template = only_in_template, mtd_blocks = blocks,
               mtd_total_missing_count = total_missing_count\<rparr>)))))"

definition missing_block_info ::
  "(int, db_block) hash_map \<Rightarrow> transaction_only_in_template \<Rightarrow> MissingTransactionBlockInfo query" where
  "missing_block_info block_id_to_block_map oitt =
     (case hm_get block_id_to_block_map (oit_block_id oitt) of
        None \<Rightarrow> Inl (Panicked (UnwrapNone ''block_id_to_block_map''))
      | Some block \<Rightarrow>
          Inr \<lparr>mtb_hash = nb_hash block, mtb_time = nb_block_time block, mtb_height = nb_height block,
               mtb_pool = nb_pool_name block, mtb_template_position = oit_position oitt,
               mtb_mempool_age = oit_mempool_age_seconds oitt, mtb_template_tx_count = nb_template_tx block,
               mtb_last_block_pkg_feerate =
                 (case nb_block_pkg_feerates block of [] \<Rightarrow> Fin 0 | f # fs \<Rightarrow> last (f # fs))\<rparr>)"

definition missing_transaction_of ::
  "(int, db_block) hash_map \<Rightarrow> db_transaction \<Rightarrow> transaction_only_in_template list \<Rightarrow> MissingTransaction query" where
  "missing_transaction_of block_id_to_block_map tx only_in_these_templates =
     bind_res (map_res (missing_block_info block_id_to_block_map) only_in_these_templates) (\<lambda>infos.
       Inr \<lparr>mt_transaction = tx, mt_blocks = rev (sort_key mtb_height infos)\<rparr>)"

definition max_height :: "MissingTransaction \<Rightarrow> int query" where
  "max_height m =
     (case map mtb_height (mt_blocks m) of
        [] \<Rightarrow> Inl (Panicked (UnwrapNone ''max_height'')) | h # hs \<Rightarrow> Inr (foldr max hs h))"

text \<open>\<^verbatim>\<open>sort_by_key\<close> only computes keys when there are two elements to compare.\<close>

definition sort_by_max_height :: "MissingTransaction list \<Rightarrow> MissingTransaction list query" where
  "sort_by_max_height ms =
     (if length ms < 2 then Inr ms
      else bind_res (map_res max_height ms) (\<lambda>hs. Inr (map snd (order_desc fst (zip hs ms)))))"

definition block_map_of :: "db_block list \<Rightarrow> (int, db_block) hash_map" where
  "block_map_of bs = hm_collect (map (\<lambda>b. (b_id b, b)) bs)"

definition missing_transactions :: "web_conn \<Rightarrow> nat \<Rightarrow> (MissingTransaction list \<times> nat) query" where
  "missing_transactions W page =
     bind_res (missing_transactions_data W page) (\<lambda>data.
     bind_res (map_res (\<lambda>tx. missing_transaction_of (block_map_of (mtd_blocks data)) tx
         (filter (\<lambda>row. oit_txid row = t_txid tx) (mtd_only_in_template data))) (mtd_transactions data)) (\<lambda>missing_txns.
     bind_res (sort_by_max_height missing_txns) (\<lambda>missing_txns.
       Inr (missing_txns, max_pages_of (mtd_total_missing_count data) MAX_BLOCKS_PER_PAGE))))"

definition single_missing_transaction_data ::
  "bytes \<Rightarrow> web_conn \<Rightarrow> (db_transaction \<times> transaction_only_in_template list \<times> db_block list) query" where
  "single_missing_transaction_data req_txid W =
     bind_res (sql_first W ''single missing transaction'' (filter (\<lambda>t. t_txid t = req_txid) (w_transactions W))) (\<lambda>tx.
     bind_res (sql_load W ''single missing only_in_template''
       (order_desc oit_block_id (remdups (filter (\<lambda>row. oit_txid row = req_txid) (w_only_in_template W))))) (\<lambda>only_in_template.
     let block_ids = map oit_block_id only_in_template
     in bind_res (sql_load W ''single missing block'' (filter (\<lambda>b. b_id b \<in> set block_ids) (w_blocks W))) (\<lambda>blocks.
          Inr (tx, only_in_template, blocks))))"

definition single_missing_transaction :: "bytes \<Rightarrow> web_conn \<Rightarrow> MissingTransaction query" where
  "single_missing_transaction req_txid W =
     bind_res (single_missing_transaction_data req_txid W) (\<lambda>(tx, only_in_template, blocks).
       missing_transaction_of (block_map_of blocks) tx only_in_template)"

section \<open>Other queries\<close>

definition get_recent_sanctioned_utxo_scan_info :: "web_conn \<Rightarrow> sanctioned_utxo_scan_info query" where
  "get_recent_sanctioned_utxo_scan_info W =
     sql_first W ''recent_sanctioned_utxo_scan_info'' (limit_offset 1 0 (order_desc scan_end_time (w_scan_infos W)))"

definition sanctioned_utxo_scan_infos :: "web_conn \<Rightarrow> nat \<Rightarrow> (sanctioned_utxo_scan_info list \<times> nat) query" where
  "sanctioned_utxo_scan_infos W page =
     bind_res (sql_load W ''sanctioned_utxo_scan_infos''
       (limit_offset MAX_UTXOSET_SCANS_PER_PAGE (MAX_UTXOSET_SCANS_PER_PAGE * int page)
          (order_desc scan_end_time (w_scan_infos W)))) (\<lambda>infos.
     bind_res (sql_count W ''scan count'' (w_scan_infos W)) (\<lambda>scan_count.
       Inr (infos, max_pages_of scan_count MAX_UTXOSET_SCANS_PER_PAGE)))"

definition debug_template_selection_infos ::
  "web_conn \<Rightarrow> nat \<Rightarrow> (DebugTemplateSelectionInfosAndBlock list \<times> nat) query" where
  "debug_template_selection_infos W page =
     bind_res (sql_load W ''selection block ids'' (limit_offset MAX_BLOCKS_PER_PAGE (MAX_BLOCKS_PER_PAGE * int page)
       (order_desc (\<lambda>i. i) (remdups (map dts_block_id (w_debug W)))))) (\<lambda>block_ids.
     bind_res (sql_load W ''selection infos''
       (order_desc dts_template_time (filter (\<lambda>i. dts_block_id i \<in> set block_ids) (w_debug W)))) (\<lambda>infos.
     bind_res (sql_load W ''selection block''
       (order_desc nb_block_time (filter (\<lambda>b. b_id b \<in> set block_ids) (w_blocks W)))) (\<lambda>blocks.
     bind_res (sql_count W ''selection count'' (remdups (map dts_block_id (w_debug W)))) (\<lambda>infos_count.
       Inr (map (\<lambda>b. \<lparr>dsb_block = b, dsb_infos = filter (\<lambda>info. dts_block_id info = b_id b) infos\<rparr>) blocks,
            max_pages_of infos_count MAX_BLOCKS_PER_PAGE)))))"

definition get_node_info :: "web_conn \<Rightarrow> string query" where
  "get_node_info W = sql_first W ''node_info'' (w_versions W)"

definition web_sanctioned_addresses :: "web_conn \<Rightarrow> string list query" where
  "web_sanctioned_addresses W =
     bind_res (sql_load W ''sanctioned_addresses'' (w_addresses W)) (\<lambda>addresses. Inr (map sa_address addresses))"

end
