(* ===== verification/Web_Util.thy ===== *)
theory Web_Util
  imports Decimal Shared_Tags Chain_Model
begin

text \<open>
  The parsers of request parameters and the functions that the page templates call
  (\<^verbatim>\<open>web/src/util.rs\<close>). The crate for hexadecimal texts is the record \<open>hex_lib\<close>; a value of the
  template engine has any type, and its conversion to \<^verbatim>\<open>i32\<close> and its text are the record
  \<open>value_lib\<close>. An error response is its status code and its body.
\<close>

section \<open>Request parameters\<close>

datatype http_error = HttpError (he_status: nat) (he_body: string)

definition ERROR_INVALID_INT :: string where "ERROR_INVALID_INT = ''INVALID INT''"
definition ERROR_INVALID_BLOCK_HASH :: string where "ERROR_INVALID_BLOCK_HASH = ''INVALID BLOCK HASH''"
definition ERROR_INVALID_TXID :: string where "ERROR_INVALID_TXID = ''INVALID TXID''"

abbreviation ErrorNotFound :: "string \<Rightarrow> http_error" where "ErrorNotFound \<equiv> HttpError 404"
abbreviation ErrorInternalServerError :: "string \<Rightarrow> http_error" where "ErrorInternalServerError \<equiv> HttpError 500"

definition parse_uint :: "string \<Rightarrow> http_error + nat" where
  "parse_uint uint_str =
     (case parse_u32 uint_str of Some n \<Rightarrow> Inr n | None \<Rightarrow> Inl (ErrorNotFound ERROR_INVALID_INT))"

record hex_lib =
  hex_decode :: "string \<Rightarrow> string + bytes"
  hex_encode :: "bytes \<Rightarrow> string"

definition starts_with :: "string \<Rightarrow> string \<Rightarrow> bool" where
  "starts_with s p \<longleftrightarrow> take (length p) s = p"

definition parse_block_hash_str :: "hex_lib \<Rightarrow> string \<Rightarrow> http_error + bytes" where
  "parse_block_hash_str H hash_str =
     (if length hash_str \<noteq> 64 \<or> \<not> starts_with hash_str ''000000''
      then Inl (ErrorNotFound ERROR_INVALID_BLOCK_HASH)
      else case hex_decode H hash_str of
             Inl e \<Rightarrow> Inl (ErrorNotFound ERROR_INVALID_BLOCK_HASH) | Inr hash \<Rightarrow> Inr hash)"

definition parse_txid_str :: "hex_lib \<Rightarrow> string \<Rightarrow> http_error + bytes" where
  "parse_txid_str H txid_str =
     (if length txid_str \<noteq> 64 then Inl (ErrorNotFound ERROR_INVALID_TXID)
      else case hex_decode H txid_str of
             Inl e \<Rightarrow> Inl (ErrorNotFound ERROR_INVALID_TXID) | Inr txid \<Rightarrow> Inr txid)"

section \<open>Functions for the templates\<close>

record 'v value_lib =
  value_i32 :: "'v \<Rightarrow> int option"
  show_value :: "'v \<Rightarrow> string"

definition show_int :: "int \<Rightarrow> string" where
  "show_int i = (if i < 0 then ''-'' @ show_nat (nat (- i)) else show_nat (nat i))"

definition tx_tag_id_to_tag :: "'v value_lib \<Rightarrow> (string, 'v) hash_map \<Rightarrow> string + tag" where
  "tx_tag_id_to_tag V args =
     (case hm_get args ''id'' of
        Some val \<Rightarrow>
          (case value_i32 V val of
             Some v \<Rightarrow>
               (case TxTag_try_from v of
                  Some t \<Rightarrow> Inr (TxTag_value t)
                | None \<Rightarrow> Inl (''Could not find TxTag for value '' @ show_int v @ ''. Is the mapping implemented?: ()''))
           | None \<Rightarrow> Inl (''Can'' @ [CHR 0x27] @ ''t parse '' @ [CHR 0x27] @ ''id'' @ [CHR 0x27] @ '' with val='' @
               show_value V val @ '' as i32.''))
      | None \<Rightarrow> Inl (''No parameter '' @ [CHR 0x27] @ ''id'' @ [CHR 0x27] @ '' passed to tag_id_to_tag()''))"

definition block_tag_id_to_tag :: "'v value_lib \<Rightarrow> (string, 'v) hash_map \<Rightarrow> string + tag" where
  "block_tag_id_to_tag V args =
     (case hm_get args ''id'' of
        Some val \<Rightarrow>
          (case value_i32 V val of
             Some v \<Rightarrow>
               (case BlockTag_try_from v of
                  Some t \<Rightarrow> Inr (BlockTag_value t)
                | None \<Rightarrow> Inl (''Could not find BlockTag for value '' @ show_int v @ ''. Is the mapping implemented?: ()''))
           | None \<Rightarrow> Inl (''Can'' @ [CHR 0x27] @ ''t parse '' @ [CHR 0x27] @ ''id'' @ [CHR 0x27] @ '' with val='' @
               show_value V val @ '' as i32.''))
      | None \<Rightarrow> Inl (''No parameter '' @ [CHR 0x27] @ ''id'' @ [CHR 0x27] @ '' passed to tag_id_to_tag()''))"

definition duration_text :: "nat \<Rightarrow> string" where
  "duration_text secs =
     (let seconds = secs mod 60; minutes = (secs div 60) mod 60; hours = secs div 60 div 60 mod 24;
          days = secs div 60 div 60 div 24
      in if 0 < days
         then show_nat days @ ''d '' @ show_nat hours @ ''h '' @ show_nat minutes @ ''m '' @ show_nat seconds @ ''s''
         else if 0 < hours then show_nat hours @ ''h '' @ show_nat minutes @ ''m '' @ show_nat seconds @ ''s''
         else if 0 < minutes then show_nat minutes @ ''m '' @ show_nat seconds @ ''s''
         else show_nat seconds @ ''s'')"

definition seconds_to_duration :: "'v value_lib \<Rightarrow> (string, 'v) hash_map \<Rightarrow> string + string" where
  "seconds_to_duration V args =
     (case hm_get args ''seconds'' of
        Some val \<Rightarrow>
          (case value_i32 V val of
             Some v \<Rightarrow> Inr (if v < 0 then ''Unknown'' else duration_text (nat v))
           | None \<Rightarrow> Inl (''Can'' @ [CHR 0x27] @ ''t parse '' @ [CHR 0x27] @ ''seconds'' @ [CHR 0x27] @ '' as i32.''))
      | None \<Rightarrow> Inl (''No parameter '' @ [CHR 0x27] @ ''seconds'' @ [CHR 0x27] @ '' passed to seconds_to_duration()''))"

section \<open>Facts\<close>

text \<open>Decoding inverts encoding, and a byte takes two digits; the zero byte is two zeros.\<close>

definition hex_law :: "hex_lib \<Rightarrow> bool" where
  "hex_law H \<longleftrightarrow>
     (\<forall>b. hex_decode H (hex_encode H b) = Inr b) \<and> (\<forall>b. length (hex_encode H b) = 2 * length b) \<and>
     (\<forall>a b. hex_encode H (a @ b) = hex_encode H a @ hex_encode H b) \<and> hex_encode H [0] = ''00''"

lemma parse_uint_show: "parse_uint (show_nat n) = (if n < 2 ^ 32 then Inr n else Inl (ErrorNotFound ''INVALID INT''))"
  by (simp add: parse_uint_def parse_u32_show ERROR_INVALID_INT_def)

lemma parse_uint_status: "parse_uint s = Inl e \<Longrightarrow> he_status e = 404"
  by (auto simp: parse_uint_def split: option.splits)

lemma parse_block_hash_status: "parse_block_hash_str H s = Inl e \<Longrightarrow> he_status e = 404"
  by (auto simp: parse_block_hash_str_def split: if_splits sum.splits)

lemma parse_txid_status: "parse_txid_str H s = Inl e \<Longrightarrow> he_status e = 404"
  by (auto simp: parse_txid_str_def split: if_splits sum.splits)

lemma parse_txid_encode:
  assumes "hex_law H" "length txid = 32"
  shows "parse_txid_str H (hex_encode H txid) = Inr txid"
  using assms by (simp add: parse_txid_str_def hex_law_def)

lemma parse_block_hash_encode:
  assumes "hex_law H" "length h = 32" "take 3 h = [0, 0, 0]"
  shows "parse_block_hash_str H (hex_encode H h) = Inr h"
proof -
  let ?rest = "drop 3 h"
  have h: "h = [0] @ [0] @ [0] @ ?rest" using assms(3) append_take_drop_id [of 3 h] by simp
  have "hex_encode H h = ''00'' @ ''00'' @ ''00'' @ hex_encode H ?rest"
    using assms(1) h unfolding hex_law_def by metis
  then have "starts_with (hex_encode H h) ''000000''" by (simp add: starts_with_def)
  with assms(1,2) show ?thesis by (simp add: parse_block_hash_str_def hex_law_def)
qed

section \<open>Durations are readable\<close>

text \<open>A reader of duration texts: digits build a number, a unit adds it to the total.\<close>

definition unit_seconds :: "char \<Rightarrow> nat option" where
  "unit_seconds c =
     (if c = CHR ''d'' then Some 86400 else if c = CHR ''h'' then Some 3600
      else if c = CHR ''m'' then Some 60 else if c = CHR ''s'' then Some 1 else None)"

fun read_duration :: "nat \<Rightarrow> nat \<Rightarrow> string \<Rightarrow> nat option" where
  "read_duration acc n [] = Some acc"
| "read_duration acc n (c # cs) =
     (case digit_value c of
        Some v \<Rightarrow> read_duration acc (10 * n + v) cs
      | None \<Rightarrow>
          (case unit_seconds c of
             Some u \<Rightarrow> read_duration (acc + n * u) 0 cs
           | None \<Rightarrow> if c = CHR '' '' then read_duration acc n cs else None))"

lemma read_duration_digits:
  "parse_digits n s = Some k \<Longrightarrow> read_duration acc n (s @ rest) = read_duration acc k rest"
  by (induction n s rule: parse_digits.induct) (auto split: option.splits)

lemma read_duration_part:
  "unit_seconds c = Some u \<Longrightarrow> digit_value c = None \<Longrightarrow>
     read_duration acc 0 (show_nat k @ c # rest) = read_duration (acc + k * u) 0 rest"
  using read_duration_digits [OF parse_digits_show [of k], of acc "c # rest"] by simp

lemma duration_components:
  "secs = (secs div 60 div 60 div 24) * 86400 + (secs div 60 div 60 mod 24) * 3600 + (secs div 60 mod 60) * 60 + secs mod 60"
  for secs :: nat
proof -
  have "secs = 60 * (secs div 60) + secs mod 60" by simp
  moreover have "secs div 60 = 60 * (secs div 60 div 60) + secs div 60 mod 60" by simp
  moreover have "secs div 60 div 60 = 24 * (secs div 60 div 60 div 24) + secs div 60 div 60 mod 24" by simp
  ultimately show ?thesis by linarith
qed

lemma read_duration_text: "read_duration 0 0 (duration_text secs) = Some secs"
proof -
  have [simp]: "digit_value CHR ''d'' = None" "digit_value CHR ''h'' = None" "digit_value CHR ''m'' = None"
    "digit_value CHR ''s'' = None" "digit_value CHR '' '' = None" "unit_seconds CHR '' '' = None"
    "unit_seconds CHR ''d'' = Some 86400" "unit_seconds CHR ''h'' = Some 3600" "unit_seconds CHR ''m'' = Some 60"
    "unit_seconds CHR ''s'' = Some 1"
    by (simp_all add: digit_value_def unit_seconds_def)
  have "read_duration 0 0 (duration_text secs) = Some ((secs div 60 div 60 div 24) * 86400 +
      (secs div 60 div 60 mod 24) * 3600 + (secs div 60 mod 60) * 60 + secs mod 60)"
    by (simp add: duration_text_def Let_def read_duration_part)
  then show ?thesis using duration_components [of secs] by simp
qed

section \<open>Properties\<close>


text \<open>An instance of the hexadecimal crate.\<close>

definition hex_digit :: "nat \<Rightarrow> char" where
  "hex_digit n = (if n < 10 then char_of (48 + n) else char_of (87 + n))"

definition hex_value :: "char \<Rightarrow> nat option" where
  "hex_value c = List.find (\<lambda>n. hex_digit n = c) [0..<16]"

fun sample_hex_decode :: "string \<Rightarrow> string + bytes" where
  "sample_hex_decode [] = Inr []"
| "sample_hex_decode [c] = Inl ''odd length''"
| "sample_hex_decode (c # d # cs) =
     (case (hex_value c, hex_value d) of
        (Some h, Some l) \<Rightarrow> bind_res (sample_hex_decode cs) (\<lambda>bs. Inr (word_of_nat (16 * h + l) # bs))
      | _ \<Rightarrow> Inl ''invalid character'')"

definition sample_hex :: hex_lib where
  "sample_hex =
     \<lparr>hex_decode = sample_hex_decode,
      hex_encode = (\<lambda>bs. concat (map (\<lambda>b. [hex_digit (unat b div 16), hex_digit (unat b mod 16)]) bs))\<rparr>"

lemma hex_value_digit: "n < 16 \<Longrightarrow> hex_value (hex_digit n) = Some n"
proof -
  assume n: "n < 16"
  have "\<forall>n\<in>set [0..<16]. hex_value (hex_digit n) = Some n"
    by (simp add: hex_value_def hex_digit_def upt_rec)
  with n show ?thesis by simp
qed

lemma sample_hex_law: "hex_law sample_hex"
proof -
  have "sample_hex_decode (concat (map (\<lambda>b. [hex_digit (unat b div 16), hex_digit (unat b mod 16)]) bs)) = Inr bs" for bs :: bytes
  proof (induction bs)
    case (Cons b bs)
    have "unat b < 256" using unsigned_less [of b, where ?'a = nat] by simp
    then have "unat b div 16 < 16" by (simp add: less_mult_imp_div_less)
    with Cons show ?case by (simp add: hex_value_digit)
  qed simp
  moreover have "length (concat (map (\<lambda>b. [hex_digit (unat b div 16), hex_digit (unat b mod 16)]) bs)) = 2 * length bs" for bs :: bytes
    by (induction bs) auto
  moreover have "hex_digit 0 = CHR ''0''" by (simp add: hex_digit_def char_of_def bit_0)
  ultimately show ?thesis by (simp add: hex_law_def sample_hex_def)
qed


end
