(* ===== verification/Web_Render.thy ===== *)
theory Web_Render
  imports Web_Db Web_Util
begin

text \<open>
  What the request handlers of the web front end share: the data they are given, the context of a
  template, the answer, and the error pages of \<^verbatim>\<open>web/src/error.rs\<close>. The template engine, the
  connection pool and the texts of errors of other crates are fields of the record \<open>web_app\<close>; the
  pool is asked once or twice per request, and its answers are numbered.
\<close>

section \<open>Contexts and answers\<close>

record missing_transaction_image =
  mti_block_count :: nat
  mti_txid :: string
  mti_feerate :: fp
  mti_size :: int
  mti_fee :: int
  mti_tags :: "string list"

record template_and_block_image =
  tbi_hash :: string
  tbi_height :: int
  tbi_pool :: string
  tbi_missing :: int
  tbi_extra :: int
  tbi_shared :: int

record conflicting_image =
  cbi_hash :: string
  cbi_pool :: string
  cbi_height :: int
  cbi_conflicts :: nat

datatype ctx_val =
    CBool bool
  | CInt int
  | CStr string
  | CStrings "string list"
  | CSite "WebSiteConfig option"
  | CBlocks "db_block list"
  | CBlockWithTx BlockWithTx
  | CMissingSanctioned "MissingSanctionedTransaction list"
  | CMissing "MissingTransaction list"
  | CMissingTransaction MissingTransaction
  | CConflicting "ConflictingTranscationInfo list"
  | CConflictingBlock ConflictingTranscationInfo
  | CTags "tag list"
  | CScan sanctioned_utxo_scan_info
  | CScans "sanctioned_utxo_scan_info list"
  | CAvgFees "AvgPoolFees list"
  | CSelection "DebugTemplateSelectionInfosAndBlock list"
  | CSanctionedTable "PoolSanctionedTableEntry list"
  | CMissingImage missing_transaction_image
  | CTemplateImage template_and_block_image
  | CConflictingImage conflicting_image

type_synonym tera_context = "string \<rightharpoonup> ctx_val"

datatype body = NoBody | TextBody string | BinaryBody bytes

record page_response =
  pr_status :: nat
  pr_content_type :: string
  pr_body :: body

text \<open>A handler answers, refuses with an error that becomes the answer, or panics.\<close>

datatype handler_failure = Refused http_error | Crashed panic

type_synonym 'a handler = "handler_failure + 'a"

record web_app =
  app_pool :: "nat \<Rightarrow> web_conn option"
  app_site :: WebSiteConfig
  app_debug_pages :: bool
  app_node_version :: string
  app_render :: "string \<Rightarrow> tera_context \<Rightarrow> string + string"
  app_hex :: hex_lib
  app_db_error_text :: "db_error \<Rightarrow> string"
  app_blocking_error_text :: string

section \<open>Steps of a handler\<close>

definition refuse :: "http_error + 'a \<Rightarrow> 'a handler" where
  "refuse r = map_err Refused r"

text \<open>\<^verbatim>\<open>pool.get().expect(..)\<close>.\<close>

definition get_conn :: "web_app \<Rightarrow> nat \<Rightarrow> web_conn handler" where
  "get_conn A i =
     (case app_pool A i of
        Some W \<Rightarrow> Inr W
      | None \<Rightarrow> Inl (Crashed (ExpectFailed (''couldn'' @ [CHR 0x27] @ ''t get db connection from pool''))))"

text \<open>\<^verbatim>\<open>web::block(..).await?.map_err(ErrorInternalServerError)?\<close>: a panic of the closure is caught by
  the thread pool and becomes a blocking error.\<close>

definition web_block :: "web_app \<Rightarrow> 'a query \<Rightarrow> 'a handler" where
  "web_block A q =
     (case q of
        Inr a \<Rightarrow> Inr a
      | Inl (DbFailed e) \<Rightarrow> Inl (Refused (ErrorInternalServerError (app_db_error_text A e)))
      | Inl (Panicked p) \<Rightarrow> Inl (Refused (ErrorInternalServerError (app_blocking_error_text A))))"

definition template_error :: "string \<Rightarrow> http_error" where
  "template_error e = ErrorInternalServerError ''Template Error''"

definition render_page :: "web_app \<Rightarrow> string \<Rightarrow> tera_context \<Rightarrow> string \<Rightarrow> page_response handler" where
  "render_page A template ctx content_type =
     bind_res (refuse (map_err template_error (app_render A template ctx))) (\<lambda>s.
       Inr \<lparr>pr_status = 200, pr_content_type = content_type, pr_body = TextBody s\<rparr>)"

text \<open>The answer of the server to a refused request.\<close>

definition error_response :: "http_error \<Rightarrow> page_response" where
  "error_response e =
     \<lparr>pr_status = he_status e, pr_content_type = ''text/plain; charset=utf-8'', pr_body = TextBody (he_body e)\<rparr>"

section \<open>Error pages\<close>

text \<open>The template engine and the site configuration may be missing from the request.\<close>

definition get_error_response ::
  "(string \<Rightarrow> tera_context \<Rightarrow> string + string) option \<Rightarrow> WebSiteConfig option \<Rightarrow> nat \<Rightarrow> string \<Rightarrow> page_response" where
  "get_error_response tmpl config status err =
     (let fallback = \<lparr>pr_status = status, pr_content_type = ''text/plain; charset=utf-8'', pr_body = TextBody err\<rparr>
      in case tmpl of
           Some render \<Rightarrow>
             (case render ''error.html'' [''error'' \<mapsto> CStr err, ''status_code'' \<mapsto> CStr (show_nat status),
                ''CONFIG'' \<mapsto> CSite config] of
                Inr b \<Rightarrow> \<lparr>pr_status = status, pr_content_type = ''text/html; charset=utf-8'', pr_body = TextBody b\<rparr>
              | Inl e \<Rightarrow> fallback)
         | None \<Rightarrow> fallback)"

definition unauthorized :: "(string \<Rightarrow> tera_context \<Rightarrow> string + string) option \<Rightarrow> WebSiteConfig option \<Rightarrow> nat \<Rightarrow> page_response" where
  "unauthorized tmpl config status = get_error_response tmpl config status ''Unauthorized''"

definition not_found :: "(string \<Rightarrow> tera_context \<Rightarrow> string + string) option \<Rightarrow> WebSiteConfig option \<Rightarrow> nat \<Rightarrow> page_response" where
  "not_found tmpl config status = get_error_response tmpl config status ''Page not found''"

definition internal_server_error ::
  "(string \<Rightarrow> tera_context \<Rightarrow> string + string) option \<Rightarrow> WebSiteConfig option \<Rightarrow> nat \<Rightarrow> page_response" where
  "internal_server_error tmpl config status = get_error_response tmpl config status ''Internal Server Error''"

lemma error_page_keeps_status: "pr_status (get_error_response tmpl config status err) = status"
  by (simp add: get_error_response_def Let_def split: option.splits sum.splits)

section \<open>How a handler can end\<close>

text \<open>A handler is served when it answers, or refuses with the status 404 or 500; it does not panic.\<close>

definition served :: "'a handler \<Rightarrow> bool" where
  "served r \<longleftrightarrow>
     (case r of Inr a \<Rightarrow> True | Inl (Refused e) \<Rightarrow> he_status e = 404 \<or> he_status e = 500 | Inl (Crashed p) \<Rightarrow> False)"

lemma served_Inr [simp]: "served (Inr a)"
  by (simp add: served_def)

lemma served_bind [intro]: "served r \<Longrightarrow> (\<And>a. r = Inr a \<Longrightarrow> served (f a)) \<Longrightarrow> served (bind_res r f)"
  by (auto simp: served_def bind_res_def split: sum.splits handler_failure.splits)

lemma served_render [simp]: "served (render_page A t c ct)"
  by (cases "app_render A t c") (simp_all add: render_page_def refuse_def template_error_def served_def)

lemma served_block [simp]: "served (web_block A q)"
  by (auto simp: served_def web_block_def split: sum.splits web_failure.splits)

lemma served_conn: "app_pool A i = Some W \<Longrightarrow> served (get_conn A i)"
  by (simp add: get_conn_def)

lemma served_refuse: "(\<And>e. r = Inl e \<Longrightarrow> he_status e = 404) \<Longrightarrow> served (refuse r)"
  by (cases r) (simp_all add: refuse_def served_def)

lemma served_params [simp]: "served (refuse (parse_uint s))" "served (refuse (parse_txid_str H s))"
  "served (refuse (parse_block_hash_str H s))"
  by (rule served_refuse, erule parse_uint_status parse_txid_status parse_block_hash_status)+

end
