(* ===== verification/Web_Handlers.thy ===== *)
theory Web_Handlers
  imports Web_Render
begin

text \<open>
  The request handlers of \<^verbatim>\<open>web/src/handler.rs\<close>, in the order of the source. The query of a request
  is a hash map of texts. A handler builds the context of its template in the order of the source;
  keys of the context that the source overwrites do not occur.
\<close>

definition QUERY_PAGE :: string where "QUERY_PAGE = ''page''"
definition QUERY_POOL :: string where "QUERY_POOL = ''pool''"

type_synonym query_params = "(string, string) hash_map"

abbreviation text_html :: string where "text_html \<equiv> ''text/html''"
abbreviation rss_xml :: string where "rss_xml \<equiv> ''application/rss+xml''"

definition base_ctx :: "web_app \<Rightarrow> tera_context" where
  "base_ctx A = [''CONFIG'' \<mapsto> CSite (Some (app_site A)), ''NODE_VERSION'' \<mapsto> CStr (app_node_version A)]"

definition query_page :: "query_params \<Rightarrow> nat handler" where
  "query_page query = (case hm_get query QUERY_PAGE of Some p \<Rightarrow> refuse (parse_uint p) | None \<Rightarrow> Inr 0)"

definition index_handler :: "web_app \<Rightarrow> page_response handler" where
  "index_handler A = render_page A ''index.html'' (base_ctx A) text_html"

section \<open>Templates and blocks\<close>

definition templates_and_blocks :: "web_app \<Rightarrow> query_params \<Rightarrow> page_response handler" where
  "templates_and_blocks A query =
     (let ctx = (base_ctx A)(''MAX_BLOCKS_PER_PAGE'' \<mapsto> CInt MAX_BLOCKS_PER_PAGE, ''NAV_PAGE_BLOCKS'' \<mapsto> CBool True,
            ''QUERY_PAGE'' \<mapsto> CStr QUERY_PAGE, ''QUERY_POOL'' \<mapsto> CStr QUERY_POOL)
      in bind_res (query_page query) (\<lambda>page.
         let mining_pool = (case hm_get query QUERY_POOL of Some p \<Rightarrow> p | None \<Rightarrow> [])
         in bind_res (get_conn A 0) (\<lambda>conn.
            bind_res (if mining_pool \<noteq> [] then web_block A (blocks_by_pool conn page mining_pool)
                      else web_block A (Web_Db.blocks conn page)) (\<lambda>(blocks, max_pages).
            bind_res (get_conn A 1) (\<lambda>conn.
            bind_res (web_block A (Web_Db.pools conn)) (\<lambda>pools.
              render_page A ''templates_and_blocks.html''
                (ctx(''blocks'' \<mapsto> CBlocks blocks, ''MAX_PAGES'' \<mapsto> CInt (int max_pages), ''CURRENT_PAGE'' \<mapsto> CInt (int page),
                   ''CURRENT_POOL'' \<mapsto> CStr mining_pool, ''POOLS'' \<mapsto> CStrings pools)) text_html))))))"

definition single_template_and_block :: "web_app \<Rightarrow> string \<Rightarrow> page_response handler" where
  "single_template_and_block A hash_str =
     bind_res (refuse (parse_block_hash_str (app_hex A) hash_str)) (\<lambda>hash.
     let ctx = (base_ctx A)(''THRESHOLD_TRANSACTION_CONSIDERED_YOUNG'' \<mapsto> CInt (int THRESHOLD_TRANSACTION_CONSIDERED_YOUNG),
            ''TAG_ID_YOUNG'' \<mapsto> CInt (TxTag_as_i32 Young))
     in bind_res (get_conn A 0) (\<lambda>conn.
        bind_res (web_block A (block_with_tx hash conn)) (\<lambda>block_with_tx.
        let ctx = ctx(''block_with_tx'' \<mapsto> CBlockWithTx block_with_tx)
        in bind_res (if 0 < nb_sanctioned_missing_tx (bwt_block block_with_tx)
                     then bind_res (get_conn A 1) (\<lambda>conn. web_block A (missing_sanctioned_txns_for_block hash conn))
                     else Inr []) (\<lambda>sanctioned_missing_tx.
             render_page A ''subpage/template_and_block.html''
               (ctx(''sanctioned_missing_tx'' \<mapsto> CMissingSanctioned sanctioned_missing_tx)) text_html))))"

definition missing_sanctioned_transactions_rss :: "web_app \<Rightarrow> page_response handler" where
  "missing_sanctioned_transactions_rss A =
     bind_res (get_conn A 0) (\<lambda>conn.
     bind_res (web_block A (blocks_with_missing_sanctioned conn)) (\<lambda>bs.
       render_page A ''rss/sanctioned_missing.xml''
         ((base_ctx A)(''blocks_with_missing_sanctioned'' \<mapsto> CBlocks bs)) rss_xml))"

definition missing_sanctioned :: "web_app \<Rightarrow> page_response handler" where
  "missing_sanctioned A =
     bind_res (get_conn A 0) (\<lambda>conn.
     bind_res (web_block A (blocks_with_missing_sanctioned conn)) (\<lambda>bs.
       render_page A ''missing-sanctioned.html''
         ((base_ctx A)(''MAX_BLOCKS_PER_PAGE'' \<mapsto> CInt MAX_BLOCKS_PER_PAGE, ''NAV_PAGE_SANCTIONED'' \<mapsto> CBool True,
            ''blocks'' \<mapsto> CBlocks bs, ''ENTRY_COUNT'' \<mapsto> CInt (int (length bs)))) text_html))"

section \<open>Missing transactions\<close>

definition missing_transactions_handler :: "web_app \<Rightarrow> query_params \<Rightarrow> page_response handler" where
  "missing_transactions_handler A query =
     (let ctx = (base_ctx A)(''NAV_PAGE_MISSING'' \<mapsto> CBool True, ''QUERY_PAGE'' \<mapsto> CStr QUERY_PAGE)
      in bind_res (query_page query) (\<lambda>page.
         bind_res (get_conn A 0) (\<lambda>conn.
         bind_res (web_block A (missing_transactions conn page)) (\<lambda>(missing, max_pages).
           render_page A ''missing.html''
             (ctx(''missing_transactions'' \<mapsto> CMissing missing, ''MAX_PAGES'' \<mapsto> CInt (int max_pages),
                ''CURRENT_PAGE'' \<mapsto> CInt (int page))) text_html))))"

definition single_missing_transaction_handler :: "web_app \<Rightarrow> string \<Rightarrow> page_response handler" where
  "single_missing_transaction_handler A txid_str =
     bind_res (refuse (parse_txid_str (app_hex A) txid_str)) (\<lambda>txid.
     bind_res (get_conn A 0) (\<lambda>conn.
     bind_res (web_block A (single_missing_transaction txid conn)) (\<lambda>missing_transaction.
       render_page A ''subpage/missing.html''
         ((base_ctx A)(''missing_transaction'' \<mapsto> CMissingTransaction missing_transaction)) text_html)))"

definition missing_transactions_rss :: "web_app \<Rightarrow> query_params \<Rightarrow> page_response handler" where
  "missing_transactions_rss A query =
     (let ctx = (base_ctx A)(''QUERY_PAGE'' \<mapsto> CStr QUERY_PAGE)
      in bind_res (query_page query) (\<lambda>page.
         bind_res (get_conn A 0) (\<lambda>conn.
         bind_res (web_block A (missing_transactions conn page)) (\<lambda>(missing, max_pages).
           render_page A ''rss/missing.xml''
             (ctx(''missing_transactions'' \<mapsto> CMissing missing, ''MAX_PAGES'' \<mapsto> CInt (int max_pages),
                ''CURRENT_PAGE'' \<mapsto> CInt (int page))) rss_xml))))"

section \<open>Conflicting transactions\<close>

definition conflicting_transactions :: "web_app \<Rightarrow> query_params \<Rightarrow> page_response handler" where
  "conflicting_transactions A query =
     (let ctx = (base_ctx A)(''NAV_PAGE_CONFLICTING'' \<mapsto> CBool True, ''MAX_BLOCKS_PER_PAGE'' \<mapsto> CInt MAX_BLOCKS_PER_PAGE,
            ''QUERY_PAGE'' \<mapsto> CStr QUERY_PAGE)
      in bind_res (query_page query) (\<lambda>page.
         bind_res (get_conn A 0) (\<lambda>conn.
         bind_res (web_block A (blocks_with_conflicting_transactions conn page)) (\<lambda>(infos, max_pages).
           render_page A ''conflicting.html''
             (ctx(''blocks_with_conflicting_transactions'' \<mapsto> CConflicting infos, ''MAX_PAGES'' \<mapsto> CInt (int max_pages),
                ''CURRENT_PAGE'' \<mapsto> CInt (int page))) text_html))))"

definition single_block_with_conflicting_transactions_handler :: "web_app \<Rightarrow> string \<Rightarrow> page_response handler" where
  "single_block_with_conflicting_transactions_handler A hash_str =
     bind_res (refuse (parse_block_hash_str (app_hex A) hash_str)) (\<lambda>hash.
     let ctx = (base_ctx A)(''NAV_PAGE_CONFLICTING'' \<mapsto> CBool True, ''MAX_BLOCKS_PER_PAGE'' \<mapsto> CInt MAX_BLOCKS_PER_PAGE)
     in bind_res (get_conn A 0) (\<lambda>conn.
        bind_res (web_block A (single_block_with_conflicting_transactions conn hash)) (\<lambda>info.
          render_page A ''subpage/conflicting.html''
            (ctx(''single_block_with_conflicting_transactions'' \<mapsto> CConflictingBlock info)) text_html)))"

section \<open>Other pages\<close>

definition robots_txt :: "page_response handler" where
  "robots_txt =
     Inr \<lparr>pr_status = 200, pr_content_type = ''text/plain'',
          pr_body = TextBody (''User-agent: *'' @ [CHR 0x0A] @ ''Allow: /'' @ [CHR 0x0A] @ ''Disallow: /debug/*'')\<rparr>"

definition faq :: "web_app \<Rightarrow> page_response handler" where
  "faq A =
     (let ctx = (base_ctx A)(''TX_TAG_VECTOR'' \<mapsto> CTags (map TxTag_value TX_TAGS),
            ''BLOCK_TAG_VECTOR'' \<mapsto> CTags (map BlockTag_value BLOCK_TAGS), ''NAV_PAGE_FAQ'' \<mapsto> CBool True)
      in bind_res (get_conn A 0) (\<lambda>conn.
         bind_res (web_block A (get_recent_sanctioned_utxo_scan_info conn)) (\<lambda>scan.
         bind_res (get_conn A 1) (\<lambda>conn.
         bind_res (web_block A (web_sanctioned_addresses conn)) (\<lambda>addresses.
           render_page A ''faq.html''
             (ctx(''recent_sanctioned_utxo_scan_info'' \<mapsto> CScan scan, ''SANCTIONED_ADDRESSES'' \<mapsto> CStrings addresses)) text_html)))))"

section \<open>Debug pages\<close>

text \<open>\<^verbatim>\<open>HttpResponse::NotFound().finish()\<close>.\<close>

definition hidden_page :: "page_response" where
  "hidden_page = \<lparr>pr_status = 404, pr_content_type = '''', pr_body = NoBody\<rparr>"

definition debug_handler :: "web_app \<Rightarrow> page_response handler" where
  "debug_handler A =
     (if \<not> app_debug_pages A then Inr hidden_page
      else render_page A ''debug/index.html'' (base_ctx A) text_html)"

definition debug_utxoset_scans :: "web_app \<Rightarrow> query_params \<Rightarrow> page_response handler" where
  "debug_utxoset_scans A query =
     (if \<not> app_debug_pages A then Inr hidden_page
      else bind_res (query_page query) (\<lambda>page.
           bind_res (get_conn A 0) (\<lambda>conn.
           let ctx = (base_ctx A)(''MAX_BLOCKS_PER_PAGE'' \<mapsto> CInt MAX_BLOCKS_PER_PAGE, ''QUERY_PAGE'' \<mapsto> CStr QUERY_PAGE)
           in bind_res (web_block A (sanctioned_utxo_scan_infos conn page)) (\<lambda>(scans, max_pages).
                render_page A ''debug/utxo_set_scans.html''
                  (ctx(''scans'' \<mapsto> CScans scans, ''MAX_PAGES'' \<mapsto> CInt (int max_pages),
                     ''CURRENT_PAGE'' \<mapsto> CInt (int page))) text_html))))"

definition debug_unknown_pool_blocks :: "web_app \<Rightarrow> page_response handler" where
  "debug_unknown_pool_blocks A =
     (if \<not> app_debug_pages A then Inr hidden_page
      else bind_res (get_conn A 0) (\<lambda>conn.
           bind_res (web_block A (web_unknown_pool_blocks conn)) (\<lambda>bs.
             render_page A ''debug/unknown_pool_blocks.html'' ((base_ctx A)(''unknown_pool_blocks'' \<mapsto> CBlocks bs)) text_html)))"

definition debug_fees_by_pool :: "web_app \<Rightarrow> page_response handler" where
  "debug_fees_by_pool A =
     (if \<not> app_debug_pages A then Inr hidden_page
      else bind_res (get_conn A 0) (\<lambda>conn.
           bind_res (web_block A (avg_fees_by_pool conn)) (\<lambda>avg_fees.
             render_page A ''debug/fees_by_pool.html'' ((base_ctx A)(''avgfees'' \<mapsto> CAvgFees avg_fees)) text_html)))"

definition debug_template_selection_infos_handler :: "web_app \<Rightarrow> query_params \<Rightarrow> page_response handler" where
  "debug_template_selection_infos_handler A query =
     (if \<not> app_debug_pages A then Inr hidden_page
      else bind_res (query_page query) (\<lambda>page.
           let ctx = (base_ctx A)(''MAX_BLOCKS_PER_PAGE'' \<mapsto> CInt MAX_BLOCKS_PER_PAGE, ''QUERY_PAGE'' \<mapsto> CStr QUERY_PAGE)
           in bind_res (get_conn A 0) (\<lambda>conn.
              bind_res (web_block A (debug_template_selection_infos conn page)) (\<lambda>(infos, max_pages).
                render_page A ''debug/template_selection.html''
                  (ctx(''template_selection_infos'' \<mapsto> CSelection infos, ''MAX_PAGES'' \<mapsto> CInt (int max_pages),
                     ''CURRENT_PAGE'' \<mapsto> CInt (int page))) text_html))))"

definition debug_sanctioned_by_pool :: "web_app \<Rightarrow> page_response handler" where
  "debug_sanctioned_by_pool A =
     (if \<not> app_debug_pages A then Inr hidden_page
      else bind_res (get_conn A 0) (\<lambda>conn.
           bind_res (web_block A (debug_sanctioned_table conn)) (\<lambda>sanctioned_table.
             render_page A ''debug/sanctioned_by_pool.html''
               ((base_ctx A)(''sanctioned_table'' \<mapsto> CSanctionedTable sanctioned_table)) text_html)))"

definition debug_sanctioned_transactions_rss :: "web_app \<Rightarrow> page_response handler" where
  "debug_sanctioned_transactions_rss A =
     bind_res (get_conn A 0) (\<lambda>conn.
     bind_res (web_block A (debug_templates_and_blocks_with_sanctioned_tx conn)) (\<lambda>bs.
       render_page A ''debug/rss/sanctioned.rss''
         ((base_ctx A)(''templates_and_blocks_with_sanctioned_tx'' \<mapsto> CBlocks bs)) rss_xml))"

lemmas handler_defs = index_handler_def templates_and_blocks_def single_template_and_block_def
  missing_sanctioned_transactions_rss_def missing_sanctioned_def missing_transactions_handler_def
  single_missing_transaction_handler_def missing_transactions_rss_def conflicting_transactions_def
  single_block_with_conflicting_transactions_handler_def robots_txt_def faq_def debug_handler_def debug_utxoset_scans_def
  debug_unknown_pool_blocks_def debug_fees_by_pool_def debug_template_selection_infos_handler_def
  debug_sanctioned_by_pool_def debug_sanctioned_transactions_rss_def

end
