(* ===== verification/Web_Images.thy ===== *)
theory Web_Images
  imports Web_Handlers
begin

text \<open>
  The preview images of the pages (\<^verbatim>\<open>web/src/ogimage.rs\<close>): a handler renders an SVG template and
  converts it to PNG. The crates that parse, draw and encode images are the record \<open>image_lib\<close>, over
  types of trees and of pixmaps. Fees and sizes of stored transactions are not negative, so the
  feerate is computed with the non-negative numbers of the theory \<open>Fp_Model\<close>.
\<close>

record ('t, 'p) image_lib =
  tree_from_str :: "string \<Rightarrow> string + 't"
  tree_screen_size :: "'t \<Rightarrow> nat \<times> nat"
  pixmap_new :: "nat \<Rightarrow> nat \<Rightarrow> 'p option"
  resvg_render :: "'t \<Rightarrow> 'p \<Rightarrow> 'p option"
  encode_png :: "'p \<Rightarrow> string + bytes"

text \<open>The payloads of the errors are the texts they display.\<close>

datatype ImageError = UsvgError string | PngEncodingError string | RenderError | PixmapCreationError

fun image_error_text :: "ImageError \<Rightarrow> string" where
  "image_error_text (UsvgError e) = e"
| "image_error_text (PngEncodingError e) = ''could not encoded as PNG: '' @ e"
| "image_error_text RenderError = ''could not render the SVG''"
| "image_error_text PixmapCreationError = ''could not create a new PixMap''"

definition render_and_encode :: "('t, 'p) image_lib \<Rightarrow> string \<Rightarrow> ImageError + bytes" where
  "render_and_encode L svg =
     bind_res (map_err UsvgError (tree_from_str L svg)) (\<lambda>rtree.
     case tree_screen_size L rtree of (width, height) \<Rightarrow>
       (case pixmap_new L width height of
          None \<Rightarrow> Inl PixmapCreationError
        | Some pixmap \<Rightarrow>
            (case resvg_render L rtree pixmap of
               None \<Rightarrow> Inl RenderError
             | Some pixmap \<Rightarrow> map_err PngEncodingError (encode_png L pixmap))))"

definition format_tag :: "tag \<Rightarrow> string" where
  "format_tag t =
     (let color = (if tag_color t = CYAN then ''#00a6d6'' else if tag_color t = YELLOW then ''#FFA500''
           else if tag_color t = RED then ''#cb2821'' else ''#000000'')
      in ''<tspan fill='' @ [CHR 0x22] @ color @ [CHR 0x22] @ ''>'' @ tag_name t @ ''</tspan>'')"

text \<open>\<^verbatim>\<open>f32::round\<close> of a non-negative number: halves are rounded up.\<close>

fun fp_round :: "fp \<Rightarrow> fp" where
  "fp_round (Fin x) = Fin (of_int \<lfloor>x + 1 / 2\<rfloor>)"
| "fp_round Inf = Inf"
| "fp_round NaN = NaN"

definition shown_feerate :: "db_transaction \<Rightarrow> fp" where
  "shown_feerate tx =
     fp_round (fp_convert f32_prec
       (fp_div f64_prec (u64_as_fp f64_prec (nat (t_fee tx))) (u64_as_fp f64_prec (nat (t_vsize tx)))))"

definition format_tx_tag :: "int \<Rightarrow> string handler" where
  "format_tx_tag i =
     (case TxTag_try_from i of
        Some t \<Rightarrow> Inr (format_tag (TxTag_value t)) | None \<Rightarrow> Inl (Crashed (UnwrapNone ''TxTag::try_from'')))"

text \<open>Rendering a template and encoding the result; the handlers differ in the error they report.\<close>

definition render_image ::
  "('t, 'p) image_lib \<Rightarrow> web_app \<Rightarrow> string \<Rightarrow> tera_context \<Rightarrow> (ImageError \<Rightarrow> string) \<Rightarrow> page_response handler" where
  "render_image L A template ctx error_text =
     bind_res (refuse (map_err template_error (app_render A template ctx))) (\<lambda>s.
     case render_and_encode L s of
       Inr png_data \<Rightarrow> Inr \<lparr>pr_status = 200, pr_content_type = ''image/png'', pr_body = BinaryBody png_data\<rparr>
     | Inl e \<Rightarrow> Inl (Refused (ErrorInternalServerError (error_text e))))"

definition image_ctx :: "web_app \<Rightarrow> tera_context" where
  "image_ctx A = [''config'' \<mapsto> CSite (Some (app_site A))]"

definition render_or_encoding_error :: "ImageError \<Rightarrow> string" where
  "render_or_encoding_error e = ''Render or Encoding Error''"

definition ogimage_missing_transaction ::
  "('t, 'p) image_lib \<Rightarrow> web_app \<Rightarrow> string \<Rightarrow> page_response handler" where
  "ogimage_missing_transaction L A txid_str =
     bind_res (refuse (parse_txid_str (app_hex A) txid_str)) (\<lambda>txid.
     bind_res (get_conn A 0) (\<lambda>conn.
     bind_res (web_block A (single_missing_transaction txid conn)) (\<lambda>m.
     bind_res (map_res format_tx_tag (t_tags (mt_transaction m))) (\<lambda>tags.
       render_image L A ''svg/subpage_missing_transaction.svg''
         ((image_ctx A)(''data'' \<mapsto> CMissingImage
            \<lparr>mti_block_count = length (mt_blocks m), mti_txid = hex_encode (app_hex A) (t_txid (mt_transaction m)),
             mti_feerate = shown_feerate (mt_transaction m), mti_size = t_vsize (mt_transaction m),
             mti_fee = t_fee (mt_transaction m), mti_tags = tags\<rparr>)) image_error_text))))"

definition ogimage_template_and_block ::
  "('t, 'p) image_lib \<Rightarrow> web_app \<Rightarrow> string \<Rightarrow> page_response handler" where
  "ogimage_template_and_block L A hash_str =
     bind_res (refuse (parse_block_hash_str (app_hex A) hash_str)) (\<lambda>hash.
     bind_res (get_conn A 0) (\<lambda>conn.
     bind_res (web_block A (block_by_hash hash conn)) (\<lambda>block.
       render_image L A ''svg/subpage_template_and_block.svg''
         ((image_ctx A)(''data'' \<mapsto> CTemplateImage
            \<lparr>tbi_hash = hex_encode (app_hex A) (nb_hash block), tbi_height = nb_height block, tbi_pool = nb_pool_name block,
             tbi_missing = nb_missing_tx block, tbi_extra = nb_extra_tx block, tbi_shared = nb_shared_tx block\<rparr>))
         render_or_encoding_error)))"

definition ogimage_block_with_conflicting_transactions ::
  "('t, 'p) image_lib \<Rightarrow> web_app \<Rightarrow> string \<Rightarrow> page_response handler" where
  "ogimage_block_with_conflicting_transactions L A hash_str =
     bind_res (refuse (parse_block_hash_str (app_hex A) hash_str)) (\<lambda>hash.
     bind_res (get_conn A 0) (\<lambda>conn.
     bind_res (web_block A (single_block_with_conflicting_transactions conn hash)) (\<lambda>info.
       render_image L A ''svg/subpage_block_with_conflicting_transactions.svg''
         ((image_ctx A)(''data'' \<mapsto> CConflictingImage
            \<lparr>cbi_hash = hex_encode (app_hex A) (nb_hash (cti_block info)), cbi_pool = nb_pool_name (cti_block info),
             cbi_height = nb_height (cti_block info), cbi_conflicts = length (cti_conflicting_transaction_sets info)\<rparr>))
         render_or_encoding_error)))"

definition ogimage_mainpage_templates_and_blocks :: "('t, 'p) image_lib \<Rightarrow> web_app \<Rightarrow> page_response handler" where
  "ogimage_mainpage_templates_and_blocks L A =
     render_image L A ''svg/mainpage_templates_and_blocks.svg'' (image_ctx A) render_or_encoding_error"

definition ogimage_mainpage_faq :: "('t, 'p) image_lib \<Rightarrow> web_app \<Rightarrow> page_response handler" where
  "ogimage_mainpage_faq L A = render_image L A ''svg/mainpage_faq.svg'' (image_ctx A) render_or_encoding_error"

definition ogimage_mainpage_missing_transactions :: "('t, 'p) image_lib \<Rightarrow> web_app \<Rightarrow> page_response handler" where
  "ogimage_mainpage_missing_transactions L A =
     render_image L A ''svg/mainpage_missing_transactions.svg'' (image_ctx A) render_or_encoding_error"

definition ogimage_mainpage_conflicting_transactions :: "('t, 'p) image_lib \<Rightarrow> web_app \<Rightarrow> page_response handler" where
  "ogimage_mainpage_conflicting_transactions L A =
     render_image L A ''svg/mainpage_conflicting_transactions.svg'' (image_ctx A) render_or_encoding_error"

definition ogimage_mainpage_sanctioned_transactions :: "('t, 'p) image_lib \<Rightarrow> web_app \<Rightarrow> page_response handler" where
  "ogimage_mainpage_sanctioned_transactions L A =
     render_image L A ''svg/mainpage_sanctioned_transactions.svg'' (image_ctx A) render_or_encoding_error"

definition ogimage_mainpage_index :: "('t, 'p) image_lib \<Rightarrow> web_app \<Rightarrow> page_response handler" where
  "ogimage_mainpage_index L A = render_image L A ''svg/mainpage_index.svg'' (image_ctx A) render_or_encoding_error"

section \<open>Facts\<close>

lemma served_image [simp]: "served (render_image L A t c err)"
proof (cases "app_render A t c")
  case (Inr s)
  then show ?thesis by (cases "render_and_encode L s") (simp_all add: render_image_def refuse_def served_def)
qed (simp add: render_image_def refuse_def template_error_def served_def)

lemma map_res_served: "(\<And>x. x \<in> set xs \<Longrightarrow> served (f x)) \<Longrightarrow> served (map_res f xs)"
  by (induction xs) (auto intro!: served_bind)

lemma format_tx_tag_served: "i \<in> range TxTag_as_i32 \<Longrightarrow> served (format_tx_tag i)"
  by (auto simp: format_tx_tag_def)

lemma single_missing_transaction_row:
  assumes "single_missing_transaction txid W = Inr m"
  shows "mt_transaction m \<in> set (w_transactions W) \<and> t_txid (mt_transaction m) = txid"
proof -
  obtain tx rows bs where data: "single_missing_transaction_data txid W = Inr (tx, rows, bs)"
    and m: "missing_transaction_of (block_map_of bs) tx rows = Inr m"
    using assms by (auto simp: single_missing_transaction_def res_simps)
  from data obtain txs where "filter (\<lambda>t. t_txid t = txid) (w_transactions W) = tx # txs"
    by (auto simp: single_missing_transaction_data_def sql_first_def sql_load_def res_simps Let_def
        split: option.splits list.splits)
  then have "tx \<in> set (filter (\<lambda>t. t_txid t = txid) (w_transactions W))" by simp
  moreover have "mt_transaction m = tx" using m by (auto simp: missing_transaction_of_def res_simps)
  ultimately show ?thesis by simp
qed

lemma served_missing_image:
  assumes "app_pool A 0 = Some W" "\<forall>t\<in>set (w_transactions W). set (t_tags t) \<subseteq> range TxTag_as_i32"
  shows "served (ogimage_missing_transaction L A txid_str)"
proof -
  have "served (map_res format_tx_tag (t_tags (mt_transaction m)))"
    if "web_block A (single_missing_transaction txid W) = Inr m" for txid m
  proof -
    from that have "single_missing_transaction txid W = Inr m"
      by (simp add: web_block_def split: sum.splits web_failure.splits)
    then have "mt_transaction m \<in> set (w_transactions W)" using single_missing_transaction_row by blast
    with assms(2) show ?thesis by (auto intro!: map_res_served format_tx_tag_served)
  qed
  with assms(1) show ?thesis
    unfolding ogimage_missing_transaction_def by (auto intro!: served_bind simp: get_conn_def)
qed

lemmas image_defs = ogimage_template_and_block_def ogimage_block_with_conflicting_transactions_def
  ogimage_mainpage_templates_and_blocks_def ogimage_mainpage_faq_def ogimage_mainpage_missing_transactions_def
  ogimage_mainpage_conflicting_transactions_def ogimage_mainpage_sanctioned_transactions_def ogimage_mainpage_index_def

end
