(* ===== verification/Web_App.thy ===== *)
theory Web_App
  imports Web_Images
begin

text \<open>
  The web server (\<^verbatim>\<open>web/src/main.rs\<close>): its start-up, the table of routes and the answer to a
  \<^verbatim>\<open>GET\<close> request. The routes are tried in the order in which they are registered; whether a pattern
  matches a path, and the value it captures, is decided by the web framework and is the argument
  \<open>match_path\<close>, as are the static files. The handlers for error pages wrap only the empty scope
  behind the routes, so they answer unknown paths.
\<close>

section \<open>Routes\<close>

datatype page =
    Index | OgIndex
  | TemplatesAndBlocks | MissingSanctionedRss | OgTemplatesAndBlocks | TemplateAndBlock | OgTemplateAndBlock
  | Missing | OgMissing | MissingRss | MissingTx | OgMissingTx
  | MissingSanctioned | OgMissingSanctioned
  | ConflictingPage | OgConflicting | ConflictingBlock | OgConflictingBlock
  | Debug | DebugFees | DebugUnknown | DebugScans | DebugSelection | DebugSanctioned | DebugSanctionedRss
  | Faq | OgFaq | Robots

definition routes :: "(string \<times> page) list" where
  "routes =
     [(''/'', Index),
      (''/og_image/index.png'', OgIndex),
      (''/template-and-block'', TemplatesAndBlocks),
      (''/template-and-block/sanctioned-feed.xml'', MissingSanctionedRss),
      (''/og_image/template-and-block.png'', OgTemplatesAndBlocks),
      (''/template-and-block/{hash}'', TemplateAndBlock),
      (''/og_image/template-and-block/{hash}.png'', OgTemplateAndBlock),
      (''/missing'', Missing),
      (''/og_image/missing.png'', OgMissing),
      (''/missing/feed.xml'', MissingRss),
      (''/missing/{txid}'', MissingTx),
      (''/og_image/missing/{txid}.png'', OgMissingTx),
      (''/missing-sanctioned'', MissingSanctioned),
      (''/og_image/missing-sanctioned.png'', OgMissingSanctioned),
      (''/conflicting'', ConflictingPage),
      (''/og_image/conflicting.png'', OgConflicting),
      (''/conflicting/{hash}'', ConflictingBlock),
      (''/og_image/conflicting/{hash}.png'', OgConflictingBlock),
      (''/debug'', Debug),
      (''/debug/fees'', DebugFees),
      (''/debug/unknown'', DebugUnknown),
      (''/debug/sanctioned-utxo-scans'', DebugScans),
      (''/debug/template-selection'', DebugSelection),
      (''/debug/sanctioned'', DebugSanctioned),
      (''/debug/sanctioned/feed.xml'', DebugSanctionedRss),
      (''/faq'', Faq),
      (''/og_image/faq.png'', OgFaq),
      (''/robots.txt'', Robots)]"

fun run_page ::
  "('t, 'p) image_lib \<Rightarrow> web_app \<Rightarrow> page \<Rightarrow> string \<Rightarrow> query_params \<Rightarrow> page_response handler" where
  "run_page L A Index arg query = index_handler A"
| "run_page L A OgIndex arg query = ogimage_mainpage_index L A"
| "run_page L A TemplatesAndBlocks arg query = templates_and_blocks A query"
| "run_page L A MissingSanctionedRss arg query = missing_sanctioned_transactions_rss A"
| "run_page L A OgTemplatesAndBlocks arg query = ogimage_mainpage_templates_and_blocks L A"
| "run_page L A TemplateAndBlock arg query = single_template_and_block A arg"
| "run_page L A OgTemplateAndBlock arg query = ogimage_template_and_block L A arg"
| "run_page L A Missing arg query = missing_transactions_handler A query"
| "run_page L A OgMissing arg query = ogimage_mainpage_missing_transactions L A"
| "run_page L A MissingRss arg query = missing_transactions_rss A query"
| "run_page L A MissingTx arg query = single_missing_transaction_handler A arg"
| "run_page L A OgMissingTx arg query = ogimage_missing_transaction L A arg"
| "run_page L A MissingSanctioned arg query = missing_sanctioned A"
| "run_page L A OgMissingSanctioned arg query = ogimage_mainpage_sanctioned_transactions L A"
| "run_page L A ConflictingPage arg query = conflicting_transactions A query"
| "run_page L A OgConflicting arg query = ogimage_mainpage_conflicting_transactions L A"
| "run_page L A ConflictingBlock arg query = single_block_with_conflicting_transactions_handler A arg"
| "run_page L A OgConflictingBlock arg query = ogimage_block_with_conflicting_transactions L A arg"
| "run_page L A Debug arg query = debug_handler A"
| "run_page L A DebugFees arg query = debug_fees_by_pool A"
| "run_page L A DebugUnknown arg query = debug_unknown_pool_blocks A"
| "run_page L A DebugScans arg query = debug_utxoset_scans A query"
| "run_page L A DebugSelection arg query = debug_template_selection_infos_handler A query"
| "run_page L A DebugSanctioned arg query = debug_sanctioned_by_pool A"
| "run_page L A DebugSanctionedRss arg query = debug_sanctioned_transactions_rss A"
| "run_page L A Faq arg query = faq A"
| "run_page L A OgFaq arg query = ogimage_mainpage_faq L A"
| "run_page L A Robots arg query = robots_txt"

fun find_route :: "(string \<Rightarrow> string \<Rightarrow> string option) \<Rightarrow> string \<Rightarrow> (string \<times> page) list \<Rightarrow> (page \<times> string) option" where
  "find_route match_path path [] = None"
| "find_route match_path path ((pattern, p) # rs) =
     (case match_path pattern path of Some arg \<Rightarrow> Some (p, arg) | None \<Rightarrow> find_route match_path path rs)"

text \<open>A request is answered, or its handler panics.\<close>

definition handle ::
  "(string \<Rightarrow> string \<Rightarrow> string option) \<Rightarrow> (string \<Rightarrow> page_response option) \<Rightarrow> ('t, 'p) image_lib \<Rightarrow> web_app \<Rightarrow>
     string \<Rightarrow> query_params \<Rightarrow> panic + page_response" where
  "handle match_path static_file L A path query =
     (case find_route match_path path routes of
        Some (p, arg) \<Rightarrow>
          (case run_page L A p arg query of
             Inr response \<Rightarrow> Inr response
           | Inl (Refused e) \<Rightarrow> Inr (error_response e)
           | Inl (Crashed c) \<Rightarrow> Inl c)
      | None \<Rightarrow>
          (case static_file path of
             Some response \<Rightarrow> Inr response
           | None \<Rightarrow> Inr (not_found (Some (app_render A)) (Some (app_site A)) 404)))"

section \<open>Start-up\<close>

record web_startup_env =
  we_host :: host
  we_logger_error :: "string option"
  we_new_pool_error :: "string \<Rightarrow> string option"
  we_bind_error :: "string \<Rightarrow> io_error option"
  we_tera :: "string \<Rightarrow> string + (string \<Rightarrow> tera_context \<Rightarrow> string + string)"
  we_first_connection :: "web_conn option"
  we_pool :: "nat \<Rightarrow> web_conn option"
  we_hex :: hex_lib
  we_db_error_text :: "db_error \<Rightarrow> string"
  we_blocking_error_text :: string

datatype web_stop = WebPanic panic | WebIoError io_error

definition or_stop :: "'e + 'a \<Rightarrow> string \<Rightarrow> web_stop + 'a" where
  "or_stop r msg = map_err (\<lambda>e. WebPanic (ExpectFailed msg)) r"

definition no_stop :: "'e option \<Rightarrow> string \<Rightarrow> web_stop + unit" where
  "no_stop e msg = (case e of None \<Rightarrow> Inr () | Some x \<Rightarrow> Inl (WebPanic (ExpectFailed msg)))"

text \<open>The closure that builds the application runs when the server starts, after the address is bound.\<close>

definition new_app :: "web_startup_env \<Rightarrow> WebConfig \<Rightarrow> web_stop + web_app" where
  "new_app E config =
     bind_res (or_stop (we_tera E (wc_www_dir_path config @ ''/templates/**/*'')) ''Tera template parsing failed.'') (\<lambda>render.
     bind_res (case we_first_connection E of
         None \<Rightarrow> Inl (WebPanic (UnwrapNone ''pool.get'')) | Some conn \<Rightarrow> Inr conn) (\<lambda>conn.
     bind_res (map_err (\<lambda>e. WebPanic (UnwrapNone ''get_node_info'')) (get_node_info conn)) (\<lambda>node_version.
       Inr \<lparr>app_pool = we_pool E, app_site = wc_site config, app_debug_pages = wc_debug_pages config,
            app_node_version = node_version, app_render = render, app_hex = we_hex E,
            app_db_error_text = we_db_error_text E, app_blocking_error_text = we_blocking_error_text E\<rparr>)))"

definition web_main :: "web_startup_env \<Rightarrow> web_stop + web_app" where
  "web_main E =
     bind_res (or_stop (load_web_config (we_host E)) ''could not load the configuration'') (\<lambda>config.
     bind_res (no_stop (we_logger_error E) ''Could not setup logger'') (\<lambda>u.
     bind_res (no_stop (we_new_pool_error E (wc_database_url config)) ''Could not create a Postgres connection pool'') (\<lambda>u.
     bind_res (case we_bind_error E (wc_address config) of None \<Rightarrow> Inr () | Some e \<Rightarrow> Inl (WebIoError e)) (\<lambda>u.
       new_app E config))))"

section \<open>Facts\<close>

lemma query_page_served [simp]: "served (query_page query)"
  by (simp add: query_page_def split: option.splits)

lemma served_prod: "(\<And>a b. x = (a, b) \<Longrightarrow> served (f a b)) \<Longrightarrow> served (case x of (a, b) \<Rightarrow> f a b)"
  by (cases x) simp

text \<open>No handler panics while the pool has connections and the stored tags are tags.\<close>

definition pool_ok :: "web_app \<Rightarrow> bool" where
  "pool_ok A \<longleftrightarrow>
     (\<exists>W. app_pool A 0 = Some W \<and> (\<forall>t\<in>set (w_transactions W). set (t_tags t) \<subseteq> range TxTag_as_i32)) \<and>
     (\<exists>W. app_pool A 1 = Some W)"

lemma run_page_served:
  assumes "pool_ok A"
  shows "served (run_page L A p arg query)"
proof -
  obtain W where W: "app_pool A 0 = Some W" "\<forall>t\<in>set (w_transactions W). set (t_tags t) \<subseteq> range TxTag_as_i32"
    and V: "\<exists>V. app_pool A 1 = Some V" using assms by (auto simp: pool_ok_def)
  have conns: "served (get_conn A 0)" "served (get_conn A (Suc 0))" using W(1) V by (auto intro: served_conn)
  show ?thesis
    by (cases p) (auto simp: handler_defs image_defs Let_def conns served_missing_image [OF W]
        intro!: served_bind served_prod)
qed

lemma find_route_page: "find_route match_path path rs = Some (p, arg) \<Longrightarrow> p \<in> snd ` set rs"
  by (induction match_path path rs rule: find_route.induct) (auto split: option.splits)

end
