(* ===== verification/Web_Pages.thy ===== *)
theory Web_Pages
  imports Web_Db
begin

text \<open>
  Properties of the queries of the theory \<open>Web_Db\<close>. The page counts are exact although they are
  computed in single precision; the lookups that join rows through hash maps are the locale
  \<open>keyed_rows\<close>, interpreted for the two maps of the code; on tables whose keys hold the pages of
  missing and of conflicting transactions are complete, and their \<^verbatim>\<open>unwrap\<close>s never fail.
\<close>

section \<open>Page counts\<close>

lemma round_even_lower: "m - 1 / 2 \<le> of_int (round_even m)"
  using floor_correct [of m] by (auto simp: round_even_def Let_def)

lemma quotient_large:
  assumes "0 < n" "0 < d" "d < 2 ^ 24"
  shows "1 / 2 ^ 64 \<le> (of_nat n / of_nat d :: rat)"
proof -
  have "(of_nat d :: rat) \<le> of_nat (2 ^ 24)" using assms(3) by (simp only: of_nat_le_iff)
  then have "(of_nat d :: rat) \<le> 2 ^ 64" by simp
  moreover have "(1 :: rat) \<le> of_nat n" using assms(1) by simp
  ultimately show ?thesis using assms(2) by (simp add: frac_le)
qed

text \<open>An \<^verbatim>\<open>f32\<close> quotient of exact operands is never rounded across an integer from above.\<close>

lemma round_prec_quotient_above:
  assumes "n < 2 ^ 24" "0 < n" "0 < d" "d < 2 ^ 24"
  shows "of_nat n / of_nat d - 1 / of_nat d < round_prec 24 (of_nat n / of_nat d)"
proof -
  let ?x = "of_nat n / of_nat d :: rat"
  have pos: "(0 :: rat) < of_nat d" "0 < ?x" using assms by simp_all
  have x: "1 / 2 ^ 64 \<le> ?x" using assms by (intro quotient_large)
  have "ulp 24 ?x * 2 ^ 23 = 2 powi (ilog2 ?x - 23) * 2 powi 23" by (simp add: ulp_def)
  also have "\<dots> = 2 powi ((ilog2 ?x - 23) + 23)" by (subst power_int_add) simp_all
  also have "\<dots> = 2 powi ilog2 ?x" by simp
  also have "\<dots> \<le> ?x" by (rule ilog2_bounds(1) [OF x])
  finally have "ulp 24 ?x / 2 \<le> ?x / 2 ^ 24" by simp
  also have "\<dots> < 1 / of_nat d"
  proof -
    have "(of_nat n :: rat) < of_nat (2 ^ 24)" using assms(1) by (simp only: of_nat_less_iff)
    then show ?thesis using pos(1) by (simp add: field_simps)
  qed
  finally have half: "ulp 24 ?x / 2 < 1 / of_nat d" .
  have "(?x / ulp 24 ?x - 1 / 2) * ulp 24 ?x \<le> of_int (round_even (?x / ulp 24 ?x)) * ulp 24 ?x"
    using ulp_pos [of 24 ?x] round_even_lower by (intro mult_right_mono) simp_all
  then have "?x - ulp 24 ?x / 2 \<le> round_prec 24 ?x"
    using pos(2) ulp_pos [of 24 ?x] by (simp add: round_prec_def left_diff_distrib)
  with half show ?thesis by linarith
qed

lemma max_pages_exact:
  assumes "n < 2 ^ 24" "0 < d" "d < 2 ^ 24"
  shows "max_pages_of (int n) (int d) = (n + d - 1) div d"
proof (cases "n = 0")
  case True
  with assms show ?thesis
    by (simp add: max_pages_of_def u64_as_fp_def round_prec_def [of _ 0] round_prec_nat)
next
  case False
  let ?x = "of_nat n / of_nat d :: rat" and ?c = "(n + d - 1) div d"
  have dpos: "(0 :: rat) < of_nat d" using assms(2) by simp
  have "?c * d \<le> n + d - 1" "n + d - 1 < ?c * d + d"
    using assms(2) div_times_less_eq_dividend [of "n + d - 1" d] dividend_less_div_times [of d "n + d - 1"]
    by (simp_all add: add.commute)
  then have c: "?c * d < n + d" "n \<le> ?c * d" using False by linarith+
  have "?c \<noteq> 0"
  proof
    assume "?c = 0"
    then show False using c(2) False by simp
  qed
  then obtain k where k: "?c = Suc k" by (cases ?c) auto
  have small: "?c \<le> n"
  proof -
    have "k * d < n" using c(1) unfolding k by simp
    moreover have "k * 1 \<le> k * d" using assms(2) by (intro mult_le_mono2) simp
    ultimately show ?thesis unfolding k by linarith
  qed
  have "(of_nat n :: rat) \<le> of_nat ?c * of_nat d" using c(2) by (metis of_nat_le_iff of_nat_mult)
  then have up: "?x \<le> of_nat ?c" by (simp only: pos_divide_le_eq [OF dpos])
  have "(of_nat (k * d + 1) :: rat) \<le> of_nat n" using c(1) unfolding k of_nat_le_iff by simp
  then have low: "of_nat k \<le> ?x - 1 / of_nat d" using dpos by (simp add: field_simps)
  have r: "of_nat k < round_prec 24 ?x" "round_prec 24 ?x \<le> of_nat ?c"
  proof -
    from low round_prec_quotient_above [of n d] assms False show "of_nat k < round_prec 24 ?x" by fastforce
    have "1 / 2 ^ 64 \<le> ?x" using assms False by (intro quotient_large) simp_all
    from round_prec_mono [OF this up, of 24] round_prec_nat [of ?c 24] small assms(1)
    show "round_prec 24 ?x \<le> of_nat ?c" by simp
  qed
  have "\<lceil>round_prec 24 ?x\<rceil> = int ?c"
    using r unfolding k by (intro ceiling_unique) simp_all
  moreover have "?c \<le> 2 ^ 32 - 1" using small assms(1) by simp
  ultimately show ?thesis
    using assms by (simp add: max_pages_of_def u64_as_fp_def round_prec_nat del: of_nat_div)
qed


section \<open>Lookups of joined rows\<close>

text \<open>The code joins rows through hash maps from a key to a row; a key that some row has is found,
  and what is found is such a row.\<close>

locale keyed_rows =
  fixes key :: "'r \<Rightarrow> 'k" and map_by_key :: "'r list \<Rightarrow> ('k, 'r) hash_map"
  assumes map_by_key: "map_by_key rows = hm_collect (map (\<lambda>r. (key r, r)) rows)"
begin

lemma get_Some: "hm_get (map_by_key rows) k = Some r \<Longrightarrow> r \<in> set rows \<and> key r = k"
  by (auto simp: map_by_key dest: map_of_SomeD)

lemma get_known: "k \<in> key ` set rows \<Longrightarrow> \<exists>r. hm_get (map_by_key rows) k = Some r"
proof -
  assume "k \<in> key ` set rows"
  then have "map_of (rev (map (\<lambda>r. (key r, r)) rows)) k \<noteq> None"
    by (auto simp: map_of_eq_None_iff image_image simp flip: rev_map)
  then show ?thesis by (auto simp: map_by_key)
qed

lemma get_unique: "distinct (map key rows) \<Longrightarrow> r \<in> set rows \<Longrightarrow> hm_get (map_by_key rows) (key r) = Some r"
  using get_known [of "key r" rows] get_Some by (metis distinct_map image_eqI inj_onD)

end

interpretation txm: keyed_rows t_txid tx_map_of
  by unfold_locales (simp add: tx_map_of_def)

interpretation blm: keyed_rows b_id block_map_of
  by unfold_locales (simp add: block_map_of_def)

text \<open>The keys of the tables: block ids and transaction ids are unique, and the rows of missing
  transactions reference a stored block and a stored transaction.\<close>

definition tables_ok :: "web_conn \<Rightarrow> bool" where
  "tables_ok W \<longleftrightarrow>
     distinct (map b_id (w_blocks W)) \<and> distinct (map t_txid (w_transactions W)) \<and>
     oit_block_id ` set (w_only_in_template W) \<subseteq> b_id ` set (w_blocks W) \<and>
     oit_txid ` set (w_only_in_template W) \<subseteq> t_txid ` set (w_transactions W)"

definition conflicts_stored :: "web_conn \<Rightarrow> bool" where
  "conflicts_stored W \<longleftrightarrow>
     (\<forall>ct\<in>set (w_conflicting W). set (ct_template_txids ct @ ct_block_txids ct) \<subseteq> t_txid ` set (w_transactions W))"

section \<open>Conflict pages\<close>

lemma conflict_set_ok:
  assumes "set (ct_template_txids ct @ ct_block_txids ct) \<subseteq> t_txid ` set txs"
  shows "\<exists>s. conflict_set (tx_map_of txs) ct = Inr s \<and>
    map t_txid (cts_template_transactions s) = ct_template_txids ct \<and>
    map t_txid (cts_block_transactions s) = ct_block_txids ct"
proof -
  let ?g = "\<lambda>txid. the (hm_get (tx_map_of txs) txid)"
  have found: "conflict_tx (tx_map_of txs) txid = Inr (?g txid) \<and> t_txid (?g txid) = txid"
    if "txid \<in> set (ct_template_txids ct @ ct_block_txids ct)" for txid
  proof -
    from that assms have "txid \<in> t_txid ` set txs" by blast
    then obtain tx where "hm_get (tx_map_of txs) txid = Some tx" using txm.get_known by blast
    then show ?thesis using txm.get_Some by (auto simp: conflict_tx_def)
  qed
  then have "map_res (conflict_tx (tx_map_of txs)) (ct_template_txids ct) = Inr (map ?g (ct_template_txids ct))"
    "map_res (conflict_tx (tx_map_of txs)) (ct_block_txids ct) = Inr (map ?g (ct_block_txids ct))"
    by (auto intro!: map_res_ok)
  moreover have "map t_txid (map ?g ids) = ids" if "set ids \<subseteq> set (ct_template_txids ct @ ct_block_txids ct)" for ids
    using that found by (auto intro!: map_idI)
  ultimately show ?thesis by (simp add: conflict_set_def)
qed

text \<open>What a page shows of one block: its conflict rows in table order, each with the stored
  transactions of its ids.\<close>

definition shows_conflicts :: "conflicting_transaction list \<Rightarrow> ConflictingTransactionSet list \<Rightarrow> bool" where
  "shows_conflicts cts sets \<longleftrightarrow>
     list_all2 (\<lambda>ct s. map t_txid (cts_template_transactions s) = ct_template_txids ct \<and>
       map t_txid (cts_block_transactions s) = ct_block_txids ct) cts sets"

lemma conflict_sets_ok:
  assumes "conflicts_stored W" "set cts \<subseteq> set info" "set info \<subseteq> set (w_conflicting W)"
  shows "\<exists>sets. map_res (conflict_set (tx_map_of (filter (\<lambda>t. t_txid t \<in> set (txids_of_conflicts info)) (w_transactions W)))) cts =
    Inr sets \<and> shows_conflicts cts sets"
  unfolding shows_conflicts_def
proof (rule map_res_total, rule conflict_set_ok)
  fix ct assume "ct \<in> set cts"
  with assms have "ct \<in> set info" "ct \<in> set (w_conflicting W)" by auto
  with assms(1) show "set (ct_template_txids ct @ ct_block_txids ct) \<subseteq>
      t_txid ` set (filter (\<lambda>t. t_txid t \<in> set (txids_of_conflicts info)) (w_transactions W))"
    unfolding conflicts_stored_def txids_of_conflicts_def by fastforce
qed


lemma single_conflict_page_ok:
  assumes "readable W" "conflicts_stored W" "b \<in> set (w_blocks W)" "nb_hash b = h"
  shows "\<exists>info. single_block_with_conflicting_transactions W h = Inr info \<and> cti_block info \<in> set (w_blocks W) \<and>
    nb_hash (cti_block info) = h \<and>
    shows_conflicts (filter (\<lambda>ct. ct_block_id ct = b_id (cti_block info)) (w_conflicting W)) (cti_conflicting_transaction_sets info)"
proof -
  obtain b' bs where b': "filter (\<lambda>b. nb_hash b = h) (w_blocks W) = b' # bs"
    using assms(3,4) by (metis (mono_tags, lifting) filter_empty_conv list.exhaust)
  then have "b' \<in> set (filter (\<lambda>b. nb_hash b = h) (w_blocks W))" by simp
  then have mem: "b' \<in> set (w_blocks W)" "nb_hash b' = h" by simp_all
  let ?info = "filter (\<lambda>ct. ct_block_id ct = b_id b') (w_conflicting W)"
  obtain sets where "map_res (conflict_set (tx_map_of (filter (\<lambda>t. t_txid t \<in> set (txids_of_conflicts ?info)) (w_transactions W)))) ?info =
      Inr sets" "shows_conflicts ?info sets"
    using conflict_sets_ok [OF assms(2) subset_refl, of ?info] by auto
  with assms(1) b' mem show ?thesis
    by (simp add: single_block_with_conflicting_transactions_def single_block_with_conflicting_transactions_data_def)
qed

lemma conflict_pages_ok:
  assumes "readable W" "conflicts_stored W"
  shows "\<exists>infos. blocks_with_conflicting_transactions W page =
      Inr (infos, max_pages_of (int (card (ct_block_id ` set (w_conflicting W)))) MAX_BLOCKS_PER_PAGE) \<and>
    (\<forall>info\<in>set infos. cti_block info \<in> set (w_blocks W) \<and>
       shows_conflicts (filter (\<lambda>ct. ct_block_id ct = b_id (cti_block info)) (w_conflicting W))
         (cti_conflicting_transaction_sets info))"
proof -
  define rows where "rows = limit_offset MAX_BLOCKS_PER_PAGE (MAX_BLOCKS_PER_PAGE * int page) (order_desc snd (remdups
      [(ct_block_id ct, nb_height b). ct \<leftarrow> w_conflicting W, b \<leftarrow> w_blocks W, b_id b = ct_block_id ct]))"
  let ?info = "filter (\<lambda>ct. ct_block_id ct \<in> fst ` set rows) (w_conflicting W)"
  let ?txs = "filter (\<lambda>t. t_txid t \<in> set (txids_of_conflicts ?info)) (w_transactions W)"
  let ?blocks = "order_desc b_id (filter (\<lambda>b. b_id b \<in> fst ` set rows) (w_blocks W))"
  let ?f = "\<lambda>b. bind_res (map_res (conflict_set (tx_map_of ?txs)) (filter (\<lambda>ct. ct_block_id ct = b_id b) ?info)) (\<lambda>sets.
      Inr \<lparr>cti_block = b, cti_conflicting_transaction_sets = sets\<rparr>)"
  let ?P = "\<lambda>b i. cti_block i = b \<and>
      shows_conflicts (filter (\<lambda>ct. ct_block_id ct = b_id b) (w_conflicting W)) (cti_conflicting_transaction_sets i)"
  have "\<exists>i. ?f b = Inr i \<and> ?P b i" if "b \<in> set ?blocks" for b
  proof -
    have eq: "filter (\<lambda>ct. ct_block_id ct = b_id b) ?info = filter (\<lambda>ct. ct_block_id ct = b_id b) (w_conflicting W)"
      using that by (auto intro!: filter_cong intro: rev_image_eqI)
    have "set (filter (\<lambda>ct. ct_block_id ct = b_id b) ?info) \<subseteq> set ?info" "set ?info \<subseteq> set (w_conflicting W)" by auto
    from conflict_sets_ok [OF assms(2) this] obtain sets where
      "map_res (conflict_set (tx_map_of ?txs)) (filter (\<lambda>ct. ct_block_id ct = b_id b) ?info) = Inr sets"
      "shows_conflicts (filter (\<lambda>ct. ct_block_id ct = b_id b) ?info) sets" by blast
    with eq show ?thesis by simp
  qed
  from map_res_total [of ?blocks ?f ?P, OF this] obtain infos where infos: "map_res ?f ?blocks = Inr infos"
    "list_all2 ?P ?blocks infos" by blast
  have "\<forall>i\<in>set infos. cti_block i \<in> set (w_blocks W) \<and> ?P (cti_block i) i"
    using list_all2_origin [OF infos(2)] by fastforce
  with infos(1) assms(1) show ?thesis
    by (simp add: blocks_with_conflicting_transactions_def conflicting_transactions_data_def Let_def length_remdups_card_conv
        flip: rows_def)
qed


section \<open>Missing transactions\<close>

lemma missing_block_info_ok:
  assumes "oit_block_id r \<in> b_id ` set bs"
  shows "\<exists>i. missing_block_info (block_map_of bs) r = Inr i \<and>
    (\<exists>b\<in>set bs. b_id b = oit_block_id r \<and> mtb_hash i = nb_hash b \<and> mtb_height i = nb_height b)"
proof -
  obtain b where b: "hm_get (block_map_of bs) (oit_block_id r) = Some b" using blm.get_known [OF assms] by blast
  then have "b \<in> set bs" "b_id b = oit_block_id r" using blm.get_Some by blast+
  with b show ?thesis by (auto simp: missing_block_info_def)
qed

abbreviation falling :: "('a \<Rightarrow> int) \<Rightarrow> 'a list \<Rightarrow> bool" where
  "falling k xs \<equiv> sorted_wrt (\<lambda>a b. k b \<le> k a) xs"

lemma rev_sort_falling: "falling k (rev (sort_key k xs))"
  using sorted_sort_key [of k xs] by (simp add: sorted_wrt_rev sorted_map)

lemma missing_transaction_of_ok:
  assumes "oit_block_id ` set rows \<subseteq> b_id ` set bs" "distinct (map b_id bs)"
  shows "\<exists>m. missing_transaction_of (block_map_of bs) tx rows = Inr m \<and> mt_transaction m = tx \<and>
    falling mtb_height (mt_blocks m) \<and> length (mt_blocks m) = length rows \<and>
    mtb_hash ` set (mt_blocks m) = nb_hash ` {b \<in> set bs. b_id b \<in> oit_block_id ` set rows}"
proof -
  let ?P = "\<lambda>r i. \<exists>b\<in>set bs. b_id b = oit_block_id r \<and> mtb_hash i = nb_hash b \<and> mtb_height i = nb_height b"
  obtain infos where infos: "map_res (missing_block_info (block_map_of bs)) rows = Inr infos" "list_all2 ?P rows infos"
    using map_res_total [of rows "missing_block_info (block_map_of bs)" ?P] missing_block_info_ok assms(1) by blast
  have "mtb_hash ` set infos = nb_hash ` {b \<in> set bs. b_id b \<in> oit_block_id ` set rows}"
  proof (intro subset_antisym subsetI; elim imageE)
    fix h i assume "h = mtb_hash i" "i \<in> set infos"
    then show "h \<in> nb_hash ` {b \<in> set bs. b_id b \<in> oit_block_id ` set rows}"
      using list_all2_origin [OF infos(2)] by fastforce
  next
    fix h b assume h: "h = nb_hash b" "b \<in> {b \<in> set bs. b_id b \<in> oit_block_id ` set rows}"
    then obtain r where r: "r \<in> set rows" "oit_block_id r = b_id b" by auto
    from list_all2_origin [of "\<lambda>i r. ?P r i" infos rows r] infos(2) r(1) obtain i where i: "i \<in> set infos" "?P r i"
      by (auto simp: list_all2_conv_all_nth)
    then obtain b' where "b' \<in> set bs" "b_id b' = b_id b" "mtb_hash i = nb_hash b'" using r(2) by auto
    moreover from this h(2) assms(2) have "b' = b" by (auto simp: distinct_map dest: inj_onD)
    ultimately show "h \<in> mtb_hash ` set infos" using h(1) i(1) by (metis image_eqI)
  qed
  moreover have "length infos = length rows" using infos(2) by (simp add: list_all2_lengthD)
  ultimately show ?thesis
    using infos(1) by (simp add: missing_transaction_of_def rev_sort_falling)
qed

lemma max_height_falling:
  assumes "falling mtb_height (mt_blocks m)" "mt_blocks m \<noteq> []"
  shows "max_height m = Inr (mtb_height (hd (mt_blocks m)))"
proof -
  have "foldr max hs (h :: int) = h" if "\<forall>x\<in>set hs. x \<le> h" for hs h
    using that by (induction hs) auto
  with assms show ?thesis by (cases "mt_blocks m") (auto simp: max_height_def)
qed

lemma sort_by_max_height_ok:
  assumes "\<And>m. m \<in> set ms \<Longrightarrow> max_height m = Inr (g m)"
  shows "\<exists>ms'. sort_by_max_height ms = Inr ms' \<and> mset ms' = mset ms \<and> falling g ms'"
proof (cases "length ms < 2")
  case True
  then have "falling g ms" by (cases ms) auto
  with True show ?thesis by (simp add: sort_by_max_height_def)
next
  case False
  let ?z = "order_desc fst (zip (map g ms) ms)"
  have "map_res max_height ms = Inr (map g ms)" using assms by (rule map_res_ok)
  with False have run: "sort_by_max_height ms = Inr (map snd ?z)" by (simp add: sort_by_max_height_def)
  have key: "fst p = g (snd p)" if "p \<in> set ?z" for p using that by (auto simp: set_zip)
  have "falling fst ?z" by (rule order_desc_sorted)
  then have "falling (g \<circ> snd) ?z" by (rule sorted_wrt_mono_rel [rotated]) (simp add: key)
  moreover have "mset (map snd ?z) = mset ms" by (metis length_map map_snd_zip mset_map order_desc_perm(1))
  ultimately show ?thesis using run by (auto simp: sorted_wrt_map)
qed


text \<open>The transactions of one page.\<close>

definition missing_page :: "web_conn \<Rightarrow> nat \<Rightarrow> bytes list" where
  "missing_page W page =
     limit_offset MAX_BLOCKS_PER_PAGE (int page * MAX_BLOCKS_PER_PAGE) (order_desc (max_block_id W) (missing_txids W))"

lemma missing_txids_rows: "k \<in> set (missing_txids W) \<Longrightarrow> k \<in> oit_txid ` set (w_only_in_template W)"
  by (auto simp: missing_txids_def missing_rows_def Let_def split: if_splits)

lemma missing_page_subset: "set (missing_page W page) \<subseteq> set (missing_txids W)"
  using set_take_subset set_drop_subset unfolding missing_page_def limit_offset_def
  by (metis (no_types, lifting) order_desc_perm(2) subset_trans)

lemma missing_page_distinct: "distinct (missing_page W page)"
  by (simp add: missing_page_def limit_offset_def missing_txids_def)

lemma missing_page_stored:
  assumes "tables_ok W"
  shows "set (map t_txid (filter (\<lambda>t. t_txid t \<in> set (missing_page W page)) (w_transactions W))) = set (missing_page W page)"
proof -
  have "set (missing_page W page) \<subseteq> t_txid ` set (w_transactions W)"
  proof
    fix k assume "k \<in> set (missing_page W page)"
    then have "k \<in> oit_txid ` set (w_only_in_template W)" using missing_page_subset missing_txids_rows by blast
    with assms show "k \<in> t_txid ` set (w_transactions W)" unfolding tables_ok_def by blast
  qed
  then show ?thesis by auto
qed

lemma missing_transactions_data_run:
  assumes "readable W"
  shows "missing_transactions_data W page =
    Inr \<lparr>mtd_transactions = filter (\<lambda>t. t_txid t \<in> set (missing_page W page)) (w_transactions W),
         mtd_only_in_template = order_desc oit_block_id (remdups
           (filter (\<lambda>row. oit_txid row \<in> set (missing_page W page)) (w_only_in_template W))),
         mtd_blocks = filter (\<lambda>b. b_id b \<in> oit_block_id `
           {row \<in> set (w_only_in_template W). oit_txid row \<in> set (missing_page W page)}) (w_blocks W),
         mtd_total_missing_count = int (length (missing_txids W))\<rparr>"
  using assms by (simp add: missing_transactions_data_def Let_def flip: missing_page_def)

lemma missing_page_entry:
  assumes "tables_ok W" "t \<in> set (w_transactions W)" "t_txid t \<in> set (missing_page W page)"
  defines "rows \<equiv> order_desc oit_block_id (remdups
    (filter (\<lambda>row. oit_txid row \<in> set (missing_page W page)) (w_only_in_template W)))"
  defines "bs \<equiv> filter (\<lambda>b. b_id b \<in> oit_block_id `
    {row \<in> set (w_only_in_template W). oit_txid row \<in> set (missing_page W page)}) (w_blocks W)"
  shows "\<exists>m. missing_transaction_of (block_map_of bs) t (filter (\<lambda>row. oit_txid row = t_txid t) rows) = Inr m \<and>
    mt_transaction m = t \<and> falling mtb_height (mt_blocks m) \<and> mt_blocks m \<noteq> [] \<and>
    mtb_hash ` set (mt_blocks m) = nb_hash ` {b \<in> set (w_blocks W). \<exists>row\<in>set (w_only_in_template W).
      oit_txid row = t_txid t \<and> oit_block_id row = b_id b}"
proof -
  let ?rows = "filter (\<lambda>row. oit_txid row = t_txid t) rows"
  have set_rows: "set ?rows = {row \<in> set (w_only_in_template W). oit_txid row = t_txid t}"
    using assms(3) by (auto simp: rows_def)
  have in_bs: "b \<in> set bs" if "b \<in> set (w_blocks W)" "row \<in> set ?rows" "oit_block_id row = b_id b" for b row
  proof -
    from that(2) have "row \<in> {row \<in> set (w_only_in_template W). oit_txid row \<in> set (missing_page W page)}"
      unfolding set_rows using assms(3) by auto
    from imageI [OF this, of oit_block_id] that(1) show ?thesis unfolding bs_def set_filter that(3) by blast
  qed
  have ids: "oit_block_id ` set ?rows \<subseteq> b_id ` set bs"
  proof
    fix k assume "k \<in> oit_block_id ` set ?rows"
    then obtain row where row: "row \<in> set ?rows" "k = oit_block_id row" by blast
    then have "k \<in> oit_block_id ` set (w_only_in_template W)" using set_rows by blast
    then obtain b where "b \<in> set (w_blocks W)" "k = b_id b" using assms(1) unfolding tables_ok_def by blast
    with row in_bs [of b row] show "k \<in> b_id ` set bs" by (metis image_eqI)
  qed
  have "distinct (map b_id bs)" using assms(1) by (simp add: tables_ok_def bs_def distinct_map_filter)
  from missing_transaction_of_ok [OF ids this, of t] obtain m where
    m: "missing_transaction_of (block_map_of bs) t ?rows = Inr m" "mt_transaction m = t"
      "falling mtb_height (mt_blocks m)" "length (mt_blocks m) = length ?rows"
      "mtb_hash ` set (mt_blocks m) = nb_hash ` {b \<in> set bs. b_id b \<in> oit_block_id ` set ?rows}" by blast
  have "t_txid t \<in> oit_txid ` set (w_only_in_template W)"
    using assms(3) missing_page_subset missing_txids_rows by blast
  then have "set ?rows \<noteq> {}" unfolding set_rows by auto
  then have "?rows \<noteq> []" by (metis list.set(1))
  moreover have "{b \<in> set bs. b_id b \<in> oit_block_id ` set ?rows} =
      {b \<in> set (w_blocks W). \<exists>row\<in>set (w_only_in_template W). oit_txid row = t_txid t \<and> oit_block_id row = b_id b}"
    (is "?A = ?B")
  proof
    show "?A \<subseteq> ?B" unfolding set_rows by (auto simp: bs_def)
    show "?B \<subseteq> ?A"
    proof
      fix b assume "b \<in> ?B"
      then obtain row where "b \<in> set (w_blocks W)" "row \<in> set ?rows" "oit_block_id row = b_id b" unfolding set_rows by blast
      with in_bs [of b row] show "b \<in> ?A" by force
    qed
  qed
  ultimately show ?thesis using m by auto
qed

section \<open>Fees\<close>

text \<open>One stored block whose template has no fees makes the query on the fees fail.\<close>

lemma avg_fees_fail_on_empty_template:
  assumes "b \<in> set (w_blocks W)" "nb_template_cb_fees b = 0"
  shows "avg_fees_by_pool W = Inl (DbFailed (DbError ''division by zero''))"
  using assms by (auto simp: avg_fees_by_pool_def Let_def list_ex_iff)

text \<open>A percentile of at least one row is the value of one of them.\<close>

lemma percentile_disc_in:
  assumes "xs \<noteq> []" "p \<le> q" "0 < q"
  shows "percentile_disc p q xs \<in> set xs"
proof -
  have "0 < length xs" using assms(1) by simp
  moreover have "(p * length xs + q - 1) div q \<le> length xs"
  proof -
    have "p * length xs \<le> q * length xs" using assms(2) by (rule mult_le_mono1)
    then have "p * length xs + q - 1 < q * length xs + q" using assms(3) by linarith
    then have "p * length xs + q - 1 < (length xs + 1) * q" by (simp add: algebra_simps)
    then have "(p * length xs + q - 1) div q < length xs + 1" by (simp only: div_less_iff_less_mult [OF assms(3)])
    then show ?thesis by simp
  qed
  ultimately have "(p * length xs + q - 1) div q - 1 < length (sort xs)" unfolding length_sort by linarith
  from nth_mem [OF this] show ?thesis by (simp add: percentile_disc_def)
qed

section \<open>Properties\<close>

text \<open>C10: The pages of the block list are complete: if block times are unique and there are fewer than
  sixteen million blocks, the pages up to the announced page count, each read over its own
  connection to the same table, contain together every block exactly once, newest first, whatever
  order the server delivers the rows in; the page count, computed in single precision, is exact.\<close>

theorem block_pages_are_complete:
  assumes "\<And>p. readable (W p)" "\<And>p. mset (w_blocks (W p)) = mset bs"
    and "inj_on nb_block_time (set bs)" "length bs < 2 ^ 24"
  shows "\<exists>pages. (\<forall>p. Web_Db.blocks (W p) p = Inr (pages p, (length bs + 24) div 25)) \<and>
    concat (map pages [0..<(length bs + 24) div 25]) = order_desc nb_block_time bs \<and>
    (\<forall>p. length (pages p) \<le> 25)"
proof -
  let ?pages = "\<lambda>p. take 25 (drop (25 * p) (order_desc nb_block_time bs))"
  have len: "length (w_blocks (W p)) = length bs" and ord: "order_desc nb_block_time (w_blocks (W p)) = order_desc nb_block_time bs" for p
    using assms(2) [of p] order_desc_unique [of "w_blocks (W p)" bs nb_block_time] assms(3)
    by (auto dest: mset_eq_length mset_eq_setD)
  have "nat (25 * int p) = 25 * p" for p by simp
  then have "Web_Db.blocks (W p) p = Inr (?pages p, (length bs + 24) div 25)" for p
    using assms(1,4) max_pages_exact [of "length bs" 25]
    by (simp add: blocks_def len ord limit_offset_def MAX_BLOCKS_PER_PAGE_def)
  moreover have "concat (map ?pages [0..<(length bs + 24) div 25]) = order_desc nb_block_time bs"
    by (rule concat_pages) simp_all
  ultimately show ?thesis by (intro exI [of _ ?pages]) simp
qed

theorem block_pages_are_complete_witness:
  "\<exists>pages. Web_Db.blocks sample_web 0 = Inr (pages 0, 1) \<and> pages (0::nat) = order_desc nb_block_time (w_blocks sample_web)"
proof -
  have "inj_on nb_block_time (set (w_blocks sample_web))" by (simp add: sample_web_def sample_db_block_def)
  then have "\<exists>pages. (\<forall>p. Web_Db.blocks sample_web p = Inr (pages p, (length (w_blocks sample_web) + 24) div 25)) \<and>
    concat (map pages [0..<(length (w_blocks sample_web) + 24) div 25]) = order_desc nb_block_time (w_blocks sample_web) \<and>
    (\<forall>p. length (pages p) \<le> 25)"
    by (intro block_pages_are_complete) (simp_all add: sample_web_readable, simp add: sample_web_def)
  moreover have "(length (w_blocks sample_web) + 24) div 25 = 1" by (simp add: sample_web_def)
  ultimately show ?thesis by auto
qed

text \<open>C17: On tables whose foreign keys hold, a page of missing transactions is always shown, without a
  panic: it contains exactly the transactions selected for the page, each once, each with exactly
  the blocks it is missing from, highest block first, and the transactions are ordered by their
  highest block.\<close>

theorem missing_transactions_page:
  assumes "readable W" "tables_ok W"
  shows "\<exists>ms. missing_transactions W page = Inr (ms, max_pages_of (int (length (missing_txids W))) 25) \<and>
    distinct (map (t_txid \<circ> mt_transaction) ms) \<and>
    set (map (t_txid \<circ> mt_transaction) ms) = set (missing_page W page) \<and>
    falling (\<lambda>m. mtb_height (hd (mt_blocks m))) ms \<and>
    (\<forall>m\<in>set ms. mt_blocks m \<noteq> [] \<and> falling mtb_height (mt_blocks m) \<and>
       mtb_hash ` set (mt_blocks m) = nb_hash ` {b \<in> set (w_blocks W). \<exists>row\<in>set (w_only_in_template W).
         oit_txid row = t_txid (mt_transaction m) \<and> oit_block_id row = b_id b})"
proof -
  let ?txs = "filter (\<lambda>t. t_txid t \<in> set (missing_page W page)) (w_transactions W)"
  let ?rows = "order_desc oit_block_id (remdups
    (filter (\<lambda>row. oit_txid row \<in> set (missing_page W page)) (w_only_in_template W)))"
  let ?bs = "filter (\<lambda>b. b_id b \<in> oit_block_id `
    {row \<in> set (w_only_in_template W). oit_txid row \<in> set (missing_page W page)}) (w_blocks W)"
  let ?f = "\<lambda>t. missing_transaction_of (block_map_of ?bs) t (filter (\<lambda>row. oit_txid row = t_txid t) ?rows)"
  let ?P = "\<lambda>t m. mt_transaction m = t \<and> falling mtb_height (mt_blocks m) \<and> mt_blocks m \<noteq> [] \<and>
    mtb_hash ` set (mt_blocks m) = nb_hash ` {b \<in> set (w_blocks W). \<exists>row\<in>set (w_only_in_template W).
      oit_txid row = t_txid t \<and> oit_block_id row = b_id b}"
  have "\<exists>m. ?f t = Inr m \<and> ?P t m" if "t \<in> set ?txs" for t
    by (rule missing_page_entry [OF assms(2)]) (use that in simp_all)
  from map_res_total [of ?txs ?f ?P, OF this] obtain ms where
    ms: "map_res ?f ?txs = Inr ms" "list_all2 ?P ?txs ms" by blast
  have entries: "\<exists>t\<in>set ?txs. ?P t m" if "m \<in> set ms" for m using ms(2) that by (rule list_all2_origin)
  have "list_all2 (\<lambda>t m. mt_transaction m = t) ?txs ms" using ms(2) by (rule list_all2_mono) simp
  then have order: "map mt_transaction ms = ?txs" by (auto simp: list_all2_conv_all_nth intro: nth_equalityI)
  have "max_height m = Inr (mtb_height (hd (mt_blocks m)))" if "m \<in> set ms" for m
    using entries [OF that] by (blast intro: max_height_falling)
  from sort_by_max_height_ok [OF this] obtain ms' where
    ms': "sort_by_max_height ms = Inr ms'" "mset ms' = mset ms" "falling (\<lambda>m. mtb_height (hd (mt_blocks m))) ms'" by blast
  have run: "missing_transactions W page = Inr (ms', max_pages_of (int (length (missing_txids W))) 25)"
    using ms(1) ms'(1) by (simp add: missing_transactions_def missing_transactions_data_run [OF assms(1)] MAX_BLOCKS_PER_PAGE_def)
  have "mset (map (t_txid \<circ> mt_transaction) ms') = mset (map t_txid ?txs)"
    using ms'(2) by (simp flip: order add: comp_def multiset.map_comp)
  moreover have "distinct (map t_txid ?txs)" using assms(2) by (simp add: tables_ok_def distinct_map_filter)
  moreover have "set (map t_txid ?txs) = set (missing_page W page)"
    by (rule missing_page_stored [OF assms(2)])
  ultimately have "distinct (map (t_txid \<circ> mt_transaction) ms')"
    "set (map (t_txid \<circ> mt_transaction) ms') = set (missing_page W page)"
    using mset_eq_imp_distinct_iff mset_eq_setD by (blast, blast)
  moreover have "set ms' = set ms" using ms'(2) by (rule mset_eq_setD)
  ultimately show ?thesis using run ms'(3) entries by (intro exI [of _ ms']) auto
qed

theorem missing_transactions_page_witness:
  "\<exists>m. missing_transactions sample_web 0 = Inr ([m], 1) \<and> mtb_hash ` set (mt_blocks m) = {[21], [22], [23]}"
proof -
  have ids: "missing_txids sample_web = [[7]]" "missing_page sample_web 0 = [[7]]"
    by (simp_all add: missing_page_def missing_txids_def missing_rows_def sample_web_def sample_db_block_def order_desc_def
        limit_offset_def MAX_BLOCKS_PER_PAGE_def)
  have ok: "tables_ok sample_web" by (simp add: tables_ok_def sample_web_def sample_db_block_def sample_row_def)
  have one: "max_pages_of 1 25 = 1" using max_pages_exact [of 1 25] by simp
  obtain ms where page: "missing_transactions sample_web 0 = Inr (ms, max_pages_of (int (length (missing_txids sample_web))) 25)"
    "distinct (map (t_txid \<circ> mt_transaction) ms)"
    "set (map (t_txid \<circ> mt_transaction) ms) = set (missing_page sample_web 0)"
    and shown: "\<forall>m\<in>set ms. mt_blocks m \<noteq> [] \<and> falling mtb_height (mt_blocks m) \<and>
       mtb_hash ` set (mt_blocks m) = nb_hash ` {b \<in> set (w_blocks sample_web).
         \<exists>row\<in>set (w_only_in_template sample_web). oit_txid row = t_txid (mt_transaction m) \<and> oit_block_id row = b_id b}"
    using missing_transactions_page [OF sample_web_readable ok, of 0] by (elim exE conjE)
  have "length (map (t_txid \<circ> mt_transaction) ms) = 1" using distinct_card [OF page(2)] page(3) by (simp add: ids)
  then obtain m where m: "ms = [m]" by (cases ms) auto
  with page(3) have "t_txid (mt_transaction m) = [7]" by (simp add: ids)
  with m shown have "mtb_hash ` set (mt_blocks m) = nb_hash ` set (filter (\<lambda>b.
      \<exists>row\<in>set (w_only_in_template sample_web). oit_txid row = [7] \<and> oit_block_id row = b_id b) (w_blocks sample_web))"
    by simp
  also have "\<dots> = {[21], [22], [23]}" by (simp add: sample_web_def sample_db_block_def del: set_filter)
  finally have "mtb_hash ` set (mt_blocks m) = {[21], [22], [23]}" .
  with m page(1) show ?thesis by (simp add: ids one)
qed



end
