(* ===== verification/Web_Service.thy ===== *)
theory Web_Service
  imports Web_App Web_Pages
begin

text \<open>
  Properties of the web server as a whole: every request is answered, the debug pages are hidden
  when they are not enabled, and the page of a block shows the block with its transactions. The
  joins of the queries are lists of pairs; \<open>join_rows\<close> and \<open>sorted_join\<close> say what they contain.
\<close>

section \<open>Answers\<close>

lemma render_page_status: "render_page A t c ct = Inr r \<Longrightarrow> pr_status r = 200"
  by (auto simp: render_page_def res_simps)

lemma render_image_status: "render_image L A t c err = Inr r \<Longrightarrow> pr_status r = 200"
proof -
  assume "render_image L A t c err = Inr r"
  then obtain s where "(case render_and_encode L s of
      Inr png_data \<Rightarrow> Inr \<lparr>pr_status = 200, pr_content_type = ''image/png'', pr_body = BinaryBody png_data\<rparr>
    | Inl e \<Rightarrow> Inl (Refused (ErrorInternalServerError (err e)))) = Inr r"
    unfolding render_image_def bind_res_Inr_iff by blast
  then show ?thesis by (cases "render_and_encode L s") auto
qed

lemma run_page_status: "run_page L A p arg query = Inr r \<Longrightarrow> pr_status r \<in> {200, 404}"
  by (cases p)
    (auto simp: handler_defs image_defs ogimage_missing_transaction_def hidden_page_def Let_def res_simps
      dest: render_page_status render_image_status split: if_splits)

section \<open>The page of a block\<close>

text \<open>A join over a unique key pairs every row with its partner.\<close>

lemma join_partner:
  assumes "distinct (map k ts)" "x \<in> k ` set ts"
  shows "\<exists>t\<in>set ts. k t = x \<and> filter (\<lambda>t. k t = x) ts = [t]"
  using assms
proof (induction ts)
  case (Cons a ts)
  show ?case
  proof (cases "k a = x")
    case True
    with Cons.prems(1) have "filter (\<lambda>t. k t = x) ts = []" by (auto simp: filter_empty_conv) (metis image_eqI)
    with True show ?thesis by simp
  qed (use Cons in auto)
qed simp

lemma join_rows:
  assumes "distinct (map k ts)" "\<And>r. r \<in> set rows \<Longrightarrow> P r \<Longrightarrow> key r \<in> k ` set ts"
  shows "map fst [(r, t). r \<leftarrow> rows, P r, t \<leftarrow> ts, k t = key r] = filter P rows"
    "\<And>r t. (r, t) \<in> set [(r, t). r \<leftarrow> rows, P r, t \<leftarrow> ts, k t = key r] \<Longrightarrow> t \<in> set ts \<and> k t = key r"
proof -
  have guard: "concat (map (\<lambda>t. if Q t then [(r, t)] else []) ts) = map (Pair r) (filter Q ts)" for Q r
    by (induction ts) auto
  show "map fst [(r, t). r \<leftarrow> rows, P r, t \<leftarrow> ts, k t = key r] = filter P rows"
    using assms(2)
  proof (induction rows)
    case (Cons r rows)
    then show ?case using join_partner [OF assms(1), of "key r"] by (auto simp: guard)
  qed simp
qed auto

lemma sorted_join:
  fixes pos :: "'r \<Rightarrow> int" and P :: "'r \<Rightarrow> bool" and k :: "'t \<Rightarrow> 'k"
  assumes "distinct (map k ts)" "\<And>r. r \<in> set rows \<Longrightarrow> key r \<in> k ` set ts"
  defines "ps \<equiv> sort_key (\<lambda>(r, t). pos r) [(r, t). r \<leftarrow> rows, P r, t \<leftarrow> ts, k t = key r]"
  shows "mset (map fst ps) = mset (filter P rows)" "sorted (map (pos \<circ> fst) ps)"
    "list_all (\<lambda>(r, t). t \<in> set ts \<and> k t = key r) ps"
proof -
  define js where "js = [(r, t). r \<leftarrow> rows, P r, t \<leftarrow> ts, k t = key r]"
  have js: "map fst js = filter P rows" unfolding js_def using assms(1,2) by (intro join_rows) auto
  have "mset (map fst ps) = mset (map fst js)" unfolding ps_def mset_map mset_sort js_def by (rule refl)
  then show "mset (map fst ps) = mset (filter P rows)" by (simp only: js)
  show "sorted (map (pos \<circ> fst) ps)"
    using sorted_sort_key [of "\<lambda>(r, t). pos r"] unfolding ps_def by (simp add: comp_def case_prod_unfold)
  show "list_all (\<lambda>(r, t). t \<in> set ts \<and> k t = key r) ps"
    unfolding ps_def list_all_iff by auto
qed

text \<open>What the page of a block shows of it.\<close>

definition shows_block :: "web_conn \<Rightarrow> db_block \<Rightarrow> BlockWithTx \<Rightarrow> bool" where
  "shows_block W b s \<longleftrightarrow> bwt_block s = b \<and>
     mset (map fst (bwt_only_in_template s)) = mset (filter (\<lambda>r. oit_block_id r = b_id b) (w_only_in_template W)) \<and>
     mset (map fst (bwt_only_in_block s)) = mset (filter (\<lambda>r. oib_block_id r = b_id b) (w_only_in_block W)) \<and>
     sorted (map (oit_position \<circ> fst) (bwt_only_in_template s)) \<and> sorted (map (oib_position \<circ> fst) (bwt_only_in_block s)) \<and>
     list_all (\<lambda>(r, t). t \<in> set (w_transactions W) \<and> t_txid t = oit_txid r) (bwt_only_in_template s) \<and>
     list_all (\<lambda>(r, t). t \<in> set (w_transactions W) \<and> t_txid t = oib_txid r) (bwt_only_in_block s)"

text \<open>The keys of the tables that the page joins.\<close>

definition block_tables_ok :: "web_conn \<Rightarrow> bool" where
  "block_tables_ok W \<longleftrightarrow>
     distinct (map nb_hash (w_blocks W)) \<and> distinct (map t_txid (w_transactions W)) \<and>
     oit_txid ` set (w_only_in_template W) \<subseteq> t_txid ` set (w_transactions W) \<and>
     oib_txid ` set (w_only_in_block W) \<subseteq> t_txid ` set (w_transactions W)"

lemma block_with_tx_shows_block:
  assumes "readable W" "block_tables_ok W" "b \<in> set (w_blocks W)"
  shows "\<exists>s. block_with_tx (nb_hash b) W = Inr s \<and> shows_block W b s"
proof -
  obtain b' where "b' \<in> set (w_blocks W)" "nb_hash b' = nb_hash b"
    and f': "filter (\<lambda>c. nb_hash c = nb_hash b) (w_blocks W) = [b']"
    using join_partner [of nb_hash "w_blocks W" "nb_hash b"] assms(2,3) unfolding block_tables_ok_def by blast
  moreover have "b \<in> set (filter (\<lambda>c. nb_hash c = nb_hash b) (w_blocks W))" using assms(3) by simp
  ultimately have f: "filter (\<lambda>c. nb_hash c = nb_hash b) (w_blocks W) = [b]" by simp
  let ?t = "[(r, t). r \<leftarrow> w_only_in_template W, oit_block_id r = b_id b, t \<leftarrow> w_transactions W, t_txid t = oit_txid r]"
  let ?b = "[(r, t). r \<leftarrow> w_only_in_block W, oib_block_id r = b_id b, t \<leftarrow> w_transactions W, t_txid t = oib_txid r]"
  let ?s = "\<lparr>bwt_block = b, bwt_only_in_template = sort_key (\<lambda>(r, t). oit_position r) ?t,
    bwt_only_in_block = sort_key (\<lambda>(r, t). oib_position r) ?b\<rparr>"
  have uniq: "distinct (map t_txid (w_transactions W))" using assms(2) by (simp add: block_tables_ok_def)
  have t_ref: "oit_txid r \<in> t_txid ` set (w_transactions W)" if "r \<in> set (w_only_in_template W)" for r
    using that assms(2) by (auto simp: block_tables_ok_def)
  have b_ref: "oib_txid r \<in> t_txid ` set (w_transactions W)" if "r \<in> set (w_only_in_block W)" for r
    using that assms(2) by (auto simp: block_tables_ok_def)
  have run: "block_with_tx (nb_hash b) W = Inr ?s"
    using assms(1) f by (simp add: block_with_tx_def block_by_hash_def transaction_only_in_template_by_block_id_def
        transaction_only_in_block_by_block_id_def)
  have "shows_block W b ?s"
    unfolding shows_block_def BlockWithTx.simps
    by (intro conjI refl sorted_join [OF uniq t_ref] sorted_join [OF uniq b_ref])
  with run show ?thesis by blast
qed

section \<open>Sanctioned transactions of a block\<close>

lemma filter_concat_key:
  assumes "\<And>x p. p \<in> set (F x) \<Longrightarrow> fst p = x" "distinct xs" "t \<in> set xs"
  shows "filter (\<lambda>p. fst p = t) (concat (map F xs)) = F t"
  using assms(2,3)
proof (induction xs)
  case (Cons x xs)
  have same: "filter (\<lambda>p. fst p = t) (F t) = F t" using assms(1) by (auto intro!: filter_True)
  have other: "filter (\<lambda>p. fst p = t) (F y) = []" if "y \<noteq> t" for y using that assms(1) by (auto simp: filter_empty_conv)
  show ?case
  proof (cases "x = t")
    case True
    then have "filter (\<lambda>p. fst p = t) (concat (map F xs)) = []"
      using Cons.prems assms(1) by (fastforce simp: filter_empty_conv)
    with True same show ?thesis by simp
  qed (use Cons other in auto)
qed simp

lemma length_join:
  "length [(t, i, r). i \<leftarrow> infos, C i, r \<leftarrow> rows, D r, E i] = length (filter (\<lambda>i. C i \<and> E i) infos) * length (filter D rows)"
proof -
  have inner: "length (concat (map (\<lambda>r. if D r then if e then [(t, i, r)] else [] else []) rows)) =
      (if e then length (filter D rows) else 0)" for e i
    by (induction rows) auto
  show ?thesis by (induction infos) (auto simp: inner)
qed

section \<open>Properties\<close>

text \<open>C9: Every request is answered: while the pool has connections and the stored tags are known tags,
  no page panics, whatever the path, the query, the database errors, the template engine and the
  image crates do, and the page of a route answers with the status 200, 404 or 500.\<close>

theorem requests_are_answered:
  assumes "pool_ok A"
  shows "\<exists>response. handle match_path static_file L A path query = Inr response \<and>
    (find_route match_path path routes \<noteq> None \<longrightarrow> pr_status response \<in> {200, 404, 500})"
proof (cases "find_route match_path path routes")
  case (Some x)
  obtain p arg where x: "x = (p, arg)" by fastforce
  show ?thesis
  proof (cases "run_page L A p arg query")
    case (Inl f)
    with run_page_served [OF assms, of L p arg query] obtain e where "f = Refused e" "he_status e \<in> {404, 500}"
      by (cases f) (auto simp: served_def)
    with Some x Inl show ?thesis by (auto simp: handle_def error_response_def)
  next
    case (Inr r)
    then have "pr_status r \<in> {200, 404}" using run_page_status by blast
    with Some x Inr show ?thesis by (auto simp: handle_def)
  qed
qed (simp add: handle_def split: option.splits)

definition sample_app :: "web_conn \<Rightarrow> web_app" where
  "sample_app W =
     \<lparr>app_pool = (\<lambda>i. Some W), app_site = \<lparr>site_title = ''Observer'', site_footer = '''', site_base_url = ''https://example.com''\<rparr>,
      app_debug_pages = False, app_node_version = ''Satoshi 25.0.0'', app_render = (\<lambda>template ctx. Inr template),
      app_hex = sample_hex, app_db_error_text = (\<lambda>e. case e of DbError s \<Rightarrow> s | NotFound \<Rightarrow> ''NotFound''),
      app_blocking_error_text = ''Blocking thread pool is shut down''\<rparr>"

definition sample_images :: "(string, bytes) image_lib" where
  "sample_images =
     \<lparr>tree_from_str = Inr, tree_screen_size = (\<lambda>t. (1200, 630)), pixmap_new = (\<lambda>w h. Some []),
      resvg_render = (\<lambda>t p. Some p), encode_png = Inr\<rparr>"

definition literal_match :: "string \<Rightarrow> string \<Rightarrow> string option" where
  "literal_match pattern path = (if pattern = path then Some '''' else None)"

theorem requests_are_answered_witness:
  "\<exists>response. handle literal_match (\<lambda>p. None) sample_images (sample_app sample_web) ''/missing'' [(''page'', ''-1'')] = Inr response \<and>
     pr_status response \<in> {200, 404, 500}"
proof -
  have ok: "pool_ok (sample_app sample_web)" by (simp add: pool_ok_def sample_app_def sample_web_def sample_row_def)
  have "find_route literal_match ''/missing'' routes = Some (Missing, '''')" by (simp add: routes_def literal_match_def)
  with requests_are_answered [OF ok, of literal_match "\<lambda>p. None" sample_images "''/missing''" "[(''page'', ''-1'')]"] show ?thesis by simp
qed

text \<open>C19: Debug pages are hidden unless the configuration enables them: on a started server whose
  configuration does not set \<^verbatim>\<open>debug_pages\<close>, every route under \<^verbatim>\<open>/debug\<close> answers with an empty page of status
  404 and reads neither the database nor a template, with one exception, the feed of sanctioned
  transactions, which is served exactly as if they were enabled.\<close>

theorem debug_pages_are_hidden:
  assumes "web_main E = Inr A" "read_to_string (we_host E) (case env_var (we_host E) ENVVAR_CONFIG_FILE of Some f \<Rightarrow> f | None \<Rightarrow> DEFAULT_WEB_CONFIG) = Inr s"
    and "toml_web (we_host E) s = Inr toml" "wt_debug_pages toml \<noteq> Some True"
    and "(''/debug'' @ rest, p) \<in> set routes"
  shows "run_page L A p arg query =
    (if rest = ''/sanctioned/feed.xml'' then run_page L (A\<lparr>app_debug_pages := True\<rparr>) p arg query
     else Inr \<lparr>pr_status = 404, pr_content_type = '''', pr_body = NoBody\<rparr>)"
proof -
  have off: "\<not> app_debug_pages A"
    using assms(1-4) by (auto simp: web_main_def new_app_def load_web_config_def or_stop_def no_stop_def res_simps
        split: option.splits)
  have "web_block (A\<lparr>app_debug_pages := True\<rparr>) = (web_block A :: db_block list query \<Rightarrow> _)"
    by (auto simp: web_block_def fun_eq_iff split: sum.splits web_failure.splits)
  then have feed: "debug_sanctioned_transactions_rss (A\<lparr>app_debug_pages := True\<rparr>) = debug_sanctioned_transactions_rss A"
    by (simp add: debug_sanctioned_transactions_rss_def get_conn_def render_page_def base_ctx_def)
  have "(p, rest) \<in> {(Debug, ''''), (DebugFees, ''/fees''), (DebugUnknown, ''/unknown''), (DebugScans, ''/sanctioned-utxo-scans''),
      (DebugSelection, ''/template-selection''), (DebugSanctioned, ''/sanctioned''), (DebugSanctionedRss, ''/sanctioned/feed.xml'')}"
    using assms(5) by (auto simp: routes_def)
  then show ?thesis using off feed by (auto simp: handler_defs hidden_page_def)
qed

definition sample_web_startup :: web_startup_env where
  "sample_web_startup =
     \<lparr>we_host = sample_host\<lparr>toml_web := (\<lambda>s. Inr \<lparr>wt_address = ''127.0.0.1:2346'', wt_database_url = ''postgres'',
        wt_log_level = ''info'', wt_debug_pages = None, wt_www_dir_path = ''www'', wt_site = app_site (sample_app sample_web)\<rparr>)\<rparr>,
      we_logger_error = None, we_new_pool_error = (\<lambda>u. None), we_bind_error = (\<lambda>a. None),
      we_tera = (\<lambda>d. Inr (\<lambda>template ctx. Inr template)), we_first_connection = Some sample_web,
      we_pool = (\<lambda>i. Some sample_web), we_hex = sample_hex, we_db_error_text = (\<lambda>e. ''''),
      we_blocking_error_text = ''''\<rparr>"

theorem debug_pages_are_hidden_witness:
  "\<exists>A. web_main sample_web_startup = Inr A \<and>
     run_page sample_images A DebugFees '''' [] = Inr \<lparr>pr_status = 404, pr_content_type = '''', pr_body = NoBody\<rparr>"
proof -
  obtain A where A: "web_main sample_web_startup = Inr A"
    by (simp add: web_main_def sample_web_startup_def sample_host_def load_web_config_def or_stop_def no_stop_def new_app_def
        get_node_info_def sql_first_def sql_load_def sample_web_def)
  have "(''/debug'' @ ''/fees'', DebugFees) \<in> set routes" by (simp add: routes_def)
  from debug_pages_are_hidden [OF A _ _ _ this, of "''toml''" _ sample_images "''''" "[]"] A show ?thesis
    by (simp add: sample_web_startup_def sample_host_def)
qed

text \<open>C14: The page of a stored block, reached through the link that the other pages print, shows that block
  with exactly its missing and its extra transactions, each list in the order of the positions and
  each row with its stored transaction; the sanctioned ones are only looked up when there are any.\<close>

theorem block_page_shows_block:
  assumes "app_pool A 0 = Some W" "app_pool A 1 = Some W" "readable W" "block_tables_ok W" "b \<in> set (w_blocks W)"
    and "hex_law (app_hex A)" "length (nb_hash b) = 32" "take 3 (nb_hash b) = [0, 0, 0]"
  shows "\<exists>s missing. shows_block W b s \<and> (nb_sanctioned_missing_tx b \<le> 0 \<longrightarrow> missing = []) \<and>
    single_template_and_block A (hex_encode (app_hex A) (nb_hash b)) =
      render_page A ''subpage/template_and_block.html''
        [''CONFIG'' \<mapsto> CSite (Some (app_site A)), ''NODE_VERSION'' \<mapsto> CStr (app_node_version A),
         ''THRESHOLD_TRANSACTION_CONSIDERED_YOUNG'' \<mapsto> CInt (int THRESHOLD_TRANSACTION_CONSIDERED_YOUNG),
         ''TAG_ID_YOUNG'' \<mapsto> CInt (TxTag_as_i32 Young), ''block_with_tx'' \<mapsto> CBlockWithTx s,
         ''sanctioned_missing_tx'' \<mapsto> CMissingSanctioned missing] ''text/html''"
proof -
  obtain s where s: "block_with_tx (nb_hash b) W = Inr s" "shows_block W b s"
    using block_with_tx_shows_block [OF assms(3-5)] by blast
  from s(2) have b: "bwt_block s = b" by (simp add: shows_block_def)
  have hash: "parse_block_hash_str (app_hex A) (hex_encode (app_hex A) (nb_hash b)) = Inr (nb_hash b)"
    using assms(6-8) by (rule parse_block_hash_encode)
  obtain c cs where "map b_id (filter (\<lambda>c. nb_hash c = nb_hash b) (w_blocks W)) = c # cs"
    using assms(5) by (cases "filter (\<lambda>c. nb_hash c = nb_hash b) (w_blocks W)") (auto simp: filter_empty_conv)
  with assms(3) obtain missing where missing: "missing_sanctioned_txns_for_block (nb_hash b) W = Inr missing"
    by (auto simp: missing_sanctioned_txns_for_block_def)
  show ?thesis
  proof (cases "0 < nb_sanctioned_missing_tx b")
    case True
    with s b hash missing assms(1,2) show ?thesis
      by (intro exI [of _ s] exI [of _ missing])
        (simp add: single_template_and_block_def refuse_def get_conn_def web_block_def base_ctx_def)
  next
    case False
    with s b hash assms(1,2) show ?thesis
      by (intro exI [of _ s] exI [of _ "[]"])
        (simp add: single_template_and_block_def refuse_def get_conn_def web_block_def base_ctx_def)
  qed
qed

definition sample_page_web :: web_conn where
  "sample_page_web = sample_web\<lparr>w_blocks := [(sample_db_block 21 2)\<lparr>nb_hash := replicate 32 0\<rparr>]\<rparr>"

theorem block_page_shows_block_witness:
  "\<exists>s :: BlockWithTx. mset (map fst (bwt_only_in_block s)) = {#\<lparr>oib_block_id = 2, oib_position = 1, oib_txid = [8]\<rparr>#} \<and>
     single_template_and_block (sample_app sample_page_web) (hex_encode sample_hex (replicate 32 0)) =
       Inr \<lparr>pr_status = 200, pr_content_type = ''text/html'', pr_body = TextBody ''subpage/template_and_block.html''\<rparr>"
proof -
  let ?b = "(sample_db_block 21 2)\<lparr>nb_hash := replicate 32 0\<rparr>"
  have "readable sample_page_web" using sample_web_readable by (simp add: readable_def sample_page_web_def)
  moreover have "block_tables_ok sample_page_web" by (simp add: block_tables_ok_def sample_page_web_def sample_web_def sample_row_def)
  moreover have "take 3 (replicate 32 (0 :: byte)) = [0, 0, 0]" by (simp add: numeral_eq_Suc)
  moreover have "?b \<in> set (w_blocks sample_page_web)" by (simp add: sample_page_web_def)
  ultimately obtain s missing where s: "shows_block sample_page_web ?b s"
    and page: "single_template_and_block (sample_app sample_page_web) (hex_encode sample_hex (replicate 32 0)) =
      render_page (sample_app sample_page_web) ''subpage/template_and_block.html''
        [''CONFIG'' \<mapsto> CSite (Some (app_site (sample_app sample_page_web))),
         ''NODE_VERSION'' \<mapsto> CStr (app_node_version (sample_app sample_page_web)),
         ''THRESHOLD_TRANSACTION_CONSIDERED_YOUNG'' \<mapsto> CInt (int THRESHOLD_TRANSACTION_CONSIDERED_YOUNG),
         ''TAG_ID_YOUNG'' \<mapsto> CInt (TxTag_as_i32 Young), ''block_with_tx'' \<mapsto> CBlockWithTx s,
         ''sanctioned_missing_tx'' \<mapsto> CMissingSanctioned missing] ''text/html''"
    using block_page_shows_block [of "sample_app sample_page_web" sample_page_web ?b] sample_hex_law
    by (simp add: sample_app_def) blast
  from s have "mset (map fst (bwt_only_in_block s)) = {#\<lparr>oib_block_id = 2, oib_position = 1, oib_txid = [8]\<rparr>#}"
    by (simp add: shows_block_def sample_db_block_def sample_page_web_def sample_web_def)
  moreover have "single_template_and_block (sample_app sample_page_web) (hex_encode sample_hex (replicate 32 0)) =
      Inr \<lparr>pr_status = 200, pr_content_type = ''text/html'', pr_body = TextBody ''subpage/template_and_block.html''\<rparr>"
    unfolding page by (simp add: render_page_def refuse_def sample_app_def)
  ultimately show ?thesis by (intro exI [where x = s] conjI)
qed

text \<open>C38: The list of sanctioned transactions missing from a block repeats a transaction once for every
  block it is missing from, because the join with the missing transactions does not fix the block.\<close>

theorem missing_sanctioned_repeats:
  assumes "readable W" "distinct (map t_txid (w_transactions W))" "t \<in> set (w_transactions W)"
    and "filter (\<lambda>b. nb_hash b = h) (w_blocks W) = [b]"
    and "filter (\<lambda>i. sti_txid i = t_txid t \<and> sti_block_id i = b_id b \<and> \<not> sti_in_block i \<and> sti_in_template i) (w_sanctioned_infos W) = [info]"
  shows "\<exists>ms. missing_sanctioned_txns_for_block h W = Inr ms \<and>
    length (filter (\<lambda>m. mst_transaction m = t) ms) = length (filter (\<lambda>row. oit_txid row = t_txid t) (w_only_in_template W))"
proof -
  let ?F = "\<lambda>tx. [(tx, i, r). i \<leftarrow> w_sanctioned_infos W, sti_txid i = t_txid tx, r \<leftarrow> w_only_in_template W, oit_txid r = t_txid tx,
     sti_block_id i = b_id b \<and> \<not> sti_in_block i \<and> sti_in_template i]"
  let ?row = "\<lambda>(tx, i, r). \<lparr>mst_transaction = tx, mst_missing_info = r, mst_addresses = sti_addresses i\<rparr>"
  have run: "missing_sanctioned_txns_for_block h W = Inr (map ?row (concat (map ?F (w_transactions W))))"
    using assms(1,4) by (simp add: missing_sanctioned_txns_for_block_def)
  have dist: "distinct (w_transactions W)" using assms(2) by (simp add: distinct_map)
  have "length (filter (\<lambda>m. mst_transaction m = t) (map ?row ps)) = length (filter (\<lambda>p. fst p = t) ps)" for ps
    by (induction ps) auto
  then have "length (filter (\<lambda>m. mst_transaction m = t) (map ?row (concat (map ?F (w_transactions W))))) =
      length (filter (\<lambda>p. fst p = t) (concat (map ?F (w_transactions W))))" .
  also have "filter (\<lambda>p. fst p = t) (concat (map ?F (w_transactions W))) = ?F t"
    by (rule filter_concat_key [OF _ dist assms(3)]) auto
  also have "length (?F t) = length (filter (\<lambda>row. oit_txid row = t_txid t) (w_only_in_template W))"
    unfolding length_join assms(5) by simp
  finally have "length (filter (\<lambda>m. mst_transaction m = t) (map ?row (concat (map ?F (w_transactions W))))) =
      length (filter (\<lambda>row. oit_txid row = t_txid t) (w_only_in_template W))" .
  with run show ?thesis by blast
qed

definition sample_sanctioned_info :: sanctioned_transaction_info where
  "sample_sanctioned_info =
     \<lparr>sti_block_id = 2, sti_txid = [7], sti_in_block = False, sti_in_template = True, sti_addresses = [''a'']\<rparr>"

theorem missing_sanctioned_repeats_witness:
  "\<exists>ms. missing_sanctioned_txns_for_block [22] (sample_web\<lparr>w_sanctioned_infos := [sample_sanctioned_info]\<rparr>) = Inr ms \<and>
     length (filter (\<lambda>m. mst_transaction m = sample_row 7 []) ms) = 3"
proof -
  let ?W = "sample_web\<lparr>w_sanctioned_infos := [sample_sanctioned_info]\<rparr>" and ?t = "sample_row 7 []"
  have W: "readable ?W" "distinct (map t_txid (w_transactions ?W))" "?t \<in> set (w_transactions ?W)"
    using sample_web_readable by (simp_all add: readable_def sample_web_def sample_row_def)
  have b: "filter (\<lambda>b. nb_hash b = [22]) (w_blocks ?W) = [sample_db_block 22 2]"
    by (simp add: sample_web_def sample_db_block_def)
  have info: "filter (\<lambda>i. sti_txid i = t_txid ?t \<and> sti_block_id i = b_id (sample_db_block 22 2) \<and> \<not> sti_in_block i \<and> sti_in_template i)
      (w_sanctioned_infos ?W) = [sample_sanctioned_info]"
    by (simp add: sample_sanctioned_info_def sample_row_def sample_db_block_def)
  have "length (filter (\<lambda>row. oit_txid row = t_txid ?t) (w_only_in_template ?W)) = 3" by (simp add: sample_web_def sample_row_def)
  with missing_sanctioned_repeats [OF W b info] show ?thesis by (simp only:)
qed

end
