(* ===== verification/Stored_Rows.thy ===== *)
theory Stored_Rows
  imports Main_Loop
begin

text \<open>
  What the daemon leaves behind in the database. The locale \<open>row_statements\<close> states that every
  statement the block processing issues for rows, other than the insert of conflicts, relates the
  database before and after it; its lemmas lift this to the composed operations. Two
  extensions follow: \<open>all_row_statements\<close> includes the insert of conflicts, and \<open>conflict_tables\<close>
  describes the tables of transactions and of conflicts. They are interpreted on the in-memory
  database of the theory \<open>Daemon_Db\<close>.
\<close>

section \<open>The database steps of one block\<close>

lemma process_cases:
  assumes "process L H P E blk fees ds = Inr ds'"
  obtains (unconnected) "ds_db ds' = ds_db ds" "last_templates ds' = last_templates ds"
  | (connected) c m0 addresses d1 m1 us d2 m2 b x d3 where "compare_block L H blk fees (last_templates ds) = Inr c"
      "env_connection E \<or> env_connection_retry E"
      "load_or_empty (db_sanctioned_addresses P) (ds_db ds, m0) = (addresses, d1, m1)"
      "load_or_empty (get_sanctioned_utxos P) (d1, m1) = (us, d2, m2)"
      "build_block_of L E blk fees c (build_outpoint_to_sanctioned_utxo_map us) (hs_collect (map sa_address addresses)) = Inr b"
      "insert_block P b d2 = (x, d3)"
      "\<And>e. x = Inl e \<Longrightarrow> ds_db ds' = d3 \<and> last_templates ds' = last_templates ds"
      "\<And>i. x = Inr i \<Longrightarrow> \<exists>rows m3 ok m4. build_block_rows L H E (last_templates ds) c
           (build_outpoint_to_sanctioned_utxo_map us) (hs_collect (map sa_address addresses)) i m2 = Inr (rows, m3) \<and>
         store_rows P H rows (build_newly_created_sanctioned_utxos L blk (hs_collect (map sa_address addresses))) (d3, m3) =
           (ok, ds_db ds', m4) \<and> last_templates ds' = (if ok then [] else last_templates ds)"
proof -
  obtain c where c: "compare_block L H blk fees (last_templates ds) = Inr c"
    using assms by (auto simp: process_def res_simps)
  obtain ok m0 where conn: "get_connection E (ds_metrics ds) = (ok, m0)" by fastforce
  show thesis
  proof (cases ok)
    case False
    with assms c conn show ?thesis by (intro unconnected) (auto simp: process_def)
  next
    case True
    then have "env_connection E \<or> env_connection_retry E" using conn by (auto simp: get_connection_def Let_def split: if_splits)
    have run: "process_connected L H P E blk fees c (ds\<lparr>ds_metrics := m0\<rparr>) = Inr ds'" using assms c conn True by (simp add: process_def)
    obtain addresses d1 m1 where a: "load_or_empty (db_sanctioned_addresses P) (ds_db ds, m0) = (addresses, d1, m1)" by (metis prod_cases3)
    obtain us d2 m2 where u: "load_or_empty (get_sanctioned_utxos P) (d1, m1) = (us, d2, m2)" by (metis prod_cases3)
    obtain b where b: "build_block_of L E blk fees c (build_outpoint_to_sanctioned_utxo_map us) (hs_collect (map sa_address addresses)) = Inr b"
      using run a u by (auto simp: process_connected_def Let_def res_simps)
    obtain x d3 where x: "insert_block P b d2 = (x, d3)" by fastforce
    show ?thesis
    proof (rule connected [OF c \<open>env_connection E \<or> env_connection_retry E\<close> a u b x])
      fix e assume "x = Inl e"
      with run a u b x show "ds_db ds' = d3 \<and> last_templates ds' = last_templates ds"
        by (auto simp: process_connected_def Let_def)
    next
      fix i assume i: "x = Inr i"
      let ?addrs = "hs_collect (map sa_address addresses)" and ?utxos = "build_outpoint_to_sanctioned_utxo_map us"
      obtain rows m3 where rows: "build_block_rows L H E (last_templates ds) c ?utxos ?addrs i m2 = Inr (rows, m3)"
        using run a u b x i by (auto simp: process_connected_def Let_def res_simps)
      obtain ok d4 m4 where "store_rows P H rows (build_newly_created_sanctioned_utxos L blk ?addrs) (d3, m3) = (ok, d4, m4)"
        by (metis prod_cases3)
      with run a u b x i rows show "\<exists>rows m3 ok m4. build_block_rows L H E (last_templates ds) c ?utxos ?addrs i m2 = Inr (rows, m3) \<and>
         store_rows P H rows (build_newly_created_sanctioned_utxos L blk ?addrs) (d3, m3) = (ok, ds_db ds', m4) \<and>
         last_templates ds' = (if ok then [] else last_templates ds)"
        by (intro exI [of _ rows] exI [of _ m3] exI [of _ ok] exI [of _ m4]) (auto simp: process_connected_def)
    qed
  qed
qed

text \<open>An iteration touches the database only by processing one block.\<close>

lemma iteration_process:
  assumes "main_loop_iteration L H P E ds = Inr ds'"
  obtains (same) "ds_db ds' = ds_db ds"
  | (processed) h blk fees ds0 ds1 where "env_block E h = Inr blk" "env_fees E h = Inr fees" "process L H P E blk fees ds0 = Inr ds1"
      "last_templates ds0 = last_templates ds" "last_templates ds \<noteq> []" "ds_db ds0 = ds_db ds" "ds_db ds' = ds_db ds1"
proof -
  have cnt: "ds_db (count_requested_block s) = ds_db s" "ds_db (count_rpc_error s) = ds_db s" for s :: "'a daemon_state"
    by (simp_all add: count_requested_block_def count_rpc_error_def)
  from assms show thesis
    by (auto simp: main_loop_iteration_def process_new_tip_def process_missed_block_def Let_def res_simps cnt
        split: sum.splits if_splits intro: same processed)
qed

section \<open>The rows of a block are keyed by their id\<close>

definition keyed_by_id :: "tx_map \<Rightarrow> bool" where
  "keyed_by_id m \<longleftrightarrow> (\<forall>k t. hm_get m k = Some t \<longrightarrow> t_txid t = k)"

lemma keyed_build_and_add:
  assumes "keyed_by_id (fst st)"
  shows "keyed_by_id (fst (build_and_add L H c utxos addrs i st))"
  using assms by (auto simp: keyed_by_id_def build_and_add_def add_to_transactions_get split: sum.splits option.splits)

lemma keyed_fold: "keyed_by_id (fst st) \<Longrightarrow> keyed_by_id (fst (fold (build_and_add L H c utxos addrs) is st))"
proof (induction "is" arbitrary: st)
  case (Cons i "is")
  from Cons.IH [OF keyed_build_and_add [OF Cons.prems]] show ?case by simp
qed simp

lemma keyed_conflicts: "keyed_by_id (fst st) \<Longrightarrow> keyed_by_id (fst (fold (add_conflict_txs L H utxos addrs) cs st))"
proof (induction cs arbitrary: st)
  case (Cons a cs)
  then have "keyed_by_id (fst (add_conflict_txs L H utxos addrs a st))" by (simp add: add_conflict_txs_def keyed_fold)
  with Cons.IH show ?case by simp
qed simp

lemma keyed_rows_state: "keyed_by_id (fst (rows_state L H utxos addrs c cs m m2))"
proof -
  have "keyed_by_id (fst (conflict_state L H utxos addrs cs m))"
    unfolding conflict_state_def by (rule keyed_conflicts) (simp add: keyed_by_id_def)
  then show ?thesis
    unfolding rows_state_def one_sided_state_def add_sanctioned_def Let_def by (intro keyed_fold) simp
qed

lemma keyed_ids: "keyed_by_id m \<Longrightarrow> dom (hm_get m) \<subseteq> t_txid ` snd ` set m"
proof
  fix k assume m: "keyed_by_id m" and "k \<in> dom (hm_get m)"
  then obtain t where t: "hm_get m k = Some t" by blast
  then have "t \<in> snd ` set m" using map_of_SomeD by force
  moreover have "t_txid t = k" using m t by (simp add: keyed_by_id_def)
  ultimately show "k \<in> t_txid ` snd ` set m" by blast
qed

text \<open>The conflicts refer to transactions.\<close>

definition conflict_ids :: "conflicting_transaction set \<Rightarrow> bytes set" where
  "conflict_ids cts = (\<Union>ct\<in>cts. set (ct_template_txids ct @ ct_block_txids ct))"

lemma conflict_ids_mono: "A \<subseteq> B \<Longrightarrow> conflict_ids A \<subseteq> conflict_ids B"
  by (auto simp: conflict_ids_def)

lemma conflict_ids_Un: "conflict_ids (A \<union> B) = conflict_ids A \<union> conflict_ids B"
  by (auto simp: conflict_ids_def)

lemma conflict_ids_rows: "conflict_ids (set (map (conflict_row i) cs)) = (\<lambda>t. rev (ti_txid t)) ` conflict_txs cs"
  by (auto simp: conflict_ids_def conflict_row_def conflict_txs_def)

lemma block_rows_conflict_ids:
  assumes "comparison_ok L c" "txid_order_law L" "iteration_law H" "\<forall>t. buildable L t"
    and "list_all (\<lambda>t. from_timestamp L (as_i64 (int (current_time t))) \<noteq> None) templates"
    and "build_block_rows L H E templates c utxos addrs block_id m = Inr (rows, m')"
  shows "conflict_ids (set (br_conflicting rows)) \<subseteq> t_txid ` snd ` set (iter_transactions H (br_transactions rows))"
proof -
  obtain cs m2 where "br_conflicting rows = map (conflict_row block_id) cs"
    and state: "br_transactions rows = fst (rows_state L H utxos addrs c cs m m2)"
    using build_block_rows_run [OF assms(1-3,5), of E utxos addrs block_id m] assms(6) by auto
  then have "conflict_ids (set (br_conflicting rows)) = (\<lambda>t. rev (ti_txid t)) ` conflict_txs cs"
    by (simp only: conflict_ids_rows)
  also have "\<dots> \<subseteq> dom (hm_get (br_transactions rows))"
    unfolding state using rows_state_grows(2) [OF assms(1), of cs] assms(4) by blast
  also have "\<dots> \<subseteq> t_txid ` snd ` set (br_transactions rows)" unfolding state by (intro keyed_ids keyed_rows_state)
  finally show ?thesis by (simp add: iteration_law_sets [OF assms(3)])
qed

section \<open>Statements and what they keep\<close>

text \<open>A transitive relation between databases passes through a chain of inserts.\<close>

lemma try_insert_rel:
  assumes trans: "\<And>a b c. R a b \<Longrightarrow> R b c \<Longrightarrow> R a c"
    and op: "\<And>d r d'. op d = (r, d') \<Longrightarrow> R d d'" and rest: "\<And>d m ok d' m'. rest (d, m) = (ok, d', m') \<Longrightarrow> R d d'"
    and run: "try_insert op rest (d, m) = (ok, d', m')"
  shows "R d d'"
proof -
  obtain x d1 where x: "op d = (x, d1)" by fastforce
  then have R: "R d d1" by (rule op)
  show ?thesis
  proof (cases x)
    case (Inr u)
    with x run have "rest (d1, m) = (ok, d', m')" by (simp add: try_insert_def)
    then have "R d1 d'" by (rule rest)
    with R show ?thesis by (rule trans)
  qed (use x run R in \<open>simp add: try_insert_def\<close>)
qed

locale row_statements =
  fixes P :: "'d pg" and R :: "'d \<Rightarrow> 'd \<Rightarrow> bool"
  assumes R_refl: "R d d"
    and R_trans: "R a b \<Longrightarrow> R b c \<Longrightarrow> R a c"
    and load_addresses: "pg_load_addresses P d = (r1, d') \<Longrightarrow> R d d'"
    and load_utxos: "pg_load_utxos P d = (r2, d') \<Longrightarrow> R d d'"
    and insert_txs: "pg_insert_transactions P ts d = (r3, d') \<Longrightarrow> R d d'"
    and select_tags: "pg_select_tags P k d = (r4, d') \<Longrightarrow> R d d'"
    and update_tags: "pg_update_tags P k tgs d = (r5, d') \<Longrightarrow> R d d'"
    and insert_in_block: "pg_insert_only_in_block P bs d = (r6, d') \<Longrightarrow> R d d'"
    and insert_in_template: "pg_insert_only_in_template P os d = (r7, d') \<Longrightarrow> R d d'"
    and insert_infos: "pg_insert_sanctioned_infos P is d = (r8, d') \<Longrightarrow> R d d'"
    and insert_utxos: "pg_insert_utxos_or_ignore P us d = (r9, d') \<Longrightarrow> R d d'"
    and insert_debug: "pg_insert_debug_infos P ds d = (r10, d') \<Longrightarrow> R d d'"
begin

lemma bind_keeps:
  assumes "\<And>d r d'. m d = (r, d') \<Longrightarrow> R d d'" "\<And>a d r d'. f a d = (r, d') \<Longrightarrow> R d d'" "db_bind m f d = (r, d')"
  shows "R d d'"
proof -
  obtain x d1 where m: "m d = (x, d1)" by fastforce
  with assms(3) show ?thesis by (cases x) (auto simp: db_bind_def intro: R_trans assms(1,2))
qed

lemma return_keeps: "db_return a d = (r, d') \<Longrightarrow> R d d'"
  by (simp add: db_return_def R_refl)

lemma merge_keeps: "merge_stored_tags P ids t d = (r, d') \<Longrightarrow> R d d'"
  unfolding merge_stored_tags_def
  by (auto intro: return_keeps update_tags select_tags elim!: bind_keeps [rotated 2] split: if_splits)

lemma for_keeps: "(\<And>x d r d'. f x d = (r, d') \<Longrightarrow> R d d') \<Longrightarrow> db_for f xs d = (r, d') \<Longrightarrow> R d d'"
proof (induction xs arbitrary: d r d')
  case (Cons x xs)
  have "db_bind (f x) (\<lambda>u. db_for f xs) d = (r, d')" using Cons.prems(2) by simp
  then show ?case by (rule bind_keeps [rotated 2]) (auto intro: Cons.prems(1) Cons.IH)
qed (auto dest: return_keeps)

lemma insert_transactions_keeps: "insert_transactions P ts d = (r, d') \<Longrightarrow> R d d'"
  unfolding insert_transactions_def Let_def
  by (elim bind_keeps [rotated 2]) (auto intro: insert_txs for_keeps merge_keeps return_keeps split: if_splits)

lemma load_or_empty_keeps:
  "load_or_empty (db_sanctioned_addresses P) (d, m) = (xs, d', m') \<Longrightarrow> R d d'"
  "load_or_empty (get_sanctioned_utxos P) (d, m) = (us, d', m') \<Longrightarrow> R d d'"
  by (auto simp: load_or_empty_def db_sanctioned_addresses_def get_sanctioned_utxos_def
      dest: load_addresses load_utxos split: prod.splits sum.splits)

lemma utxos_keep: "(if us \<noteq> [] then insert_sanctioned_utxos P us else db_return ()) d = (r, d') \<Longrightarrow> R d d'"
  by (auto simp: insert_sanctioned_utxos_def intro: insert_utxos return_keeps split: if_splits)

lemma debug_keeps: "insert_debug_template_selection_infos P ds d = (r, d') \<Longrightarrow> R d d'"
  by (simp add: insert_debug_template_selection_infos_def insert_debug)

lemmas inserts_keep = insert_in_block [folded insert_transactions_only_in_block_def]
  insert_in_template [folded insert_transactions_only_in_template_def]
  insert_infos [folded insert_sanctioned_transaction_infos_def]

end

locale all_row_statements = row_statements +
  assumes insert_conflicts: "pg_insert_conflicting P cs d = (r11, d') \<Longrightarrow> R d d'"
begin

lemma store_rows_keeps:
  assumes "store_rows P H r us (d, m) = (ok, d', m')"
  shows "R d d'"
  using assms unfolding store_rows_def
  by (elim try_insert_rel [where R = R, rotated 3])
    (auto intro: R_trans insert_transactions_keeps inserts_keep utxos_keep
      insert_conflicts [folded insert_conflicting_transactions_def] split: prod.splits sum.splits dest: debug_keeps)

end

locale conflict_tables = row_statements P "\<lambda>d d'. txids d \<subseteq> txids d' \<and> conflicts d' \<subseteq> conflicts d"
  for P :: "'d pg" and txids :: "'d \<Rightarrow> bytes set" and conflicts :: "'d \<Rightarrow> conflicting_transaction set" +
  assumes txs_stored: "pg_insert_transactions P ts d = (Inr ids, d') \<Longrightarrow> t_txid ` set ts \<subseteq> txids d'"
    and conflict_insert: "pg_insert_conflicting P cs d = (r11, d') \<Longrightarrow> txids d \<subseteq> txids d' \<and> conflicts d' \<subseteq> conflicts d \<union> set cs"
    and block_stored: "pg_insert_block P b d = (r12, d') \<Longrightarrow> txids d \<subseteq> txids d' \<and> conflicts d' \<subseteq> conflicts d"
begin

lemma insert_transactions_stored:
  assumes "insert_transactions P ts d = (Inr u, d')"
  shows "t_txid ` set ts \<subseteq> txids d'"
proof -
  obtain x d1 where ins: "pg_insert_transactions P ts d = (x, d1)" by fastforce
  with assms obtain ids where x: "x = Inr ids" by (cases x) (auto simp: insert_transactions_def db_bind_def)
  have "txids d1 \<subseteq> txids d'"
  proof (cases "length (hs_collect ids) = length (hs_collect (map t_txid ts))")
    case True
    with assms ins x show ?thesis by (simp add: insert_transactions_def db_bind_def Let_def db_return_def)
  next
    case False
    with assms ins x have "db_for (merge_stored_tags P (hs_collect ids)) ts d1 = (Inr u, d')"
      by (simp add: insert_transactions_def db_bind_def Let_def)
    then have "txids d1 \<subseteq> txids d' \<and> conflicts d' \<subseteq> conflicts d1" by (rule for_keeps [rotated]) (rule merge_keeps)
    then show ?thesis ..
  qed
  with txs_stored ins x show ?thesis by blast
qed

lemma kept_closed:
  assumes "txids d \<subseteq> txids d' \<and> conflicts d' \<subseteq> conflicts d" "conflict_ids (conflicts d) \<subseteq> txids d"
  shows "conflict_ids (conflicts d') \<subseteq> txids d'"
  using assms conflict_ids_mono [of "conflicts d'" "conflicts d"] by blast

lemma conflicts_inserted_closed:
  assumes "insert_conflicting_transactions P cs d = (x, d')"
    and "conflict_ids (conflicts d) \<subseteq> txids d" "conflict_ids (set cs) \<subseteq> ids" "ids \<subseteq> txids d"
  shows "conflict_ids (conflicts d') \<subseteq> txids d' \<and> ids \<subseteq> txids d'"
proof -
  have t: "txids d \<subseteq> txids d'" "conflicts d' \<subseteq> conflicts d \<union> set cs"
    using conflict_insert assms(1) unfolding insert_conflicting_transactions_def by blast+
  have "conflict_ids (conflicts d') \<subseteq> conflict_ids (conflicts d) \<union> conflict_ids (set cs)"
    using conflict_ids_mono [OF t(2)] unfolding conflict_ids_Un .
  with assms(2-4) t(1) show ?thesis by blast
qed

lemma store_rows_closed:
  assumes "store_rows P H r us (d, m) = (ok, d', m')" "conflict_ids (conflicts d) \<subseteq> txids d"
    and "conflict_ids (set (br_conflicting r)) \<subseteq> t_txid ` snd ` set (iter_transactions H (br_transactions r))"
  shows "conflict_ids (conflicts d') \<subseteq> txids d'"
proof -
  define ids where "ids = t_txid ` snd ` set (iter_transactions H (br_transactions r))"
  define K where "K d \<longleftrightarrow> conflict_ids (conflicts d) \<subseteq> txids d \<and> ids \<subseteq> txids d" for d
  let ?R = "\<lambda>d d'. K d \<longrightarrow> K d'"
  have R: "?R d1 d2" if "txids d1 \<subseteq> txids d2 \<and> conflicts d2 \<subseteq> conflicts d1" for d1 d2
    using kept_closed [OF that] that unfolding K_def by blast
  have conf: "?R d1 d2" if "insert_conflicting_transactions P (br_conflicting r) d1 = (x, d2)" for d1 d2 x
    using conflicts_inserted_closed [OF that] assms(3) unfolding K_def ids_def by blast
  have debug: "?R d1 d2" if "(case insert_debug_template_selection_infos P (br_debug r) d1 of
      (Inl e, d') \<Rightarrow> (False, d', m) | (Inr u, d') \<Rightarrow> (True, d', m)) = (ok, d2, m2)" for d1 d2 m ok m2
    using that debug_keeps [of "br_debug r" d1] by (intro R) (auto split: prod.splits sum.splits)
  obtain x d1 where ins: "insert_transactions P (hm_values (iter_transactions H (br_transactions r))) d = (x, d1)" by fastforce
  then have J: "conflict_ids (conflicts d1) \<subseteq> txids d1" using kept_closed [OF insert_transactions_keeps assms(2)] by blast
  show ?thesis
  proof (cases x)
    case (Inl e)
    with ins assms(1) J show ?thesis by (simp add: store_rows_def try_insert_def)
  next
    case (Inr u)
    then have "ids \<subseteq> txids d1" using insert_transactions_stored ins unfolding ids_def by (metis set_map)
    with J have "K d1" unfolding K_def by blast
    moreover have "?R d1 d'"
    proof -
      have "try_insert (insert_transactions_only_in_block P (br_only_in_block r))
        (try_insert (insert_transactions_only_in_template P (br_only_in_template r))
        (try_insert (insert_sanctioned_transaction_infos P (br_sanctioned r))
        (try_insert (insert_conflicting_transactions P (br_conflicting r))
        (try_insert (if us \<noteq> [] then insert_sanctioned_utxos P us else db_return ())
        (\<lambda>(d, m). case insert_debug_template_selection_infos P (br_debug r) d of
           (Inl e, d') \<Rightarrow> (False, d', m) | (Inr u, d') \<Rightarrow> (True, d', m)))))) (d1, m) = (ok, d', m')"
        using assms(1) ins Inr unfolding store_rows_def by (simp add: try_insert_def [of "insert_transactions P _"])
      then show ?thesis
        by (elim try_insert_rel [where R = ?R, rotated 3])
          (erule conf | (rule R, erule inserts_keep) | (rule R, erule utxos_keep) | (unfold prod.case, erule debug) | (rule impI, drule (1) mp, erule (1) mp))+
    qed
    ultimately show ?thesis unfolding K_def by blast
  qed
qed

lemma process_closed:
  assumes "process L H P E blk fees ds = Inr ds'" "conflict_ids (conflicts (ds_db ds)) \<subseteq> txids (ds_db ds)"
    and "node_ok L H blk fees (last_templates ds)" "times_ok L blk (last_templates ds)" "last_templates ds \<noteq> []" "\<forall>t. buildable L t"
  shows "conflict_ids (conflicts (ds_db ds')) \<subseteq> txids (ds_db ds')"
  using assms(1)
proof (cases rule: process_cases)
  case unconnected
  with assms(2) show ?thesis by simp
next
  case (connected c m0 addresses d1 m1 us d2 m2 b x d3)
  note kept = kept_closed [OF load_or_empty_keeps(1) [OF connected(3)] assms(2)]
  from kept_closed [OF load_or_empty_keeps(2) [OF connected(4)] this] connected(6)
  have d3: "conflict_ids (conflicts d3) \<subseteq> txids d3"
    using kept_closed [OF block_stored] by (simp add: insert_block_def)
  show ?thesis
  proof (cases x)
    case (Inl e)
    with connected(7) d3 show ?thesis by simp
  next
    case (Inr i)
    with connected(8) obtain rows m3 ok m4 where
      rows: "build_block_rows L H E (last_templates ds) c (build_outpoint_to_sanctioned_utxo_map us)
         (hs_collect (map sa_address addresses)) i m2 = Inr (rows, m3)"
      and st: "store_rows P H rows (build_newly_created_sanctioned_utxos L blk (hs_collect (map sa_address addresses))) (d3, m3) =
        (ok, ds_db ds', m4)" by blast
    have c: "comparison_ok L c" using compare_block_ok [OF assms(3,5)] connected(1) by auto
    have "list_all (\<lambda>t. from_timestamp L (as_i64 (int (current_time t))) \<noteq> None) (last_templates ds)"
      using assms(4) by (simp add: times_ok_def)
    from block_rows_conflict_ids [OF c _ _ assms(6) this rows] assms(3) have
      "conflict_ids (set (br_conflicting rows)) \<subseteq> t_txid ` snd ` set (iter_transactions H (br_transactions rows))"
      by (simp add: node_ok_def)
    with st d3 show ?thesis by (rule store_rows_closed)
  qed
qed

lemma run_closed:
  assumes laws: "iteration_law H" "txid_order_law L" and build: "\<forall>t. buildable L t"
  shows "daemon_run L H P s Es t \<Longrightarrow> last_templates s = [] \<Longrightarrow> list_all (env_ok L) Es \<Longrightarrow>
    conflict_ids (conflicts (ds_db s)) \<subseteq> txids (ds_db s) \<Longrightarrow> conflict_ids (conflicts (ds_db t)) \<subseteq> txids (ds_db t)"
proof (induction rule: daemon_run.induct)
  case (step Es t E u)
  then have ok: "list_all (template_ok L) (last_templates t)" "env_ok L E"
    using run_keeps_ok [OF laws step.hyps(1)] by auto
  from step have closed: "conflict_ids (conflicts (ds_db t)) \<subseteq> txids (ds_db t)" by simp
  from step.hyps(2) show ?case
  proof (cases rule: iteration_process)
    case same
    with closed show ?thesis by simp
  next
    case (processed h blk fees ds0 ds1)
    then have "block_ok L blk" "fees_known L blk fees" using ok(2) unfolding env_ok_def by blast+
    with ok(1) laws processed(4) have n: "node_ok L H blk fees (last_templates ds0)" "times_ok L blk (last_templates ds0)"
      by (auto simp: node_ok_def times_ok_def template_ok_def block_ok_def list_all_iff)
    show ?thesis
      unfolding processed(7) by (rule process_closed [OF processed(3) _ n _ build]) (use processed(4-6) closed in simp_all)
  qed
qed simp

end

text \<open>The in-memory database keeps the laws.\<close>

interpretation mem_blocks_kept: all_row_statements mem_pg "\<lambda>d d'. mem_blocks d' = mem_blocks d"
  by unfold_locales (auto simp: mem_pg_def mem_check_def Let_def split: option.splits if_splits)

lemma updated_ids [simp]:
  "t_txid ` set (map (\<lambda>t. if t_txid t = k then t\<lparr>t_tags := ts\<rparr> else t) xs) = t_txid ` set xs"
  by (induction xs) auto

interpretation mem_conflicts: conflict_tables mem_pg "\<lambda>d. t_txid ` set (mem_txs d)" "\<lambda>d. set (mem_conflicting d)"
proof unfold_locales
  fix a b c :: mem_db
  assume "t_txid ` set (mem_txs a) \<subseteq> t_txid ` set (mem_txs b) \<and> set (mem_conflicting b) \<subseteq> set (mem_conflicting a)"
    "t_txid ` set (mem_txs b) \<subseteq> t_txid ` set (mem_txs c) \<and> set (mem_conflicting c) \<subseteq> set (mem_conflicting b)"
  then show "t_txid ` set (mem_txs a) \<subseteq> t_txid ` set (mem_txs c) \<and> set (mem_conflicting c) \<subseteq> set (mem_conflicting a)"
    by (elim conjE, intro conjI) (erule (1) subset_trans)+
qed (auto simp: mem_pg_def mem_check_def Let_def simp del: set_map split: option.splits if_splits)

end
