(* ===== verification/Observer_Spec.thy ===== *)
theory Observer_Spec
  imports Stored_Rows
begin

text \<open>
  An abstract specification of the daemon and its refinement. The abstract state is the list of
  templates collected for the current tip and the list of the hashes of the stored blocks. The
  abstract machine collects templates, stores the block that replaces them, or catches up on a
  missed block; it does not mention RPC answers, rows, metrics or connections. Every iteration of
  the main loop is one abstract step, whatever the database does.
\<close>

section \<open>The abstract machine\<close>

type_synonym observer = "block_template list \<times> bytes list"

text \<open>The hash of a block as it is stored.\<close>

definition stored_hash :: "lib \<Rightarrow> block \<Rightarrow> bytes" where
  "stored_hash L blk = rev (block_hash_of L blk)"

inductive obs_step :: "lib \<Rightarrow> observer \<Rightarrow> observer \<Rightarrow> bool" for L where
  idle: "obs_step L (ts, bs) (ts, bs)"
| collect: "ts = [] \<or> previous_block_hash (last ts) = previous_block_hash t \<Longrightarrow> obs_step L (ts, bs) (push_template t ts, bs)"
| observe: "ts \<noteq> [] \<Longrightarrow> prev_blockhash (header blk) = previous_block_hash (last ts) \<Longrightarrow>
    obs_step L (ts, bs) ([], bs @ [stored_hash L blk])"
| catch_up: "ts \<noteq> [] \<Longrightarrow> previous_block_hash (last ts) \<noteq> previous_block_hash t \<Longrightarrow>
    obs_step L (ts, bs) ([t], bs @ [stored_hash L blk])"
| incomplete: "ts \<noteq> [] \<Longrightarrow> prev_blockhash (header blk) = previous_block_hash (last ts) \<Longrightarrow>
    obs_step L (ts, bs) (ts, bs @ [stored_hash L blk])"
| incomplete_catch_up: "ts \<noteq> [] \<Longrightarrow> previous_block_hash (last ts) \<noteq> previous_block_hash t \<Longrightarrow> bs' \<in> {bs, bs @ [stored_hash L blk]} \<Longrightarrow>
    obs_step L (ts, bs) (ts @ [t], bs')"

inductive_cases obs_stepE: "obs_step L (ts, bs) (ts', bs')"

definition abs_state :: "('d \<Rightarrow> bytes list) \<Rightarrow> 'd daemon_state \<Rightarrow> observer" where
  "abs_state stored s = (last_templates s, stored (ds_db s))"

text \<open>The table of blocks: an insert that succeeds appends its row, and nothing else changes the table.\<close>

definition block_table_law :: "'d pg \<Rightarrow> ('d \<Rightarrow> bytes list) \<Rightarrow> bool" where
  "block_table_law P stored \<longleftrightarrow>
     all_row_statements P (\<lambda>d d'. stored d' = stored d) \<and>
     (\<forall>b d i d'. pg_insert_block P b d = (Inr i, d') \<longrightarrow> stored d' = stored d @ [nb_hash b]) \<and>
     (\<forall>b d e d'. pg_insert_block P b d = (Inl e, d') \<longrightarrow> stored d' = stored d)"

text \<open>The hash is the primary key of the table.\<close>

definition block_key_law :: "'d pg \<Rightarrow> ('d \<Rightarrow> bytes list) \<Rightarrow> bool" where
  "block_key_law P stored \<longleftrightarrow>
     (\<forall>b d. nb_hash b \<in> set (stored d) \<longrightarrow> (\<exists>e d'. pg_insert_block P b d = (Inl e, d')))"

definition mem_hashes :: "mem_db \<Rightarrow> bytes list" where
  "mem_hashes d = map (nb_hash \<circ> snd) (mem_blocks d)"

lemma mem_block_laws: "block_table_law mem_pg mem_hashes" "block_key_law mem_pg mem_hashes"
proof -
  have "all_row_statements mem_pg (\<lambda>d d'. mem_hashes d' = mem_hashes d)"
    by unfold_locales (auto simp: mem_hashes_def mem_pg_def mem_check_def Let_def split: option.splits if_splits)
  then show "block_table_law mem_pg mem_hashes" by (auto simp: block_table_law_def mem_hashes_def mem_pg_def split: if_splits)
  show "block_key_law mem_pg mem_hashes" by (auto simp: block_key_law_def mem_hashes_def mem_pg_def image_iff)
qed

section \<open>Simulation\<close>

lemma build_block_of_hash:
  assumes "build_block_of L E blk fees c utxos addrs = Inr b"
  shows "nb_hash b = stored_hash L blk"
proof -
  obtain pn pl pm where "get_pool_info_or_default (identify_pool L (env_network E) (env_pools E) blk) = (pn, pl, pm)"
    by (metis prod_cases3)
  with assms show ?thesis by (auto simp: build_block_of_def build_block_def stored_hash_def Let_def res_simps)
qed

lemma process_stored:
  assumes "block_table_law P stored" "process L H P E blk fees ds = Inr ds'"
  shows "last_templates ds' = last_templates ds \<and> stored (ds_db ds') = stored (ds_db ds) \<or>
    stored (ds_db ds') = stored (ds_db ds) @ [stored_hash L blk] \<and> last_templates ds' \<in> {[], last_templates ds}"
  using assms(2)
proof (cases rule: process_cases)
  case (connected c m0 addresses d1 m1 us d2 m2 b x d3)
  have rs: "all_row_statements P (\<lambda>d d'. stored d' = stored d)" using assms(1) by (simp add: block_table_law_def)
  note rows = all_row_statements.axioms(1) [OF rs]
  have d2: "stored d2 = stored (ds_db ds)"
    using row_statements.load_or_empty_keeps [OF rows] connected(3,4) by metis
  show ?thesis
  proof (cases x)
    case (Inl e)
    with connected(6,7) assms(1) d2 show ?thesis by (auto simp: block_table_law_def insert_block_def)
  next
    case (Inr i)
    then have d3: "stored d3 = stored (ds_db ds) @ [stored_hash L blk]"
      using connected(5,6) assms(1) d2 build_block_of_hash by (auto simp: block_table_law_def insert_block_def)
    from connected(8) [OF Inr] obtain rows m3 ok m4 where
      st: "store_rows P H rows (build_newly_created_sanctioned_utxos L blk (hs_collect (map sa_address addresses))) (d3, m3) =
        (ok, ds_db ds', m4)" and ts: "last_templates ds' = (if ok then [] else last_templates ds)" by blast
    from all_row_statements.store_rows_keeps [OF rs st] d3 ts show ?thesis by auto
  qed
qed simp

lemma count_keeps_db [simp]: "ds_db (count_requested_block s) = ds_db s" "ds_db (count_rpc_error s) = ds_db s"
  by (simp_all add: count_requested_block_def count_rpc_error_def)

lemma missed_block_simulated:
  assumes law: "block_table_law P stored" and run: "process_missed_block L H P E p t s = Inr s'"
    and ts: "last_templates s \<noteq> []" "previous_block_hash (last (last_templates s)) \<noteq> previous_block_hash t"
  shows "obs_step L (abs_state stored s) (abs_state stored s')"
proof -
  let ?s = "count_requested_block (upd_metrics (\<lambda>m. m\<lparr>runtime_skipped_block_events := runtime_skipped_block_events m + 1\<rparr>) s)"
  consider (idle) "abs_state stored s' = abs_state stored s"
    | (processed) blk fees u where "process L H P E blk fees ?s = Inr u" "s' = u\<lparr>last_templates := last_templates u @ [t]\<rparr>"
    using run by (auto simp: process_missed_block_def Let_def res_simps abs_state_def split: sum.splits)
  then show ?thesis
  proof cases
    case idle
    then show ?thesis by (cases "abs_state stored s") (simp add: obs_step.idle)
  next
    case processed
    from process_stored [OF law processed(1)] show ?thesis
      using obs_step.catch_up [OF ts] obs_step.incomplete_catch_up [OF ts] processed(2)
      by (auto simp: abs_state_def)
  qed
qed

lemma new_tip_simulated:
  assumes law: "block_table_law P stored" and run: "process_new_tip L H P E (last (last_templates s)) t s = Inr s'"
    and ts: "last_templates s \<noteq> []" "previous_block_hash (last (last_templates s)) \<noteq> previous_block_hash t"
  shows "obs_step L (abs_state stored s) (abs_state stored s')"
proof -
  let ?s = "count_requested_block s"
  consider (idle) "abs_state stored s' = abs_state stored s"
    | (missed) "process_missed_block L H P E (last (last_templates s)) t ?s = Inr s'"
    | (processed) blk fees where "process L H P E blk fees ?s = Inr s'"
        "prev_blockhash (header blk) = previous_block_hash (last (last_templates s))"
    using run by (auto simp: process_new_tip_def Let_def abs_state_def split: sum.splits if_splits)
  then show ?thesis
  proof cases
    case idle
    then show ?thesis by (cases "abs_state stored s") (simp add: obs_step.idle)
  next
    case missed
    from missed_block_simulated [OF law this] ts show ?thesis by (simp add: abs_state_def)
  next
    case processed
    from process_stored [OF law processed(1)] show ?thesis
      using obs_step.idle obs_step.observe [OF ts(1) processed(2)] obs_step.incomplete [OF ts(1) processed(2)]
      by (auto simp: abs_state_def)
  qed
qed

lemma iteration_simulated:
  assumes law: "block_table_law P stored" and it: "main_loop_iteration L H P E s = Inr s'"
  shows "obs_step L (abs_state stored s) (abs_state stored s')"
proof (cases "env_template E")
  case (Inl e)
  with it show ?thesis by (auto simp: main_loop_iteration_def Let_def abs_state_def count_rpc_error_def intro: obs_step.idle)
next
  case t: (Inr t)
  let ?s = "upd_metrics (\<lambda>m. log_template_infos t (m\<lparr>runtime_requested_templates := runtime_requested_templates m + 1\<rparr>))
    (upd_metrics (\<lambda>m. m\<lparr>runtime_templates_in_memory := as_i64 (int (length (last_templates s)))\<rparr>) s)"
  show ?thesis
  proof (cases "last_templates s = [] \<or> previous_block_hash (last (last_templates s)) = previous_block_hash t")
    case True
    have "push_template t [] = [t]" by (simp add: push_template_def MAX_OLD_TEMPLATES_def)
    with True t it have "abs_state stored s' = (push_template t (last_templates s), stored (ds_db s))"
      by (auto simp: main_loop_iteration_def Let_def abs_state_def split: if_splits)
    with obs_step.collect [OF True] show ?thesis by (simp add: abs_state_def)
  next
    case False
    with t it have "process_new_tip L H P E (last (last_templates s)) t ?s = Inr s'"
      by (auto simp: main_loop_iteration_def Let_def)
    with new_tip_simulated [OF law, of L H E ?s t s'] False show ?thesis by (simp add: abs_state_def)
  qed
qed

lemma run_simulated:
  assumes "block_table_law P stored"
  shows "daemon_run L H P s Es t \<Longrightarrow> (obs_step L ^^ length Es) (abs_state stored s) (abs_state stored t)"
  by (induction rule: daemon_run.induct) (auto intro: iteration_simulated [OF assms])

text \<open>Consequences for the abstract machine.\<close>

lemma obs_step_stored: "obs_step L a b \<Longrightarrow> snd b = snd a \<or> (\<exists>blk. snd b = snd a @ [stored_hash L blk])"
  by (induction rule: obs_step.induct) auto

lemma obs_steps_stored:
  "(obs_step L ^^ n) a b \<Longrightarrow> \<exists>blks. snd b = snd a @ map (stored_hash L) blks \<and> length blks \<le> n"
proof (induction n arbitrary: b)
  case 0
  then show ?case by (intro exI [of _ "[]"]) simp
next
  case (Suc n)
  then obtain c where "(obs_step L ^^ n) a c" "obs_step L c b" by auto
  with Suc.IH obtain blks where *: "snd c = snd a @ map (stored_hash L) blks" "length blks \<le> n" by blast
  from obs_step_stored [OF \<open>obs_step L c b\<close>] consider "snd b = snd c" | blk where "snd b = snd c @ [stored_hash L blk]" by blast
  then show ?case
  proof cases
    case 1
    with * show ?thesis by (intro exI [of _ blks]) simp
  next
    case (2 blk)
    with * show ?thesis by (intro exI [of _ "blks @ [blk]"]) simp
  qed
qed

section \<open>A block that is stored already\<close>

lemma process_stored_already:
  assumes "block_table_law P stored" "block_key_law P stored" "stored_hash L blk \<in> set (stored (ds_db ds))"
    and "process L H P E blk fees ds = Inr ds'"
  shows "last_templates ds' = last_templates ds" "stored (ds_db ds') = stored (ds_db ds)"
proof -
  have "last_templates ds' = last_templates ds \<and> stored (ds_db ds') = stored (ds_db ds)"
    using assms(4)
  proof (cases rule: process_cases)
    case (connected c m0 addresses d1 m1 us d2 m2 b x d3)
    have rs: "all_row_statements P (\<lambda>d d'. stored d' = stored d)" using assms(1) by (simp add: block_table_law_def)
    have d2: "stored d2 = stored (ds_db ds)"
      using row_statements.load_or_empty_keeps [OF all_row_statements.axioms(1) [OF rs]] connected(3,4) by metis
    have "nb_hash b \<in> set (stored d2)" using build_block_of_hash [OF connected(5)] assms(3) d2 by simp
    with assms(2) obtain e d' where "pg_insert_block P b d2 = (Inl e, d')" unfolding block_key_law_def by blast
    with connected(6) have "x = Inl e" by (simp add: insert_block_def)
    with connected(6,7) assms(1) d2 show ?thesis by (auto simp: block_table_law_def insert_block_def)
  qed simp
  then show "last_templates ds' = last_templates ds" "stored (ds_db ds') = stored (ds_db ds)" by simp_all
qed

text \<open>The node keeps reporting the same tip: a block whose parent the templates build on.\<close>

definition same_tip :: "block_template list \<Rightarrow> block \<Rightarrow> env \<Rightarrow> bool" where
  "same_tip ts blk E \<longleftrightarrow>
     prev_blockhash (header blk) = previous_block_hash (last ts) \<and>
     (\<forall>t. env_template E = Inr t \<longrightarrow> previous_block_hash t \<noteq> previous_block_hash (last ts) \<and>
        (\<forall>b. env_block E (previous_block_hash t) = Inr b \<longrightarrow> b = blk))"

lemma iteration_stored_already:
  assumes "block_table_law P stored" "block_key_law P stored" "stored_hash L blk \<in> set (stored (ds_db s))"
    and "last_templates s \<noteq> []" "same_tip (last_templates s) blk E" "main_loop_iteration L H P E s = Inr s'"
  shows "abs_state stored s' = abs_state stored s"
proof (cases "env_template E")
  case (Inl e)
  with assms(6) show ?thesis by (auto simp: main_loop_iteration_def Let_def abs_state_def)
next
  case t: (Inr t)
  let ?s = "upd_metrics (\<lambda>m. log_template_infos t (m\<lparr>runtime_requested_templates := runtime_requested_templates m + 1\<rparr>))
    (upd_metrics (\<lambda>m. m\<lparr>runtime_templates_in_memory := as_i64 (int (length (last_templates s)))\<rparr>) s)"
  from t assms(4-6) have run: "process_new_tip L H P E (last (last_templates s)) t ?s = Inr s'"
    by (auto simp: main_loop_iteration_def Let_def same_tip_def)
  show ?thesis
  proof (cases "env_block E (previous_block_hash t)")
    case (Inl e)
    with run show ?thesis by (auto simp: process_new_tip_def abs_state_def)
  next
    case (Inr b)
    then have b: "b = blk" "prev_blockhash (header blk) = previous_block_hash (last (last_templates s))"
      using assms(5) t by (auto simp: same_tip_def)
    show ?thesis
    proof (cases "env_fees E (previous_block_hash t)")
      case (Inl e)
      with run Inr b show ?thesis by (auto simp: process_new_tip_def abs_state_def Let_def)
    next
      case fees: (Inr fees)
      with run Inr b have "process L H P E blk fees (count_requested_block ?s) = Inr s'"
        by (auto simp: process_new_tip_def Let_def)
      from process_stored_already [OF assms(1,2) _ this] assms(3) show ?thesis by (simp add: abs_state_def)
    qed
  qed
qed

lemma run_stored_already:
  assumes "block_table_law P stored" "block_key_law P stored"
  shows "daemon_run L H P s Es t \<Longrightarrow> stored_hash L blk \<in> set (stored (ds_db s)) \<Longrightarrow> last_templates s \<noteq> [] \<Longrightarrow>
    list_all (same_tip (last_templates s) blk) Es \<Longrightarrow> abs_state stored t = abs_state stored s"
proof (induction rule: daemon_run.induct)
  case (step Es t E u)
  then have eq: "last_templates t = last_templates s" "stored (ds_db t) = stored (ds_db s)" by (simp_all add: abs_state_def)
  have "abs_state stored u = abs_state stored t"
    by (rule iteration_stored_already [OF assms _ _ _ step.hyps(2)]) (use step.prems eq in auto)
  with eq show ?case by (simp add: abs_state_def)
qed simp

section \<open>Properties\<close>




lemma unchecked_block_law: "block_table_law unchecked_pg mem_hashes"
proof -
  have "all_row_statements unchecked_pg (\<lambda>d d'. mem_hashes d' = mem_hashes d)"
    by unfold_locales (auto simp: mem_hashes_def unchecked_pg_def mem_pg_def mem_check_def Let_def split: option.splits if_splits)
  then show ?thesis by (auto simp: block_table_law_def mem_hashes_def unchecked_pg_def mem_pg_def)
qed

definition sample_tip_env :: env where
  "sample_tip_env = sample_env\<lparr>env_template := Inr ((sample_template [])\<lparr>previous_block_hash := [11]\<rparr>),
     env_block := (\<lambda>h. Inr sample_blk), env_fees := (\<lambda>h. Inr (sample_fees [1, 8]))\<rparr>"

lemma sample_tip_env_ok: "env_ok sample_lib sample_tip_env"
  using sample_node_ok sample_times_ok
  by (auto simp: env_ok_def sample_tip_env_def sample_env_def template_ok_def block_ok_def node_ok_def times_ok_def
      template_ids_agree_def sample_template_def)


text \<open>C26: A block that was stored incompletely stops the collection of templates: once its hash is in the
  table while the templates are still kept, the primary key refuses every further attempt, and as
  long as the node reports the same tip no iteration collects a template or completes the block.\<close>

theorem incomplete_block_stops_collection:
  assumes "block_table_law P stored" "block_key_law P stored"
    and "stored_hash L blk \<in> set (stored (ds_db s))" "last_templates s \<noteq> []"
    and "list_all (same_tip (last_templates s) blk) Es" "daemon_run L H P s Es t"
  shows "last_templates t = last_templates s \<and> stored (ds_db t) = stored (ds_db s)"
  using run_stored_already [OF assms(1,2,6,3,4,5)] by (simp add: abs_state_def)

definition sample_new_block :: "bytes \<Rightarrow> new_block" where
  "sample_new_block h =
     \<lparr>nb_hash = h, nb_prev_hash = [9], nb_height = 800000, nb_tags = [], nb_missing_tx = 0, nb_extra_tx = 0,
      nb_shared_tx = 1, nb_sanctioned_missing_tx = 0, nb_equality = Fin 0, nb_block_time = 1700000000,
      nb_block_seen_time = 1700000000, nb_block_tx = 2, nb_block_sanctioned = 0, nb_block_cb_value = 5000,
      nb_block_cb_fees = 500, nb_block_weight = 2000, nb_block_pkg_weights = [], nb_block_pkg_feerates = [],
      nb_pool_name = ''Unknown'', nb_pool_link = [], nb_pool_id_method = [], nb_template_tx = 1,
      nb_template_time = 1700000000, nb_template_sanctioned = 0, nb_template_cb_value = 5000,
      nb_template_cb_fees = 500, nb_template_weight = 1000, nb_template_pkg_weights = [],
      nb_template_pkg_feerates = [], nb_template_sigops = 1, nb_block_sigops = 1\<rparr>"

theorem incomplete_block_stops_collection_witness:
  "\<exists>s t. main_loop_iteration sample_lib sample_iter mem_pg sample_tip_env s = Inr t \<and>
     mem_hashes (ds_db s) = [stored_hash sample_lib sample_blk] \<and>
     last_templates s = [sample_template [(7, 3, 1)]] \<and> last_templates t = [sample_template [(7, 3, 1)]]"
proof -
  let ?s = "(sample_state [sample_template [(7, 3, 1)]])\<lparr>ds_db := mem_empty\<lparr>mem_blocks :=
     [(1, sample_new_block (stored_hash sample_lib sample_blk))]\<rparr>\<rparr>"
  have ts: "last_templates ?s = [sample_template [(7, 3, 1)]]" by (simp add: sample_state_def)
  have hs: "mem_hashes (ds_db ?s) = [stored_hash sample_lib sample_blk]" by (simp add: mem_hashes_def sample_new_block_def)
  have "list_all (template_ok sample_lib) (last_templates ?s)"
    using sample_node_ok sample_times_ok by (simp add: ts template_ok_def node_ok_def times_ok_def)
  from iteration_templates [OF sample_iteration_law sample_txid_order_law sample_tip_env_ok this, of mem_pg]
  obtain t where it: "main_loop_iteration sample_lib sample_iter mem_pg sample_tip_env ?s = Inr t" by blast
  from daemon_run.step [OF daemon_run.start it] have run: "daemon_run sample_lib sample_iter mem_pg ?s [sample_tip_env] t" by simp
  have tip: "list_all (same_tip (last_templates ?s) sample_blk) [sample_tip_env]"
    by (simp add: sample_state_def same_tip_def sample_tip_env_def sample_template_def sample_blk_def sample_block_def)
  have "stored_hash sample_lib sample_blk \<in> set (mem_hashes (ds_db ?s))" "last_templates ?s \<noteq> []"
    by (simp_all add: mem_hashes_def sample_new_block_def sample_state_def)
  from incomplete_block_stops_collection [OF mem_block_laws this tip run] it hs ts show ?thesis by metis
qed

end
