(* ===== verification/Spec2Isabelle.thy ===== *)
theory Spec2Isabelle
  imports Startup Background_Tasks Web_Service Observer_Spec
begin

text \<open>
  Verification of miningpool-observer: a daemon that compares the block templates of a Bitcoin
  Core node with the blocks that mining pools produce, and a web front end over its database.

  \<^bold>\<open>The program.\<close> The daemon's main loop (\<^verbatim>\<open>daemon/src/main.rs\<close>) polls block templates and keeps the
  last fifteen. When the node's tip changes it fetches the new block, selects the remembered
  template that differs least from it, and derives database rows from the two
  (\<^verbatim>\<open>daemon/src/processing.rs\<close>): tagged transactions, transactions only in the block or only in the
  template, conflicts between the two, transactions from or to sanctioned addresses, newly created
  sanctioned outputs, packages, and one debug row per template. The rows are inserted through
  \<^verbatim>\<open>daemon/src/db.rs\<close>. Background threads scan the UTXO set, retag stored transactions, and update
  the sanctioned addresses, the pool dataset and the pools of blocks that were not identified.
  The web front end (\<^verbatim>\<open>web/src\<close>) reads the same database: \<^verbatim>\<open>db.rs\<close> loads and joins rows, \<^verbatim>\<open>handler.rs\<close>
  and \<^verbatim>\<open>ogimage.rs\<close> turn them into pages, feeds and preview images, \<^verbatim>\<open>error.rs\<close> and \<^verbatim>\<open>main.rs\<close> serve
  them. \<^verbatim>\<open>shared/src\<close> holds the tags, the row types, the configuration of both programs and the
  metric server.

  \<^bold>\<open>Theories, in the order of the calls.\<close>

  \<^item> \<open>Obs_Prelude\<close>: integer casts (\<open>as_i32\<close>, \<open>as_u64\<close>, ...), results (\<open>bind_res\<close>, \<open>fold_res\<close>), and
    the parts of the Rust standard library the daemon uses. The locales \<open>hash_set_ops\<close> and
    \<open>hash_map_ops\<close> state what the code relies on from hash sets and hash maps; they are
    interpreted as \<open>hs\<close> and \<open>hm\<close> on the model's lists.
  \<^item> \<open>Fp_Model\<close>: non-negative \<^verbatim>\<open>f32\<close> and \<^verbatim>\<open>f64\<close> numbers with rounding to nearest even, used by the
    feerates and the equality ratio.
  \<^item> \<open>Chain_Model\<close>: Bitcoin transactions, blocks and templates; the third-party crates as the
    record \<open>lib\<close> and the iteration order of hash containers as the record \<open>hash_iter\<close>.
  \<^item> \<open>Shared_Tags\<close>, \<open>Shared_Model\<close>: \<^verbatim>\<open>shared/src/tags.rs\<close> and \<^verbatim>\<open>shared/src/model.rs\<close>. The numeric
    values of tags round-trip and their colours follow their value range.
  \<^item> \<open>Daemon_Model\<close>: \<^verbatim>\<open>daemon/src/model.rs\<close> and the counters of \<^verbatim>\<open>daemon/src/metrics.rs\<close>.
  \<^item> \<open>Sample_Lib\<close>: one concrete \<open>lib\<close> and \<open>hash_iter\<close> that satisfy all laws, for the witnesses.
  \<^item> \<open>Sanctions\<close>: detection of sanctioned addresses. The reported addresses are exactly those paid
    or spent from, and an output recorded in one block is detected when it is spent later.
  \<^item> \<open>Tagging\<close>: \<open>get_transaction_tags\<close>, \<open>build_transaction\<close> and \<open>add_to_transactions\<close>. The locale
    \<open>tag_merge\<close> is the contract of every place that merges tag lists (\<open>merge_tags\<close>, \<open>retag_merge\<close>
    and, in \<open>Daemon_Db\<close>, \<open>db_merge_tags\<close>).
  \<^item> \<open>Packages\<close>: \<open>build_packages\<close>; packages partition the transactions, are linked through
    spending, and no two of them are.
  \<^item> \<open>Conflicts\<close>: \<open>build_conflicting_transactions\<close>; the reported conflicts are the connected
    components of the graph whose edges are outpoints spent by different transactions of the
    template and the block.
  \<^item> \<open>Processing\<close>: the transaction data of blocks and templates (locale \<open>tx_data_builder\<close>, interpreted
    as \<open>bd\<close> and \<open>td\<close>), the block row, the rows of one-sided and sanctioned transactions and the
    debug rows, each with its closed form.
  \<^item> \<open>Daemon_Db\<close>: every function of \<^verbatim>\<open>daemon/src/db.rs\<close> over the record \<open>pg\<close>, which has one field
    per SQL statement, and an in-memory database \<open>mem_pg\<close> that satisfies the laws used.
  \<^item> \<open>Block_Processing\<close>: \<open>process\<close> with its early returns, \<open>select_best_template_for_block\<close> and
    \<open>mempool_age_seconds\<close>. Counts agree with the sets they count, rows only reference stored
    transactions, and processing does not panic.
  \<^item> \<open>Main_Loop\<close>: one iteration of the loop as a function of the node's answers (\<open>env\<close>) and the
    daemon's state, and the runs as the inductive relation \<open>daemon_run\<close>, over which the loop's
    invariants are proved by rule induction.
  \<^item> \<open>Background_Tasks\<close>: one iteration of every background thread, and the RPC credentials.
  \<^item> \<open>Stored_Rows\<close>: what a run of the daemon does to the tables. The locales \<open>row_statements\<close> and
    \<open>all_row_statements\<close> lift a relation that every single insert respects to whole runs;
    \<open>conflict_tables\<close> extends the first with the conflict and transaction tables and shows that
    stored conflicts only refer to stored transactions. They are interpreted on \<open>mem_pg\<close>.
  \<^item> \<open>Observer_Spec\<close>: the daemon as an abstract machine over the remembered templates and the hashes
    of the stored blocks (\<open>obs_step\<close>). Every run of the daemon refines it, a new block on top of the
    remembered templates is stored, and a block whose rows were stored in part stops the
    collection of templates until the next tip.
  \<^item> \<open>Decimal\<close>: the decimal numbers that are parsed from strings.
  \<^item> \<open>Config\<close>, \<open>Metric_Server\<close>: \<^verbatim>\<open>shared/src/config.rs\<close> and \<^verbatim>\<open>shared/src/prometheus_metric_server.rs\<close>;
    a loaded configuration has usable credentials, and every request is answered with the length
    of its content.
  \<^item> \<open>Startup\<close>: \<^verbatim>\<open>main\<close> of the daemon up to its main loop; when it gets there the database is migrated
    and holds the downloaded addresses and the version of the node.
  \<^item> \<open>Web_Model\<close>, \<open>Web_Db\<close>: \<^verbatim>\<open>web/src/model.rs\<close> and every query of \<^verbatim>\<open>web/src/db.rs\<close>.
  \<^item> \<open>Web_Pages\<close>: what the queries return. Pages of blocks are complete and without overlap, and the
    pages of missing and of conflicting transactions show what is stored. The locale \<open>keyed_rows\<close> is
    the contract of the lookup maps that the joins build (\<open>tx_map_of\<close>, \<open>block_map_of\<close>).
  \<^item> \<open>Web_Util\<close>: \<^verbatim>\<open>web/src/util.rs\<close>; parameters of the pages round-trip.
  \<^item> \<open>Web_Render\<close>, \<open>Web_Handlers\<close>, \<open>Web_Images\<close>: contexts and error pages (\<^verbatim>\<open>web/src/error.rs\<close>), one
    definition per handler of \<^verbatim>\<open>web/src/handler.rs\<close> and per image of \<^verbatim>\<open>web/src/ogimage.rs\<close>.
  \<^item> \<open>Web_App\<close>: the routes and the start of the server (\<^verbatim>\<open>web/src/main.rs\<close>).
  \<^item> \<open>Web_Service\<close>: every request is answered, debug pages are hidden, the page of a block shows its
    rows. This theory composes the daemon and the web front end: what a run of the daemon has
    stored, the page of a block can show.

  \<^bold>\<open>Correspondence.\<close> Unsigned integers are natural numbers and signed integers are integers; each
  \<^verbatim>\<open>as\<close> cast is a function of the prelude with its wrap-around. A panic (\<^verbatim>\<open>unwrap\<close>, \<^verbatim>\<open>expect\<close>, an index
  out of range, a missing map key) is \<open>Inl\<close> of type \<open>panic\<close>; a database or RPC error is \<open>Inl\<close> of its
  own type. A hash set is a list without duplicates and a hash map an association list with
  distinct keys; where the code iterates over one, the model applies the unknown order of \<open>hash_iter\<close>,
  of which only \<open>iteration_law\<close> (a permutation of the elements) is assumed, so no theorem depends on it.
  The daemon's state is the record \<open>daemon_state\<close>: the remembered templates, the metrics and the
  database.

  \<^bold>\<open>Parameters and their laws.\<close> \<open>lib\<close> stands for the crates \<^verbatim>\<open>bitcoin\<close>, \<^verbatim>\<open>rawtx_rs\<close>, the pool
  identification and \<^verbatim>\<open>chrono\<close>: \<open>txid_order_law\<close> says that the order of transaction ids is total,
  \<open>locktime_law\<close> that lock times of different units are incomparable. \<open>pg\<close> stands for Diesel and
  PostgreSQL: \<open>tx_table_law\<close>, \<open>load_law\<close>, \<open>pool_name_law\<close> and the transaction law describe single
  statements. \<open>env_ok\<close> states that the node's answers agree with each other: a template's ids are
  those of its transactions, a block has a transaction, and the fees of a block cover its
  transactions. Every law is proved for a concrete instance that a witness uses.

  The web front end reads through \<open>web_conn\<close>, a record with the rows of each table in the order the
  server delivers them and the failures of single statements; the clauses of the Diesel queries
  (filters, joins, \<^verbatim>\<open>ORDER BY\<close>, \<^verbatim>\<open>LIMIT\<close>, \<^verbatim>\<open>OFFSET\<close>) are list functions over these rows. \<open>web_app\<close> holds the
  data that actix shares with the handlers, with the template engine and the connection pool as
  functions; \<open>image_lib\<close> stands for the SVG renderer, \<open>hex_lib\<close> for the hash crate's hex conversion
  (\<open>hex_law\<close>), \<open>value_lib\<close> for JSON values, and the path matching of actix is the argument \<open>match_path\<close>.
  \<open>host\<close>, \<open>startup_env\<close> and \<open>web_startup_env\<close> hold the environment, the files and the answers that the
  two programs see when they start. \<open>block_table_law\<close> and \<open>block_key_law\<close> describe which statements
  change the block table and its unique hash, \<open>version_law\<close> which ones change the node information.

  \<^bold>\<open>Termination.\<close> All loops of the daemon's processing and of the web front end are structural
  recursions over lists, so no fuel is used and every function is total; the endless loops of the
  threads are modelled one iteration at a time, and the metric server over the list of its
  incoming requests.

  \<^bold>\<open>Not modelled.\<close> Logging, sleeping and thread creation; the generated schema and the SQL of the
  migrations; the HTML and SVG templates with their scripts; and third-party code, which the
  parameters above stand for: Diesel and PostgreSQL, actix, Tera, resvg, the RPC and HTTP clients.
  \<^verbatim>\<open>shared/src/db_pool.rs\<close> only calls the pool's constructor.
\<close>

section \<open>From the daemon to the web front end\<close>

lemma conflicts_stored_iff:
  "conflicts_stored W \<longleftrightarrow> conflict_ids (set (w_conflicting W)) \<subseteq> t_txid ` set (w_transactions W)"
  by (auto simp: conflicts_stored_def conflict_ids_def)


definition sample_observed_db :: mem_db where
  "sample_observed_db = mem_empty\<lparr>mem_txs := w_transactions sample_page_web, mem_conflicting := w_conflicting sample_page_web\<rparr>"


end
